(* ===== verification/Account_Prelude.thy ===== *)
theory Account_Prelude
  imports Main
begin

text \<open>
  What every component of the model shares: the type of an asynchronous method (a
  computation that reads and changes a state and either returns a value or throws), the
  rules by which an invariant is carried through such a computation, the string functions of
  JavaScript that the service calls, and the row list a table is.

  A method of the source that may throw is a function from the state to a pair: the thrown
  value or the returned one (a sum, \<open>Inl\<close> the error), and the state after the call. A throw
  keeps the state changes made before it, as it does in the source: only a transaction undoes
  them.
\<close>

section \<open>Collections\<close>

named_theorems preserving \<open>rules that carry a state predicate through a computation\<close>
named_theorems run \<open>equations that execute the computations of the model\<close>

section \<open>Computations with a state and errors\<close>

type_synonym ('s, 'e, 'a) comp = "'s \<Rightarrow> ('e + 'a) \<times> 's"

definition ret :: "'a \<Rightarrow> ('s, 'e, 'a) comp" where
  "ret a s = (Inr a, s)"

definition throw :: "'e \<Rightarrow> ('s, 'e, 'a) comp" where
  "throw e s = (Inl e, s)"

definition bindE :: "('s, 'e, 'a) comp \<Rightarrow> ('a \<Rightarrow> ('s, 'e, 'b) comp) \<Rightarrow> ('s, 'e, 'b) comp" where
  "bindE m k s = (case m s of (Inl e, s') \<Rightarrow> (Inl e, s') | (Inr a, s') \<Rightarrow> k a s')"

text \<open>\<open>promise.catch(h)\<close>: the handler sees the thrown value, in the state of the throw.\<close>

definition catchE :: "('s, 'e, 'a) comp \<Rightarrow> ('e \<Rightarrow> ('s, 'e, 'a) comp) \<Rightarrow> ('s, 'e, 'a) comp" where
  "catchE m h s = (case m s of (Inl e, s') \<Rightarrow> h e s' | (Inr a, s') \<Rightarrow> (Inr a, s'))"

text \<open>A value that is already an error or a result, such as a validated constructor call.\<close>

definition liftE :: "'e + 'a \<Rightarrow> ('s, 'e, 'a) comp" where
  "liftE r s = (r, s)"

definition getS :: "('s, 'e, 's) comp" where
  "getS s = (Inr s, s)"

definition modifyS :: "('s \<Rightarrow> 's) \<Rightarrow> ('s, 'e, unit) comp" where
  "modifyS f s = (Inr (), f s)"

text \<open>A call that cannot throw: it only moves the state on and returns a value.\<close>

definition stepS :: "('s \<Rightarrow> 'a \<times> 's) \<Rightarrow> ('s, 'e, 'a) comp" where
  "stepS f s = (case f s of (a, s') \<Rightarrow> (Inr a, s'))"

definition whenE :: "bool \<Rightarrow> ('s, 'e, unit) comp \<Rightarrow> ('s, 'e, unit) comp" where
  "whenE b m = (if b then m else ret ())"

text \<open>\<open>list.map(f)\<close> with an \<open>f\<close> that may throw: the first throw ends it.\<close>

primrec mapE :: "('a \<Rightarrow> ('s, 'e, 'b) comp) \<Rightarrow> 'a list \<Rightarrow> ('s, 'e, 'b list) comp" where
  "mapE f [] = ret []"
| "mapE f (x # xs) = bindE (f x) (\<lambda>y. bindE (mapE f xs) (\<lambda>ys. ret (y # ys)))"

text \<open>\<open>x !== undefined ? f(x) : undefined\<close>.\<close>

definition optE :: "('a \<Rightarrow> ('s, 'e, 'b) comp) \<Rightarrow> 'a option \<Rightarrow> ('s, 'e, 'b option) comp" where
  "optE f z = (case z of None \<Rightarrow> ret None | Some a \<Rightarrow> bindE (f a) (\<lambda>b. ret (Some b)))"

lemma optE_simps [simp]:
  "optE f None = ret None" "optE f (Some a) = bindE (f a) (\<lambda>b. ret (Some b))"
  by (simp_all add: optE_def)

text \<open>\<open>opt_sum\<close> is \<open>optE\<close> for a function that does not touch the state.\<close>

definition opt_sum :: "('a \<Rightarrow> 'e + 'b) \<Rightarrow> 'a option \<Rightarrow> 'e + 'b option" where
  "opt_sum f z = (case z of None \<Rightarrow> Inr None | Some a \<Rightarrow> map_sum (\<lambda>e. e) Some (f a))"

lemma opt_sum_simps [simp]:
  "opt_sum f None = Inr None" "f a = Inr b \<Longrightarrow> opt_sum f (Some a) = Inr (Some b)"
  "f a = Inl e \<Longrightarrow> opt_sum f (Some a) = Inl e"
  by (simp_all add: opt_sum_def)

lemma opt_sum_Inr_Some: "opt_sum f z = Inr (Some b) \<longleftrightarrow> (\<exists>a. z = Some a \<and> f a = Inr b)"
  by (cases z; cases "f (the z)") (auto simp: opt_sum_def)

lemma opt_sum_Inr_None: "opt_sum f z = Inr None \<longleftrightarrow> z = None"
  by (cases z; cases "f (the z)") (auto simp: opt_sum_def)

lemma ret_run [simp, run]: "ret a s = (Inr a, s)"
  by (simp add: ret_def)

lemma throw_run [simp, run]: "throw e s = (Inl e, s)"
  by (simp add: throw_def)

lemma liftE_run [simp, run]: "liftE r s = (r, s)"
  by (simp add: liftE_def)

lemma getS_run [simp, run]: "getS s = (Inr s, s)"
  by (simp add: getS_def)

lemma modifyS_run [simp, run]: "modifyS f s = (Inr (), f s)"
  by (simp add: modifyS_def)

lemma stepS_run [run]: "stepS f s = (Inr (fst (f s)), snd (f s))"
  by (simp add: stepS_def split: prod.split)

lemma bindE_ret [simp]: "bindE (ret a) k = k a"
  by (simp add: bindE_def fun_eq_iff)

lemma bindE_throw [simp]: "bindE (throw e) k = throw e"
  by (simp add: bindE_def fun_eq_iff)

lemma bindE_liftE_Inr [simp]: "bindE (liftE (Inr a)) k = k a"
  by (simp add: bindE_def fun_eq_iff)

lemma bindE_liftE_Inl [simp]: "bindE (liftE (Inl e)) k = throw e"
  by (simp add: bindE_def fun_eq_iff)

lemma bindE_Pair [simp]:
  "bindE (Pair (Inr a)) k = k a" "bindE (Pair (Inl e)) k = Pair (Inl e)"
  by (simp_all add: bindE_def fun_eq_iff)

lemma optE_liftE: "optE (\<lambda>a. liftE (f a)) z = liftE (opt_sum f z)"
  by (cases z; cases "f (the z)") (auto simp: opt_sum_def bindE_def fun_eq_iff)

lemma bindE_assoc: "bindE (bindE m k) h = bindE m (\<lambda>a. bindE (k a) h)"
  by (simp add: bindE_def fun_eq_iff split: prod.split sum.split)

lemma bindE_run_Inr [run]: "m s = (Inr a, s') \<Longrightarrow> bindE m k s = k a s'"
  by (simp add: bindE_def)

lemma bindE_run_Inl [run]: "m s = (Inl e, s') \<Longrightarrow> bindE m k s = (Inl e, s')"
  by (simp add: bindE_def)

text \<open>Inversion: a run that returned went through every step; one that threw did so somewhere.\<close>

lemma bindE_Inr_iff:
  "bindE m k s = (Inr b, s2) \<longleftrightarrow> (\<exists>a s1. m s = (Inr a, s1) \<and> k a s1 = (Inr b, s2))"
  by (auto simp: bindE_def split: prod.splits sum.splits)

lemma bindE_Inl_iff:
  "bindE m k s = (Inl e, s2) \<longleftrightarrow>
     m s = (Inl e, s2) \<or> (\<exists>a s1. m s = (Inr a, s1) \<and> k a s1 = (Inl e, s2))"
  by (auto simp: bindE_def split: prod.splits sum.splits)

lemma bindE_InrE:
  assumes "bindE m k s = (Inr b, s2)"
  obtains a s1 where "m s = (Inr a, s1)" and "k a s1 = (Inr b, s2)"
  using assms by (auto simp: bindE_Inr_iff)

lemma bindE_run_cases:
  assumes "bindE m k s = (r, s2)"
  obtains (err) e where "m s = (Inl e, s2)" and "r = Inl e"
  | (ok) a s1 where "m s = (Inr a, s1)" and "k a s1 = (r, s2)"
  using assms by (auto simp: bindE_def split: prod.splits sum.splits)

section \<open>State predicates carried through a computation\<close>

text \<open>
  \<open>preserves I m\<close>: whatever \<open>m\<close> does, returning or throwing, \<open>I\<close> holds after it if it held
  before. One rule per combinator; the components add a rule for each of their operations to the
  collection \<open>preserving\<close>.
\<close>

definition preserves :: "('s \<Rightarrow> bool) \<Rightarrow> ('s, 'e, 'a) comp \<Rightarrow> bool" where
  "preserves I m \<longleftrightarrow> (\<forall>s r s'. I s \<longrightarrow> m s = (r, s') \<longrightarrow> I s')"

lemma preservesI: "(\<And>s r s'. I s \<Longrightarrow> m s = (r, s') \<Longrightarrow> I s') \<Longrightarrow> preserves I m"
  by (auto simp: preserves_def)

lemma preservesD: "preserves I m \<Longrightarrow> I s \<Longrightarrow> m s = (r, s') \<Longrightarrow> I s'"
  by (auto simp: preserves_def)

lemma preserves_ret [preserving]: "preserves I (ret a)"
  by (simp add: preserves_def)

lemma preserves_throw [preserving]: "preserves I (throw e)"
  by (simp add: preserves_def)

lemma preserves_liftE [preserving]: "preserves I (liftE r)"
  by (simp add: preserves_def)

lemma preserves_Pair [preserving]: "preserves I (Pair r)"
  by (simp add: preserves_def)

lemma preserves_getS [preserving]: "preserves I getS"
  by (simp add: preserves_def)

lemma preserves_bindE [preserving]:
  assumes "preserves I m" and "\<And>a. preserves I (k a)"
  shows "preserves I (bindE m k)"
proof (rule preservesI)
  fix s r s' assume I: "I s" and run: "bindE m k s = (r, s')"
  from run show "I s'"
    by (rule bindE_run_cases) (use I assms in \<open>blast dest: preservesD\<close>)+
qed

lemma preserves_catchE [preserving]:
  assumes "preserves I m" and "\<And>e. preserves I (h e)"
  shows "preserves I (catchE m h)"
proof (rule preservesI)
  fix s r s' assume I: "I s" and run: "catchE m h s = (r, s')"
  obtain r1 s1 where m: "m s = (r1, s1)" by fastforce
  with assms(1) I have I1: "I s1" by (blast dest: preservesD)
  show "I s'"
  proof (cases r1)
    case (Inl e)
    with run m have "h e s1 = (r, s')" by (simp add: catchE_def)
    with assms(2) I1 show ?thesis by (blast dest: preservesD)
  next
    case (Inr a)
    with run m I1 show ?thesis by (simp add: catchE_def)
  qed
qed

lemma preserves_if [preserving]:
  "preserves I m \<Longrightarrow> preserves I n \<Longrightarrow> preserves I (if b then m else n)"
  by simp

lemma preserves_whenE [preserving]: "preserves I m \<Longrightarrow> preserves I (whenE b m)"
  by (simp add: whenE_def preserves_ret)

lemma preserves_case_option [preserving]:
  "preserves I m \<Longrightarrow> (\<And>x. preserves I (k x)) \<Longrightarrow> preserves I (case z of None \<Rightarrow> m | Some x \<Rightarrow> k x)"
  by (cases z) auto

lemma preserves_case_prod [preserving]:
  "(\<And>x y. preserves I (k x y)) \<Longrightarrow> preserves I (case p of (x, y) \<Rightarrow> k x y)"
  by (cases p) auto

lemma preserves_optE [preserving]: "(\<And>x. preserves I (f x)) \<Longrightarrow> preserves I (optE f z)"
  by (cases z) (auto intro: preserving)

lemma preserves_mapE [preserving]: "(\<And>x. preserves I (f x)) \<Longrightarrow> preserves I (mapE f xs)"
  by (induction xs) (auto intro: preserving)

lemma preserves_conj:
  "preserves I m \<Longrightarrow> preserves J m \<Longrightarrow> preserves (\<lambda>s. I s \<and> J s) m"
  unfolding preserves_def by blast

text \<open>
  \<open>achieves P m Q\<close>: run from a state of \<open>P\<close>, \<open>m\<close> ends with a result and a state of \<open>Q\<close>. A step that
  preserves \<open>P\<close> is passed over, provided \<open>Q\<close> accepts a throw in a state of \<open>P\<close>.
\<close>

definition achieves ::
  "('s \<Rightarrow> bool) \<Rightarrow> ('s, 'e, 'a) comp \<Rightarrow> ('e + 'a \<Rightarrow> 's \<Rightarrow> bool) \<Rightarrow> bool" where
  "achieves P m Q \<longleftrightarrow> (\<forall>s r s'. P s \<longrightarrow> m s = (r, s') \<longrightarrow> Q r s')"

lemma achievesI: "(\<And>s r s'. P s \<Longrightarrow> m s = (r, s') \<Longrightarrow> Q r s') \<Longrightarrow> achieves P m Q"
  by (auto simp: achieves_def)

lemma achievesD: "achieves P m Q \<Longrightarrow> P s \<Longrightarrow> m s = (r, s') \<Longrightarrow> Q r s'"
  by (auto simp: achieves_def)

lemma achieves_bindE:
  assumes "preserves P m" and "\<And>e s. P s \<Longrightarrow> Q (Inl e) s" and "\<And>a. achieves P (k a) Q"
  shows "achieves P (bindE m k) Q"
proof (rule achievesI)
  fix s r s' assume P: "P s" and run: "bindE m k s = (r, s')"
  from run show "Q r s'"
    by (rule bindE_run_cases) (use P assms in \<open>blast dest: preservesD achievesD\<close>)+
qed

lemma achieves_throw: "(\<And>s. P s \<Longrightarrow> Q (Inl e) s) \<Longrightarrow> achieves P (throw e) Q"
  by (auto simp: achieves_def)

lemma achieves_case_option:
  "achieves P m Q \<Longrightarrow> (\<And>x. achieves P (k x) Q) \<Longrightarrow>
     achieves P (case z of None \<Rightarrow> m | Some x \<Rightarrow> k x) Q"
  by (cases z) auto

section \<open>JavaScript strings\<close>

text \<open>
  A string is a list of code units below 256 (\<open>char\<close>). \<open>String.prototype.trim\<close> removes white
  space and line terminators, which among these code units are tab, line feed, vertical tab,
  form feed, carriage return, space and no-break space; \<open>toLowerCase\<close> maps the letters of
  ASCII and of Latin-1.
\<close>

definition js_space :: "char \<Rightarrow> bool" where
  "js_space c \<longleftrightarrow> of_char c \<in> {9, 10, 11, 12, 13, 32, 160 :: nat}"

definition js_trim :: "string \<Rightarrow> string" where
  "js_trim s = rev (dropWhile js_space (rev (dropWhile js_space s)))"

definition js_lower_char :: "char \<Rightarrow> char" where
  "js_lower_char c =
     (let n = (of_char c :: nat)
      in if 65 \<le> n \<and> n \<le> 90 \<or> 192 \<le> n \<and> n \<le> 222 \<and> n \<noteq> 215 then char_of (n + 32) else c)"

definition js_lower :: "string \<Rightarrow> string" where
  "js_lower s = map js_lower_char s"

text \<open>\<open>s.split(sep)\<close> with a one-character separator: one piece more than there are separators.\<close>

fun js_split :: "char \<Rightarrow> string \<Rightarrow> string list" where
  "js_split sep [] = [[]]"
| "js_split sep (c # cs) =
     (if c = sep then [] # js_split sep cs
      else (case js_split sep cs of [] \<Rightarrow> [[c]] | p # ps \<Rightarrow> (c # p) # ps))"

definition starts_with :: "string \<Rightarrow> string \<Rightarrow> bool" where
  "starts_with pre s \<longleftrightarrow> take (length pre) s = pre"

lemma last_dropWhile_rev: "last (dropWhile P (rev xs)) = hd xs" if "dropWhile P (rev xs) \<noteq> []"
proof -
  have "rev xs = takeWhile P (rev xs) @ dropWhile P (rev xs)" by simp
  with that have "last (rev xs) = last (dropWhile P (rev xs))" by (metis last_appendR)
  moreover from that have "xs \<noteq> []" by auto
  ultimately show ?thesis by (simp add: last_rev)
qed

lemma js_trim_ends:
  "js_trim s = [] \<or> \<not> js_space (hd (js_trim s)) \<and> \<not> js_space (last (js_trim s))"
proof (cases "js_trim s = []")
  case False
  let ?l = "dropWhile js_space s"
  from False have r: "dropWhile js_space (rev ?l) \<noteq> []"
    by (simp add: js_trim_def del: dropWhile_eq_Nil_conv)
  then have l: "?l \<noteq> []" by (cases ?l) auto
  have "last (js_trim s) = hd (dropWhile js_space (rev ?l))"
    using r by (simp add: js_trim_def last_rev)
  moreover have "hd (js_trim s) = hd ?l"
    using r last_dropWhile_rev [OF r] by (simp add: js_trim_def hd_rev)
  ultimately show ?thesis
    using hd_dropWhile [OF r] hd_dropWhile [OF l] by simp
qed simp

lemma dropWhile_id: "xs = [] \<or> \<not> P (hd xs) \<Longrightarrow> dropWhile P xs = xs"
  by (cases xs) auto

lemma js_trim_id:
  assumes "s = [] \<or> \<not> js_space (hd s) \<and> \<not> js_space (last s)"
  shows "js_trim s = s"
proof -
  have "dropWhile js_space s = s" by (rule dropWhile_id) (use assms in auto)
  moreover have "dropWhile js_space (rev s) = rev s"
    by (rule dropWhile_id) (use assms in \<open>auto simp: hd_rev\<close>)
  ultimately show ?thesis by (simp add: js_trim_def)
qed

lemma js_trim_idem [simp]: "js_trim (js_trim s) = js_trim s"
  by (rule js_trim_id) (rule js_trim_ends)

lemma js_lower_char_code:
  "(of_char (js_lower_char c) :: nat) =
     (let n = of_char c
      in if 65 \<le> n \<and> n \<le> 90 \<or> 192 \<le> n \<and> n \<le> 222 \<and> n \<noteq> 215 then n + 32 else n)"
  by (auto simp: js_lower_char_def Let_def)

lemma js_lower_char_idem [simp]: "js_lower_char (js_lower_char c) = js_lower_char c"
  by (subst (1) js_lower_char_def) (auto simp: js_lower_char_code Let_def)

lemma js_space_lower_char [simp]: "js_space (js_lower_char c) \<longleftrightarrow> js_space c"
  by (auto simp: js_space_def js_lower_char_code Let_def)

lemma js_lower_idem [simp]: "js_lower (js_lower s) = js_lower s"
  by (simp add: js_lower_def comp_def)

lemma js_lower_Nil_iff [simp]: "js_lower s = [] \<longleftrightarrow> s = []"
  by (simp add: js_lower_def)

lemma js_trim_lower: "js_trim (js_lower s) = js_lower (js_trim s)"
  by (simp add: js_trim_def js_lower_def dropWhile_map rev_map comp_def)

lemma js_split_nonempty [simp]: "js_split sep s \<noteq> []"
  by (induction s) (auto split: list.splits)

lemma js_split_no_sep: "p \<in> set (js_split sep s) \<Longrightarrow> sep \<notin> set p"
proof (induction s arbitrary: p)
  case (Cons c cs)
  then show ?case by (cases "js_split sep cs") (auto split: if_splits)
qed simp

section \<open>The rows of a table\<close>

text \<open>
  A table is the list of its rows. Writing a row replaces the row with the same key, or adds
  one. With distinct keys the list is a map from key to row, which is all the model relies on:
  no property depends on the order of rows.
\<close>

definition upsert :: "('r \<Rightarrow> 'k) \<Rightarrow> 'r \<Rightarrow> 'r list \<Rightarrow> 'r list" where
  "upsert key r rs =
     (if key r \<in> key ` set rs then map (\<lambda>r0. if key r0 = key r then r else r0) rs else rs @ [r])"

lemma set_upsert: "set (upsert key r rs) = insert r {x \<in> set rs. key x \<noteq> key r}"
  unfolding upsert_def by (auto simp: image_iff)

lemma upsert_keys: "key ` set (upsert key r rs) = insert (key r) (key ` set rs)"
  by (auto simp: set_upsert)

lemma distinct_upsert [simp]:
  assumes "distinct (map key rs)"
  shows "distinct (map key (upsert key r rs))"
proof (cases "key r \<in> key ` set rs")
  case True
  have "key (if key r0 = key r then r else r0) = key r0" for r0 by simp
  then have "map key (map (\<lambda>r0. if key r0 = key r then r else r0) rs) = map key rs"
    by (simp add: comp_def)
  with True assms show ?thesis by (simp only: upsert_def if_True)
next
  case False
  with assms show ?thesis by (auto simp: upsert_def)
qed

lemma distinct_map_filter: "distinct (map key rs) \<Longrightarrow> distinct (map key (filter P rs))"
  by (induction rs) auto

lemma key_unique: "distinct (map key rs) \<Longrightarrow> x \<in> set rs \<Longrightarrow> y \<in> set rs \<Longrightarrow> key x = key y \<Longrightarrow> x = y"
  by (metis distinct_map inj_onD)

lemma find_Some_iff_ex: "find P xs = Some x \<Longrightarrow> x \<in> set xs \<and> P x"
  by (metis find_Some_iff nth_mem)

lemma find_unique:
  assumes "x \<in> set xs" "P x" and "\<And>y. y \<in> set xs \<Longrightarrow> P y \<Longrightarrow> y = x"
  shows "find P xs = Some x"
proof (cases "find P xs")
  case None
  with assms(1,2) show ?thesis by (auto simp: find_None_iff)
next
  case (Some y)
  with assms(3) show ?thesis by (auto dest: find_Some_iff_ex)
qed

lemma find_key_None: "k \<notin> key ` set rs \<Longrightarrow> find (\<lambda>r. key r = k) rs = None"
  by (force simp: find_None_iff)

lemma find_key:
  assumes "distinct (map key rs)" "x \<in> set rs"
  shows "find (\<lambda>r. key r = key x) rs = Some x"
  by (rule find_unique) (use assms in \<open>auto dest: key_unique\<close>)

end
