(* ===== verification/Domain_Types.thy ===== *)
theory Domain_Types
  imports Account_Prelude
begin

text \<open>
  The data the bounded contexts exchange: exceptions, the primitives of the five aggregates
  (\<open>src/contexts/*/domain/primitives\<close>), their domain events (\<open>src/contexts/*/domain/events\<close>),
  the tenant roles and permissions, and the claims of an access token.

  Dates are the integer milliseconds of \<open>Date.getTime()\<close>. \<open>string | null\<close> is an option. An event
  is its class and its data; the metadata the shared kit generates for it is not modelled.
\<close>

section \<open>Exceptions\<close>

text \<open>
  The exception classes the service declares. All extend the kit's \<open>BaseException\<close>; the class is
  what \<open>instanceof\<close> tests, the message is what the constructor passes to \<open>super\<close>. Classes of the
  kit itself are \<open>KitException\<close> with their name.
\<close>

datatype exception_class =
    UserNotFoundException
  | UserEmailAlreadyRegisteredException
  | EmailAlreadyRegisteredException
  | InvalidCredentialsException
  | InvalidRefreshTokenException
  | RefreshTokenReuseDetectedException
  | AppNotFoundException
  | AppSlugAlreadyExistsException
  | TenantNotFoundException
  | TenantSlugAlreadyExistsException
  | NotTenantOwnerException
  | MemberUserNotFoundException
  | TenantMembershipAlreadyExistsException
  | KitException string

datatype error =
    BaseException exception_class string
  | HttpException nat string
  | JsError string
  | QueryFailedError string

definition quoted :: "string \<Rightarrow> string" where
  "quoted s = CHR 0x22 # s @ [CHR 0x22]"

definition new_UserNotFoundException :: "string \<Rightarrow> error" where
  "new_UserNotFoundException identifier =
     BaseException UserNotFoundException (''User '' @ quoted identifier @ '' was not found'')"

definition new_UserEmailAlreadyRegisteredException :: "string \<Rightarrow> error" where
  "new_UserEmailAlreadyRegisteredException email =
     BaseException UserEmailAlreadyRegisteredException
       (''A user with email '' @ quoted email @ '' is already registered'')"

definition new_EmailAlreadyRegisteredException :: "string \<Rightarrow> error" where
  "new_EmailAlreadyRegisteredException email =
     BaseException EmailAlreadyRegisteredException
       (''A user with email '' @ quoted email @ '' is already registered'')"

definition new_InvalidCredentialsException :: error where
  "new_InvalidCredentialsException =
     BaseException InvalidCredentialsException ''Invalid email or password''"

definition new_InvalidRefreshTokenException :: error where
  "new_InvalidRefreshTokenException =
     BaseException InvalidRefreshTokenException
       ''Refresh token is invalid, expired, or already used''"

definition new_RefreshTokenReuseDetectedException :: error where
  "new_RefreshTokenReuseDetectedException =
     BaseException RefreshTokenReuseDetectedException
       ''Refresh token reuse detected; session chain invalidated''"

definition new_AppNotFoundException :: "string \<Rightarrow> error" where
  "new_AppNotFoundException identifier =
     BaseException AppNotFoundException (''App '' @ quoted identifier @ '' was not found'')"

definition new_AppSlugAlreadyExistsException :: "string \<Rightarrow> error" where
  "new_AppSlugAlreadyExistsException slug =
     BaseException AppSlugAlreadyExistsException
       (''An app with slug '' @ quoted slug @ '' already exists'')"

definition new_TenantNotFoundException :: "string \<Rightarrow> error" where
  "new_TenantNotFoundException identifier =
     BaseException TenantNotFoundException (''Tenant '' @ quoted identifier @ '' was not found'')"

definition new_TenantSlugAlreadyExistsException :: "string \<Rightarrow> string \<Rightarrow> error" where
  "new_TenantSlugAlreadyExistsException slug appId =
     BaseException TenantSlugAlreadyExistsException
       (''A tenant with slug '' @ quoted slug @ '' already exists for app '' @ quoted appId)"

definition new_NotTenantOwnerException :: "string \<Rightarrow> string \<Rightarrow> error" where
  "new_NotTenantOwnerException tenantId userId =
     BaseException NotTenantOwnerException
       (''User '' @ quoted userId @ '' is not an owner of tenant '' @ quoted tenantId)"

definition new_MemberUserNotFoundException :: "string \<Rightarrow> error" where
  "new_MemberUserNotFoundException identifier =
     BaseException MemberUserNotFoundException
       (''No user found for '' @ quoted identifier @ '' to add as a tenant member'')"

definition new_TenantMembershipAlreadyExistsException :: "string \<Rightarrow> string \<Rightarrow> error" where
  "new_TenantMembershipAlreadyExistsException tenantId userId =
     BaseException TenantMembershipAlreadyExistsException
       (''User '' @ quoted userId @ '' is already a member of tenant '' @ quoted tenantId)"

lemmas exception_defs =
  new_UserNotFoundException_def new_UserEmailAlreadyRegisteredException_def
  new_EmailAlreadyRegisteredException_def new_InvalidCredentialsException_def
  new_InvalidRefreshTokenException_def new_RefreshTokenReuseDetectedException_def
  new_AppNotFoundException_def new_AppSlugAlreadyExistsException_def
  new_TenantNotFoundException_def new_TenantSlugAlreadyExistsException_def
  new_NotTenantOwnerException_def new_MemberUserNotFoundException_def
  new_TenantMembershipAlreadyExistsException_def

section \<open>Primitives of the aggregates\<close>

record user_primitives =
  up_id :: string
  up_externalId :: string
  up_email :: string
  up_displayName :: "string option"
  up_platformAdmin :: bool
  up_createdAt :: int
  up_updatedAt :: int

record app_primitives =
  ap_id :: string
  ap_slug :: string
  ap_name :: string
  ap_createdAt :: int
  ap_updatedAt :: int

record tenant_primitives =
  tp_id :: string
  tp_appId :: string
  tp_name :: string
  tp_slug :: string
  tp_createdAt :: int
  tp_updatedAt :: int

record membership_primitives =
  mp_id :: string
  mp_tenantId :: string
  mp_userId :: string
  mp_role :: string
  mp_createdAt :: int
  mp_updatedAt :: int

record session_primitives =
  sp_id :: string
  sp_userId :: string
  sp_refreshTokenHash :: string
  sp_expiresAt :: int
  sp_revokedAt :: "int option"
  sp_replacedBySessionId :: "string option"
  sp_createdAt :: int
  sp_updatedAt :: int

section \<open>Domain events\<close>

text \<open>A field-changed event carries the aggregate's id, the old value and the new value.\<close>

datatype user_event =
    UserRegisteredEvent user_primitives
  | UserUpdatedEvent user_primitives
  | UserDeletedEvent user_primitives
  | UserEmailChangedEvent string string string
  | UserDisplayNameChangedEvent string "string option" "string option"
  | UserPlatformAdminChangedEvent string bool bool

datatype app_event =
    AppCreatedEvent app_primitives
  | AppUpdatedEvent app_primitives
  | AppDeletedEvent app_primitives
  | AppNameChangedEvent string string string
  | AppSlugChangedEvent string string string

datatype tenant_event =
    TenantCreatedEvent tenant_primitives
  | TenantUpdatedEvent tenant_primitives
  | TenantDeletedEvent tenant_primitives
  | TenantNameChangedEvent string string string
  | TenantSlugChangedEvent string string string

datatype membership_event =
    TenantMembershipCreatedEvent membership_primitives
  | TenantMembershipUpdatedEvent membership_primitives
  | TenantMembershipDeletedEvent membership_primitives
  | TenantMembershipRoleChangedEvent string string string

datatype domain_event =
    User_Event user_event
  | App_Event app_event
  | Tenant_Event tenant_event
  | Membership_Event membership_event

section \<open>Tenant roles and permissions\<close>

datatype tenant_role = OWNER | MEMBER | ADMIN

primrec tenant_role_value :: "tenant_role \<Rightarrow> string" where
  "tenant_role_value OWNER = ''OWNER''"
| "tenant_role_value MEMBER = ''MEMBER''"
| "tenant_role_value ADMIN = ''ADMIN''"

datatype tenant_permission = VIEW_TENANT | MANAGE_TENANT | DELETE_TENANT | MANAGE_MEMBERS

lemma tenant_role_value_inj [simp]: "tenant_role_value r = tenant_role_value r' \<longleftrightarrow> r = r'"
  by (cases r; cases r') auto

section \<open>Access token claims\<close>

record membership_claim =
  mc_tenantId :: string
  mc_role :: string

record access_token_claims =
  cl_sub :: string
  cl_email :: string
  cl_platformAdmin :: bool
  cl_tenants :: "membership_claim list"

end
