(* ===== verification/Kit.thy ===== *)
theory Kit
  imports Domain_Types
begin

text \<open>
  What the service uses of code that is not in the repository. The record \<open>lib\<close> is a parameter of
  every definition that calls such code: the value objects and base classes of
  \<open>@sisques-labs/nestjs-kit\<close>, Node's \<open>crypto\<close>, the clock, \<open>JwtService\<close>, the database's clock and
  the HTTP client that reaches Keycloak. Its type parameter is the state of that outside world
  (the clock, the random source, Keycloak's user store, ...), which only these functions change.

  A value object is represented by its \<open>value\<close>: a field of \<open>lib\<close> for a value-object class is the
  constructor, which throws (\<open>Inl\<close>) or gives the stored value. \<open>DateValueObject\<close> and
  \<open>BooleanValueObject\<close>, which the service constructs without options from values of the right type,
  are transparent.

  The value-object classes the service declares itself are the definitions below: which kit class
  they extend and with which options.
\<close>

section \<open>The outside world\<close>

record string_options =
  so_minLength :: "nat option"
  so_maxLength :: "nat option"
  so_trim :: bool
  so_pattern :: "string option"
  so_allowEmpty :: "bool option"

definition no_options :: string_options where
  "no_options = \<lparr>so_minLength = None, so_maxLength = None, so_trim = False, so_pattern = None,
     so_allowEmpty = None\<rparr>"

record http_request =
  rq_url :: string
  rq_body :: "(string \<times> string) list"
  rq_bearer :: "string option"

text \<open>
  A response that resolves, or the \<open>AxiosError\<close>: its response status, when there was a response,
  and the serialised response body.
\<close>

record http_response =
  rs_location :: "string option"
  rs_access_token :: string

record http_failure =
  hf_status :: "nat option"
  hf_data :: string

record 'x lib =
  uuid_vo :: "string \<Rightarrow> error + string"
  email_vo :: "string \<Rightarrow> error + string"
  password_vo :: "string \<Rightarrow> error + string"
  slug_vo :: "string \<Rightarrow> error + string"
  generate_slug :: "string \<Rightarrow> error + string"
  string_vo :: "string_options \<Rightarrow> string \<Rightarrow> error + string"
  enum_vo :: "string list \<Rightarrow> string \<Rightarrow> error + string"
  field_required :: "string \<Rightarrow> error"
  base_validate :: "string \<Rightarrow> int option \<Rightarrow> int option \<Rightarrow> error + unit"
  touch :: "int \<Rightarrow> 'x \<Rightarrow> int \<times> 'x"
  new_date :: "'x \<Rightarrow> int \<times> 'x"
  uuid_generate :: "'x \<Rightarrow> string \<times> 'x"
  random_base64url :: "nat \<Rightarrow> 'x \<Rightarrow> string \<times> 'x"
  sha256_hex :: "string \<Rightarrow> string"
  jwt_sign :: "access_token_claims \<Rightarrow> 'x \<Rightarrow> (error + string) \<times> 'x"
  jwt_verify :: "string \<Rightarrow> 'x \<Rightarrow> (error + access_token_claims) \<times> 'x"
  sql_now :: "'x \<Rightarrow> int \<times> 'x"
  http_post :: "http_request \<Rightarrow> 'x \<Rightarrow> (http_failure + http_response) \<times> 'x"
  base64url_utf8 :: "string option \<Rightarrow> error + string"
  json_sub :: "string \<Rightarrow> error + string"

section \<open>Value objects of the service\<close>

definition UserIdValueObject :: "'x lib \<Rightarrow> string \<Rightarrow> error + string" where
  "UserIdValueObject L value = uuid_vo L value"

definition UserEmailValueObject :: "'x lib \<Rightarrow> string \<Rightarrow> error + string" where
  "UserEmailValueObject L value = email_vo L value"

definition ExternalIdValueObject :: "'x lib \<Rightarrow> string \<Rightarrow> error + string" where
  "ExternalIdValueObject L value =
     string_vo L (no_options\<lparr>so_minLength := Some 1, so_maxLength := Some 255, so_trim := True\<rparr>) value"

definition DisplayNameValueObject :: "'x lib \<Rightarrow> string \<Rightarrow> error + string" where
  "DisplayNameValueObject L value =
     string_vo L (no_options\<lparr>so_minLength := Some 1, so_maxLength := Some 120, so_trim := True\<rparr>) value"

definition AppNameValueObject :: "'x lib \<Rightarrow> string \<Rightarrow> error + string" where
  "AppNameValueObject L value =
     string_vo L (no_options\<lparr>so_minLength := Some 1, so_maxLength := Some 150, so_trim := True\<rparr>) value"

definition AppSlugValueObject :: "'x lib \<Rightarrow> string \<Rightarrow> error + string" where
  "AppSlugValueObject L value = slug_vo L value"

definition TenantNameValueObject :: "'x lib \<Rightarrow> string \<Rightarrow> error + string" where
  "TenantNameValueObject L value =
     string_vo L (no_options\<lparr>so_minLength := Some 1, so_maxLength := Some 150, so_trim := True\<rparr>) value"

definition TenantSlugValueObject :: "'x lib \<Rightarrow> string \<Rightarrow> error + string" where
  "TenantSlugValueObject L value = slug_vo L value"

text \<open>The enum object of \<open>TenantRoleValueObject\<close>: the values in the order of the declaration.\<close>

definition TenantRoleValueObject :: "'x lib \<Rightarrow> string \<Rightarrow> error + string" where
  "TenantRoleValueObject L value = enum_vo L [''OWNER'', ''MEMBER'', ''ADMIN''] value"

definition role_isOwner :: "string \<Rightarrow> bool" where
  "role_isOwner value \<longleftrightarrow> value = tenant_role_value OWNER"

definition role_isMember :: "string \<Rightarrow> bool" where
  "role_isMember value \<longleftrightarrow> value = tenant_role_value MEMBER"

definition role_isAdmin :: "string \<Rightarrow> bool" where
  "role_isAdmin value \<longleftrightarrow> value = tenant_role_value ADMIN"

definition LoginPasswordValueObject :: "'x lib \<Rightarrow> string \<Rightarrow> error + string" where
  "LoginPasswordValueObject L value =
     string_vo L (no_options\<lparr>so_minLength := Some 1, so_allowEmpty := Some False\<rparr>) value"

definition RefreshTokenValueObject :: "'x lib \<Rightarrow> string \<Rightarrow> error + string" where
  "RefreshTokenValueObject L value = string_vo L (no_options\<lparr>so_minLength := Some 1\<rparr>) value"

definition RefreshTokenHashValueObject :: "'x lib \<Rightarrow> string \<Rightarrow> error + string" where
  "RefreshTokenHashValueObject L value =
     string_vo L (no_options\<lparr>so_minLength := Some 64, so_maxLength := Some 64,
       so_pattern := Some ''^[a-f0-9]{64}$''\<rparr>) value"

text \<open>\<open>role.isOwner()\<close> on a validated role; the three tests exclude each other.\<close>

lemma role_tests_exclusive:
  "\<not> (role_isOwner v \<and> role_isMember v)" "\<not> (role_isOwner v \<and> role_isAdmin v)"
  "\<not> (role_isMember v \<and> role_isAdmin v)"
  by (auto simp: role_isOwner_def role_isMember_def role_isAdmin_def)

section \<open>Calls to the outside world as computations\<close>

definition now :: "'x lib \<Rightarrow> ('x, 'e, int) comp" where
  "now L = stepS (new_date L)"

definition generate_uuid :: "'x lib \<Rightarrow> ('x, 'e, string) comp" where
  "generate_uuid L = stepS (uuid_generate L)"

definition touched :: "'x lib \<Rightarrow> int \<Rightarrow> ('x, 'e, int) comp" where
  "touched L updatedAt = stepS (touch L updatedAt)"

text \<open>\<open>this._createdAt ?? new Date()\<close>: the clock is read only when the date is not set.\<close>

definition date_or_now :: "'x lib \<Rightarrow> int option \<Rightarrow> ('x, 'e, int) comp" where
  "date_or_now L d = (case d of Some t \<Rightarrow> ret t | None \<Rightarrow> now L)"

lemma touched_run [run]: "touched L t x = (Inr (fst (touch L t x)), snd (touch L t x))"
  by (simp add: touched_def stepS_run)

lemma date_or_now_Some [simp]: "date_or_now L (Some t) = ret t"
  by (simp add: date_or_now_def)

lemma now_run [run]: "now L x = (Inr (fst (new_date L x)), snd (new_date L x))"
  by (simp add: now_def stepS_run)

lemma generate_uuid_run [run]:
  "generate_uuid L x = (Inr (fst (uuid_generate L x)), snd (uuid_generate L x))"
  by (simp add: generate_uuid_def stepS_run)

section \<open>Documented behaviour of the kit\<close>

text \<open>
  The one law of the value objects that some properties need, always as an explicit hypothesis:
  constructing a value object from a value it has already produced succeeds and gives that value
  (the constructors validate and trim).
\<close>

definition vo_stable :: "(string \<Rightarrow> error + string) \<Rightarrow> bool" where
  "vo_stable vo \<longleftrightarrow> (\<forall>s v. vo s = Inr v \<longrightarrow> vo v = Inr v)"

definition kit_stable :: "'x lib \<Rightarrow> bool" where
  "kit_stable L \<longleftrightarrow> vo_stable (uuid_vo L) \<and> vo_stable (email_vo L) \<and> vo_stable (slug_vo L) \<and>
     (\<forall>opts. vo_stable (string_vo L opts)) \<and> (\<forall>vals. vo_stable (enum_vo L vals))"

lemma vo_stableD: "vo_stable vo \<Longrightarrow> vo s = Inr v \<Longrightarrow> vo v = Inr v"
  by (auto simp: vo_stable_def)

lemmas vo_defs = UserIdValueObject_def UserEmailValueObject_def ExternalIdValueObject_def
  DisplayNameValueObject_def AppNameValueObject_def AppSlugValueObject_def
  TenantNameValueObject_def TenantSlugValueObject_def TenantRoleValueObject_def
  LoginPasswordValueObject_def RefreshTokenValueObject_def RefreshTokenHashValueObject_def

lemma kit_stable_vos:
  assumes "kit_stable L"
  shows "vo_stable (UserIdValueObject L)" "vo_stable (UserEmailValueObject L)"
    "vo_stable (ExternalIdValueObject L)" "vo_stable (DisplayNameValueObject L)"
    "vo_stable (AppNameValueObject L)" "vo_stable (AppSlugValueObject L)"
    "vo_stable (TenantNameValueObject L)" "vo_stable (TenantSlugValueObject L)"
    "vo_stable (TenantRoleValueObject L)" "vo_stable (RefreshTokenHashValueObject L)"
    "vo_stable (uuid_vo L)" "vo_stable (email_vo L)"
  using assms
  by (auto simp: kit_stable_def vo_stable_def vo_defs)

end
