(* ===== verification/Database.thy ===== *)
theory Database
  imports Kit
begin

text \<open>
  The tables of the service: the entity classes (\<open>src/contexts/*/infrastructure/persistence/
  typeorm/entities\<close>), the constraints the migrations declare (\<open>src/database/migrations\<close>), and the
  statements TypeORM runs on them. \<open>world\<close> is the whole state of a running service: the five
  tables, the writes of the open transaction, the events handed to the event bus, and the outside
  world.

  TypeORM's \<open>Repository\<close> and \<open>EntityManager\<close> are parameters of the repository classes (records of
  functions); the locale \<open>orm_repository\<close> states what the service relies on, and is interpreted for
  each table with the statements run against the migrated schema. A statement either succeeds
  or is rejected as a whole by a constraint (\<open>QueryFailedError\<close> with the constraint's name).
  Automatic values of date columns are not modelled: the dates stored are those in the entity.
\<close>

section \<open>Entities\<close>

record app_entity =
  ae_id :: string
  ae_slug :: string
  ae_name :: string
  ae_createdAt :: int
  ae_updatedAt :: int

record user_entity =
  ue_id :: string
  ue_externalId :: string
  ue_email :: string
  ue_displayName :: "string option"
  ue_platformAdmin :: bool
  ue_createdAt :: int
  ue_updatedAt :: int

record tenant_entity =
  te_id :: string
  te_appId :: string
  te_name :: string
  te_slug :: string
  te_createdAt :: int
  te_updatedAt :: int

record membership_entity =
  me_id :: string
  me_tenantId :: string
  me_userId :: string
  me_role :: string
  me_createdAt :: int
  me_updatedAt :: int

record session_entity =
  se_id :: string
  se_userId :: string
  se_refreshTokenHash :: string
  se_refreshTokenExpiresAt :: int
  se_revokedAt :: "int option"
  se_replacedBySessionId :: "string option"
  se_createdAt :: int
  se_updatedAt :: int

record 'x world =
  app_tbl :: "app_entity list"
  user_tbl :: "user_entity list"
  tenant_tbl :: "tenant_entity list"
  membership_tbl :: "membership_entity list"
  session_tbl :: "session_entity list"
  tx_pending :: "session_entity list option"
  published :: "domain_event list"
  ext :: 'x

text \<open>A call to the outside world, made by code that also sees the tables.\<close>

definition outside :: "('x, 'e, 'a) comp \<Rightarrow> ('x world, 'e, 'a) comp" where
  "outside m w = (case m (ext w) of (r, x) \<Rightarrow> (r, w\<lparr>ext := x\<rparr>))"

lemma outside_run [run]: "outside m w = (fst (m (ext w)), w\<lparr>ext := snd (m (ext w))\<rparr>)"
  by (simp add: outside_def split: prod.split)

lemma outside_bindE: "outside (bindE m k) = bindE (outside m) (\<lambda>a. outside (k a))"
  by (simp add: outside_def bindE_def fun_eq_iff split: prod.split sum.split)

lemma outside_ret [simp]: "outside (ret a) = ret a"
  by (simp add: outside_def fun_eq_iff)

lemma outside_liftE [simp]: "outside (liftE r) = liftE r"
  by (simp add: outside_def fun_eq_iff)

lemma outside_Pair [simp]: "outside (Pair r) = Pair r"
  by (simp add: outside_def fun_eq_iff)

lemma preserves_outside [preserving]:
  "(\<And>w x. I w \<Longrightarrow> I (w\<lparr>ext := x\<rparr>)) \<Longrightarrow> preserves I (outside m)"
  by (auto simp: preserves_def outside_def split: prod.splits)

definition publish :: "domain_event list \<Rightarrow> ('x world, error, unit) comp" where
  "publish es = modifyS (\<lambda>w. w\<lparr>published := published w @ es\<rparr>)"

lemma publish_run [run]: "publish es w = (Inr (), w\<lparr>published := published w @ es\<rparr>)"
  by (simp add: publish_def)

lemma preserves_publish [preserving]:
  "(\<And>w es. I w \<Longrightarrow> I (w\<lparr>published := es\<rparr>)) \<Longrightarrow> preserves I (publish es)"
  by (auto simp: preserves_def publish_run)

section \<open>Constraints of the migrated schema\<close>

text \<open>
  The first constraint a written row violates, if any: column lengths, unique keys (against the
  other rows), foreign keys.
\<close>

definition check_app :: "'x world \<Rightarrow> app_entity \<Rightarrow> string option" where
  "check_app w r =
     (if 100 < length (ae_slug r) then Some ''varchar(100)''
      else if 150 < length (ae_name r) then Some ''varchar(150)''
      else if \<exists>r0 \<in> set (app_tbl w). ae_id r0 \<noteq> ae_id r \<and> ae_slug r0 = ae_slug r
        then Some ''UQ_app_slug''
      else None)"

definition check_user :: "'x world \<Rightarrow> user_entity \<Rightarrow> string option" where
  "check_user w r =
     (if 255 < length (ue_externalId r) then Some ''varchar(255)''
      else if 320 < length (ue_email r) then Some ''varchar(320)''
      else if (case ue_displayName r of None \<Rightarrow> False | Some d \<Rightarrow> 120 < length d)
        then Some ''varchar(120)''
      else if \<exists>r0 \<in> set (user_tbl w). ue_id r0 \<noteq> ue_id r \<and> ue_externalId r0 = ue_externalId r
        then Some ''UQ_user_external_id''
      else if \<exists>r0 \<in> set (user_tbl w). ue_id r0 \<noteq> ue_id r \<and> ue_email r0 = ue_email r
        then Some ''UQ_user_email''
      else None)"

definition check_tenant :: "'x world \<Rightarrow> tenant_entity \<Rightarrow> string option" where
  "check_tenant w r =
     (if 150 < length (te_name r) then Some ''varchar(150)''
      else if 100 < length (te_slug r) then Some ''varchar(100)''
      else if \<exists>r0 \<in> set (tenant_tbl w).
          te_id r0 \<noteq> te_id r \<and> te_appId r0 = te_appId r \<and> te_slug r0 = te_slug r
        then Some ''UQ_tenant_app_id_slug''
      else if te_appId r \<notin> ae_id ` set (app_tbl w) then Some ''FK_tenant_app_id''
      else None)"

definition check_membership :: "'x world \<Rightarrow> membership_entity \<Rightarrow> string option" where
  "check_membership w r =
     (if 50 < length (me_role r) then Some ''varchar(50)''
      else if \<exists>r0 \<in> set (membership_tbl w).
          me_id r0 \<noteq> me_id r \<and> me_tenantId r0 = me_tenantId r \<and> me_userId r0 = me_userId r
        then Some ''UQ_tenant_membership_tenant_id_user_id''
      else if me_tenantId r \<notin> te_id ` set (tenant_tbl w) then Some ''FK_tenant_membership_tenant_id''
      else if me_userId r \<notin> ue_id ` set (user_tbl w) then Some ''FK_tenant_membership_user_id''
      else None)"

text \<open>
  The session constraints are checked against the rows the statement sees (\<open>visible\<close>): inside a
  transaction these include the transaction's own writes.
\<close>

definition check_session ::
  "'x world \<Rightarrow> session_entity list \<Rightarrow> session_entity \<Rightarrow> string option" where
  "check_session w visible r =
     (if 255 < length (se_refreshTokenHash r) then Some ''varchar(255)''
      else if \<exists>r0 \<in> set visible.
          se_id r0 \<noteq> se_id r \<and> se_refreshTokenHash r0 = se_refreshTokenHash r
        then Some ''UQ_session_refresh_token_hash''
      else if se_userId r \<notin> ue_id ` set (user_tbl w) then Some ''FK_session_user_id''
      else if (case se_replacedBySessionId r of None \<Rightarrow> False
               | Some j \<Rightarrow> j \<noteq> se_id r \<and> j \<notin> se_id ` set visible)
        then Some ''FK_session_replaced_by_session_id''
      else None)"

lemma check_frame [simp]:
  "check_app (w\<lparr>ext := x\<rparr>) = check_app w" "check_app (w\<lparr>published := es\<rparr>) = check_app w"
  "check_user (w\<lparr>ext := x\<rparr>) = check_user w" "check_user (w\<lparr>published := es\<rparr>) = check_user w"
  "check_tenant (w\<lparr>ext := x\<rparr>) = check_tenant w"
  "check_tenant (w\<lparr>published := es\<rparr>) = check_tenant w"
  "check_membership (w\<lparr>ext := x\<rparr>) = check_membership w"
  "check_membership (w\<lparr>published := es\<rparr>) = check_membership w"
  "check_session (w\<lparr>ext := x\<rparr>) = check_session w"
  "check_session (w\<lparr>published := es\<rparr>) = check_session w"
  "check_session (w\<lparr>session_tbl := t\<rparr>) = check_session w"
  "check_session (w\<lparr>tx_pending := z\<rparr>) = check_session w"
  by (intro ext; simp add: check_app_def check_user_def check_tenant_def check_membership_def
      check_session_def cong del: if_weak_cong split del: if_split)+

text \<open>
  What the constraints keep true of the tables: distinct primary keys, the unique keys, and no
  dangling reference. Every statement below preserves it (\<open>schema_ok\<close> is the invariant of the
  database layer).
\<close>

definition schema_ok :: "'x world \<Rightarrow> bool" where
  "schema_ok w \<longleftrightarrow>
     distinct (map ae_id (app_tbl w)) \<and> inj_on ae_slug (set (app_tbl w)) \<and>
     distinct (map ue_id (user_tbl w)) \<and> inj_on ue_email (set (user_tbl w)) \<and>
     inj_on ue_externalId (set (user_tbl w)) \<and>
     distinct (map te_id (tenant_tbl w)) \<and>
     inj_on (\<lambda>r. (te_appId r, te_slug r)) (set (tenant_tbl w)) \<and>
     te_appId ` set (tenant_tbl w) \<subseteq> ae_id ` set (app_tbl w) \<and>
     distinct (map me_id (membership_tbl w)) \<and>
     inj_on (\<lambda>r. (me_tenantId r, me_userId r)) (set (membership_tbl w)) \<and>
     me_tenantId ` set (membership_tbl w) \<subseteq> te_id ` set (tenant_tbl w) \<and>
     me_userId ` set (membership_tbl w) \<subseteq> ue_id ` set (user_tbl w) \<and>
     distinct (map se_id (session_tbl w)) \<and> inj_on se_refreshTokenHash (set (session_tbl w)) \<and>
     se_userId ` set (session_tbl w) \<subseteq> ue_id ` set (user_tbl w) \<and>
     (\<forall>r \<in> set (session_tbl w). \<forall>j. se_replacedBySessionId r = Some j \<longrightarrow>
        j \<in> se_id ` set (session_tbl w))"

lemma inj_on_upsert:
  assumes "inj_on f (set rs)" and "\<forall>r0 \<in> set rs. key r0 \<noteq> key r \<longrightarrow> f r0 \<noteq> f r"
  shows "inj_on f (set (upsert key r rs))"
  using assms by (auto simp: set_upsert inj_on_def)

lemma inj_on_filter: "inj_on f (set rs) \<Longrightarrow> inj_on f (set (filter P rs))"
  by (auto simp: inj_on_def)

section \<open>TypeORM\<close>

text \<open>
  \<open>Repository<Entity>\<close> as the repository classes use it. A \<open>where\<close> object is the predicate on rows
  it denotes; \<open>delete(id)\<close> and \<open>delete({ ... })\<close> both are \<open>repo_delete\<close>.
\<close>

record ('s, 'row) Repository =
  repo_findOne :: "('row \<Rightarrow> bool) \<Rightarrow> ('s, error, 'row option) comp"
  repo_find :: "('row \<Rightarrow> bool) \<Rightarrow> ('s, error, 'row list) comp"
  repo_save :: "'row \<Rightarrow> ('s, error, 'row) comp"
  repo_delete :: "('row \<Rightarrow> bool) \<Rightarrow> ('s, error, unit) comp"

text \<open>
  What the service relies on: \<open>findOne\<close> returns a row that matches, or null when none does;
  \<open>find\<close> returns the rows that match; \<open>save\<close> writes the row under its primary key, or throws and
  writes nothing; \<open>delete\<close> removes the rows that match. \<open>rest\<close> is what a write leaves alone.
\<close>

locale orm_repository =
  fixes R :: "('s, 'row) Repository"
    and rows :: "'s \<Rightarrow> 'row list"
    and key :: "'row \<Rightarrow> string"
    and rest :: "'s \<Rightarrow> 'f"
  assumes findOne_law: "repo_findOne R p s = (r, s') \<Longrightarrow> s' = s \<and>
      (\<exists>z. r = Inr z \<and> (case z of None \<Rightarrow> \<forall>x \<in> set (rows s). \<not> p x
                          | Some x \<Rightarrow> x \<in> set (rows s) \<and> p x))"
    and find_law: "repo_find R p s = (rl, s') \<Longrightarrow> s' = s \<and>
      (\<exists>xs. rl = Inr xs \<and> set xs = {x \<in> set (rows s). p x})"
    and save_Inr_law: "repo_save R e s = (Inr e', s') \<Longrightarrow> e' = e \<and>
      set (rows s') = insert e {x \<in> set (rows s). key x \<noteq> key e} \<and> rest s' = rest s"
    and save_Inl_law: "repo_save R e s = (Inl err, s') \<Longrightarrow> s' = s"
    and delete_law: "repo_delete R p s = (ru, s') \<Longrightarrow> ru = Inr () \<and>
      key ` set (rows s') = key ` {x \<in> set (rows s). \<not> p x}"
begin

lemma findOne_Some: "repo_findOne R p s = (Inr (Some x), s') \<Longrightarrow> s' = s \<and> x \<in> set (rows s) \<and> p x"
  by (drule findOne_law) auto

lemma findOne_None: "repo_findOne R p s = (Inr None, s') \<Longrightarrow> s' = s \<and> (\<forall>x \<in> set (rows s). \<not> p x)"
  by (drule findOne_law) auto

lemma findOne_no_error: "repo_findOne R p s \<noteq> (Inl e, s')"
  by (auto dest: findOne_law)

text \<open>Read your writes: a saved row is what a lookup by its key finds.\<close>

lemma findOne_after_save:
  assumes save: "repo_save R e s = (Inr e', s1)"
  shows "repo_findOne R (\<lambda>x. key x = key e) s1 = (Inr (Some e), s1)"
proof -
  from save_Inr_law [OF save]
  have rows: "set (rows s1) = insert e {x \<in> set (rows s). key x \<noteq> key e}" by simp
  obtain r s2 where f: "repo_findOne R (\<lambda>x. key x = key e) s1 = (r, s2)" by fastforce
  from findOne_law [OF f] rows show ?thesis
    using f by (auto split: option.splits)
qed

lemma findOne_after_delete:
  assumes del: "repo_delete R (\<lambda>x. key x = k) s = (r, s1)"
  shows "repo_findOne R (\<lambda>x. key x = k) s1 = (Inr None, s1)"
proof -
  from delete_law [OF del] have "k \<notin> key ` set (rows s1)" by auto
  then have none: "\<forall>x \<in> set (rows s1). key x \<noteq> k" by auto
  obtain z s2 where f: "repo_findOne R (\<lambda>x. key x = k) s1 = (z, s2)" by fastforce
  from findOne_law [OF f] none show ?thesis
    using f by (auto split: option.splits)
qed

end

section \<open>The statements, on the migrated schema\<close>

text \<open>
  A \<open>Repository\<close> that runs its statements on one table of the state: how to read and replace the
  table, the constraint check of a written row, and the effect of deleting rows (cascades).
\<close>

definition sql_repository ::
  "('s \<Rightarrow> 'row list) \<Rightarrow> ('row list \<Rightarrow> 's \<Rightarrow> 's) \<Rightarrow> ('row \<Rightarrow> string) \<Rightarrow>
   ('s \<Rightarrow> 'row \<Rightarrow> string option) \<Rightarrow> (('row \<Rightarrow> bool) \<Rightarrow> 's \<Rightarrow> 's) \<Rightarrow> ('s, 'row) Repository" where
  "sql_repository get put key check del =
     \<lparr>repo_findOne = (\<lambda>p s. (Inr (find p (get s)), s)),
      repo_find = (\<lambda>p s. (Inr (filter p (get s)), s)),
      repo_save = (\<lambda>r s. case check s r of
          Some c \<Rightarrow> (Inl (QueryFailedError c), s)
        | None \<Rightarrow> (Inr r, put (upsert key r (get s)) s)),
      repo_delete = (\<lambda>p s. (Inr (), del p s))\<rparr>"

lemma sql_repository_sel [run]:
  "repo_findOne (sql_repository get put key check del) p s = (Inr (find p (get s)), s)"
  "repo_find (sql_repository get put key check del) p s = (Inr (filter p (get s)), s)"
  "repo_save (sql_repository get put key check del) r s =
     (case check s r of Some c \<Rightarrow> (Inl (QueryFailedError c), s)
      | None \<Rightarrow> (Inr r, put (upsert key r (get s)) s))"
  "repo_delete (sql_repository get put key check del) p s = (Inr (), del p s)"
  by (simp_all add: sql_repository_def)

lemma bindE_find [run]:
  "bindE (repo_findOne (sql_repository get put key check del) p) k s = k (find p (get s)) s"
  "bindE (repo_find (sql_repository get put key check del) p) h s = h (filter p (get s)) s"
  by (simp_all add: bindE_def sql_repository_sel)

lemma sql_repository_laws:
  assumes "\<And>t s. get (put t s) = t" and "\<And>t s. rest (put t s) = rest s"
    and "\<And>p s. key ` set (get (del p s)) = key ` {r \<in> set (get s). \<not> p r}"
  shows "orm_repository (sql_repository get put key check del) get key rest"
proof
  fix p s r s'
  show "repo_findOne (sql_repository get put key check del) p s = (r, s') \<Longrightarrow> s' = s \<and>
      (\<exists>z. r = Inr z \<and> (case z of None \<Rightarrow> \<forall>x \<in> set (get s). \<not> p x
                          | Some x \<Rightarrow> x \<in> set (get s) \<and> p x))"
    by (cases "find p (get s)") (auto simp: sql_repository_sel find_None_iff dest: find_Some_iff_ex)
next
  fix p s r s'
  show "repo_find (sql_repository get put key check del) p s = (r, s') \<Longrightarrow> s' = s \<and>
      (\<exists>xs. r = Inr xs \<and> set xs = {x \<in> set (get s). p x})"
    by (auto simp: sql_repository_sel)
next
  fix e e' s s'
  show "repo_save (sql_repository get put key check del) e s = (Inr e', s') \<Longrightarrow> e' = e \<and>
      set (get s') = insert e {x \<in> set (get s). key x \<noteq> key e} \<and> rest s' = rest s"
    by (auto simp: sql_repository_sel assms set_upsert split: option.splits)
next
  fix e err s s'
  show "repo_save (sql_repository get put key check del) e s = (Inl err, s') \<Longrightarrow> s' = s"
    by (auto simp: sql_repository_sel split: option.splits)
next
  fix p s r s'
  show "repo_delete (sql_repository get put key check del) p s = (r, s') \<Longrightarrow> r = Inr () \<and>
      key ` set (get s') = key ` {x \<in> set (get s). \<not> p x}"
    using assms(3) [of p s] by (clarsimp simp: sql_repository_sel)
qed

text \<open>
  Deleting rows. \<open>ON DELETE CASCADE\<close> removes the rows that reference a deleted one,
  \<open>ON DELETE SET NULL\<close> clears the reference.
\<close>

definition clear_successor :: "string set \<Rightarrow> session_entity \<Rightarrow> session_entity" where
  "clear_successor ids r = (case se_replacedBySessionId r of
       None \<Rightarrow> r
     | Some j \<Rightarrow> if j \<in> ids then r else r\<lparr>se_replacedBySessionId := None\<rparr>)"

definition delete_sessions :: "(session_entity \<Rightarrow> bool) \<Rightarrow> 'x world \<Rightarrow> 'x world" where
  "delete_sessions p w =
     (let kept = filter (\<lambda>r. \<not> p r) (session_tbl w)
      in w\<lparr>session_tbl := map (clear_successor (se_id ` set kept)) kept\<rparr>)"

lemma clear_successor_sel [simp]:
  "se_id (clear_successor ids r) = se_id r" "se_userId (clear_successor ids r) = se_userId r"
  "se_refreshTokenHash (clear_successor ids r) = se_refreshTokenHash r"
  by (simp_all add: clear_successor_def split: option.split)

definition delete_memberships :: "(membership_entity \<Rightarrow> bool) \<Rightarrow> 'x world \<Rightarrow> 'x world" where
  "delete_memberships p w = w\<lparr>membership_tbl := filter (\<lambda>r. \<not> p r) (membership_tbl w)\<rparr>"

definition delete_tenants :: "(tenant_entity \<Rightarrow> bool) \<Rightarrow> 'x world \<Rightarrow> 'x world" where
  "delete_tenants p w =
     (let w1 = w\<lparr>tenant_tbl := filter (\<lambda>r. \<not> p r) (tenant_tbl w)\<rparr>
      in delete_memberships (\<lambda>m. me_tenantId m \<notin> te_id ` set (tenant_tbl w1)) w1)"

definition delete_apps :: "(app_entity \<Rightarrow> bool) \<Rightarrow> 'x world \<Rightarrow> 'x world" where
  "delete_apps p w =
     (let w1 = w\<lparr>app_tbl := filter (\<lambda>r. \<not> p r) (app_tbl w)\<rparr>
      in delete_tenants (\<lambda>t. te_appId t \<notin> ae_id ` set (app_tbl w1)) w1)"

definition delete_users :: "(user_entity \<Rightarrow> bool) \<Rightarrow> 'x world \<Rightarrow> 'x world" where
  "delete_users p w =
     (let w1 = w\<lparr>user_tbl := filter (\<lambda>r. \<not> p r) (user_tbl w)\<rparr>;
          w2 = delete_memberships (\<lambda>m. me_userId m \<notin> ue_id ` set (user_tbl w1)) w1
      in delete_sessions (\<lambda>s. se_userId s \<notin> ue_id ` set (user_tbl w1)) w2)"

definition session_repo :: "('x world, session_entity) Repository" where
  "session_repo = sql_repository session_tbl (\<lambda>t w. w\<lparr>session_tbl := t\<rparr>) se_id
     (\<lambda>w. check_session w (session_tbl w)) delete_sessions"

definition app_repo :: "('x world, app_entity) Repository" where
  "app_repo = sql_repository app_tbl (\<lambda>t w. w\<lparr>app_tbl := t\<rparr>) ae_id check_app delete_apps"

definition user_repo :: "('x world, user_entity) Repository" where
  "user_repo = sql_repository user_tbl (\<lambda>t w. w\<lparr>user_tbl := t\<rparr>) ue_id check_user delete_users"

definition tenant_repo :: "('x world, tenant_entity) Repository" where
  "tenant_repo = sql_repository tenant_tbl (\<lambda>t w. w\<lparr>tenant_tbl := t\<rparr>) te_id check_tenant delete_tenants"

definition membership_repo :: "('x world, membership_entity) Repository" where
  "membership_repo =
     sql_repository membership_tbl (\<lambda>t w. w\<lparr>membership_tbl := t\<rparr>) me_id check_membership
       delete_memberships"

interpretation app_orm: orm_repository app_repo app_tbl ae_id "\<lambda>w. w\<lparr>app_tbl := []\<rparr>"
  unfolding app_repo_def
  by (rule sql_repository_laws)
    (auto simp: delete_apps_def delete_tenants_def delete_memberships_def Let_def)

interpretation user_orm: orm_repository user_repo user_tbl ue_id "\<lambda>w. w\<lparr>user_tbl := []\<rparr>"
  unfolding user_repo_def
  by (rule sql_repository_laws)
    (auto simp: delete_users_def delete_sessions_def delete_memberships_def Let_def)

interpretation tenant_orm: orm_repository tenant_repo tenant_tbl te_id "\<lambda>w. w\<lparr>tenant_tbl := []\<rparr>"
  unfolding tenant_repo_def
  by (rule sql_repository_laws) (auto simp: delete_tenants_def delete_memberships_def Let_def)

interpretation membership_orm:
  orm_repository membership_repo membership_tbl me_id "\<lambda>w. w\<lparr>membership_tbl := []\<rparr>"
  unfolding membership_repo_def
  by (rule sql_repository_laws) (auto simp: delete_memberships_def)

lemma delete_sessions_keys:
  "se_id ` set (session_tbl (delete_sessions p w)) = se_id ` {r \<in> set (session_tbl w). \<not> p r}"
  by (simp add: delete_sessions_def Let_def image_image)

interpretation session_orm:
  orm_repository session_repo session_tbl se_id "\<lambda>w. w\<lparr>session_tbl := []\<rparr>"
  unfolding session_repo_def
  by (rule sql_repository_laws) (simp_all add: delete_sessions_keys)

end
