(* ===== verification/Schema_Invariant.thy ===== *)
theory Schema_Invariant
  imports Database
begin

text \<open>
  Every statement of the database keeps \<open>schema_ok\<close>: the constraint checks of a written row, and
  the cascades of a deletion, are what makes unique keys unique and references resolvable in
  every state the service reaches. The rules enter the collection \<open>preserving\<close>, so that a
  handler preserves \<open>schema_ok\<close> because the statements it issues do.
\<close>

lemmas check_defs = check_app_def check_user_def check_tenant_def check_membership_def
  check_session_def

lemma schema_ok_frame [simp]:
  "schema_ok (w\<lparr>ext := x\<rparr>) \<longleftrightarrow> schema_ok w"
  "schema_ok (w\<lparr>published := es\<rparr>) \<longleftrightarrow> schema_ok w"
  "schema_ok (w\<lparr>tx_pending := ps\<rparr>) \<longleftrightarrow> schema_ok w"
  by (simp_all add: schema_ok_def)

lemma schema_ok_save_app:
  assumes ok: "schema_ok w" and chk: "check_app w r = None"
  shows "schema_ok (w\<lparr>app_tbl := upsert ae_id r (app_tbl w)\<rparr>)"
proof -
  have "inj_on ae_slug (set (upsert ae_id r (app_tbl w)))"
    by (rule inj_on_upsert) (use ok chk in \<open>auto simp: schema_ok_def check_app_def split: if_splits\<close>)
  with ok show ?thesis
    unfolding schema_ok_def by (auto simp: upsert_keys)
qed

lemma schema_ok_save_user:
  assumes ok: "schema_ok w" and chk: "check_user w r = None"
  shows "schema_ok (w\<lparr>user_tbl := upsert ue_id r (user_tbl w)\<rparr>)"
proof -
  have "inj_on ue_email (set (upsert ue_id r (user_tbl w)))"
    by (rule inj_on_upsert) (use ok chk in \<open>auto simp: schema_ok_def check_user_def split: if_splits\<close>)
  moreover have "inj_on ue_externalId (set (upsert ue_id r (user_tbl w)))"
    by (rule inj_on_upsert) (use ok chk in \<open>auto simp: schema_ok_def check_user_def split: if_splits\<close>)
  ultimately show ?thesis
    using ok unfolding schema_ok_def by (auto simp: upsert_keys)
qed

lemma schema_ok_save_tenant:
  assumes ok: "schema_ok w" and chk: "check_tenant w r = None"
  shows "schema_ok (w\<lparr>tenant_tbl := upsert te_id r (tenant_tbl w)\<rparr>)"
proof -
  have "inj_on (\<lambda>r. (te_appId r, te_slug r)) (set (upsert te_id r (tenant_tbl w)))"
    by (rule inj_on_upsert) (use ok chk in \<open>auto simp: schema_ok_def check_tenant_def split: if_splits\<close>)
  moreover have "te_appId ` set (upsert te_id r (tenant_tbl w)) \<subseteq> ae_id ` set (app_tbl w)"
    using ok chk by (auto simp: schema_ok_def check_tenant_def set_upsert split: if_splits)
  ultimately show ?thesis
    using ok unfolding schema_ok_def by (auto simp: upsert_keys)
qed

lemma schema_ok_save_membership:
  assumes ok: "schema_ok w" and chk: "check_membership w r = None"
  shows "schema_ok (w\<lparr>membership_tbl := upsert me_id r (membership_tbl w)\<rparr>)"
proof -
  let ?t = "upsert me_id r (membership_tbl w)"
  have "inj_on (\<lambda>r. (me_tenantId r, me_userId r)) (set ?t)"
    by (rule inj_on_upsert)
      (use ok chk in \<open>auto simp: schema_ok_def check_membership_def split: if_splits\<close>)
  moreover have "me_tenantId ` set ?t \<subseteq> te_id ` set (tenant_tbl w)"
    using ok chk by (auto simp: schema_ok_def check_membership_def set_upsert split: if_splits)
  moreover have "me_userId ` set ?t \<subseteq> ue_id ` set (user_tbl w)"
    using ok chk by (auto simp: schema_ok_def check_membership_def set_upsert split: if_splits)
  ultimately show ?thesis
    using ok unfolding schema_ok_def by auto
qed

text \<open>The constraints of the session table alone, for the rows a transaction sees.\<close>

definition sessions_ok :: "user_entity list \<Rightarrow> session_entity list \<Rightarrow> bool" where
  "sessions_ok us t \<longleftrightarrow>
     distinct (map se_id t) \<and> inj_on se_refreshTokenHash (set t) \<and>
     se_userId ` set t \<subseteq> ue_id ` set us \<and>
     (\<forall>r \<in> set t. \<forall>j. se_replacedBySessionId r = Some j \<longrightarrow> j \<in> se_id ` set t)"

lemma sessions_ok_upsert:
  assumes ok: "sessions_ok (user_tbl w) t" and chk: "check_session w t r = None"
  shows "sessions_ok (user_tbl w) (upsert se_id r t)"
proof -
  have "inj_on se_refreshTokenHash (set (upsert se_id r t))"
    by (rule inj_on_upsert)
      (use ok chk in \<open>auto simp: sessions_ok_def check_session_def split: if_splits\<close>)
  moreover have "se_userId ` set (upsert se_id r t) \<subseteq> ue_id ` set (user_tbl w)"
    using ok chk by (auto simp: sessions_ok_def check_session_def set_upsert split: if_splits)
  moreover have "j \<in> se_id ` set (upsert se_id r t)"
    if "x \<in> set (upsert se_id r t)" "se_replacedBySessionId x = Some j" for x j
    using ok chk that
    by (auto simp: sessions_ok_def check_session_def set_upsert upsert_keys
        split: if_splits option.splits)
  ultimately show ?thesis
    using ok unfolding sessions_ok_def by simp
qed

lemma schema_ok_sessions: "schema_ok w \<Longrightarrow> sessions_ok (user_tbl w) (session_tbl w)"
  by (simp add: schema_ok_def sessions_ok_def)

lemma schema_ok_set_sessions:
  "schema_ok w \<Longrightarrow> sessions_ok (user_tbl w) t \<Longrightarrow> schema_ok (w\<lparr>session_tbl := t\<rparr>)"
  by (simp add: schema_ok_def sessions_ok_def)

lemma schema_ok_save_session:
  assumes "schema_ok w" and "check_session w (session_tbl w) r = None"
  shows "schema_ok (w\<lparr>session_tbl := upsert se_id r (session_tbl w)\<rparr>)"
  using assms by (intro schema_ok_set_sessions sessions_ok_upsert schema_ok_sessions)

section \<open>Deletions\<close>

lemma schema_ok_delete_memberships: "schema_ok w \<Longrightarrow> schema_ok (delete_memberships p w)"
  unfolding schema_ok_def delete_memberships_def
  by (auto simp: distinct_map_filter inj_on_filter simp del: set_filter)
    (auto simp: image_subset_iff)

lemma schema_ok_delete_tenants: "schema_ok w \<Longrightarrow> schema_ok (delete_tenants p w)"
  unfolding schema_ok_def delete_memberships_def delete_tenants_def Let_def
  by (auto simp: distinct_map_filter inj_on_filter simp del: set_filter)
    (auto simp: image_subset_iff)

lemma schema_ok_delete_apps: "schema_ok w \<Longrightarrow> schema_ok (delete_apps p w)"
  unfolding schema_ok_def delete_memberships_def delete_tenants_def delete_apps_def Let_def
  by (auto simp: distinct_map_filter inj_on_filter simp del: set_filter)
    (auto simp: image_subset_iff)

lemma sessions_ok_delete:
  assumes ok: "sessions_ok us (session_tbl w)"
    and us: "se_userId ` {r \<in> set (session_tbl w). \<not> p r} \<subseteq> ue_id ` set us'"
  shows "sessions_ok us' (session_tbl (delete_sessions p w))"
proof -
  let ?kept = "filter (\<lambda>r. \<not> p r) (session_tbl w)"
  let ?f = "clear_successor (se_id ` set ?kept)"
  have t: "session_tbl (delete_sessions p w) = map ?f ?kept"
    by (simp add: delete_sessions_def Let_def)
  have d: "distinct (map se_id (map ?f ?kept))"
    using ok distinct_map_filter [of se_id "session_tbl w" "\<lambda>r. \<not> p r"]
    unfolding sessions_ok_def by (simp add: comp_def del: set_filter)
  have i: "inj_on se_refreshTokenHash (set (map ?f ?kept))"
  proof (rule inj_onI)
    fix x y assume "x \<in> set (map ?f ?kept)" "y \<in> set (map ?f ?kept)"
      and h: "se_refreshTokenHash x = se_refreshTokenHash y"
    then obtain x0 y0 where xy: "x0 \<in> set (session_tbl w)" "y0 \<in> set (session_tbl w)"
      and x: "x = ?f x0" and y: "y = ?f y0" by auto
    from h x y have "se_refreshTokenHash x0 = se_refreshTokenHash y0" by simp
    with xy ok have "x0 = y0" by (auto simp: sessions_ok_def dest: inj_onD)
    then show "x = y" unfolding x y by (rule arg_cong)
  qed
  have ids: "se_id ` set (map ?f ?kept) = se_id ` set ?kept"
    by (simp add: image_image del: set_filter)
  have u: "se_userId ` set (map ?f ?kept) \<subseteq> ue_id ` set us'"
    using us by (simp add: image_image)
  have "j \<in> se_id ` set ?kept" if "se_replacedBySessionId (?f r) = Some j" for r j
    using that by (auto simp: clear_successor_def split: option.splits if_splits simp del: set_filter)
  with d i u show ?thesis
    unfolding sessions_ok_def t ids by (auto simp del: set_filter)
qed

lemma schema_ok_delete_sessions: "schema_ok w \<Longrightarrow> schema_ok (delete_sessions p w)"
proof -
  assume ok: "schema_ok w"
  have "sessions_ok (user_tbl w) (session_tbl (delete_sessions p w))"
    by (rule sessions_ok_delete [OF schema_ok_sessions [OF ok]])
      (use ok in \<open>auto simp: schema_ok_def\<close>)
  with ok show ?thesis
    using schema_ok_set_sessions [OF ok] by (simp add: delete_sessions_def Let_def)
qed

lemma schema_ok_delete_users: "schema_ok w \<Longrightarrow> schema_ok (delete_users p w)"
proof -
  assume ok: "schema_ok w"
  define us where "us = filter (\<lambda>r. \<not> p r) (user_tbl w)"
  define q where "q = (\<lambda>s :: session_entity. se_userId s \<notin> ue_id ` set us)"
  define m where "m = filter (\<lambda>r :: membership_entity. me_userId r \<in> ue_id ` set us) (membership_tbl w)"
  define t where "t = session_tbl (delete_sessions q w)"
  have eq: "delete_users p w = w\<lparr>user_tbl := us, membership_tbl := m, session_tbl := t\<rparr>"
    by (simp add: delete_users_def delete_memberships_def delete_sessions_def us_def m_def q_def
        t_def Let_def)
  have s: "sessions_ok us t"
    unfolding t_def
    by (rule sessions_ok_delete [OF schema_ok_sessions [OF ok]]) (auto simp: q_def)
  have u: "distinct (map ue_id us)" "inj_on ue_email (set us)" "inj_on ue_externalId (set us)"
    using ok unfolding schema_ok_def us_def
    by (simp_all add: distinct_map_filter inj_on_filter del: set_filter)
  have m: "distinct (map me_id m)" "inj_on (\<lambda>r. (me_tenantId r, me_userId r)) (set m)"
    "me_tenantId ` set m \<subseteq> te_id ` set (tenant_tbl w)" "me_userId ` set m \<subseteq> ue_id ` set us"
    using ok unfolding schema_ok_def m_def
    by (simp_all add: distinct_map_filter inj_on_filter del: set_filter) auto
  from ok s u m show ?thesis
    unfolding eq schema_ok_def sessions_ok_def by simp
qed

section \<open>The statements of the five repositories\<close>

lemma preserves_sql_repository:
  assumes "\<And>r s. I s \<Longrightarrow> check s r = None \<Longrightarrow> I (put (upsert key r (get s)) s)"
    and "\<And>p s. I s \<Longrightarrow> I (del p s)"
  shows "preserves I (repo_findOne (sql_repository get put key check del) p)"
    "preserves I (repo_find (sql_repository get put key check del) p)"
    "preserves I (repo_save (sql_repository get put key check del) r)"
    "preserves I (repo_delete (sql_repository get put key check del) p)"
  using assms by (auto simp: preserves_def sql_repository_sel split: option.splits)

lemma schema_app_repo [preserving]:
  "preserves schema_ok (repo_findOne app_repo p)" "preserves schema_ok (repo_find app_repo p)"
  "preserves schema_ok (repo_save app_repo r)" "preserves schema_ok (repo_delete app_repo p)"
  unfolding app_repo_def
  by (intro preserves_sql_repository schema_ok_save_app schema_ok_delete_apps; assumption)+

lemma schema_user_repo [preserving]:
  "preserves schema_ok (repo_findOne user_repo p)" "preserves schema_ok (repo_find user_repo p)"
  "preserves schema_ok (repo_save user_repo r)" "preserves schema_ok (repo_delete user_repo p)"
  unfolding user_repo_def
  by (intro preserves_sql_repository schema_ok_save_user schema_ok_delete_users; assumption)+

lemma schema_tenant_repo [preserving]:
  "preserves schema_ok (repo_findOne tenant_repo p)" "preserves schema_ok (repo_find tenant_repo p)"
  "preserves schema_ok (repo_save tenant_repo r)" "preserves schema_ok (repo_delete tenant_repo p)"
  unfolding tenant_repo_def
  by (intro preserves_sql_repository schema_ok_save_tenant schema_ok_delete_tenants; assumption)+

lemma schema_membership_repo [preserving]:
  "preserves schema_ok (repo_findOne membership_repo p)"
  "preserves schema_ok (repo_find membership_repo p)"
  "preserves schema_ok (repo_save membership_repo r)"
  "preserves schema_ok (repo_delete membership_repo p)"
  unfolding membership_repo_def
  by (intro preserves_sql_repository schema_ok_save_membership schema_ok_delete_memberships;
      assumption)+

lemma schema_session_repo [preserving]:
  "preserves schema_ok (repo_findOne session_repo p)" "preserves schema_ok (repo_find session_repo p)"
  "preserves schema_ok (repo_save session_repo r)" "preserves schema_ok (repo_delete session_repo p)"
  unfolding session_repo_def
  by (intro preserves_sql_repository schema_ok_save_session schema_ok_delete_sessions; assumption)+

end
