(* ===== verification/Sample_World.thy ===== *)
theory Sample_World
  imports Schema_Invariant
begin

text \<open>
  A concrete outside world, at which the witnesses apply the properties: its state is a counter
  that every call to the clock, the random source or the identifier generator advances. The
  validators are small but real (trimming, lengths, an \<open>@\<close> in an address), and satisfy
  \<open>kit_stable\<close>. Nothing of the model depends on it.
\<close>

definition invalid :: "string \<Rightarrow> error" where
  "invalid s = BaseException (KitException ''InvalidValue'') s"

definition sample_email_vo :: "string \<Rightarrow> error + string" where
  "sample_email_vo s =
     (let t = js_lower (js_trim s) in if CHR 0x40 \<in> set t then Inr t else Inl (invalid s))"

definition sample_string_vo :: "string_options \<Rightarrow> string \<Rightarrow> error + string" where
  "sample_string_vo opts s =
     (let t = (if so_trim opts then js_trim s else s)
      in if (case so_minLength opts of None \<Rightarrow> False | Some n \<Rightarrow> length t < n) \<or>
            (case so_maxLength opts of None \<Rightarrow> False | Some n \<Rightarrow> n < length t)
         then Inl (invalid s) else Inr t)"

definition sample_nonempty_vo :: "string \<Rightarrow> error + string" where
  "sample_nonempty_vo s = (if s = [] then Inl (invalid s) else Inr s)"

definition sample_lib :: "nat lib" where
  "sample_lib =
     \<lparr>uuid_vo = sample_nonempty_vo,
      email_vo = sample_email_vo,
      password_vo = (\<lambda>s. if length s < 8 then Inl (invalid s) else Inr s),
      slug_vo = sample_nonempty_vo,
      generate_slug = (\<lambda>s. Inr (map (\<lambda>c. if c = CHR '' '' then CHR ''-'' else c) (js_lower s))),
      string_vo = sample_string_vo,
      enum_vo = (\<lambda>vals s. if s \<in> set vals then Inr s else Inl (invalid s)),
      field_required = (\<lambda>f. BaseException (KitException ''FieldIsRequiredException'') f),
      base_validate = (\<lambda>i c u. if i = [] then Inl (invalid i) else Inr ()),
      touch = (\<lambda>u x. (int x, Suc x)),
      new_date = (\<lambda>x. (int x, Suc x)),
      uuid_generate = (\<lambda>x. (CHR ''u'' # replicate x (CHR ''i''), Suc x)),
      random_base64url = (\<lambda>n x. (CHR ''t'' # replicate x (CHR ''i''), Suc x)),
      sha256_hex = (\<lambda>s. take 64 (s @ replicate 64 (CHR ''0''))),
      jwt_sign = (\<lambda>c x. (Inr (''jwt:'' @ cl_sub c), x)),
      jwt_verify = (\<lambda>t x. (if take 4 t = ''jwt:''
         then Inr \<lparr>cl_sub = drop 4 t, cl_email = [], cl_platformAdmin = False, cl_tenants = []\<rparr>
         else Inl (JsError ''jwt malformed''), x)),
      sql_now = (\<lambda>x. (1000 * int x, Suc x)),
      http_post = (\<lambda>rq x. (Inr \<lparr>rs_location = Some ''users/k1'', rs_access_token = ''h.p.s''\<rparr>, x)),
      base64url_utf8 = (\<lambda>s. case s of None \<Rightarrow> Inl (JsError ''TypeError'') | Some t \<Rightarrow> Inr t),
      json_sub = (\<lambda>s. Inr s)\<rparr>"

lemma sample_email_stable: "vo_stable sample_email_vo"
  by (auto simp: vo_stable_def sample_email_vo_def Let_def js_trim_lower split: if_splits)

lemma sample_kit_stable: "kit_stable sample_lib"
  using sample_email_stable
  by (auto simp: kit_stable_def vo_stable_def sample_lib_def sample_nonempty_vo_def
      sample_string_vo_def Let_def split: if_splits option.splits)

definition sample_app :: app_entity where
  "sample_app = \<lparr>ae_id = ''a1'', ae_slug = ''garden'', ae_name = ''Garden'', ae_createdAt = 0,
     ae_updatedAt = 0\<rparr>"

definition sample_user :: user_entity where
  "sample_user = \<lparr>ue_id = ''u1'', ue_externalId = ''k1'', ue_email = ''a@x'',
     ue_displayName = None, ue_platformAdmin = False, ue_createdAt = 0, ue_updatedAt = 0\<rparr>"

definition sample_user2 :: user_entity where
  "sample_user2 = \<lparr>ue_id = ''u2'', ue_externalId = ''k2'', ue_email = ''b@x'',
     ue_displayName = None, ue_platformAdmin = True, ue_createdAt = 0, ue_updatedAt = 0\<rparr>"

definition empty_world :: "nat world" where
  "empty_world = \<lparr>app_tbl = [], user_tbl = [], tenant_tbl = [], membership_tbl = [],
     session_tbl = [], tx_pending = None, published = [], ext = 5\<rparr>"

definition sample_world :: "nat world" where
  "sample_world = empty_world\<lparr>app_tbl := [sample_app], user_tbl := [sample_user, sample_user2]\<rparr>"

lemma empty_world_ok: "schema_ok empty_world"
  by (simp add: schema_ok_def empty_world_def)

lemma sample_world_ok: "schema_ok sample_world"
  by (simp add: schema_ok_def sample_world_def empty_world_def sample_app_def sample_user_def
      sample_user2_def)

lemma replicate_numeral_unfold:
  "replicate (numeral n) x = x # replicate (pred_numeral n) x"
  by (simp add: numeral_eq_Suc)

lemmas sample_defs = replicate_numeral_unfold sample_lib_def sample_email_vo_def sample_string_vo_def
  sample_nonempty_vo_def sample_app_def sample_user_def sample_user2_def empty_world_def
  sample_world_def invalid_def no_options_def

end
