(* ===== verification/Session_Store.thy ===== *)
theory Session_Store
  imports Sample_World
begin

text \<open>
  The session chain of the \<open>auth\<close> context (\<open>src/contexts/auth/domain\<close> and its TypeORM persistence):
  the session aggregate, its builder and mapper, the statements a transaction runs on the session
  table, and \<open>SessionTypeOrmWriteRepository\<close> with \<open>rotate\<close> and \<open>revokeAllByUserId\<close>. The locale
  \<open>session_store\<close> is the contract of the port \<open>ISessionWriteRepository\<close> that the login and refresh
  handlers rely on; it is interpreted on the repository.

  A transaction keeps its writes in \<open>tx_pending\<close> until it commits; a throw drops them. The statement
  of \<open>revokeAllByUserId\<close> is issued on \<open>this.repo\<close>, not on the transaction's manager: it changes the
  committed table at once, and a rollback of the surrounding transaction does not undo it.
\<close>

section \<open>The aggregate\<close>

record session_aggregate =
  sg_id :: string
  sg_createdAt :: int
  sg_updatedAt :: int
  sg_userId :: string
  sg_refreshTokenHash :: string
  sg_expiresAt :: int
  sg_revokedAt :: "int option"
  sg_replacedBySessionId :: "string option"

definition SessionAggregate_isExpired :: "session_aggregate \<Rightarrow> int \<Rightarrow> bool" where
  "SessionAggregate_isExpired a t \<longleftrightarrow> sg_expiresAt a \<le> t"

definition SessionAggregate_revoke ::
  "'x lib \<Rightarrow> string \<Rightarrow> session_aggregate \<Rightarrow> ('x, error, session_aggregate) comp" where
  "SessionAggregate_revoke L replacedBySessionId a =
     bindE (now L) (\<lambda>t.
     bindE (touched L (sg_updatedAt a)) (\<lambda>u.
     ret (a\<lparr>sg_revokedAt := Some t, sg_replacedBySessionId := Some replacedBySessionId,
            sg_updatedAt := u\<rparr>)))"

definition SessionAggregate_isRevoked :: "session_aggregate \<Rightarrow> bool" where
  "SessionAggregate_isRevoked a \<longleftrightarrow> sg_revokedAt a \<noteq> None"

definition SessionAggregate_markReuseDetected ::
  "'x lib \<Rightarrow> session_aggregate \<Rightarrow> ('x, error, session_aggregate) comp" where
  "SessionAggregate_markReuseDetected L a =
     bindE (touched L (sg_updatedAt a)) (\<lambda>u. ret (a\<lparr>sg_updatedAt := u\<rparr>))"

definition SessionAggregate_toPrimitives :: "session_aggregate \<Rightarrow> session_primitives" where
  "SessionAggregate_toPrimitives a =
     \<lparr>sp_id = sg_id a, sp_userId = sg_userId a, sp_refreshTokenHash = sg_refreshTokenHash a,
      sp_expiresAt = sg_expiresAt a, sp_revokedAt = sg_revokedAt a,
      sp_replacedBySessionId = sg_replacedBySessionId a, sp_createdAt = sg_createdAt a,
      sp_updatedAt = sg_updatedAt a\<rparr>"

section \<open>The builder\<close>

record session_view_model =
  sv_id :: string
  sv_createdAt :: int
  sv_updatedAt :: int
  sv_userId :: string
  sv_expiresAt :: int
  sv_revokedAt :: "int option"
  sv_replacedBySessionId :: "string option"

record session_builder =
  sb_id :: string
  sb_createdAt :: "int option"
  sb_updatedAt :: "int option"
  sb_userId :: string
  sb_refreshTokenHash :: string
  sb_expiresAt :: "int option"
  sb_revokedAt :: "int option"
  sb_replacedBySessionId :: "string option"

definition SessionBuilder_new :: session_builder where
  "SessionBuilder_new = \<lparr>sb_id = [], sb_createdAt = None, sb_updatedAt = None, sb_userId = [],
     sb_refreshTokenHash = [], sb_expiresAt = None, sb_revokedAt = None,
     sb_replacedBySessionId = None\<rparr>"

text \<open>\<open>validate\<close>; it gives the expiry date, which is set once it has passed.\<close>

definition SessionBuilder_validate :: "'x lib \<Rightarrow> session_builder \<Rightarrow> ('s, error, int) comp" where
  "SessionBuilder_validate L b =
     bindE (liftE (base_validate L (sb_id b) (sb_createdAt b) (sb_updatedAt b))) (\<lambda>_.
     if sb_userId b = [] then throw (field_required L ''userId'')
     else if sb_refreshTokenHash b = [] then throw (field_required L ''refreshTokenHash'')
     else case sb_expiresAt b of
       None \<Rightarrow> throw (field_required L ''expiresAt'')
     | Some t \<Rightarrow> ret t)"

text \<open>\<open>this._replacedBySessionId ? new UuidValueObject(...) : null\<close>: the empty string counts as
  null.\<close>

definition truthy :: "string option \<Rightarrow> string option" where
  "truthy z = (case z of None \<Rightarrow> None | Some s \<Rightarrow> if s = [] then None else Some s)"

definition SessionBuilder_build :: "'x lib \<Rightarrow> session_builder \<Rightarrow> ('x, error, session_aggregate) comp" where
  "SessionBuilder_build L b =
     bindE (SessionBuilder_validate L b) (\<lambda>expiresAt.
     bindE (liftE (uuid_vo L (sb_id b))) (\<lambda>id.
     bindE (liftE (uuid_vo L (sb_userId b))) (\<lambda>userId.
     bindE (liftE (RefreshTokenHashValueObject L (sb_refreshTokenHash b))) (\<lambda>hash.
     bindE (optE (\<lambda>j. liftE (uuid_vo L j)) (truthy (sb_replacedBySessionId b))) (\<lambda>replacedBy.
     bindE (date_or_now L (sb_createdAt b)) (\<lambda>createdAt.
     bindE (date_or_now L (sb_updatedAt b)) (\<lambda>updatedAt.
     ret \<lparr>sg_id = id, sg_createdAt = createdAt, sg_updatedAt = updatedAt, sg_userId = userId,
          sg_refreshTokenHash = hash, sg_expiresAt = expiresAt, sg_revokedAt = sb_revokedAt b,
          sg_replacedBySessionId = replacedBy\<rparr>)))))))"

definition SessionBuilder_buildViewModel ::
  "'x lib \<Rightarrow> session_builder \<Rightarrow> ('x, error, session_view_model) comp" where
  "SessionBuilder_buildViewModel L b =
     bindE (SessionBuilder_validate L b) (\<lambda>expiresAt.
     bindE (date_or_now L (sb_createdAt b)) (\<lambda>createdAt.
     bindE (date_or_now L (sb_updatedAt b)) (\<lambda>updatedAt.
     ret \<lparr>sv_id = sb_id b, sv_createdAt = createdAt, sv_updatedAt = updatedAt,
          sv_userId = sb_userId b, sv_expiresAt = expiresAt, sv_revokedAt = sb_revokedAt b,
          sv_replacedBySessionId = sb_replacedBySessionId b\<rparr>)))"

section \<open>The mapper\<close>

definition session_builder_of_entity :: "session_builder \<Rightarrow> session_entity \<Rightarrow> session_builder" where
  "session_builder_of_entity b e = b\<lparr>sb_id := se_id e, sb_userId := se_userId e,
     sb_refreshTokenHash := se_refreshTokenHash e,
     sb_expiresAt := Some (se_refreshTokenExpiresAt e), sb_revokedAt := se_revokedAt e,
     sb_replacedBySessionId := se_replacedBySessionId e, sb_createdAt := Some (se_createdAt e),
     sb_updatedAt := Some (se_updatedAt e)\<rparr>"

definition SessionTypeOrmMapper_toAggregate ::
  "'x lib \<Rightarrow> session_entity \<Rightarrow> ('x, error, session_aggregate) comp" where
  "SessionTypeOrmMapper_toAggregate L entity =
     SessionBuilder_build L (session_builder_of_entity SessionBuilder_new entity)"

definition SessionTypeOrmMapper_toEntity :: "session_aggregate \<Rightarrow> session_entity" where
  "SessionTypeOrmMapper_toEntity aggregate =
     (let primitives = SessionAggregate_toPrimitives aggregate
      in \<lparr>se_id = sp_id primitives, se_userId = sp_userId primitives,
          se_refreshTokenHash = sp_refreshTokenHash primitives,
          se_refreshTokenExpiresAt = sp_expiresAt primitives,
          se_revokedAt = sp_revokedAt primitives,
          se_replacedBySessionId = sp_replacedBySessionId primitives,
          se_createdAt = sp_createdAt primitives, se_updatedAt = sp_updatedAt primitives\<rparr>)"

section \<open>The statements of a transaction\<close>

text \<open>What a statement of the open transaction sees: the committed rows under its own writes.\<close>

definition visible_sessions :: "'x world \<Rightarrow> session_entity list" where
  "visible_sessions w = (case tx_pending w of
       None \<Rightarrow> session_tbl w
     | Some ps \<Rightarrow> fold (upsert se_id) ps (session_tbl w))"

text \<open>
  TypeORM as the session repository uses it: \<open>repo.manager.transaction\<close>, \<open>manager\<close>'s query builder
  with a \<open>pessimistic_write\<close> lock and \<open>getOne\<close>, \<open>manager.save\<close>, and the update query builder of \<open>repo\<close>
  that sets \<open>revokedAt\<close> to the database's clock.
\<close>

record ('s, 'a) SessionManager =
  sm_transaction :: "('s, error, 'a) comp \<Rightarrow> ('s, error, 'a) comp"
  sm_lockOne :: "(session_entity \<Rightarrow> bool) \<Rightarrow> ('s, error, session_entity option) comp"
  sm_save :: "session_entity \<Rightarrow> ('s, error, session_entity) comp"
  sm_set_revokedAt_now :: "(session_entity \<Rightarrow> bool) \<Rightarrow> ('s, error, unit) comp"

definition transaction :: "('x world, error, 'a) comp \<Rightarrow> ('x world, error, 'a) comp" where
  "transaction body w = (case body (w\<lparr>tx_pending := Some []\<rparr>) of
       (Inl err, w1) \<Rightarrow> (Inl err, w1\<lparr>tx_pending := None\<rparr>)
     | (Inr a, w1) \<Rightarrow> (Inr a, w1\<lparr>session_tbl := visible_sessions w1, tx_pending := None\<rparr>))"

definition tx_save :: "session_entity \<Rightarrow> ('x world, error, session_entity) comp" where
  "tx_save e w = (case check_session w (visible_sessions w) e of
       Some c \<Rightarrow> (Inl (QueryFailedError c), w)
     | None \<Rightarrow> (Inr e, w\<lparr>tx_pending := Some ((case tx_pending w of None \<Rightarrow> [] | Some ps \<Rightarrow> ps) @ [e])\<rparr>))"

definition set_revoked_at :: "int \<Rightarrow> (session_entity \<Rightarrow> bool) \<Rightarrow> session_entity list \<Rightarrow> session_entity list" where
  "set_revoked_at t p rs = map (\<lambda>e. if p e then e\<lparr>se_revokedAt := Some t\<rparr> else e) rs"

text \<open>
  The rows of the model are what the driver hands over: it reads a \<open>TIMESTAMP\<close> as a \<open>Date\<close>, a whole
  number of milliseconds, and drops the microseconds that \<open>NOW()\<close> stores. No statement of the service
  compares or sorts by them.
\<close>

definition driver_date :: "int \<Rightarrow> int" where
  "driver_date microseconds = microseconds div 1000"

definition session_sql :: "'x lib \<Rightarrow> ('x world, 'a) SessionManager" where
  "session_sql L =
     \<lparr>sm_transaction = transaction,
      sm_lockOne = (\<lambda>p w. (Inr (find p (visible_sessions w)), w)),
      sm_save = tx_save,
      sm_set_revokedAt_now = (\<lambda>p w. case sql_now L (ext w) of (t, x) \<Rightarrow>
        (Inr (), w\<lparr>session_tbl := set_revoked_at (driver_date t) p (session_tbl w), ext := x\<rparr>))\<rparr>"

section \<open>The repository\<close>

record IRotateResult =
  rr_revoked :: session_aggregate
  rr_created :: session_aggregate

type_synonym 's RotateSessionCallback =
  "session_aggregate \<Rightarrow> (string \<Rightarrow> ('s, error, session_aggregate option) comp) \<Rightarrow>
   ('s, error, IRotateResult) comp"

record 's ISessionWriteRepository =
  swr_findById :: "string \<Rightarrow> ('s, error, session_aggregate option) comp"
  swr_findByUserId :: "string \<Rightarrow> ('s, error, session_aggregate option) comp"
  swr_findByRefreshTokenHash :: "string \<Rightarrow> ('s, error, session_aggregate option) comp"
  swr_save :: "session_aggregate \<Rightarrow> ('s, error, session_aggregate) comp"
  swr_delete :: "string \<Rightarrow> ('s, error, unit) comp"
  swr_rotate :: "string \<Rightarrow> 's RotateSessionCallback \<Rightarrow> ('s, error, IRotateResult option) comp"
  swr_revokeAllByUserId :: "string \<Rightarrow> ('s, error, unit) comp"

definition lockByRefreshTokenHash ::
  "('s, 'a) SessionManager \<Rightarrow> string \<Rightarrow> ('s, error, session_entity option) comp" where
  "lockByRefreshTokenHash manager hash = sm_lockOne manager (\<lambda>e. se_refreshTokenHash e = hash)"

definition lockById ::
  "('s, 'a) SessionManager \<Rightarrow> string \<Rightarrow> ('s, error, session_entity option) comp" where
  "lockById manager sessionId = sm_lockOne manager (\<lambda>e. se_id e = sessionId)"

definition SessionTypeOrmWriteRepository_rotate ::
  "'x lib \<Rightarrow> ('x world, IRotateResult option) SessionManager \<Rightarrow> string \<Rightarrow>
   'x world RotateSessionCallback \<Rightarrow> ('x world, error, IRotateResult option) comp" where
  "SessionTypeOrmWriteRepository_rotate L manager refreshTokenHash callback =
     sm_transaction manager (
       bindE (lockByRefreshTokenHash manager refreshTokenHash) (\<lambda>currentEntity.
       case currentEntity of
         None \<Rightarrow> ret None
       | Some entity \<Rightarrow>
           bindE (outside (SessionTypeOrmMapper_toAggregate L entity)) (\<lambda>current.
           let findLockedById = (\<lambda>id. bindE (lockById manager id)
                 (optE (\<lambda>e. outside (SessionTypeOrmMapper_toAggregate L e)))) in
           bindE (callback current findLockedById) (\<lambda>rotated.
           bindE (sm_save manager (SessionTypeOrmMapper_toEntity (rr_created rotated))) (\<lambda>createdEntity.
           bindE (sm_save manager (SessionTypeOrmMapper_toEntity (rr_revoked rotated))) (\<lambda>revokedEntity.
           bindE (outside (SessionTypeOrmMapper_toAggregate L revokedEntity)) (\<lambda>revoked.
           bindE (outside (SessionTypeOrmMapper_toAggregate L createdEntity)) (\<lambda>created.
           ret (Some \<lparr>rr_revoked = revoked, rr_created = created\<rparr>)))))))))"

text \<open>The \<open>WHERE\<close> clause of the update in \<open>revokeAllByUserId\<close>.\<close>

definition live_of :: "string \<Rightarrow> session_entity \<Rightarrow> bool" where
  "live_of userId e \<longleftrightarrow> se_userId e = userId \<and> se_revokedAt e = None"

definition SessionTypeOrmWriteRepository_revokeAllByUserId ::
  "('s, 'a) SessionManager \<Rightarrow> string \<Rightarrow> ('s, error, unit) comp" where
  "SessionTypeOrmWriteRepository_revokeAllByUserId manager userId =
     sm_set_revokedAt_now manager (live_of userId)"

definition SessionTypeOrmWriteRepository ::
  "'x lib \<Rightarrow> ('x world, session_entity) Repository \<Rightarrow> ('x world, IRotateResult option) SessionManager \<Rightarrow>
   'x world ISessionWriteRepository" where
  "SessionTypeOrmWriteRepository L repo manager =
     \<lparr>swr_findById = (\<lambda>id. bindE (repo_findOne repo (\<lambda>e. se_id e = id))
        (optE (\<lambda>entity. outside (SessionTypeOrmMapper_toAggregate L entity)))),
      swr_findByUserId = (\<lambda>userId. bindE (repo_findOne repo (\<lambda>e. se_userId e = userId))
        (optE (\<lambda>entity. outside (SessionTypeOrmMapper_toAggregate L entity)))),
      swr_findByRefreshTokenHash = (\<lambda>hash.
        bindE (repo_findOne repo (\<lambda>e. se_refreshTokenHash e = hash))
        (optE (\<lambda>entity. outside (SessionTypeOrmMapper_toAggregate L entity)))),
      swr_save = (\<lambda>session. bindE (repo_save repo (SessionTypeOrmMapper_toEntity session))
        (\<lambda>saved. outside (SessionTypeOrmMapper_toAggregate L saved))),
      swr_delete = (\<lambda>id. repo_delete repo (\<lambda>e. se_id e = id)),
      swr_rotate = SessionTypeOrmWriteRepository_rotate L manager,
      swr_revokeAllByUserId = SessionTypeOrmWriteRepository_revokeAllByUserId manager\<rparr>"

section \<open>Reading and writing rows\<close>

definition session_from_row :: "'x lib \<Rightarrow> session_entity \<Rightarrow> error + session_aggregate" where
  "session_from_row L e = fst (SessionTypeOrmMapper_toAggregate L e undefined)"

lemmas session_build_defs = SessionTypeOrmMapper_toAggregate_def SessionBuilder_build_def
  SessionBuilder_validate_def session_builder_of_entity_def

lemma session_toAggregate_run: "SessionTypeOrmMapper_toAggregate L e = liftE (session_from_row L e)"
proof (rule ext)
  fix x
  show "SessionTypeOrmMapper_toAggregate L e x = liftE (session_from_row L e) x"
    by (cases "truthy (se_replacedBySessionId e)")
      (simp_all add: session_from_row_def session_build_defs bindE_def split: sum.split)
qed

lemma session_from_row_Inr:
  assumes "session_from_row L e = Inr a"
  shows "uuid_vo L (se_id e) = Inr (sg_id a)" "uuid_vo L (se_userId e) = Inr (sg_userId a)"
    "RefreshTokenHashValueObject L (se_refreshTokenHash e) = Inr (sg_refreshTokenHash a)"
    "sg_expiresAt a = se_refreshTokenExpiresAt e" "sg_revokedAt a = se_revokedAt e"
    "sg_createdAt a = se_createdAt e" "sg_updatedAt a = se_updatedAt e"
  using assms
  by (cases "truthy (se_replacedBySessionId e)";
      auto simp: session_from_row_def session_build_defs bindE_def split: sum.splits if_splits)+

text \<open>A session all of whose values its value objects accept unchanged.\<close>

definition session_wf :: "'x lib \<Rightarrow> session_aggregate \<Rightarrow> bool" where
  "session_wf L a \<longleftrightarrow> uuid_vo L (sg_id a) = Inr (sg_id a) \<and>
     uuid_vo L (sg_userId a) = Inr (sg_userId a) \<and> sg_userId a \<noteq> [] \<and>
     RefreshTokenHashValueObject L (sg_refreshTokenHash a) = Inr (sg_refreshTokenHash a) \<and>
     sg_refreshTokenHash a \<noteq> [] \<and>
     (case sg_replacedBySessionId a of None \<Rightarrow> True | Some j \<Rightarrow> j \<noteq> [] \<and> uuid_vo L j = Inr j) \<and>
     base_validate L (sg_id a) (Some (sg_createdAt a)) (Some (sg_updatedAt a)) = Inr ()"

lemma session_wf_row:
  "session_wf L a \<Longrightarrow> session_from_row L (SessionTypeOrmMapper_toEntity a) = Inr a"
  by (cases "sg_replacedBySessionId a")
    (auto simp: session_from_row_def session_wf_def session_build_defs truthy_def
      SessionTypeOrmMapper_toEntity_def SessionAggregate_toPrimitives_def Let_def)

lemma session_entity_sel [simp]:
  "se_id (SessionTypeOrmMapper_toEntity a) = sg_id a"
  "se_userId (SessionTypeOrmMapper_toEntity a) = sg_userId a"
  "se_refreshTokenHash (SessionTypeOrmMapper_toEntity a) = sg_refreshTokenHash a"
  "se_refreshTokenExpiresAt (SessionTypeOrmMapper_toEntity a) = sg_expiresAt a"
  "se_revokedAt (SessionTypeOrmMapper_toEntity a) = sg_revokedAt a"
  "se_replacedBySessionId (SessionTypeOrmMapper_toEntity a) = sg_replacedBySessionId a"
  "se_createdAt (SessionTypeOrmMapper_toEntity a) = sg_createdAt a"
  "se_updatedAt (SessionTypeOrmMapper_toEntity a) = sg_updatedAt a"
  by (simp_all add: SessionTypeOrmMapper_toEntity_def SessionAggregate_toPrimitives_def Let_def)

lemma session_toEntity_from_row:
  assumes "session_wf L a" and "session_from_row L e = Inr a" and "se_id e = sg_id a"
    and "se_userId e = sg_userId a" and "se_refreshTokenHash e = sg_refreshTokenHash a"
    and "se_replacedBySessionId e = sg_replacedBySessionId a"
  shows "SessionTypeOrmMapper_toEntity a = e"
  using assms session_from_row_Inr [OF assms(2)]
  by (cases e) (simp add: SessionTypeOrmMapper_toEntity_def SessionAggregate_toPrimitives_def)

text \<open>A builder's leftovers never reach a session (see \<open>user_builder_leftovers\<close>).\<close>

lemma session_builder_leftovers:
  "SessionBuilder_build L (session_builder_of_entity b e) = SessionTypeOrmMapper_toAggregate L e"
  by (cases b) (simp add: SessionTypeOrmMapper_toAggregate_def session_builder_of_entity_def
      SessionBuilder_new_def)

section \<open>The contract of the session port\<close>

abbreviation in_transaction :: "'x world \<Rightarrow> 'x world" where
  "in_transaction w \<equiv> w\<lparr>tx_pending := Some []\<rparr>"

text \<open>
  What a call of \<open>rotate\<close> may do, whatever the callback: no session has the hash; the row of the
  hash cannot be read; the callback throws; a write of the new or of the consumed session is
  rejected; or both are written. In every case but the last the session table is the one the
  callback left.
\<close>

inductive rotate_spec ::
  "'x lib \<Rightarrow> string \<Rightarrow> 'x world RotateSessionCallback \<Rightarrow> 'x world \<Rightarrow>
   (error + IRotateResult option) \<Rightarrow> 'x world \<Rightarrow> bool"
  for L h cb w where
  rotate_unknown: "find (\<lambda>e. se_refreshTokenHash e = h) (session_tbl w) = None \<Longrightarrow>
    rotate_spec L h cb w (Inr None) w"
| rotate_unreadable: "find (\<lambda>e. se_refreshTokenHash e = h) (session_tbl w) = Some e \<Longrightarrow>
    session_from_row L e = Inl err \<Longrightarrow> rotate_spec L h cb w (Inl err) w"
| rotate_thrown: "find (\<lambda>e. se_refreshTokenHash e = h) (session_tbl w) = Some e \<Longrightarrow>
    session_from_row L e = Inr current \<Longrightarrow> cb current lk (in_transaction w) = (Inl err, w1) \<Longrightarrow>
    rotate_spec L h cb w (Inl err) (w1\<lparr>tx_pending := None\<rparr>)"
| rotate_rejected: "find (\<lambda>e. se_refreshTokenHash e = h) (session_tbl w) = Some e \<Longrightarrow>
    session_from_row L e = Inr current \<Longrightarrow> cb current lk (in_transaction w) = (Inr rotated, w1) \<Longrightarrow>
    c = SessionTypeOrmMapper_toEntity (rr_created rotated) \<Longrightarrow>
    r = SessionTypeOrmMapper_toEntity (rr_revoked rotated) \<Longrightarrow>
    \<not> (check_session w1 (session_tbl w1) c = None \<and>
       check_session w1 (upsert se_id c (session_tbl w1)) r = None \<and>
       session_from_row L c \<in> range Inr \<and> session_from_row L r \<in> range Inr) \<Longrightarrow>
    rotate_spec L h cb w (Inl err) (w1\<lparr>tx_pending := None\<rparr>)"
| rotate_committed: "find (\<lambda>e. se_refreshTokenHash e = h) (session_tbl w) = Some e \<Longrightarrow>
    session_from_row L e = Inr current \<Longrightarrow> cb current lk (in_transaction w) = (Inr rotated, w1) \<Longrightarrow>
    c = SessionTypeOrmMapper_toEntity (rr_created rotated) \<Longrightarrow>
    r = SessionTypeOrmMapper_toEntity (rr_revoked rotated) \<Longrightarrow>
    check_session w1 (session_tbl w1) c = None \<Longrightarrow>
    check_session w1 (upsert se_id c (session_tbl w1)) r = None \<Longrightarrow>
    session_from_row L c = Inr created \<Longrightarrow> session_from_row L r = Inr revoked \<Longrightarrow>
    rotate_spec L h cb w (Inr (Some \<lparr>rr_revoked = revoked, rr_created = created\<rparr>))
      (w1\<lparr>session_tbl := upsert se_id r (upsert se_id c (session_tbl w1)), tx_pending := None\<rparr>)"

inductive_cases rotate_specE: "rotate_spec L h cb w res w'"

locale session_store =
  fixes L :: "'x lib" and store :: "'x world ISessionWriteRepository"
  assumes rotate_law:
    "tx_pending w = None \<Longrightarrow>
       (\<And>current lk r1 w1. cb current lk (in_transaction w) = (r1, w1) \<Longrightarrow> tx_pending w1 = Some []) \<Longrightarrow>
       swr_rotate store h cb w = (res, w') \<Longrightarrow> rotate_spec L h cb w res w'"
    and save_law:
    "swr_save store a w = (case check_session w (session_tbl w) (SessionTypeOrmMapper_toEntity a) of
         Some c \<Rightarrow> (Inl (QueryFailedError c), w)
       | None \<Rightarrow> (session_from_row L (SessionTypeOrmMapper_toEntity a),
           w\<lparr>session_tbl := upsert se_id (SessionTypeOrmMapper_toEntity a) (session_tbl w)\<rparr>))"
    and revoke_all_law:
    "swr_revokeAllByUserId store u w = (case sql_now L (ext w) of (t, x) \<Rightarrow>
       (Inr (), w\<lparr>session_tbl := set_revoked_at (driver_date t)
          (\<lambda>e. se_userId e = u \<and> se_revokedAt e = None) (session_tbl w), ext := x\<rparr>))"

abbreviation session_write_repo :: "'x lib \<Rightarrow> 'x world ISessionWriteRepository" where
  "session_write_repo L \<equiv> SessionTypeOrmWriteRepository L session_repo (session_sql L)"

lemma session_write_repo_sel [simp]:
  "swr_rotate (SessionTypeOrmWriteRepository L repo m) = SessionTypeOrmWriteRepository_rotate L m"
  "swr_revokeAllByUserId (SessionTypeOrmWriteRepository L repo m) =
     SessionTypeOrmWriteRepository_revokeAllByUserId m"
  by (simp_all add: SessionTypeOrmWriteRepository_def)

lemma session_sql_sel:
  "sm_transaction (session_sql L) = transaction"
  "sm_lockOne (session_sql L) = (\<lambda>p w. (Inr (find p (visible_sessions w)), w))"
  "sm_save (session_sql L) = tx_save"
  by (simp_all add: session_sql_def)

lemma rotate_run:
  "\<exists>lk. SessionTypeOrmWriteRepository_rotate L (session_sql L) h cb = transaction (\<lambda>w.
     case find (\<lambda>e. se_refreshTokenHash e = h) (visible_sessions w) of
       None \<Rightarrow> (Inr None, w)
     | Some entity \<Rightarrow> bindE (liftE (session_from_row L entity)) (\<lambda>current.
         bindE (cb current lk) (\<lambda>rotated.
         bindE (tx_save (SessionTypeOrmMapper_toEntity (rr_created rotated))) (\<lambda>c.
         bindE (tx_save (SessionTypeOrmMapper_toEntity (rr_revoked rotated))) (\<lambda>r.
         bindE (liftE (session_from_row L r)) (\<lambda>revoked.
         bindE (liftE (session_from_row L c)) (\<lambda>created.
         ret (Some \<lparr>rr_revoked = revoked, rr_created = created\<rparr>))))))) w)"
proof -
  have body: "bindE (\<lambda>w. (Inr (find p (visible_sessions w)), w)) k =
      (\<lambda>w. k (find p (visible_sessions w)) w)" for p and k :: "_ \<Rightarrow> (_, error, _) comp"
    by (simp add: bindE_def fun_eq_iff)
  show ?thesis
    unfolding SessionTypeOrmWriteRepository_rotate_def lockByRefreshTokenHash_def Let_def
      session_toAggregate_run outside_liftE session_sql_sel body
    by (rule exI [of _ "\<lambda>id. bindE (lockById (session_sql L ::
          ('a world, IRotateResult option) SessionManager) id)
          (optE (\<lambda>e. liftE (session_from_row L e)))"], rule arg_cong [where f = transaction], rule ext)
      (simp split: option.split)
qed

lemma visible_in_transaction [simp]:
  "visible_sessions (in_transaction w) = session_tbl w"
  "tx_pending w = Some [] \<Longrightarrow> visible_sessions w = session_tbl w"
  "tx_pending w = None \<Longrightarrow> visible_sessions w = session_tbl w"
  by (simp_all add: visible_sessions_def)

text \<open>The body of \<open>rotate\<close> from the callback on.\<close>

definition rotate_rest ::
  "'x lib \<Rightarrow> IRotateResult \<Rightarrow> ('x world, error, IRotateResult option) comp" where
  "rotate_rest L rotated =
     bindE (tx_save (SessionTypeOrmMapper_toEntity (rr_created rotated))) (\<lambda>c.
     bindE (tx_save (SessionTypeOrmMapper_toEntity (rr_revoked rotated))) (\<lambda>r.
     bindE (liftE (session_from_row L r)) (\<lambda>revoked.
     bindE (liftE (session_from_row L c)) (\<lambda>created.
     ret (Some \<lparr>rr_revoked = revoked, rr_created = created\<rparr>)))))"

lemma rotate_rest_spec:
  assumes e: "find (\<lambda>e. se_refreshTokenHash e = h) (session_tbl w) = Some e"
    and cur: "session_from_row L e = Inr current"
    and call: "cb current lk (in_transaction w) = (Inr rotated, w1)"
    and pend: "tx_pending w1 = Some []"
    and rest: "rotate_rest L rotated w1 = (r2, w2)"
    and res: "res = r2"
    and w': "w' = (if isl r2 then w2\<lparr>tx_pending := None\<rparr>
      else w2\<lparr>session_tbl := visible_sessions w2, tx_pending := None\<rparr>)"
  shows "rotate_spec L h cb w res w'"
proof -
  let ?c = "SessionTypeOrmMapper_toEntity (rr_created rotated)"
  let ?r = "SessionTypeOrmMapper_toEntity (rr_revoked rotated)"
  let ?ok = "check_session w1 (session_tbl w1) ?c = None \<and>
      check_session w1 (upsert se_id ?c (session_tbl w1)) ?r = None \<and>
      session_from_row L ?c \<in> range Inr \<and> session_from_row L ?r \<in> range Inr"
  note sim = rotate_rest_def bindE_def tx_save_def visible_sessions_def pend w' res
  show ?thesis
  proof (cases ?ok)
    case True
    then obtain created revoked where rd: "session_from_row L ?c = Inr created"
      "session_from_row L ?r = Inr revoked" by auto
    with True rest have "res = Inr (Some \<lparr>rr_revoked = revoked, rr_created = created\<rparr>)"
      "w' = w1\<lparr>session_tbl := upsert se_id ?r (upsert se_id ?c (session_tbl w1)), tx_pending := None\<rparr>"
      by (auto simp: sim)
    with True rd show ?thesis
      using rotate_committed [where cb = cb, OF e cur call refl refl] by simp
  next
    case False
    with rest have "\<exists>err. res = Inl err \<and> w' = w1\<lparr>tx_pending := None\<rparr>"
      by (cases "session_from_row L ?c"; cases "session_from_row L ?r")
        (auto simp: sim split: option.splits)
    with False show ?thesis
      using rotate_rejected [where cb = cb, OF e cur call refl refl] by auto
  qed
qed

lemma rotate_meets_spec:
  assumes tx: "tx_pending w = None"
    and cb: "\<And>current lk r1 w1. cb current lk (in_transaction w) = (r1, w1) \<Longrightarrow> tx_pending w1 = Some []"
    and run: "SessionTypeOrmWriteRepository_rotate L (session_sql L) h cb w = (res, w')"
  shows "rotate_spec L h cb w res w'"
proof -
  obtain lk where body: "SessionTypeOrmWriteRepository_rotate L (session_sql L) h cb = transaction (\<lambda>w.
     case find (\<lambda>e. se_refreshTokenHash e = h) (visible_sessions w) of
       None \<Rightarrow> (Inr None, w)
     | Some entity \<Rightarrow> bindE (liftE (session_from_row L entity)) (\<lambda>current.
         bindE (cb current lk) (rotate_rest L)) w)"
    using rotate_run unfolding rotate_rest_def by blast
  note sim = body transaction_def bindE_def
  have same: "w\<lparr>tx_pending := None\<rparr> = w" using tx by simp
  show ?thesis
  proof (cases "find (\<lambda>e. se_refreshTokenHash e = h) (session_tbl w)")
    case None
    with run show ?thesis by (auto simp: sim same intro: rotate_unknown)
  next
    case (Some e)
    show ?thesis
    proof (cases "session_from_row L e")
      case (Inl err)
      with Some run show ?thesis by (auto simp: sim same intro: rotate_unreadable)
    next
      case (Inr current)
      obtain r1 w1 where call: "cb current lk (in_transaction w) = (r1, w1)" by fastforce
      show ?thesis
      proof (cases r1)
        case (Inl err)
        with Some \<open>session_from_row L e = Inr current\<close> call run show ?thesis
          by (auto simp: sim intro: rotate_thrown)
      next
        case (Inr rotated)
        obtain r2 w2 where rest: "rotate_rest L rotated w1 = (r2, w2)" by fastforce
        from Some \<open>session_from_row L e = Inr current\<close> call Inr rest run
        have "res = r2" "w' = (if isl r2 then w2\<lparr>tx_pending := None\<rparr>
            else w2\<lparr>session_tbl := visible_sessions w2, tx_pending := None\<rparr>)"
          by (auto simp: sim split: sum.splits)
        with Some \<open>session_from_row L e = Inr current\<close> call Inr rest cb [OF call] show ?thesis
          by (auto intro: rotate_rest_spec)
      qed
    qed
  qed
qed

interpretation session_db: session_store L "session_write_repo L" for L :: "'x lib"
proof
  show "rotate_spec L h cb w res w'" if "tx_pending w = None"
    "\<And>current lk r1 w1. cb current lk (in_transaction w) = (r1, w1) \<Longrightarrow> tx_pending w1 = Some []"
    "swr_rotate (session_write_repo L) h cb w = (res, w')" for w cb h res w'
    by (rule rotate_meets_spec) (use that in auto)
  show "swr_save (session_write_repo L) a w =
      (case check_session w (session_tbl w) (SessionTypeOrmMapper_toEntity a) of
         Some c \<Rightarrow> (Inl (QueryFailedError c), w)
       | None \<Rightarrow> (session_from_row L (SessionTypeOrmMapper_toEntity a),
           w\<lparr>session_tbl := upsert se_id (SessionTypeOrmMapper_toEntity a) (session_tbl w)\<rparr>))" for a w
    by (simp add: SessionTypeOrmWriteRepository_def session_repo_def bindE_def sql_repository_sel
        session_toAggregate_run split: option.split)
  show "swr_revokeAllByUserId (session_write_repo L) u w = (case sql_now L (ext w) of (t, x) \<Rightarrow>
       (Inr (), w\<lparr>session_tbl := set_revoked_at (driver_date t)
          (\<lambda>e. se_userId e = u \<and> se_revokedAt e = None) (session_tbl w), ext := x\<rparr>))" for u w
    by (simp add: SessionTypeOrmWriteRepository_revokeAllByUserId_def session_sql_def
        live_of_def [abs_def] split: prod.split)
qed

section \<open>Sessions and the schema\<close>

text \<open>
  The invariant inside a transaction: the committed tables satisfy the schema, and so do the
  session rows the transaction sees.
\<close>

definition tx_ok :: "'x world \<Rightarrow> bool" where
  "tx_ok w \<longleftrightarrow> schema_ok w \<and> sessions_ok (user_tbl w) (visible_sessions w)"

definition unrevoked :: "session_entity \<Rightarrow> session_entity" where
  "unrevoked e = e\<lparr>se_revokedAt := None\<rparr>"

lemma unrevoked_sel [simp]:
  "se_id (unrevoked e) = se_id e" "se_userId (unrevoked e) = se_userId e"
  "se_refreshTokenHash (unrevoked e) = se_refreshTokenHash e"
  "se_replacedBySessionId (unrevoked e) = se_replacedBySessionId e"
  by (simp_all add: unrevoked_def)

lemma sessions_ok_unrevoked: "sessions_ok us (map unrevoked t) = sessions_ok us t"
proof -
  have "inj_on se_refreshTokenHash (set (map unrevoked t)) = inj_on se_refreshTokenHash (set t)"
    if d: "distinct (map se_id t)"
  proof -
    have "x = y" if "x \<in> set t" "y \<in> set t" "unrevoked x = unrevoked y" for x y
      using key_unique [OF d that(1,2)] arg_cong [OF that(3), of se_id] by simp
    then have i: "inj_on unrevoked (set t)" by (auto intro: inj_onI)
    show ?thesis
      using comp_inj_on_iff [OF i, of se_refreshTokenHash] by (simp add: comp_def)
  qed
  then show ?thesis
    unfolding sessions_ok_def by (auto simp: comp_def image_image)
qed

lemma unrevoked_upsert: "map unrevoked (upsert se_id r t) = upsert se_id (unrevoked r) (map unrevoked t)"
  by (auto simp: upsert_def image_image)

lemma unrevoked_fold:
  "map unrevoked (fold (upsert se_id) ps t) = fold (upsert se_id) (map unrevoked ps) (map unrevoked t)"
  by (induction ps arbitrary: t) (simp_all add: unrevoked_upsert)

lemma unrevoked_set_revoked_at [simp]:
  "map unrevoked (set_revoked_at tm p t) = map unrevoked t"
  by (simp add: set_revoked_at_def unrevoked_def)

lemma sessions_ok_set_revoked_at [simp]:
  "sessions_ok us (set_revoked_at tm p t) = sessions_ok us t"
  using sessions_ok_unrevoked [of us "set_revoked_at tm p t"] sessions_ok_unrevoked [of us t] by simp

lemma tx_ok_frame [simp]:
  "tx_ok (w\<lparr>ext := x\<rparr>) = tx_ok w" "tx_ok (w\<lparr>published := es\<rparr>) = tx_ok w"
  by (simp_all add: tx_ok_def visible_sessions_def split: option.split)

lemma tx_ok_begin: "schema_ok w \<Longrightarrow> tx_ok (in_transaction w)"
  by (simp add: tx_ok_def schema_ok_sessions)

lemma tx_ok_save [preserving]: "preserves tx_ok (tx_save e)"
proof (rule preservesI)
  fix w r w' assume ok: "tx_ok w" and run: "tx_save e w = (r, w')"
  show "tx_ok w'"
  proof (cases "check_session w (visible_sessions w) e")
    case None
    then have "sessions_ok (user_tbl w) (upsert se_id e (visible_sessions w))"
      using ok by (auto simp: tx_ok_def intro: sessions_ok_upsert)
    moreover have "visible_sessions w' = upsert se_id e (visible_sessions w)"
      "user_tbl w' = user_tbl w" "schema_ok w' = schema_ok w"
      using run None by (auto simp: tx_save_def visible_sessions_def split: option.splits)
    ultimately show ?thesis using ok by (simp add: tx_ok_def)
  qed (use ok run in \<open>simp add: tx_save_def\<close>)
qed

lemma tx_ok_revokeAll [preserving]:
  "preserves tx_ok (SessionTypeOrmWriteRepository_revokeAllByUserId (session_sql L) u)"
proof (rule preservesI)
  fix w r w' assume ok: "tx_ok w"
    and run: "SessionTypeOrmWriteRepository_revokeAllByUserId (session_sql L) u w = (r, w')"
  then obtain tm p x where w': "w' = w\<lparr>session_tbl := set_revoked_at tm p (session_tbl w), ext := x\<rparr>"
    by (auto simp: SessionTypeOrmWriteRepository_revokeAllByUserId_def session_sql_def
        split: prod.splits)
  have "sessions_ok us (visible_sessions w') = sessions_ok us (visible_sessions w)" for us
    using sessions_ok_unrevoked [of us "visible_sessions w'"]
      sessions_ok_unrevoked [of us "visible_sessions w"]
    by (auto simp: w' visible_sessions_def unrevoked_fold split: option.splits)
  moreover have "schema_ok w'"
    using ok schema_ok_set_sessions [of w] schema_ok_sessions [of w] by (simp add: w' tx_ok_def)
  ultimately show "tx_ok w'" using ok by (simp add: tx_ok_def w')
qed

lemma schema_transaction:
  assumes "preserves tx_ok m"
  shows "preserves schema_ok (transaction m)"
proof (rule preservesI)
  fix w r w' assume ok: "schema_ok w" and run: "transaction m w = (r, w')"
  obtain r1 w1 where m: "m (in_transaction w) = (r1, w1)" by fastforce
  with assms ok have "tx_ok w1" by (blast intro: tx_ok_begin dest: preservesD)
  with m run schema_ok_set_sessions [of w1 "visible_sessions w1"] show "schema_ok w'"
    by (cases r1) (auto simp: transaction_def tx_ok_def)
qed

lemma schema_rotate:
  assumes "\<And>current lk. preserves tx_ok (cb current lk)"
  shows "preserves schema_ok (SessionTypeOrmWriteRepository_rotate L (session_sql L) h cb)"
proof -
  have find: "preserves tx_ok (\<lambda>w. (Inr (find p (visible_sessions w)), w))" for p
    by (simp add: preserves_def)
  show ?thesis
    unfolding SessionTypeOrmWriteRepository_rotate_def session_sql_sel lockByRefreshTokenHash_def Let_def
    by (intro schema_transaction preserving find assms) simp_all
qed

lemma schema_session_store [preserving]:
  "preserves schema_ok (swr_save (session_write_repo L) a)"
  "preserves schema_ok (swr_revokeAllByUserId (session_write_repo L) u)"
proof -
  show "preserves schema_ok (swr_save (session_write_repo L) a)"
    by (auto simp: SessionTypeOrmWriteRepository_def intro!: preserving)
  show "preserves schema_ok (swr_revokeAllByUserId (session_write_repo L) u)"
    using schema_ok_set_sessions schema_ok_sessions
    by (fastforce simp: SessionTypeOrmWriteRepository_revokeAllByUserId_def session_sql_def
        preserves_def split: prod.splits)
qed

end
