(* ===== verification/Auth_Handlers.thy ===== *)
theory Auth_Handlers
  imports Session_Store
begin

text \<open>
  The application layer of the \<open>auth\<close> context (\<open>src/contexts/auth/application\<close>): its ports, the
  services that hash, generate, sign and verify tokens and reconcile the platform-admin flag, and
  the handlers of \<open>RegisterUser\<close>, \<open>LoginUser\<close> and \<open>RefreshSession\<close>. The handlers take the ports as
  records, as the classes take them in their constructors; \<open>Auth_Adapters\<close> provides them.
\<close>

section \<open>Configuration and ports\<close>

text \<open>The \<open>auth\<close> section of the configuration, as \<open>configService.get\<close> reads it.\<close>

record keycloak_config =
  kc_baseUrl :: string
  kc_realm :: string
  kc_clientId :: string
  kc_clientSecret :: string

record auth_config =
  ac_refreshTokenTtlDays :: int
  ac_platformAdminEmails :: "string list option"
  ac_keycloak :: keycloak_config

record IUserLookupResult =
  ulr_userId :: string
  ulr_email :: string
  ulr_platformAdmin :: bool

record 's IUserLookupPort =
  ulp_findByEmail :: "string \<Rightarrow> ('s, error, IUserLookupResult option) comp"
  ulp_findById :: "string \<Rightarrow> ('s, error, IUserLookupResult option) comp"

record 's ITenantMembershipLookupPort =
  tml_findMembershipsByUserId :: "string \<Rightarrow> ('s, error, membership_claim list) comp"

record IRegisterIdentityInput =
  ri_email :: string
  ri_password :: string
  ri_displayName :: "string option"

record 's IIdentityProviderPort =
  idp_registerIdentity :: "IRegisterIdentityInput \<Rightarrow> ('s, error, string) comp"
  idp_verifyCredentials :: "string \<Rightarrow> string \<Rightarrow> ('s, error, string) comp"

record IUserProvisioningInput =
  upi_externalId :: string
  upi_email :: string
  upi_displayName :: "string option"

record 's IUserProvisioningPort =
  upp_createUser :: "IUserProvisioningInput \<Rightarrow> ('s, error, string) comp"

record 's IUserPlatformAdminPort =
  pap_setPlatformAdmin :: "string \<Rightarrow> bool \<Rightarrow> ('s, error, unit) comp"

section \<open>Services\<close>

definition HashRefreshTokenService_execute :: "'x lib \<Rightarrow> string \<Rightarrow> string" where
  "HashRefreshTokenService_execute L rawToken = sha256_hex L rawToken"

definition GenerateRefreshTokenService_execute :: "'x lib \<Rightarrow> ('x, error, string) comp" where
  "GenerateRefreshTokenService_execute L = stepS (random_base64url L 32)"

definition TokenSignService_execute ::
  "'x lib \<Rightarrow> access_token_claims \<Rightarrow> ('x, error, string) comp" where
  "TokenSignService_execute L claims = jwt_sign L claims"

definition TokenVerifyService_execute ::
  "'x lib \<Rightarrow> string \<Rightarrow> ('x, error, access_token_claims) comp" where
  "TokenVerifyService_execute L token = jwt_verify L token"

text \<open>\<open>None\<close> is \<open>null\<close>: no change.\<close>

definition ReconcilePlatformAdminService_execute ::
  "string \<Rightarrow> bool \<Rightarrow> string list option \<Rightarrow> bool option" where
  "ReconcilePlatformAdminService_execute email currentPlatformAdmin platformAdminEmails =
     (case platformAdminEmails of
        None \<Rightarrow> None
      | Some emails \<Rightarrow>
          (let normalizedEmail = js_lower (js_trim email);
               shouldBeAdmin = (normalizedEmail \<in> set emails)
           in if shouldBeAdmin = currentPlatformAdmin then None else Some shouldBeAdmin))"

section \<open>Commands\<close>

record register_user_command =
  ru_email :: string
  ru_password :: string
  ru_displayName :: "string option"

definition new_RegisterUserCommand ::
  "'x lib \<Rightarrow> string \<Rightarrow> string \<Rightarrow> string option \<Rightarrow> ('s, error, register_user_command) comp" where
  "new_RegisterUserCommand L email password displayName =
     bindE (liftE (email_vo L email)) (\<lambda>e.
     bindE (liftE (password_vo L password)) (\<lambda>p.
     bindE (optE (\<lambda>d. liftE (string_vo L no_options d)) displayName) (\<lambda>d.
     ret \<lparr>ru_email = e, ru_password = p, ru_displayName = d\<rparr>)))"

record login_user_command =
  lu_email :: string
  lu_password :: string

definition new_LoginUserCommand ::
  "'x lib \<Rightarrow> string \<Rightarrow> string \<Rightarrow> ('s, error, login_user_command) comp" where
  "new_LoginUserCommand L email password =
     bindE (liftE (email_vo L email)) (\<lambda>e.
     bindE (liftE (LoginPasswordValueObject L password)) (\<lambda>p.
     ret \<lparr>lu_email = e, lu_password = p\<rparr>))"

record refresh_session_command =
  rf_refreshToken :: string

definition new_RefreshSessionCommand ::
  "'x lib \<Rightarrow> string \<Rightarrow> ('s, error, refresh_session_command) comp" where
  "new_RefreshSessionCommand L refreshToken =
     bindE (liftE (RefreshTokenValueObject L refreshToken)) (\<lambda>t. ret \<lparr>rf_refreshToken = t\<rparr>)"

section \<open>Handlers\<close>

definition RegisterUserCommandHandler_execute ::
  "'s IUserLookupPort \<Rightarrow> 's IIdentityProviderPort \<Rightarrow> 's IUserProvisioningPort \<Rightarrow>
   register_user_command \<Rightarrow> ('s, error, string) comp" where
  "RegisterUserCommandHandler_execute userLookup identityProvider userProvisioning command =
     bindE (ulp_findByEmail userLookup (ru_email command)) (\<lambda>existing.
     if existing \<noteq> None then throw (new_EmailAlreadyRegisteredException (ru_email command))
     else
       bindE (idp_registerIdentity identityProvider \<lparr>ri_email = ru_email command,
         ri_password = ru_password command, ri_displayName = ru_displayName command\<rparr>) (\<lambda>externalId.
       upp_createUser userProvisioning \<lparr>upi_externalId = externalId,
         upi_email = ru_email command, upi_displayName = ru_displayName command\<rparr>))"

record ILoginSessionResult =
  lr_accessToken :: string
  lr_refreshToken :: string

text \<open>\<open>Date.now() + refreshTokenTtlDays * 24 * 60 * 60 * 1000\<close>\<close>

definition expiry :: "auth_config \<Rightarrow> int \<Rightarrow> int" where
  "expiry cfg t = t + ac_refreshTokenTtlDays cfg * 24 * 60 * 60 * 1000"

definition new_session ::
  "'x lib \<Rightarrow> string \<Rightarrow> string \<Rightarrow> int \<Rightarrow> ('x, error, session_aggregate) comp" where
  "new_session L userId refreshTokenHash expiresAt =
     bindE (now L) (\<lambda>t.
     bindE (generate_uuid L) (\<lambda>id.
     SessionBuilder_build L (SessionBuilder_new\<lparr>sb_id := id, sb_userId := userId,
       sb_refreshTokenHash := refreshTokenHash, sb_expiresAt := Some expiresAt,
       sb_revokedAt := None, sb_replacedBySessionId := None, sb_createdAt := Some t,
       sb_updatedAt := Some t\<rparr>)))"

definition LoginUserCommandHandler_execute ::
  "'x lib \<Rightarrow> auth_config \<Rightarrow> 'x world IUserLookupPort \<Rightarrow> 'x world IIdentityProviderPort \<Rightarrow>
   'x world ITenantMembershipLookupPort \<Rightarrow> 'x world ISessionWriteRepository \<Rightarrow>
   'x world IUserPlatformAdminPort \<Rightarrow> login_user_command \<Rightarrow>
   ('x world, error, ILoginSessionResult) comp" where
  "LoginUserCommandHandler_execute L cfg userLookup identityProvider membershipLookup sessionRepo
      platformAdminPort command =
     bindE (catchE (idp_verifyCredentials identityProvider (lu_email command) (lu_password command))
       (\<lambda>_. throw new_InvalidCredentialsException)) (\<lambda>_.
     bindE (ulp_findByEmail userLookup (lu_email command)) (\<lambda>found.
     case found of
       None \<Rightarrow> throw new_InvalidCredentialsException
     | Some user \<Rightarrow>
       bindE (tml_findMembershipsByUserId membershipLookup (ulr_userId user)) (\<lambda>tenants.
       let reconciled = ReconcilePlatformAdminService_execute (ulr_email user)
             (ulr_platformAdmin user) (ac_platformAdminEmails cfg) in
       bindE (case reconciled of
           None \<Rightarrow> ret ()
         | Some flag \<Rightarrow> pap_setPlatformAdmin platformAdminPort (ulr_userId user) flag) (\<lambda>_.
       let effectivePlatformAdmin =
             (case reconciled of None \<Rightarrow> ulr_platformAdmin user | Some flag \<Rightarrow> flag) in
       bindE (outside (TokenSignService_execute L \<lparr>cl_sub = ulr_userId user,
         cl_email = ulr_email user, cl_platformAdmin = effectivePlatformAdmin,
         cl_tenants = tenants\<rparr>)) (\<lambda>accessToken.
       bindE (outside (GenerateRefreshTokenService_execute L)) (\<lambda>rawRefreshToken.
       let refreshTokenHash = HashRefreshTokenService_execute L rawRefreshToken in
       bindE (outside (now L)) (\<lambda>t.
       bindE (outside (new_session L (ulr_userId user) refreshTokenHash (expiry cfg t))) (\<lambda>session.
       bindE (swr_save sessionRepo session) (\<lambda>_.
       ret \<lparr>lr_accessToken = accessToken, lr_refreshToken = rawRefreshToken\<rparr>)))))))))"

text \<open>The callback that \<open>RefreshSessionCommandHandler\<close> passes to \<open>rotate\<close>.\<close>

definition refresh_callback ::
  "'x lib \<Rightarrow> 'x world ISessionWriteRepository \<Rightarrow> string \<Rightarrow> int \<Rightarrow> 'x world RotateSessionCallback" where
  "refresh_callback L sessionRepo refreshTokenHash expiresAt current findLockedById =
     (if SessionAggregate_isRevoked current then
        bindE (outside (SessionAggregate_markReuseDetected L current)) (\<lambda>_.
        bindE (swr_revokeAllByUserId sessionRepo (sg_userId current)) (\<lambda>_.
        throw new_RefreshTokenReuseDetectedException))
      else
        bindE (outside (now L)) (\<lambda>t.
        if SessionAggregate_isExpired current t then throw new_InvalidRefreshTokenException
        else
          bindE (outside (new_session L (sg_userId current) refreshTokenHash expiresAt)) (\<lambda>created.
          bindE (outside (SessionAggregate_revoke L (sg_id created) current)) (\<lambda>revoked.
          ret \<lparr>rr_revoked = revoked, rr_created = created\<rparr>))))"

text \<open>What follows the rotation: the access token of the session's user.\<close>

definition refresh_access_token ::
  "'x lib \<Rightarrow> 'x world IUserLookupPort \<Rightarrow> 'x world ITenantMembershipLookupPort \<Rightarrow> string \<Rightarrow>
   ('x world, error, string) comp" where
  "refresh_access_token L userLookup membershipLookup userId =
     bindE (ulp_findById userLookup userId) (\<lambda>found.
     case found of
       None \<Rightarrow> throw new_InvalidRefreshTokenException
     | Some user \<Rightarrow>
       bindE (tml_findMembershipsByUserId membershipLookup (ulr_userId user)) (\<lambda>tenants.
       outside (TokenSignService_execute L \<lparr>cl_sub = ulr_userId user, cl_email = ulr_email user,
         cl_platformAdmin = ulr_platformAdmin user, cl_tenants = tenants\<rparr>)))"

definition RefreshSessionCommandHandler_execute ::
  "'x lib \<Rightarrow> auth_config \<Rightarrow> 'x world ISessionWriteRepository \<Rightarrow> 'x world IUserLookupPort \<Rightarrow>
   'x world ITenantMembershipLookupPort \<Rightarrow> refresh_session_command \<Rightarrow>
   ('x world, error, ILoginSessionResult) comp" where
  "RefreshSessionCommandHandler_execute L cfg sessionRepo userLookup membershipLookup command =
     (let presentedHash = HashRefreshTokenService_execute L (rf_refreshToken command) in
      bindE (outside (GenerateRefreshTokenService_execute L)) (\<lambda>rawRefreshToken.
      let refreshTokenHash = HashRefreshTokenService_execute L rawRefreshToken in
      bindE (outside (now L)) (\<lambda>t.
      bindE (swr_rotate sessionRepo presentedHash
        (refresh_callback L sessionRepo refreshTokenHash (expiry cfg t))) (\<lambda>rotateResult.
      case rotateResult of
        None \<Rightarrow> throw new_InvalidRefreshTokenException
      | Some rotated \<Rightarrow>
        bindE (refresh_access_token L userLookup membershipLookup (sg_userId (rr_created rotated)))
          (\<lambda>accessToken.
        ret \<lparr>lr_accessToken = accessToken, lr_refreshToken = rawRefreshToken\<rparr>)))))"

end
