(* ===== verification/Session_Chain.thy ===== *)
theory Session_Chain
  imports Auth_Handlers
begin

text \<open>
  What the refresh-token rotation promises. The abstract machine keeps, for every token hash, who
  owns the token, when it expires and whether it can still be redeemed; \<open>redeem\<close> and \<open>issue\<close> are its
  two operations. \<open>tokens\<close> reads this map off the session table. In the context of the contract
  \<open>session_store\<close>, the refresh handler is computed on each of its branches and shown to
  implement \<open>redeem\<close>; the properties are the instances for the TypeORM repository.
\<close>

section \<open>The abstract token machine\<close>

record token =
  tk_user :: string
  tk_expires :: int
  tk_live :: bool

type_synonym token_map = "string \<Rightarrow> token option"

datatype redeem_result = Redeemed string | Reused string | Rejected

definition revoke_user :: "string \<Rightarrow> token_map \<Rightarrow> token_map" where
  "revoke_user u \<sigma> = (\<lambda>h. map_option (\<lambda>k. if tk_user k = u then k\<lparr>tk_live := False\<rparr> else k) (\<sigma> h))"

definition issue :: "string \<Rightarrow> string \<Rightarrow> int \<Rightarrow> token_map \<Rightarrow> token_map" where
  "issue h u expires \<sigma> = \<sigma>(h \<mapsto> \<lparr>tk_user = u, tk_expires = expires, tk_live = True\<rparr>)"

text \<open>Redeem the token \<open>h\<close> at time \<open>t\<close>; its successor is \<open>h'\<close>, which expires at \<open>expires\<close>.\<close>

definition redeem :: "string \<Rightarrow> string \<Rightarrow> int \<Rightarrow> int \<Rightarrow> token_map \<Rightarrow> redeem_result \<times> token_map" where
  "redeem h h' t expires \<sigma> = (case \<sigma> h of
       None \<Rightarrow> (Rejected, \<sigma>)
     | Some k \<Rightarrow>
         if \<not> tk_live k then (Reused (tk_user k), revoke_user (tk_user k) \<sigma>)
         else if tk_expires k \<le> t then (Rejected, \<sigma>)
         else (Redeemed (tk_user k), issue h' (tk_user k) expires (\<sigma>(h \<mapsto> k\<lparr>tk_live := False\<rparr>))))"

text \<open>A token that was redeemed or revoked.\<close>

definition spent :: "token_map \<Rightarrow> string \<Rightarrow> bool" where
  "spent \<sigma> h \<longleftrightarrow> (\<exists>k. \<sigma> h = Some k \<and> \<not> tk_live k)"

lemma spent_revoke_user: "spent \<sigma> h \<Longrightarrow> spent (revoke_user u \<sigma>) h"
  by (cases "\<sigma> h") (auto simp: spent_def revoke_user_def)

lemma spent_issue: "spent \<sigma> h \<Longrightarrow> \<sigma> h' = None \<Longrightarrow> spent (issue h' u x \<sigma>) h"
  by (auto simp: spent_def issue_def)

lemma spent_redeem:
  assumes "spent \<sigma> h" and "\<sigma> h' = None"
  shows "spent (snd (redeem h0 h' t x \<sigma>)) h"
proof (cases "\<sigma> h0")
  case (Some k)
  have "spent (\<sigma>(h0 \<mapsto> k\<lparr>tk_live := False\<rparr>)) h" using assms(1) by (auto simp: spent_def)
  moreover have "(\<sigma>(h0 \<mapsto> k\<lparr>tk_live := False\<rparr>)) h' = None" using assms(2) Some by auto
  ultimately show ?thesis
    using assms Some by (auto simp: redeem_def intro: spent_issue spent_revoke_user)
qed (use assms in \<open>simp add: redeem_def\<close>)

lemma redeem_spends: "redeem h h' t x \<sigma> = (Redeemed u, \<sigma>') \<Longrightarrow> h' \<noteq> h \<Longrightarrow> spent \<sigma>' h"
  by (auto simp: redeem_def spent_def issue_def split: option.splits if_splits)

lemma spent_not_redeemed: "spent \<sigma> h \<Longrightarrow> fst (redeem h h' t x \<sigma>) \<noteq> Redeemed u"
  by (auto simp: spent_def redeem_def)

section \<open>The token map of a session table\<close>

definition token_of :: "session_entity \<Rightarrow> token" where
  "token_of e = \<lparr>tk_user = se_userId e, tk_expires = se_refreshTokenExpiresAt e,
     tk_live = (se_revokedAt e = None)\<rparr>"

definition tokens :: "session_entity list \<Rightarrow> token_map" where
  "tokens rs = (\<lambda>h. map_option token_of (find (\<lambda>e. se_refreshTokenHash e = h) rs))"

lemma find_map: "find P (map f xs) = map_option f (find (\<lambda>x. P (f x)) xs)"
  by (induction xs) auto

lemma find_append: "find P (xs @ ys) = (case find P xs of None \<Rightarrow> find P ys | Some x \<Rightarrow> Some x)"
  by (induction xs) auto

lemma find_hash_upsert:
  assumes "\<And>x. x \<in> set rs \<Longrightarrow> se_id x = se_id r \<longleftrightarrow> se_refreshTokenHash x = se_refreshTokenHash r"
  shows "find (\<lambda>e. se_refreshTokenHash e = h) (upsert se_id r rs) =
    (if h = se_refreshTokenHash r then Some r else find (\<lambda>e. se_refreshTokenHash e = h) rs)"
proof (cases "se_id r \<in> se_id ` set rs")
  case True
  have "find (\<lambda>e. se_refreshTokenHash e = h) (map (\<lambda>r0. if se_id r0 = se_id r then r else r0) rs) =
      map_option (\<lambda>r0. if se_id r0 = se_id r then r else r0) (find (\<lambda>e. se_refreshTokenHash e = h) rs)"
    unfolding find_map by (rule arg_cong [where f = "map_option _"], rule find_cong [OF refl])
      (use assms in auto)
  moreover obtain x where x: "x \<in> set rs" "se_id x = se_id r" using True by auto
  moreover have "find (\<lambda>e. se_refreshTokenHash e = h) rs \<noteq> None" if "h = se_refreshTokenHash r"
    using x assms [OF x(1)] that by (auto simp: find_None_iff)
  ultimately show ?thesis
    using True assms
    by (cases "find (\<lambda>e. se_refreshTokenHash e = h) rs")
      (auto simp: upsert_def dest: find_Some_iff_ex)
next
  case False
  then have "\<forall>x \<in> set rs. se_refreshTokenHash x \<noteq> se_refreshTokenHash r"
    using assms by (metis image_eqI)
  then have "find (\<lambda>e. se_refreshTokenHash e = se_refreshTokenHash r) rs = None"
    by (auto simp: find_None_iff)
  with False show ?thesis by (auto simp: upsert_def find_append split: option.splits)
qed

lemma tokens_upsert:
  assumes "\<And>x. x \<in> set rs \<Longrightarrow> se_id x = se_id r \<longleftrightarrow> se_refreshTokenHash x = se_refreshTokenHash r"
  shows "tokens (upsert se_id r rs) = (tokens rs)(se_refreshTokenHash r \<mapsto> token_of r)"
  using find_hash_upsert [of rs r] assms by (auto simp: tokens_def fun_eq_iff)

lemma tokens_revoke_user:
  "tokens (set_revoked_at t (\<lambda>e. se_userId e = u \<and> se_revokedAt e = None) rs) =
     revoke_user u (tokens rs)"
proof (rule ext)
  fix h
  show "tokens (set_revoked_at t (\<lambda>e. se_userId e = u \<and> se_revokedAt e = None) rs) h =
      revoke_user u (tokens rs) h"
    by (induction rs) (auto simp: tokens_def set_revoked_at_def revoke_user_def token_of_def)
qed

section \<open>The refresh handler on each branch\<close>

definition session_of_row :: "session_entity \<Rightarrow> session_aggregate" where
  "session_of_row e = \<lparr>sg_id = se_id e, sg_createdAt = se_createdAt e,
     sg_updatedAt = se_updatedAt e, sg_userId = se_userId e,
     sg_refreshTokenHash = se_refreshTokenHash e, sg_expiresAt = se_refreshTokenExpiresAt e,
     sg_revokedAt = se_revokedAt e, sg_replacedBySessionId = se_replacedBySessionId e\<rparr>"

text \<open>Stored sessions are read back as they were written.\<close>

definition sessions_stored :: "'x lib \<Rightarrow> 'x world \<Rightarrow> bool" where
  "sessions_stored L w \<longleftrightarrow>
     (\<forall>e \<in> set (session_tbl w). session_from_row L e = Inr (session_of_row e))"

lemma session_of_row_toEntity [simp]:
  "session_of_row (SessionTypeOrmMapper_toEntity a) = a"
  "SessionTypeOrmMapper_toEntity (session_of_row e) = e"
  by (simp_all add: session_of_row_def SessionTypeOrmMapper_toEntity_def
      SessionAggregate_toPrimitives_def Let_def)

lemma sessions_storedD:
  "sessions_stored L w \<Longrightarrow> e \<in> set (session_tbl w) \<Longrightarrow> session_from_row L e = Inr (session_of_row e)"
  by (simp add: sessions_stored_def)

lemma new_session_wf:
  assumes "new_date L x = (t, x1)" and "uuid_generate L x1 = (i, x2)"
    and "session_wf L \<lparr>sg_id = i, sg_createdAt = t, sg_updatedAt = t, sg_userId = u,
      sg_refreshTokenHash = h, sg_expiresAt = exp, sg_revokedAt = None,
      sg_replacedBySessionId = None\<rparr>"
  shows "new_session L u h exp x = (Inr \<lparr>sg_id = i, sg_createdAt = t, sg_updatedAt = t,
    sg_userId = u, sg_refreshTokenHash = h, sg_expiresAt = exp, sg_revokedAt = None,
    sg_replacedBySessionId = None\<rparr>, x2)"
  using assms
  by (simp add: new_session_def bindE_def now_run generate_uuid_run session_build_defs session_wf_def
      truthy_def)

context session_store
begin

lemma callback_pending:
  assumes "refresh_callback L store h expires current lk (in_transaction w) = (r, w1)"
  shows "tx_pending w1 = Some []"
proof -
  have "preserves (\<lambda>w. tx_pending w = Some []) (swr_revokeAllByUserId store u)" for u
    by (auto simp: preserves_def revoke_all_law split: prod.splits)
  then have "preserves (\<lambda>w. tx_pending w = Some []) (refresh_callback L store h expires current lk)"
    unfolding refresh_callback_def by (intro preserving) simp_all
  from preservesD [OF this _ assms] show ?thesis by simp
qed

lemma refresh_run:
  assumes "random_base64url L 32 (ext w) = (raw, x1)" and "new_date L x1 = (t, x2)"
    and "swr_rotate store (sha256_hex L (rf_refreshToken c))
      (refresh_callback L store (sha256_hex L raw) (expiry cfg t)) (w\<lparr>ext := x2\<rparr>) = (res, w1)"
  shows "RefreshSessionCommandHandler_execute L cfg store ul ml c w = (case res of
      Inl err \<Rightarrow> (Inl err, w1)
    | Inr None \<Rightarrow> (Inl new_InvalidRefreshTokenException, w1)
    | Inr (Some rotated) \<Rightarrow>
        bindE (refresh_access_token L ul ml (sg_userId (rr_created rotated))) (\<lambda>accessToken.
        ret \<lparr>lr_accessToken = accessToken, lr_refreshToken = raw\<rparr>) w1)"
  using assms
  by (auto simp: RefreshSessionCommandHandler_execute_def HashRefreshTokenService_execute_def
      GenerateRefreshTokenService_execute_def outside_run stepS_run now_run bindE_def
      split: sum.split option.split)

lemma refresh_spec:
  assumes "random_base64url L 32 (ext w) = (raw, x1)" and "new_date L x1 = (t, x2)"
    and "tx_pending w = None"
  obtains res w1 where
    "rotate_spec L (sha256_hex L (rf_refreshToken c))
      (refresh_callback L store (sha256_hex L raw) (expiry cfg t)) (w\<lparr>ext := x2\<rparr>) res w1"
    "RefreshSessionCommandHandler_execute L cfg store ul ml c w = (case res of
      Inl err \<Rightarrow> (Inl err, w1)
    | Inr None \<Rightarrow> (Inl new_InvalidRefreshTokenException, w1)
    | Inr (Some rotated) \<Rightarrow>
        bindE (refresh_access_token L ul ml (sg_userId (rr_created rotated))) (\<lambda>accessToken.
        ret \<lparr>lr_accessToken = accessToken, lr_refreshToken = raw\<rparr>) w1)"
proof -
  let ?cb = "refresh_callback L store (sha256_hex L raw) (expiry cfg t)"
  obtain res w1 where rot: "swr_rotate store (sha256_hex L (rf_refreshToken c)) ?cb (w\<lparr>ext := x2\<rparr>) = (res, w1)"
    by fastforce
  have "rotate_spec L (sha256_hex L (rf_refreshToken c)) ?cb (w\<lparr>ext := x2\<rparr>) res w1"
    by (rule rotate_law [OF _ _ rot]) (use assms(3) in \<open>auto dest: callback_pending\<close>)
  with that refresh_run [OF assms(1,2) rot] show ?thesis by blast
qed

lemma refresh_unknown:
  assumes "random_base64url L 32 (ext w) = (raw, x1)" and "new_date L x1 = (t, x2)"
    and "tx_pending w = None"
    and none: "find (\<lambda>e. se_refreshTokenHash e = sha256_hex L (rf_refreshToken c)) (session_tbl w) = None"
  shows "RefreshSessionCommandHandler_execute L cfg store ul ml c w =
    (Inl new_InvalidRefreshTokenException, w\<lparr>ext := x2\<rparr>)"
  by (rule refresh_spec [OF assms(1-3), where c = c and cfg = cfg and ul = ul and ml = ml],
      erule rotate_specE) (use none in simp_all)

lemma refresh_reuse:
  assumes "random_base64url L 32 (ext w) = (raw, x1)" and "new_date L x1 = (t, x2)"
    and tx: "tx_pending w = None" and st: "sessions_stored L w"
    and e: "find (\<lambda>e. se_refreshTokenHash e = sha256_hex L (rf_refreshToken c)) (session_tbl w) = Some e"
    and rev: "se_revokedAt e \<noteq> None"
    and x3: "touch L (se_updatedAt e) x2 = (u, x3)" and x4: "sql_now L x3 = (t', x4)"
  shows "RefreshSessionCommandHandler_execute L cfg store ul ml c w =
    (Inl new_RefreshTokenReuseDetectedException, w\<lparr>session_tbl := set_revoked_at (driver_date t')
       (\<lambda>e'. se_userId e' = se_userId e \<and> se_revokedAt e' = None) (session_tbl w), ext := x4\<rparr>)"
proof -
  have rd: "session_from_row L e = Inr (session_of_row e)"
    using st find_Some_iff_ex [OF e] by (auto dest: sessions_storedD)
  have cb: "refresh_callback L store h' exp (session_of_row e) lk (in_transaction (w\<lparr>ext := x2\<rparr>)) =
      (Inl new_RefreshTokenReuseDetectedException, w\<lparr>session_tbl := set_revoked_at (driver_date t')
       (\<lambda>e'. se_userId e' = se_userId e \<and> se_revokedAt e' = None) (session_tbl w), ext := x4,
       tx_pending := Some []\<rparr>)" for h' exp lk
    using rev x3 x4
    by (simp add: refresh_callback_def SessionAggregate_isRevoked_def session_of_row_def bindE_def
        SessionAggregate_markReuseDetected_def outside_run touched_run revoke_all_law)
  show ?thesis
    by (rule refresh_spec [OF assms(1,2) tx, where c = c and cfg = cfg and ul = ul and ml = ml],
        erule rotate_specE) (use e rd cb tx in simp_all)
qed

lemma refresh_expired:
  assumes "random_base64url L 32 (ext w) = (raw, x1)" and "new_date L x1 = (t, x2)"
    and tx: "tx_pending w = None" and st: "sessions_stored L w"
    and e: "find (\<lambda>e. se_refreshTokenHash e = sha256_hex L (rf_refreshToken c)) (session_tbl w) = Some e"
    and live: "se_revokedAt e = None"
    and x3: "new_date L x2 = (t', x3)" and exp: "se_refreshTokenExpiresAt e \<le> t'"
  shows "RefreshSessionCommandHandler_execute L cfg store ul ml c w =
    (Inl new_InvalidRefreshTokenException, w\<lparr>ext := x3\<rparr>)"
proof -
  have rd: "session_from_row L e = Inr (session_of_row e)"
    using st find_Some_iff_ex [OF e] by (auto dest: sessions_storedD)
  have cb: "refresh_callback L store h' ex (session_of_row e) lk (in_transaction (w\<lparr>ext := x2\<rparr>)) =
      (Inl new_InvalidRefreshTokenException, w\<lparr>ext := x3, tx_pending := Some []\<rparr>)" for h' ex lk
    using live x3 exp
    by (simp add: refresh_callback_def SessionAggregate_isRevoked_def SessionAggregate_isExpired_def
        session_of_row_def bindE_def outside_run now_run)
  show ?thesis
    by (rule refresh_spec [OF assms(1,2) tx, where c = c and cfg = cfg and ul = ul and ml = ml],
        erule rotate_specE) (use e rd cb tx in simp_all)
qed

text \<open>
  The successful rotation: \<open>created\<close> is the successor, \<open>consumed\<close> the presented session after it.
\<close>

lemma refresh_rotates:
  assumes "random_base64url L 32 (ext w) = (raw, x1)" and "new_date L x1 = (t, x2)"
    and tx: "tx_pending w = None" and ok: "schema_ok w" and st: "sessions_stored L w"
    and e: "find (\<lambda>e. se_refreshTokenHash e = sha256_hex L (rf_refreshToken c)) (session_tbl w) = Some e"
    and live: "se_revokedAt e = None"
    and x3: "new_date L x2 = (t1, x3)" and exp: "t1 < se_refreshTokenExpiresAt e"
    and x4: "new_date L x3 = (t2, x4)" and x5: "uuid_generate L x4 = (i, x5)"
    and x6: "new_date L x5 = (t3, x6)" and x7: "touch L (se_updatedAt e) x6 = (u, x7)"
    and created: "created = \<lparr>sg_id = i, sg_createdAt = t2, sg_updatedAt = t2, sg_userId = se_userId e,
      sg_refreshTokenHash = sha256_hex L raw, sg_expiresAt = expiry cfg t, sg_revokedAt = None,
      sg_replacedBySessionId = None\<rparr>"
    and consumed: "consumed = (session_of_row e)\<lparr>sg_revokedAt := Some t3,
      sg_replacedBySessionId := Some i, sg_updatedAt := u\<rparr>"
    and wf: "session_wf L created" "session_wf L consumed"
    and fresh: "i \<notin> se_id ` set (session_tbl w)"
      "sha256_hex L raw \<notin> se_refreshTokenHash ` set (session_tbl w)"
    and hash: "\<And>s. length (sha256_hex L s) = 64"
  shows "RefreshSessionCommandHandler_execute L cfg store ul ml c w =
    bindE (refresh_access_token L ul ml (se_userId e)) (\<lambda>accessToken.
      ret \<lparr>lr_accessToken = accessToken, lr_refreshToken = raw\<rparr>)
    (w\<lparr>session_tbl := upsert se_id (SessionTypeOrmMapper_toEntity consumed)
        (upsert se_id (SessionTypeOrmMapper_toEntity created) (session_tbl w)), ext := x7\<rparr>)"
proof -
  let ?c = "SessionTypeOrmMapper_toEntity created"
  let ?r = "SessionTypeOrmMapper_toEntity consumed"
  let ?w1 = "w\<lparr>ext := x7, tx_pending := Some []\<rparr>"
  from find_Some_iff_ex [OF e] have em: "e \<in> set (session_tbl w)"
    and eh: "se_refreshTokenHash e = sha256_hex L (rf_refreshToken c)" by simp_all
  have rd: "session_from_row L e = Inr (session_of_row e)"
    using st em by (rule sessions_storedD)
  have cb: "refresh_callback L store (sha256_hex L raw) (expiry cfg t) (session_of_row e) lk
      (in_transaction (w\<lparr>ext := x2\<rparr>)) = (Inr \<lparr>rr_revoked = consumed, rr_created = created\<rparr>, ?w1)" for lk
    using live x3 exp x6 x7 new_session_wf [OF x4 x5, of "se_userId e" "sha256_hex L raw" "expiry cfg t"]
      wf(1)
    by (simp add: refresh_callback_def SessionAggregate_isRevoked_def SessionAggregate_isExpired_def
        SessionAggregate_revoke_def session_of_row_def bindE_def outside_run now_run touched_run
        created consumed)
  have ids: "se_id ?c = i" "se_id ?r = se_id e" "se_refreshTokenHash ?r = se_refreshTokenHash e"
    "se_refreshTokenHash ?c = sha256_hex L raw" "se_userId ?c = se_userId e" "se_userId ?r = se_userId e"
    by (simp_all add: created consumed session_of_row_def)
  have user: "se_userId e \<in> ue_id ` set (user_tbl w)"
    using ok em by (auto simp: schema_ok_def)
  have free: "\<forall>x \<in> set (session_tbl w). se_id x \<noteq> i \<and> se_refreshTokenHash x \<noteq> sha256_hex L raw"
    using fresh by force
  have cc: "check_session w (session_tbl w) ?c = None"
    using free hash [of raw] user ids by (auto simp: check_session_def created)
  have inj: "x = e" if "x \<in> set (session_tbl w)" "se_refreshTokenHash x = se_refreshTokenHash e" for x
    using ok that em by (auto simp: schema_ok_def dest: inj_onD)
  have hne: "sha256_hex L raw \<noteq> se_refreshTokenHash e" using fresh(2) em by auto
  have cr: "check_session w (upsert se_id ?c (session_tbl w)) ?r = None"
    using hash [of "rf_refreshToken c"] user ids hne inj eh free
    by (auto simp: check_session_def set_upsert upsert_keys consumed session_of_row_def)
  have same: "w\<lparr>ext := x7, session_tbl := tbl, tx_pending := None\<rparr> =
      w\<lparr>session_tbl := tbl, ext := x7\<rparr>" for tbl
    using tx by (cases w) simp
  have cu: "sg_userId created = se_userId e" by (simp add: created)
  have rows: "session_from_row L ?c = Inr created" "session_from_row L ?r = Inr consumed"
    using wf by (simp_all add: session_wf_row)
  have "RefreshSessionCommandHandler_execute L cfg store ul ml c w =
      bindE (refresh_access_token L ul ml (se_userId e)) (\<lambda>accessToken.
        ret \<lparr>lr_accessToken = accessToken, lr_refreshToken = raw\<rparr>)
      (w\<lparr>ext := x7, session_tbl := upsert se_id ?r (upsert se_id ?c (session_tbl w)),
         tx_pending := None\<rparr>)"
    by (rule refresh_spec [OF assms(1,2) tx, where c = c and cfg = cfg and ul = ul and ml = ml],
        erule rotate_specE)
      (use e rd cb tx cc cr rows cu in auto)
  then show ?thesis by (simp only: same)
qed

end

end
