(* ===== verification/Session_Refinement.thy ===== *)
theory Session_Refinement
  imports Session_Chain
begin

text \<open>
  The refresh and login handlers implement the abstract token machine, for every outcome: the
  invariant \<open>session_inv\<close> of the stored sessions, the outcome of the rotation, and the runs of a
  service that handles any sequence of requests. The locale \<open>auth_ports\<close> extends the contract of
  the session port with what the handlers rely on of the other ports; it is interpreted on the
  adapters in the theory \<open>Auth_Adapters\<close>.
\<close>

section \<open>Documented behaviour of the outside world\<close>

text \<open>
  \<open>F x\<close> is the set of identifiers that the generator may still give in state \<open>x\<close>: it gives each at
  most once, a valid one, and no other call adds any. A SHA-256 digest is 64 hexadecimal digits.
  A UUID is not empty, and a validated one is accepted again unchanged.
\<close>

definition id_supply :: "'x lib \<Rightarrow> ('x \<Rightarrow> string set) \<Rightarrow> bool" where
  "id_supply L F \<longleftrightarrow>
     (\<forall>x. fst (uuid_generate L x) \<in> F x \<and>
        F (snd (uuid_generate L x)) \<subseteq> F x - {fst (uuid_generate L x)} \<and>
        fst (uuid_generate L x) \<noteq> [] \<and>
        uuid_vo L (fst (uuid_generate L x)) = Inr (fst (uuid_generate L x))) \<and>
     (\<forall>x. F (snd (new_date L x)) \<subseteq> F x) \<and> (\<forall>x u. F (snd (touch L u x)) \<subseteq> F x) \<and>
     (\<forall>x n. F (snd (random_base64url L n x)) \<subseteq> F x) \<and>
     (\<forall>x c. F (snd (jwt_sign L c x)) \<subseteq> F x) \<and> (\<forall>x t. F (snd (jwt_verify L t x)) \<subseteq> F x) \<and>
     (\<forall>x. F (snd (sql_now L x)) \<subseteq> F x) \<and> (\<forall>x r. F (snd (http_post L r x)) \<subseteq> F x)"

definition hash_ok :: "'x lib \<Rightarrow> bool" where
  "hash_ok L \<longleftrightarrow> (\<forall>s. length (sha256_hex L s) = 64 \<and>
     RefreshTokenHashValueObject L (sha256_hex L s) = Inr (sha256_hex L s))"

definition uuid_ok :: "'x lib \<Rightarrow> bool" where
  "uuid_ok L \<longleftrightarrow> (\<forall>s v. uuid_vo L s = Inr v \<longrightarrow> v \<noteq> [] \<and> uuid_vo L v = Inr v)"

definition id_decreasing :: "('x \<Rightarrow> string set) \<Rightarrow> ('x, error, 'a) comp \<Rightarrow> bool" where
  "id_decreasing F m \<longleftrightarrow> (\<forall>x. F (snd (m x)) \<subseteq> F x)"

lemma id_decreasingD: "id_decreasing F m \<Longrightarrow> m x = (r, x') \<Longrightarrow> F x' \<subseteq> F x"
  by (metis id_decreasing_def snd_conv)

lemma id_decreasing_bindE [preserving]:
  assumes "id_decreasing F m" and "\<And>a. id_decreasing F (k a)"
  shows "id_decreasing F (bindE m k)"
  unfolding id_decreasing_def
proof
  fix x
  obtain r x1 where m: "m x = (r, x1)" by fastforce
  show "F (snd (bindE m k x)) \<subseteq> F x"
    using id_decreasingD [OF assms(1) m] assms(2) m
    by (cases r) (auto simp: bindE_def id_decreasing_def)
qed

lemma id_decreasing_basic [preserving]:
  "id_decreasing F (Pair r)" "id_decreasing F (ret a)" "id_decreasing F (throw e)"
  "id_decreasing F (liftE s)"
  by (simp_all add: id_decreasing_def)

lemma id_decreasing_cases [preserving]:
  "id_decreasing F m \<Longrightarrow> id_decreasing F n \<Longrightarrow> id_decreasing F (if b then m else n)"
  "id_decreasing F m \<Longrightarrow> (\<And>x. id_decreasing F (k x)) \<Longrightarrow>
     id_decreasing F (case z of None \<Rightarrow> m | Some x \<Rightarrow> k x)"
  "(\<And>x. id_decreasing F (k x)) \<Longrightarrow> id_decreasing F (optE k z)"
  by (auto simp: optE_def split: option.split intro!: id_decreasing_bindE id_decreasing_basic)

lemma id_supply_calls:
  assumes "id_supply L F"
  shows "id_decreasing F (now L)" "id_decreasing F (generate_uuid L)" "id_decreasing F (touched L u)"
    "id_decreasing F (GenerateRefreshTokenService_execute L)"
    "id_decreasing F (TokenSignService_execute L c)" "id_decreasing F (TokenVerifyService_execute L t)"
    "id_decreasing F (date_or_now L d)"
  using assms
  by (auto simp: id_supply_def id_decreasing_def now_def generate_uuid_def touched_def stepS_run
      GenerateRefreshTokenService_execute_def TokenSignService_execute_def
      TokenVerifyService_execute_def date_or_now_def split: option.split)

section \<open>The invariant of the stored sessions\<close>

definition ids_spent :: "('x \<Rightarrow> string set) \<Rightarrow> 'x world \<Rightarrow> bool" where
  "ids_spent F w \<longleftrightarrow> (\<forall>e \<in> set (session_tbl w). se_id e \<notin> F (ext w))"

definition session_inv :: "'x lib \<Rightarrow> ('x \<Rightarrow> string set) \<Rightarrow> 'x world \<Rightarrow> bool" where
  "session_inv L F w \<longleftrightarrow>
     tx_pending w = None \<and> schema_ok w \<and> sessions_stored L w \<and> ids_spent F w"

lemma session_inv_ext: "session_inv L F w \<Longrightarrow> F x \<subseteq> F (ext w) \<Longrightarrow> session_inv L F (w\<lparr>ext := x\<rparr>)"
  by (auto simp: session_inv_def sessions_stored_def ids_spent_def)

text \<open>A new session: its outcome, whatever the validators say.\<close>

lemma new_session_outcome:
  assumes L: "id_supply L F" and U: "uuid_ok L" and run: "new_session L u h exp x = (r, x')"
    and h: "RefreshTokenHashValueObject L h = Inr h"
  obtains "F x' \<subseteq> F x" and "isl r"
  | i t v a where "F x' \<subseteq> F x" "i \<in> F x" "i \<notin> F x'" "i \<noteq> []" "uuid_vo L i = Inr i"
      "uuid_vo L u = Inr v" "r = Inr a" "session_wf L a"
      "a = \<lparr>sg_id = i, sg_createdAt = t, sg_updatedAt = t, sg_userId = v,
        sg_refreshTokenHash = h, sg_expiresAt = exp, sg_revokedAt = None,
        sg_replacedBySessionId = None\<rparr>"
proof -
  obtain t x1 where t: "new_date L x = (t, x1)" by fastforce
  obtain i x2 where i: "uuid_generate L x1 = (i, x2)" by fastforce
  have F: "F x1 \<subseteq> F x" "i \<in> F x1" "F x2 \<subseteq> F x1 - {i}" "i \<noteq> []" "uuid_vo L i = Inr i"
    using L t i unfolding id_supply_def by (metis fst_conv snd_conv)+
  define a where "a v = \<lparr>sg_id = i, sg_createdAt = t, sg_updatedAt = t, sg_userId = v,
        sg_refreshTokenHash = h, sg_expiresAt = exp, sg_revokedAt = None,
        sg_replacedBySessionId = None\<rparr>" for v
  have "x' = x2 \<and> (isl r \<or> (\<exists>v. uuid_vo L u = Inr v \<and> r = Inr (a v) \<and> session_wf L (a v)))"
    using run t i U h F(5)
    by (cases "uuid_vo L u")
      (auto simp: new_session_def bindE_def now_run generate_uuid_run session_build_defs truthy_def
        a_def session_wf_def uuid_ok_def split: sum.splits if_splits)
  then show thesis
  proof (elim conjE disjE exE)
    assume "x' = x2" "isl r"
    with F show thesis by (intro that(1)) auto
  next
    fix v assume "x' = x2" "uuid_vo L u = Inr v" "r = Inr (a v)" "session_wf L (a v)"
    with F show thesis by (intro that(2) [of i v "a v" t]) (auto simp: a_def)
  qed
qed

lemma session_from_row_revoked:
  assumes "session_from_row L e = Inr (session_of_row e)"
  shows "session_from_row L (e\<lparr>se_revokedAt := z\<rparr>) = Inr (session_of_row (e\<lparr>se_revokedAt := z\<rparr>))"
  using assms
  by (cases "truthy (se_replacedBySessionId e)")
    (auto simp: session_from_row_def session_build_defs bindE_def session_of_row_def
      split: sum.splits if_splits)

lemma session_from_row_stable:
  assumes "session_from_row L (SessionTypeOrmMapper_toEntity a) = Inr a'"
    and "uuid_vo L (sg_id a) = Inr (sg_id a)" "uuid_vo L (sg_userId a) = Inr (sg_userId a)"
    and "RefreshTokenHashValueObject L (sg_refreshTokenHash a) = Inr (sg_refreshTokenHash a)"
    and "\<And>j. sg_replacedBySessionId a = Some j \<Longrightarrow> j \<noteq> [] \<and> uuid_vo L j = Inr j"
  shows "session_from_row L (SessionTypeOrmMapper_toEntity a) =
    Inr (session_of_row (SessionTypeOrmMapper_toEntity a))"
  using assms
  by (cases a; cases "sg_replacedBySessionId a")
    (auto simp: session_from_row_def session_build_defs bindE_def truthy_def
      split: sum.splits if_splits)

lemma session_inv_revoked:
  assumes "session_inv L F w" and "F x \<subseteq> F (ext w)"
  shows "session_inv L F (w\<lparr>session_tbl := set_revoked_at t p (session_tbl w), ext := x\<rparr>)"
proof -
  have "schema_ok (w\<lparr>session_tbl := set_revoked_at t p (session_tbl w)\<rparr>)"
    using assms(1) schema_ok_set_sessions [of w] schema_ok_sessions [of w]
    by (simp add: session_inv_def)
  then show ?thesis
    using assms
    by (auto simp: session_inv_def sessions_stored_def ids_spent_def set_revoked_at_def
        session_from_row_revoked)
qed

lemma session_same:
  "schema_ok w \<Longrightarrow> e \<in> set (session_tbl w) \<Longrightarrow> x \<in> set (session_tbl w) \<Longrightarrow>
     (se_id x = se_id e) = (x = e) \<and> (se_refreshTokenHash x = se_refreshTokenHash e) = (x = e)"
  by (auto simp: schema_ok_def dest: inj_onD key_unique)

lemma find_session:
  "schema_ok w \<Longrightarrow> e \<in> set (session_tbl w) \<Longrightarrow>
     find (\<lambda>x. se_refreshTokenHash x = se_refreshTokenHash e) (session_tbl w) = Some e"
  by (rule find_unique) (auto dest: session_same)

text \<open>Writing a checked, readable session whose id the generator will not give again.\<close>

lemma session_inv_save:
  assumes inv: "session_inv L F w" and chk: "check_session w (session_tbl w) r = None"
    and rd: "session_from_row L r = Inr (session_of_row r)" and F: "se_id r \<notin> F (ext w)"
  shows "session_inv L F (w\<lparr>session_tbl := upsert se_id r (session_tbl w)\<rparr>)"
  using inv rd F schema_ok_save_session [OF _ chk]
  by (auto simp: session_inv_def sessions_stored_def ids_spent_def set_upsert)

section \<open>The rotation implements \<open>redeem\<close>\<close>

context session_store
begin

text \<open>What the callback of the refresh handler does to a readable session.\<close>

lemma callback_outcome:
  assumes L: "id_supply L F" "hash_ok L" "uuid_ok L" and inv: "session_inv L F w"
    and em: "e \<in> set (session_tbl w)"
    and run: "refresh_callback L store (sha256_hex L raw) exp (session_of_row e) lk (in_transaction w) = (r, w1)"
  obtains (reuse) x t where "F x \<subseteq> F (ext w)" "se_revokedAt e \<noteq> None"
      "r = Inl new_RefreshTokenReuseDetectedException"
      "w1 = w\<lparr>session_tbl := set_revoked_at t
         (\<lambda>e'. se_userId e' = se_userId e \<and> se_revokedAt e' = None) (session_tbl w), ext := x,
         tx_pending := Some []\<rparr>"
  | (expired) x t where "F x \<subseteq> F (ext w)" "se_revokedAt e = None" "se_refreshTokenExpiresAt e \<le> t"
      "r = Inl new_InvalidRefreshTokenException" "w1 = w\<lparr>ext := x, tx_pending := Some []\<rparr>"
  | (failed) x err where "F x \<subseteq> F (ext w)" "se_revokedAt e = None" "r = Inl err"
      "w1 = w\<lparr>ext := x, tx_pending := Some []\<rparr>"
  | (rotated) x t i t2 t3 u where "F x \<subseteq> F (ext w)" "i \<in> F (ext w)" "i \<notin> F x"
      "i \<noteq> []" "uuid_vo L i = Inr i" "se_revokedAt e = None" "\<not> se_refreshTokenExpiresAt e \<le> t"
      "w1 = w\<lparr>ext := x, tx_pending := Some []\<rparr>"
      "r = Inr \<lparr>rr_revoked = (session_of_row e)\<lparr>sg_revokedAt := Some t3,
             sg_replacedBySessionId := Some i, sg_updatedAt := u\<rparr>,
           rr_created = \<lparr>sg_id = i, sg_createdAt = t2, sg_updatedAt = t2, sg_userId = se_userId e,
             sg_refreshTokenHash = sha256_hex L raw, sg_expiresAt = exp, sg_revokedAt = None,
             sg_replacedBySessionId = None\<rparr>\<rparr>"
proof (cases "se_revokedAt e = None")
  case False
  obtain u x1 where u: "touch L (se_updatedAt e) (ext w) = (u, x1)" by fastforce
  obtain t x2 where t: "sql_now L x1 = (t, x2)" by fastforce
  have "F x1 \<subseteq> F (ext w)" "F x2 \<subseteq> F x1"
    using L(1) u t unfolding id_supply_def by (metis snd_conv)+
  then show thesis
    by (intro reuse [of x2 "driver_date t"] False)
      (use False run u t in \<open>auto simp: refresh_callback_def SessionAggregate_isRevoked_def
        session_of_row_def bindE_def SessionAggregate_markReuseDetected_def outside_run touched_run
        revoke_all_law\<close>)
next
  case True
  note sim = refresh_callback_def SessionAggregate_isRevoked_def SessionAggregate_isExpired_def
    SessionAggregate_revoke_def session_of_row_def bindE_def outside_run now_run touched_run
  obtain t x1 where t: "new_date L (ext w) = (t, x1)" by fastforce
  have F1: "F x1 \<subseteq> F (ext w)" using L(1) t unfolding id_supply_def by (metis snd_conv)
  show thesis
  proof (cases "se_refreshTokenExpiresAt e \<le> t")
    case exp: True
    show thesis
      by (rule expired [OF F1 True exp]) (use True exp run t in \<open>auto simp: sim\<close>)
  next
    case exp: False
    obtain rn x2 where new: "new_session L (se_userId e) (sha256_hex L raw) exp x1 = (rn, x2)" by fastforce
    have u: "uuid_vo L (se_userId e) = Inr (se_userId e)"
      using session_from_row_Inr(2) [OF sessions_storedD [OF _ em]] inv
      by (auto simp: session_inv_def session_of_row_def)
    have h: "RefreshTokenHashValueObject L (sha256_hex L raw) = Inr (sha256_hex L raw)"
      using L(2) by (simp add: hash_ok_def)
    obtain t3 x3 where t3: "new_date L x2 = (t3, x3)" by fastforce
    obtain u4 x4 where u4: "touch L (se_updatedAt e) x3 = (u4, x4)" by fastforce
    have F4: "F x3 \<subseteq> F x2" "F x4 \<subseteq> F x3"
      using L(1) t3 u4 unfolding id_supply_def by (metis snd_conv)+
    from L(1,3) new h show thesis
    proof (rule new_session_outcome)
      assume F2: "F x2 \<subseteq> F x1" and "isl rn"
      then obtain err where "rn = Inl err" by (cases rn) auto
      with F1 F2 True exp run t new show thesis
        by (intro failed [of x2 err]) (auto simp: sim)
    next
      fix i t2 v a assume Fi: "F x2 \<subseteq> F x1" "i \<in> F x1" "i \<notin> F x2"
        and i: "i \<noteq> []" "uuid_vo L i = Inr i" and v: "uuid_vo L (se_userId e) = Inr v"
        and rn: "rn = Inr a" and a: "a = \<lparr>sg_id = i, sg_createdAt = t2, sg_updatedAt = t2,
          sg_userId = v, sg_refreshTokenHash = sha256_hex L raw, sg_expiresAt = exp,
          sg_revokedAt = None, sg_replacedBySessionId = None\<rparr>"
      have F: "i \<in> F (ext w)" "i \<notin> F x4" "F x4 \<subseteq> F (ext w)" using F1 F4 Fi by blast+
      show thesis
        by (rule rotated [OF F(3,1,2) i True exp, of u4 t3 t2])
          (use True exp run t new t3 u4 rn a u v in \<open>auto simp: sim\<close>)
    qed
  qed
qed

end

text \<open>
  How the result of \<open>rotate\<close> agrees with the outcome of the abstract \<open>redeem\<close>: an outcome the code
  reaches, unless the database or a validator refuses a row and nothing changes.
\<close>

definition rotation_implements ::
  "string \<Rightarrow> string \<Rightarrow> int \<Rightarrow> token_map \<Rightarrow> (error + IRotateResult option) \<Rightarrow> token_map \<Rightarrow> bool" where
  "rotation_implements h h' expires \<sigma> res \<sigma>' \<longleftrightarrow>
     (isl res \<and> \<sigma>' = \<sigma>) \<or>
     (\<exists>t out. redeem h h' t expires \<sigma> = (out, \<sigma>') \<and> (case out of
        Rejected \<Rightarrow> res = Inl new_InvalidRefreshTokenException \<or> res = Inr None
      | Reused u \<Rightarrow> res = Inl new_RefreshTokenReuseDetectedException
      | Redeemed u \<Rightarrow> \<sigma> h' = None \<and>
          (\<exists>rotated. res = Inr (Some rotated) \<and> sg_userId (rr_created rotated) = u)))"

context session_store
begin

lemma rotation_commits:
  assumes inv: "session_inv L F w" and em: "e \<in> set (session_tbl w)"
    and live: "se_revokedAt e = None" and late: "\<not> se_refreshTokenExpiresAt e \<le> t"
    and h: "h = se_refreshTokenHash e" and H: "RefreshTokenHashValueObject L h' = Inr h'"
    and F: "F x \<subseteq> F (ext w)" "i \<in> F (ext w)" "i \<notin> F x" and i: "i \<noteq> []" "uuid_vo L i = Inr i"
    and c: "c = SessionTypeOrmMapper_toEntity \<lparr>sg_id = i, sg_createdAt = t2, sg_updatedAt = t2,
        sg_userId = se_userId e, sg_refreshTokenHash = h', sg_expiresAt = exp, sg_revokedAt = None,
        sg_replacedBySessionId = None\<rparr>"
    and r: "r = SessionTypeOrmMapper_toEntity ((session_of_row e)\<lparr>sg_revokedAt := Some t3,
        sg_replacedBySessionId := Some i, sg_updatedAt := u\<rparr>)"
    and cc: "check_session w (session_tbl w) c = None"
    and cr: "check_session w (upsert se_id c (session_tbl w)) r = None"
    and rc: "session_from_row L c = Inr created" and rr: "session_from_row L r = Inr revoked"
    and tbl: "tbl = upsert se_id r (upsert se_id c (session_tbl w))"
  shows "session_inv L F (w\<lparr>session_tbl := tbl, ext := x\<rparr>)"
    and "redeem h h' t exp (tokens (session_tbl w)) = (Redeemed (se_userId e), tokens tbl)"
    and "tokens (session_tbl w) h' = None" and "sg_userId created = se_userId e"
proof -
  have old: "session_from_row L e = Inr (session_of_row e)"
    using inv em by (auto simp: session_inv_def sessions_stored_def)
  note vos = session_from_row_Inr [OF old, simplified session_of_row_def session_aggregate.simps]
  have ids: "se_id c = i" "se_id r = se_id e" "se_refreshTokenHash c = h'" "se_userId c = se_userId e"
    "se_refreshTokenHash r = se_refreshTokenHash e" "se_userId r = se_userId e"
    by (simp_all add: c r session_of_row_def)
  have new: "\<forall>x \<in> set (session_tbl w). se_id x \<noteq> i"
    using inv F(2) by (auto simp: session_inv_def ids_spent_def)
  have free: "\<forall>x \<in> set (session_tbl w). se_refreshTokenHash x \<noteq> h'"
    using cc new ids by (auto simp: check_session_def split: if_splits)
  then show none: "tokens (session_tbl w) h' = None" by (auto simp: tokens_def find_None_iff)
  have rdc: "session_from_row L c = Inr (session_of_row c)"
    unfolding c by (rule session_from_row_stable [OF rc [unfolded c]])
      (use i H vos in auto)
  have rdr: "session_from_row L r = Inr (session_of_row r)"
    unfolding r by (rule session_from_row_stable [OF rr [unfolded r]])
      (use i vos in \<open>auto simp: session_of_row_def\<close>)
  show "sg_userId created = se_userId e" using rdc rc ids by (auto simp: session_of_row_def)
  let ?w = "w\<lparr>ext := x\<rparr>"
  have "session_inv L F (?w\<lparr>session_tbl := upsert se_id c (session_tbl ?w)\<rparr>)"
    by (rule session_inv_save [OF session_inv_ext [OF inv F(1)]]) (use cc rdc F ids in auto)
  moreover have "se_id e \<notin> F x" using inv em F(1) by (auto simp: session_inv_def ids_spent_def)
  ultimately have "session_inv L F (w\<lparr>ext := x, session_tbl := tbl\<rparr>)"
    using session_inv_save [of L F "?w\<lparr>session_tbl := upsert se_id c (session_tbl ?w)\<rparr>" r] cr rdr
    by (simp add: tbl ids)
  then show "session_inv L F (w\<lparr>session_tbl := tbl, ext := x\<rparr>)" by (cases w) simp
  have dist: "\<forall>x \<in> set (session_tbl w). (se_id x = se_id e) = (se_refreshTokenHash x = se_refreshTokenHash e)"
    using inv em by (auto simp: session_inv_def dest: session_same)
  have "tokens tbl = (tokens (session_tbl w))(h' \<mapsto> token_of c, se_refreshTokenHash e \<mapsto> token_of r)"
    unfolding tbl using new free dist ids em
    by (subst tokens_upsert, force simp: set_upsert, subst tokens_upsert) auto
  moreover have "tokens (session_tbl w) (se_refreshTokenHash e) = Some (token_of e)"
    using inv em find_session [of w e] by (simp add: tokens_def session_inv_def)
  moreover have "h' \<noteq> se_refreshTokenHash e" using free em by auto
  ultimately show "redeem h h' t exp (tokens (session_tbl w)) = (Redeemed (se_userId e), tokens tbl)"
    using live late
    by (auto simp: redeem_def h issue_def token_of_def c r session_of_row_def fun_upd_twist)
qed

lemma stored_current:
  "session_inv L F w \<Longrightarrow> e \<in> set (session_tbl w) \<Longrightarrow> session_from_row L e = Inr current \<Longrightarrow>
     current = session_of_row e"
  by (simp add: session_inv_def sessions_stored_def)

text \<open>The callback throws: a replay revokes, anything else changes nothing.\<close>

lemma rotation_thrown:
  assumes L: "id_supply L F" "hash_ok L" "uuid_ok L" and inv: "session_inv L F w"
    and e: "find (\<lambda>e. se_refreshTokenHash e = h) (session_tbl w) = Some e"
    and run: "refresh_callback L store (sha256_hex L raw) exp (session_of_row e) lk (in_transaction w) = (Inl err, w2)"
    and w1: "w1 = w2\<lparr>tx_pending := None\<rparr>"
  shows "session_inv L F w1 \<and> F (ext w1) \<subseteq> F (ext w) \<and>
    rotation_implements h h' exp (tokens (session_tbl w)) (Inl err) (tokens (session_tbl w1))"
proof -
  from find_Some_iff_ex [OF e] have em: "e \<in> set (session_tbl w)" by simp
  have same: "\<And>x. w\<lparr>ext := x, tx_pending := None\<rparr> = w\<lparr>ext := x\<rparr>"
    "\<And>t x. w\<lparr>session_tbl := t, ext := x, tx_pending := None\<rparr> = w\<lparr>session_tbl := t, ext := x\<rparr>"
    using inv by (cases w; simp add: session_inv_def)+
  from L inv em run show ?thesis
  proof (cases rule: callback_outcome)
    case (reuse x t)
    then have "w1 = w\<lparr>session_tbl := set_revoked_at t
        (\<lambda>e'. se_userId e' = se_userId e \<and> se_revokedAt e' = None) (session_tbl w), ext := x\<rparr>"
      using same by (simp add: w1)
    moreover have "tokens (session_tbl w) h = Some (token_of e)" using e by (simp add: tokens_def)
    ultimately show ?thesis
      using reuse session_inv_revoked [OF inv reuse(1)]
      by (auto simp: rotation_implements_def redeem_def token_of_def tokens_revoke_user)
  next
    case (expired x t)
    then show ?thesis
      using same session_inv_ext [OF inv expired(1)] by (simp add: w1 rotation_implements_def)
  next
    case (failed x err)
    then show ?thesis
      using same session_inv_ext [OF inv failed(1)] by (simp add: w1 rotation_implements_def)
  qed simp
qed

lemma rotation_returned:
  assumes L: "id_supply L F" "hash_ok L" "uuid_ok L" and inv: "session_inv L F w"
    and e: "find (\<lambda>e. se_refreshTokenHash e = h) (session_tbl w) = Some e"
    and run: "refresh_callback L store (sha256_hex L raw) exp (session_of_row e) lk (in_transaction w) = (Inr rot, w2)"
    and c: "c = SessionTypeOrmMapper_toEntity (rr_created rot)"
    and r: "r = SessionTypeOrmMapper_toEntity (rr_revoked rot)"
    and cc: "check_session w2 (session_tbl w2) c = None"
    and cr: "check_session w2 (upsert se_id c (session_tbl w2)) r = None"
    and rd: "session_from_row L c = Inr created" "session_from_row L r = Inr revoked"
    and w1: "w1 = w2\<lparr>session_tbl := upsert se_id r (upsert se_id c (session_tbl w2)), tx_pending := None\<rparr>"
  shows "session_inv L F w1 \<and> F (ext w1) \<subseteq> F (ext w) \<and>
    rotation_implements h (sha256_hex L raw) exp (tokens (session_tbl w))
      (Inr (Some \<lparr>rr_revoked = revoked, rr_created = created\<rparr>)) (tokens (session_tbl w1))"
proof -
  from find_Some_iff_ex [OF e] have em: "e \<in> set (session_tbl w)" "h = se_refreshTokenHash e" by simp_all
  have H: "RefreshTokenHashValueObject L (sha256_hex L raw) = Inr (sha256_hex L raw)"
    using L(2) by (simp add: hash_ok_def)
  from L inv em(1) run show ?thesis
  proof (cases rule: callback_outcome)
    case (rotated x t i t2 t3 u)
    then have rot: "rot = \<lparr>rr_revoked = (session_of_row e)\<lparr>sg_revokedAt := Some t3,
             sg_replacedBySessionId := Some i, sg_updatedAt := u\<rparr>,
           rr_created = \<lparr>sg_id = i, sg_createdAt = t2, sg_updatedAt = t2, sg_userId = se_userId e,
             sg_refreshTokenHash = sha256_hex L raw, sg_expiresAt = exp, sg_revokedAt = None,
             sg_replacedBySessionId = None\<rparr>\<rparr>" by simp
    have w1': "w1 = w\<lparr>session_tbl := upsert se_id r (upsert se_id c (session_tbl w)), ext := x\<rparr>"
      using inv rotated(8) by (cases w) (simp add: w1 session_inv_def)
    have cc': "check_session w (session_tbl w) c = None"
      "check_session w (upsert se_id c (session_tbl w)) r = None"
      using cc cr rotated(8) by simp_all
    note rc = rotation_commits [OF inv em(1) rotated(6,7) em(2) H rotated(1-5)
        c [unfolded rot IRotateResult.simps] r [unfolded rot IRotateResult.simps] cc' rd refl]
    show ?thesis
      using rc rotated(1) by (auto simp: w1' rotation_implements_def intro!: exI [of _ t])
  qed simp_all
qed

lemma rotation_refines:
  assumes L: "id_supply L F" "hash_ok L" "uuid_ok L" and inv: "session_inv L F w"
    and spec: "rotate_spec L h (refresh_callback L store (sha256_hex L raw) exp) w res w1"
  shows "session_inv L F w1 \<and> F (ext w1) \<subseteq> F (ext w) \<and>
    rotation_implements h (sha256_hex L raw) exp (tokens (session_tbl w)) res (tokens (session_tbl w1))"
  using spec
proof cases
  case rotate_unknown
  then show ?thesis
    using inv by (auto simp: rotation_implements_def redeem_def tokens_def)
next
  case (rotate_unreadable e err)
  then show ?thesis
    using inv by (auto simp: session_inv_def sessions_stored_def dest: find_Some_iff_ex)
next
  case (rotate_thrown e current lk err w2)
  then have "current = session_of_row e"
    using inv by (auto dest: stored_current find_Some_iff_ex)
  with rotate_thrown show ?thesis
    using rotation_thrown [OF L inv rotate_thrown(3)] by simp
next
  case (rotate_rejected e current lk rot w2 c r err)
  from find_Some_iff_ex [OF rotate_rejected(3)] have em: "e \<in> set (session_tbl w)" by simp
  with rotate_rejected inv have "current = session_of_row e" by (auto dest: stored_current)
  with rotate_rejected(5) have call: "refresh_callback L store (sha256_hex L raw) exp (session_of_row e)
      lk (in_transaction w) = (Inr rot, w2)" by simp
  from L inv em call show ?thesis
  proof (cases rule: callback_outcome)
    case (rotated x t i t2 t3 u)
    then have "w1 = w\<lparr>ext := x\<rparr>"
      using rotate_rejected(2) inv by (cases w) (simp add: session_inv_def)
    with rotate_rejected(1) rotated(1) show ?thesis
      using session_inv_ext [OF inv rotated(1)] by (simp add: rotation_implements_def)
  qed simp_all
next
  case (rotate_committed e current lk rot w2 c r created revoked)
  then have "current = session_of_row e"
    using inv by (auto dest: stored_current find_Some_iff_ex)
  with rotate_committed show ?thesis
    using rotation_returned [OF L inv rotate_committed(3) _ rotate_committed(6-11) rotate_committed(2)]
    by simp
qed

end

end
