(* ===== verification/Session_Runs.thy ===== *)
theory Session_Runs
  imports Session_Refinement
begin

text \<open>
  The refresh and login handlers as steps of the token machine, and the runs of a service that
  handles any sequence of requests, one at a time. The locale \<open>auth_ports\<close> extends \<open>session_store\<close>
  with the contract of the other ports: whatever they do, they leave the stored sessions alone.
\<close>

section \<open>The other ports\<close>



abbreviation sessions_are :: "'x lib \<Rightarrow> ('x \<Rightarrow> string set) \<Rightarrow> session_entity list \<Rightarrow> 'x world \<Rightarrow> bool" where
  "sessions_are L F T \<equiv> \<lambda>w. session_inv L F w \<and> session_tbl w = T"

locale auth_ports = session_store L store
  for L :: "'x lib" and store :: "'x world ISessionWriteRepository" +
  fixes userLookup :: "'x world IUserLookupPort"
    and identityProvider :: "'x world IIdentityProviderPort"
    and membershipLookup :: "'x world ITenantMembershipLookupPort"
    and platformAdminPort :: "'x world IUserPlatformAdminPort"
  assumes findByEmail_keeps: "id_supply L F \<Longrightarrow>
      preserves (sessions_are L F T) (ulp_findByEmail userLookup m)"
    and findById_keeps: "id_supply L F \<Longrightarrow>
      preserves (sessions_are L F T) (ulp_findById userLookup i)"
    and memberships_keeps: "id_supply L F \<Longrightarrow>
      preserves (sessions_are L F T) (tml_findMembershipsByUserId membershipLookup i)"
    and verify_keeps: "id_supply L F \<Longrightarrow>
      preserves (sessions_are L F T) (idp_verifyCredentials identityProvider m p)"
    and setPlatformAdmin_keeps: "id_supply L F \<Longrightarrow>
      preserves (sessions_are L F T) (pap_setPlatformAdmin platformAdminPort i b)"

lemma outside_keeps:
  assumes "id_decreasing F m"
  shows "preserves (sessions_are L F T) (outside m)"
  using assms
  by (auto simp: preserves_def outside_run id_decreasing_def intro: session_inv_ext)

section \<open>The handlers as steps of the token machine\<close>

definition refresh_implements ::
  "'x lib \<Rightarrow> string \<Rightarrow> token_map \<Rightarrow> (error + ILoginSessionResult) \<Rightarrow> token_map \<Rightarrow> bool" where
  "refresh_implements L h \<sigma> res \<sigma>' \<longleftrightarrow>
     (isl res \<and> \<sigma>' = \<sigma>) \<or>
     (\<exists>h' t expires out. redeem h h' t expires \<sigma> = (out, \<sigma>') \<and> (case out of
        Rejected \<Rightarrow> res = Inl new_InvalidRefreshTokenException
      | Reused u \<Rightarrow> res = Inl new_RefreshTokenReuseDetectedException
      | Redeemed u \<Rightarrow> \<sigma> h' = None \<and>
          (\<forall>lr. res = Inr lr \<longrightarrow> h' = sha256_hex L (lr_refreshToken lr))))"

definition login_implements ::
  "'x lib \<Rightarrow> token_map \<Rightarrow> (error + ILoginSessionResult) \<Rightarrow> token_map \<Rightarrow> bool" where
  "login_implements L \<sigma> res \<sigma>' \<longleftrightarrow>
     (isl res \<and> \<sigma>' = \<sigma>) \<or>
     (\<exists>h u expires lr. res = Inr lr \<and> h = sha256_hex L (lr_refreshToken lr) \<and> \<sigma> h = None \<and>
        \<sigma>' = issue h u expires \<sigma>)"

lemma rotation_implements_Some:
  assumes "rotation_implements h h' expires \<sigma> (Inr (Some rotated)) \<sigma>'"
  obtains t u where "redeem h h' t expires \<sigma> = (Redeemed u, \<sigma>')" "\<sigma> h' = None"
proof -
  have "\<exists>t u. redeem h h' t expires \<sigma> = (Redeemed u, \<sigma>') \<and> \<sigma> h' = None"
    using assms unfolding rotation_implements_def
  proof (elim disjE exE conjE)
    fix t out
    assume *: "redeem h h' t expires \<sigma> = (out, \<sigma>')"
      "case out of Rejected \<Rightarrow> (Inr (Some rotated) :: error + IRotateResult option) =
           Inl new_InvalidRefreshTokenException \<or>
         (Inr (Some rotated) :: error + IRotateResult option) = Inr None
       | Reused u \<Rightarrow> (Inr (Some rotated) :: error + IRotateResult option) =
           Inl new_RefreshTokenReuseDetectedException
       | Redeemed u \<Rightarrow> \<sigma> h' = None \<and> (\<exists>r. (Inr (Some rotated) :: error + IRotateResult option) =
           Inr (Some r) \<and> sg_userId (rr_created r) = u)"
    then show ?thesis by (cases out) auto
  qed simp
  with that show thesis by blast
qed

text \<open>A fresh session saved: a new live token.\<close>

lemma save_new_session:
  assumes inv: "session_inv L F w" and wf: "session_wf L a" and live: "sg_revokedAt a = None"
    and F: "sg_id a \<notin> F (ext w)" and new: "\<forall>e \<in> set (session_tbl w). se_id e \<noteq> sg_id a"
    and chk: "check_session w (session_tbl w) (SessionTypeOrmMapper_toEntity a) = None"
  defines "tbl \<equiv> upsert se_id (SessionTypeOrmMapper_toEntity a) (session_tbl w)"
  shows "session_inv L F (w\<lparr>session_tbl := tbl\<rparr>)"
    and "tokens (session_tbl w) (sg_refreshTokenHash a) = None"
    and "tokens tbl = issue (sg_refreshTokenHash a) (sg_userId a) (sg_expiresAt a) (tokens (session_tbl w))"
proof -
  show "session_inv L F (w\<lparr>session_tbl := tbl\<rparr>)"
    unfolding tbl_def by (rule session_inv_save [OF inv chk]) (use wf F in \<open>simp_all add: session_wf_row\<close>)
  have free: "\<forall>e \<in> set (session_tbl w). se_refreshTokenHash e \<noteq> sg_refreshTokenHash a"
    using chk new by (auto simp: check_session_def split: if_splits)
  then show "tokens (session_tbl w) (sg_refreshTokenHash a) = None"
    by (auto simp: tokens_def find_None_iff)
  show "tokens tbl = issue (sg_refreshTokenHash a) (sg_userId a) (sg_expiresAt a) (tokens (session_tbl w))"
    unfolding tbl_def by (subst tokens_upsert) (use new free live in \<open>auto simp: issue_def token_of_def\<close>)
qed

context auth_ports
begin

lemma access_token_keeps:
  "id_supply L F \<Longrightarrow>
     preserves (sessions_are L F T) (refresh_access_token L userLookup membershipLookup u)"
  unfolding refresh_access_token_def
  by (intro preserving findById_keeps memberships_keeps outside_keeps id_supply_calls)

lemma refresh_refines:
  assumes L: "id_supply L F" "hash_ok L" "uuid_ok L" and inv: "session_inv L F w"
    and run: "RefreshSessionCommandHandler_execute L cfg store userLookup membershipLookup c w = (res, w')"
  shows "session_inv L F w' \<and> refresh_implements L (sha256_hex L (rf_refreshToken c))
    (tokens (session_tbl w)) res (tokens (session_tbl w'))"
proof -
  let ?h = "sha256_hex L (rf_refreshToken c)"
  obtain raw x1 where x1: "random_base64url L 32 (ext w) = (raw, x1)" by fastforce
  obtain t x2 where x2: "new_date L x1 = (t, x2)" by fastforce
  have "F x1 \<subseteq> F (ext w)" "F x2 \<subseteq> F x1"
    using L(1) x1 x2 unfolding id_supply_def by (metis snd_conv)+
  with inv have inv2: "session_inv L F (w\<lparr>ext := x2\<rparr>)" by (blast intro: session_inv_ext)
  from inv have "tx_pending w = None" by (simp add: session_inv_def)
  then obtain rres w1 where
    spec: "rotate_spec L ?h (refresh_callback L store (sha256_hex L raw) (expiry cfg t)) (w\<lparr>ext := x2\<rparr>) rres w1"
    and out: "RefreshSessionCommandHandler_execute L cfg store userLookup membershipLookup c w = (case rres of
      Inl err \<Rightarrow> (Inl err, w1)
    | Inr None \<Rightarrow> (Inl new_InvalidRefreshTokenException, w1)
    | Inr (Some rotated) \<Rightarrow>
        bindE (refresh_access_token L userLookup membershipLookup (sg_userId (rr_created rotated)))
        (\<lambda>accessToken. ret \<lparr>lr_accessToken = accessToken, lr_refreshToken = raw\<rparr>) w1)"
    using refresh_spec [OF x1 x2] by metis
  from rotation_refines [OF L inv2 spec] have inv1: "session_inv L F w1"
    and impl: "rotation_implements ?h (sha256_hex L raw) (expiry cfg t) (tokens (session_tbl w)) rres
      (tokens (session_tbl w1))" by simp_all
  show ?thesis
  proof (cases "\<exists>rotated. rres = Inr (Some rotated)")
    case False
    then have w': "w' = w1" and res: "res = (case rres of Inl err \<Rightarrow> Inl err
        | Inr _ \<Rightarrow> Inl new_InvalidRefreshTokenException)"
      using out run by (auto split: sum.splits option.splits)
    with False impl inv1 show ?thesis
      unfolding rotation_implements_def refresh_implements_def
      by (fastforce split: sum.splits redeem_result.splits)
  next
    case True
    then obtain rotated where rres: "rres = Inr (Some rotated)" by blast
    obtain ra w2 where acc: "refresh_access_token L userLookup membershipLookup
        (sg_userId (rr_created rotated)) w1 = (ra, w2)" by fastforce
    from preservesD [OF access_token_keeps [OF L(1), of "session_tbl w1"] _ acc] inv1
    have inv': "session_inv L F w2" "session_tbl w2 = session_tbl w1" by simp_all
    have "w' = w2" "\<forall>lr. res = Inr lr \<longrightarrow> lr_refreshToken lr = raw"
      using out run rres acc by (auto simp: bindE_def split: sum.splits)
    moreover obtain t' u where "redeem ?h (sha256_hex L raw) t' (expiry cfg t) (tokens (session_tbl w)) =
        (Redeemed u, tokens (session_tbl w1))" "tokens (session_tbl w) (sha256_hex L raw) = None"
      using impl unfolding rres by (rule rotation_implements_Some)
    ultimately show ?thesis
      using inv' unfolding refresh_implements_def by fastforce
  qed
qed

lemma login_session_issued:
  assumes L: "id_supply L F" "hash_ok L" "uuid_ok L"
  shows "achieves (sessions_are L F T)
    (bindE (outside (new_session L u (sha256_hex L raw) exp)) (\<lambda>session.
     bindE (swr_save store session) (\<lambda>_.
     ret \<lparr>lr_accessToken = acc, lr_refreshToken = raw\<rparr>)))
    (\<lambda>res w'. session_inv L F w' \<and> login_implements L (tokens T) res (tokens (session_tbl w')))"
proof (rule achievesI)
  fix w res w'
  assume P: "session_inv L F w \<and> session_tbl w = T"
    and run: "bindE (outside (new_session L u (sha256_hex L raw) exp)) (\<lambda>session.
      bindE (swr_save store session) (\<lambda>_.
      ret \<lparr>lr_accessToken = acc, lr_refreshToken = raw\<rparr>)) w = (res, w')"
  obtain r x where new: "new_session L u (sha256_hex L raw) exp (ext w) = (r, x)" by fastforce
  have h: "RefreshTokenHashValueObject L (sha256_hex L raw) = Inr (sha256_hex L raw)"
    using L(2) by (simp add: hash_ok_def)
  let ?w = "w\<lparr>ext := x\<rparr>"
  from L(1,3) new h
  show "session_inv L F w' \<and> login_implements L (tokens T) res (tokens (session_tbl w'))"
  proof (cases rule: new_session_outcome)
    case 1
    then have "w' = ?w" "isl res" using run new by (auto simp: bindE_def outside_run split: sum.splits)
    with P session_inv_ext [of L F w x] 1(1) show ?thesis by (simp add: login_implements_def)
  next
    case (2 i t v a)
    have inv: "session_inv L F ?w" using P session_inv_ext [of L F w x] 2(1) by simp
    let ?tbl = "upsert se_id (SessionTypeOrmMapper_toEntity a) (session_tbl w)"
    show ?thesis
    proof (cases "check_session w (session_tbl w) (SessionTypeOrmMapper_toEntity a)")
      case (Some con)
      then have "w' = ?w" "isl res"
        using run new 2(7) by (auto simp: bindE_def outside_run save_law)
      with P inv show ?thesis by (simp add: login_implements_def)
    next
      case None
      have rd: "session_from_row L (SessionTypeOrmMapper_toEntity a) = Inr a"
        using 2(8) by (rule session_wf_row)
      have w': "w' = ?w\<lparr>session_tbl := ?tbl\<rparr>" "res = Inr \<lparr>lr_accessToken = acc, lr_refreshToken = raw\<rparr>"
        using run new 2(7) None rd by (auto simp: bindE_def outside_run save_law)
      have fresh: "sg_id a \<notin> F (ext ?w)" "\<forall>e \<in> set (session_tbl ?w). se_id e \<noteq> sg_id a"
        using 2(2,3,9) P by (auto simp: session_inv_def ids_spent_def)
      have chk: "check_session ?w (session_tbl ?w) (SessionTypeOrmMapper_toEntity a) = None"
        and live: "sg_revokedAt a = None" using None 2(9) by simp_all
      from save_new_session [OF inv 2(8) live fresh chk] w' P 2(9)
      show ?thesis unfolding login_implements_def by auto
    qed
  qed
qed

lemma login_refines:
  assumes L: "id_supply L F" "hash_ok L" "uuid_ok L" and inv: "session_inv L F w"
    and run: "LoginUserCommandHandler_execute L cfg userLookup identityProvider membershipLookup store
      platformAdminPort c w = (res, w')"
  shows "session_inv L F w' \<and> login_implements L (tokens (session_tbl w)) res (tokens (session_tbl w'))"
proof -
  let ?P = "sessions_are L F (session_tbl w)"
  let ?Q = "\<lambda>res w'. session_inv L F w' \<and>
    login_implements L (tokens (session_tbl w)) res (tokens (session_tbl w'))"
  have err: "?Q (Inl e) s" if "?P s" for e s using that by (simp add: login_implements_def)
  have "achieves ?P (LoginUserCommandHandler_execute L cfg userLookup identityProvider
      membershipLookup store platformAdminPort c) ?Q"
    unfolding LoginUserCommandHandler_execute_def HashRefreshTokenService_execute_def Let_def
    by (intro achieves_bindE achieves_throw err login_session_issued L preserving allI
        verify_keeps findByEmail_keeps memberships_keeps setPlatformAdmin_keeps outside_keeps
        id_supply_calls | assumption | rule achieves_case_option)+
  from achievesD [OF this _ run] inv show ?thesis by simp
qed

end

section \<open>Runs\<close>

text \<open>
  A service that handles requests one at a time: logins, refreshes, and any other request that
  leaves the stored sessions alone (every other handler does).
\<close>

datatype request =
    Login login_user_command "error + ILoginSessionResult"
  | Refresh refresh_session_command "error + ILoginSessionResult"
  | Other

inductive service_run ::
  "'x lib \<Rightarrow> ('x \<Rightarrow> string set) \<Rightarrow> auth_config \<Rightarrow> 'x world ISessionWriteRepository \<Rightarrow>
   'x world IUserLookupPort \<Rightarrow> 'x world IIdentityProviderPort \<Rightarrow>
   'x world ITenantMembershipLookupPort \<Rightarrow> 'x world IUserPlatformAdminPort \<Rightarrow>
   'x world \<Rightarrow> request list \<Rightarrow> 'x world \<Rightarrow> bool"
  for L F cfg store ul idp ml pap where
  run_nil: "service_run L F cfg store ul idp ml pap w [] w"
| run_login: "LoginUserCommandHandler_execute L cfg ul idp ml store pap c w = (res, w1) \<Longrightarrow>
    service_run L F cfg store ul idp ml pap w1 rs w' \<Longrightarrow>
    service_run L F cfg store ul idp ml pap w (Login c res # rs) w'"
| run_refresh: "RefreshSessionCommandHandler_execute L cfg store ul ml c w = (res, w1) \<Longrightarrow>
    service_run L F cfg store ul idp ml pap w1 rs w' \<Longrightarrow>
    service_run L F cfg store ul idp ml pap w (Refresh c res # rs) w'"
| run_other: "session_inv L F w1 \<Longrightarrow> session_tbl w1 = session_tbl w \<Longrightarrow>
    service_run L F cfg store ul idp ml pap w1 rs w' \<Longrightarrow>
    service_run L F cfg store ul idp ml pap w (Other # rs) w'"

inductive_cases service_run_consE: "service_run L F cfg store ul idp ml pap w (r # rs) w'"

lemma service_run_append:
  "service_run L F cfg store ul idp ml pap w (rs @ qs) w' \<longleftrightarrow>
     (\<exists>w1. service_run L F cfg store ul idp ml pap w rs w1 \<and>
        service_run L F cfg store ul idp ml pap w1 qs w')"
proof (induction rs arbitrary: w)
  case Nil
  then show ?case by (auto intro: run_nil elim: service_run.cases)
next
  case (Cons r rs)
  show ?case
  proof
    assume "service_run L F cfg store ul idp ml pap w ((r # rs) @ qs) w'"
    then have "service_run L F cfg store ul idp ml pap w (r # (rs @ qs)) w'" by simp
    then show "\<exists>w1. service_run L F cfg store ul idp ml pap w (r # rs) w1 \<and>
        service_run L F cfg store ul idp ml pap w1 qs w'"
      by (cases rule: service_run_consE) (use Cons.IH in \<open>blast intro: run_login run_refresh run_other\<close>)+
  next
    assume "\<exists>w1. service_run L F cfg store ul idp ml pap w (r # rs) w1 \<and>
        service_run L F cfg store ul idp ml pap w1 qs w'"
    then obtain w1 where "service_run L F cfg store ul idp ml pap w (r # rs) w1"
      and q: "service_run L F cfg store ul idp ml pap w1 qs w'" by blast
    then show "service_run L F cfg store ul idp ml pap w ((r # rs) @ qs) w'"
      by (cases rule: service_run_consE)
        (use q Cons.IH in \<open>force intro: run_login run_refresh run_other\<close>)+
  qed
qed

lemma refresh_implements_spent:
  "refresh_implements L h \<sigma> res \<sigma>' \<Longrightarrow> spent \<sigma> h0 \<Longrightarrow> spent \<sigma>' h0"
proof -
  assume impl: "refresh_implements L h \<sigma> res \<sigma>'" and sp: "spent \<sigma> h0"
  show "spent \<sigma>' h0"
  proof (cases "\<sigma>' = \<sigma>")
    case False
    with impl obtain h' t x out where r: "redeem h h' t x \<sigma> = (out, \<sigma>')"
      and o: "case out of Redeemed u \<Rightarrow> \<sigma> h' = None | _ \<Rightarrow> True"
      unfolding refresh_implements_def by (fastforce split: redeem_result.splits)
    show ?thesis
    proof (cases out)
      case (Redeemed u)
      with r o sp spent_redeem [OF sp, of h' h t x] show ?thesis by simp
    next
      case (Reused u)
      with r sp show ?thesis
        by (auto simp: redeem_def intro: spent_revoke_user split: option.splits if_splits)
    next
      case Rejected
      with r False show ?thesis by (auto simp: redeem_def split: option.splits if_splits)
    qed
  qed (use sp in simp)
qed

lemma refresh_implements_Inr:
  assumes "refresh_implements L h \<sigma> (Inr lr) \<sigma>'"
  shows "spent \<sigma>' h" and "\<not> spent \<sigma> h"
proof -
  have "\<exists>h' t x u. redeem h h' t x \<sigma> = (Redeemed u, \<sigma>') \<and> \<sigma> h' = None"
    using assms unfolding refresh_implements_def
  proof (elim disjE exE conjE)
    fix h' t expires out
    assume "redeem h h' t expires \<sigma> = (out, \<sigma>')"
      "case out of Rejected \<Rightarrow> (Inr lr :: error + ILoginSessionResult) = Inl new_InvalidRefreshTokenException
       | Reused u \<Rightarrow> (Inr lr :: error + ILoginSessionResult) = Inl new_RefreshTokenReuseDetectedException
       | Redeemed u \<Rightarrow> \<sigma> h' = None \<and> (\<forall>lra. (Inr lr :: error + ILoginSessionResult) = Inr lra \<longrightarrow>
           h' = sha256_hex L (lr_refreshToken lra))"
    then show ?thesis by (cases out) auto
  qed simp
  then obtain h' t x u where r: "redeem h h' t x \<sigma> = (Redeemed u, \<sigma>')" and n: "\<sigma> h' = None" by blast
  from r have "\<sigma> h \<noteq> None" by (auto simp: redeem_def split: option.splits)
  with n have "h' \<noteq> h" by auto
  with r show "spent \<sigma>' h" by (rule redeem_spends)
  show "\<not> spent \<sigma> h" using spent_not_redeemed [of \<sigma> h h' t x u] r by auto
qed

lemma login_implements_spent:
  "login_implements L \<sigma> res \<sigma>' \<Longrightarrow> spent \<sigma> h0 \<Longrightarrow> spent \<sigma>' h0"
  by (auto simp: login_implements_def intro: spent_issue)

context auth_ports
begin

lemma run_keeps_spent:
  assumes L: "id_supply L F" "hash_ok L" "uuid_ok L"
    and run: "service_run L F cfg store userLookup identityProvider membershipLookup
      platformAdminPort w rs w'"
    and inv: "session_inv L F w"
  shows "session_inv L F w' \<and> (spent (tokens (session_tbl w)) h \<longrightarrow> spent (tokens (session_tbl w')) h)"
  using run inv
proof induction
  case (run_login c w res w1 rs w')
  with login_refines [OF L run_login(4) run_login(1)] show ?case
    by (blast intro: login_implements_spent)
next
  case (run_refresh c w res w1 rs w')
  with refresh_refines [OF L run_refresh(4) run_refresh(1)] show ?case
    by (blast intro: refresh_implements_spent)
qed simp_all

lemma no_second_redemption:
  assumes L: "id_supply L F" "hash_ok L" "uuid_ok L" and inv: "session_inv L F w"
    and run: "service_run L F cfg store userLookup identityProvider membershipLookup
      platformAdminPort w (xs @ Refresh c1 (Inr r1) # ys @ Refresh c2 (Inr r2) # zs) w'"
  shows "rf_refreshToken c1 \<noteq> rf_refreshToken c2"
proof
  assume same: "rf_refreshToken c1 = rf_refreshToken c2"
  from run obtain w1 w2 w3 w4 where xs: "service_run L F cfg store userLookup identityProvider
      membershipLookup platformAdminPort w xs w1"
    and one: "RefreshSessionCommandHandler_execute L cfg store userLookup membershipLookup c1 w1 = (Inr r1, w2)"
    and ys: "service_run L F cfg store userLookup identityProvider membershipLookup platformAdminPort w2 ys w3"
    and two': "RefreshSessionCommandHandler_execute L cfg store userLookup membershipLookup c2 w3 =
      (Inr r2, w4)"
    unfolding service_run_append by (auto elim!: service_run_consE simp: service_run_append)
  have inv1: "session_inv L F w1" using run_keeps_spent [OF L xs inv] by simp
  from refresh_refines [OF L inv1 one] have inv2: "session_inv L F w2"
    and sp: "spent (tokens (session_tbl w2)) (sha256_hex L (rf_refreshToken c1))"
    by (auto dest: refresh_implements_Inr)
  from run_keeps_spent [OF L ys inv2] sp have inv3: "session_inv L F w3"
    and sp3: "spent (tokens (session_tbl w3)) (sha256_hex L (rf_refreshToken c1))" by auto
  from refresh_refines [OF L inv3 two'] sp3 same show False
    by (auto dest: refresh_implements_Inr)
qed

text \<open>Once a token that is spent is presented again, no token its user had can be redeemed.\<close>

lemma replay_ends_tokens:
  assumes L: "id_supply L F" "hash_ok L" "uuid_ok L" and inv: "session_inv L F w"
    and k: "tokens (session_tbl w) (sha256_hex L (rf_refreshToken c1)) = Some k" "\<not> tk_live k"
    and k': "tokens (session_tbl w) (sha256_hex L (rf_refreshToken c2)) = Some k'"
      "tk_user k' = tk_user k"
    and run: "service_run L F cfg store userLookup identityProvider membershipLookup
      platformAdminPort w (Refresh c1 r1 # ys @ Refresh c2 r2 # zs) w'"
  shows "r1 = Inl new_RefreshTokenReuseDetectedException \<and> isl r2"
proof -
  from run obtain w2 w3 w4 where
    one: "RefreshSessionCommandHandler_execute L cfg store userLookup membershipLookup c1 w = (r1, w2)"
    and ys: "service_run L F cfg store userLookup identityProvider membershipLookup platformAdminPort w2 ys w3"
    and two: "RefreshSessionCommandHandler_execute L cfg store userLookup membershipLookup c2 w3 = (r2, w4)"
    by (auto elim!: service_run_consE simp: service_run_append)
  from k obtain e where e: "find (\<lambda>e. se_refreshTokenHash e = sha256_hex L (rf_refreshToken c1))
      (session_tbl w) = Some e" and ke: "k = token_of e"
    by (auto simp: tokens_def)
  from k(2) have rev: "se_revokedAt e \<noteq> None" by (simp add: ke token_of_def)
  obtain raw x1 where x1: "random_base64url L 32 (ext w) = (raw, x1)" by fastforce
  obtain t x2 where x2: "new_date L x1 = (t, x2)" by fastforce
  obtain u x3 where x3: "touch L (se_updatedAt e) x2 = (u, x3)" by fastforce
  obtain t' x4 where x4: "sql_now L x3 = (t', x4)" by fastforce
  from inv have "tx_pending w = None" "sessions_stored L w" by (simp_all add: session_inv_def)
  from refresh_reuse [OF x1 x2 this e rev x3 x4] one
  have r1: "r1 = Inl new_RefreshTokenReuseDetectedException"
    and w2: "session_tbl w2 = set_revoked_at (driver_date t') (\<lambda>e'. se_userId e' = se_userId e \<and> se_revokedAt e' = None)
      (session_tbl w)" by auto
  have "spent (tokens (session_tbl w2)) (sha256_hex L (rf_refreshToken c2))"
    using k' by (auto simp: w2 tokens_revoke_user spent_def revoke_user_def ke token_of_def)
  moreover have inv2: "session_inv L F w2" using refresh_refines [OF L inv one] by simp
  ultimately have inv3: "session_inv L F w3"
    and sp: "spent (tokens (session_tbl w3)) (sha256_hex L (rf_refreshToken c2))"
    using run_keeps_spent [OF L ys inv2] by auto
  from refresh_refines [OF L inv3 two] sp have "\<And>lr. r2 \<noteq> Inr lr"
    by (auto dest: refresh_implements_Inr(2))
  with r1 show ?thesis by (cases r2) auto
qed

end

end
