(* ===== verification/Criteria_Query.thy ===== *)
theory Criteria_Query
  imports Schema_Invariant
begin

text \<open>
  Queries by criteria, as the read repositories issue them. The shared kit computes the page from
  the criteria and turns filters and sorts into the query (\<open>calculatePagination\<close>,
  \<open>applyCriteriaToQueryBuilder\<close>): both are parameters. The repositories themselves take the page
  out of the matching rows and map each to a view model.
\<close>

record criteria =
  cr_filters :: "(string \<times> string \<times> string) list option"
  cr_sorts :: "(string \<times> string) list option"
  cr_pagination :: "(int option \<times> int option) option"

datatype sort_direction = ASC | DESC

record 'row criteria_kit =
  calculatePagination :: "criteria \<Rightarrow> nat \<times> nat \<times> nat"
  applyCriteria :: "criteria \<Rightarrow> string \<Rightarrow> string \<times> sort_direction \<Rightarrow> 'row list \<Rightarrow> 'row list"

record 'a paginated_result =
  pr_items :: "'a list"
  pr_total :: nat
  pr_page :: nat
  pr_limit :: nat

text \<open>\<open>findByCriteria\<close> of a read repository: \<open>alias\<close> and \<open>defaultSort\<close> are the repository's own.\<close>

definition find_by_criteria ::
  "'row criteria_kit \<Rightarrow> ('x world, 'row) Repository \<Rightarrow> ('row \<Rightarrow> ('x, error, 'v) comp) \<Rightarrow>
   string \<Rightarrow> string \<times> sort_direction \<Rightarrow> criteria \<Rightarrow> ('x world, error, 'v paginated_result) comp" where
  "find_by_criteria K repo toViewModel alias defaultSort c =
     (case calculatePagination K c of (page, limit, skip) \<Rightarrow>
      bindE (repo_find repo (\<lambda>_. True)) (\<lambda>rows.
      let matching = applyCriteria K c alias defaultSort rows;
          entities = take limit (drop skip matching);
          total = length matching in
      bindE (mapE (\<lambda>entity. outside (toViewModel entity)) entities) (\<lambda>items.
      ret \<lparr>pr_items = items, pr_total = total, pr_page = page, pr_limit = limit\<rparr>)))"

text \<open>\<open>map_sums\<close> is \<open>mapE\<close> for a function that does not touch the state.\<close>

primrec map_sums :: "('a \<Rightarrow> 'e + 'b) \<Rightarrow> 'a list \<Rightarrow> 'e + 'b list" where
  "map_sums f [] = Inr []"
| "map_sums f (x # xs) = (case f x of Inl e \<Rightarrow> Inl e
     | Inr y \<Rightarrow> (case map_sums f xs of Inl e \<Rightarrow> Inl e | Inr ys \<Rightarrow> Inr (y # ys)))"

lemma mapE_liftE: "mapE (\<lambda>x. liftE (f x)) xs = liftE (map_sums f xs)"
  by (induction xs) (auto simp: bindE_def fun_eq_iff split: sum.split)

lemma map_sums_Inr: "map_sums f xs = Inr ys \<Longrightarrow> list_all2 (\<lambda>x y. f x = Inr y) xs ys"
  by (induction xs arbitrary: ys) (auto split: sum.splits)

lemma map_sums_all: "(\<And>x. x \<in> set xs \<Longrightarrow> f x = Inr (g x)) \<Longrightarrow> map_sums f xs = Inr (map g xs)"
  by (induction xs) auto

lemma find_by_criteria_keeps:
  assumes "\<And>p. preserves I (repo_find repo p)" and "\<And>e. preserves I (outside (f e))"
  shows "preserves I (find_by_criteria K repo f alias ds c)"
  unfolding find_by_criteria_def Let_def
  by (intro preserves_case_prod preserves_bindE preserves_mapE preserves_ret assms)

text \<open>A page never holds more rows than its limit, all of them rows of the table that match.\<close>

lemma find_by_criteria_page:
  assumes run: "find_by_criteria K (sql_repository get put key check del) (\<lambda>e. liftE (f e)) alias ds c w
      = (Inr p, w')"
    and page: "calculatePagination K c = (pg, limit, skip)"
  shows "w' = w \<and> pr_limit p = limit \<and> length (pr_items p) \<le> limit \<and>
    pr_total p = length (applyCriteria K c alias ds (get w)) \<and>
    list_all2 (\<lambda>e v. f e = Inr v) (take limit (drop skip (applyCriteria K c alias ds (get w)))) (pr_items p)"
proof -
  let ?es = "take limit (drop skip (applyCriteria K c alias ds (get w)))"
  from run page obtain vs where vs: "map_sums f ?es = Inr vs" "w' = w"
    "p = \<lparr>pr_items = vs, pr_total = length (applyCriteria K c alias ds (get w)), pr_page = pg, pr_limit = limit\<rparr>"
    by (auto simp: find_by_criteria_def Let_def bindE_find mapE_liftE bindE_Inr_iff)
  from map_sums_Inr [OF vs(1)] have "length vs = length ?es" by (auto dest: list_all2_lengthD)
  with vs map_sums_Inr [OF vs(1)] show ?thesis by simp
qed

text \<open>A kit at which the witnesses apply the properties: every row matches, twenty to a page.\<close>

definition sample_kit :: "'row criteria_kit" where
  "sample_kit = \<lparr>calculatePagination = (\<lambda>c. case cr_pagination c of
       Some (Some page, Some limit) \<Rightarrow> (nat page, nat limit, (nat page - 1) * nat limit)
     | _ \<Rightarrow> (1, 20, 0)),
     applyCriteria = (\<lambda>c alias ds rows. rows)\<rparr>"

end
