(* ===== verification/Tenancy_Domain.thy ===== *)
theory Tenancy_Domain
  imports Criteria_Query
begin

text \<open>
  The domain and the persistence of the \<open>tenancy\<close> context (\<open>src/contexts/tenancy/domain\<close>,
  \<open>src/contexts/tenancy/infrastructure\<close>): the tenant and membership aggregates, their builders,
  mappers and repositories, and what a row of each table reads back as.
\<close>

section \<open>The tenant\<close>

record tenant_aggregate =
  ta_id :: string
  ta_createdAt :: int
  ta_updatedAt :: int
  ta_appId :: string
  ta_name :: string
  ta_slug :: string
  ta_events :: "tenant_event list"

definition TenantAggregate_toPrimitives :: "tenant_aggregate \<Rightarrow> tenant_primitives" where
  "TenantAggregate_toPrimitives a =
     \<lparr>tp_id = ta_id a, tp_appId = ta_appId a, tp_name = ta_name a, tp_slug = ta_slug a,
      tp_createdAt = ta_createdAt a, tp_updatedAt = ta_updatedAt a\<rparr>"

definition tenant_apply :: "tenant_event \<Rightarrow> tenant_aggregate \<Rightarrow> tenant_aggregate" where
  "tenant_apply e a = a\<lparr>ta_events := ta_events a @ [e]\<rparr>"

definition TenantAggregate_create :: "tenant_aggregate \<Rightarrow> tenant_aggregate" where
  "TenantAggregate_create a = tenant_apply (TenantCreatedEvent (TenantAggregate_toPrimitives a)) a"

definition TenantAggregate_delete :: "tenant_aggregate \<Rightarrow> tenant_aggregate" where
  "TenantAggregate_delete a = tenant_apply (TenantDeletedEvent (TenantAggregate_toPrimitives a)) a"

definition TenantAggregate_changeName ::
  "'x lib \<Rightarrow> string \<Rightarrow> tenant_aggregate \<Rightarrow> ('x, error, tenant_aggregate) comp" where
  "TenantAggregate_changeName L name a =
     (let oldValue = ta_name a; newValue = name
      in if oldValue = newValue then ret a
         else bindE (touched L (ta_updatedAt a)) (\<lambda>t.
           ret (tenant_apply (TenantNameChangedEvent (ta_id a) oldValue newValue)
             (a\<lparr>ta_name := name, ta_updatedAt := t\<rparr>))))"

definition TenantAggregate_changeSlug ::
  "'x lib \<Rightarrow> string \<Rightarrow> tenant_aggregate \<Rightarrow> ('x, error, tenant_aggregate) comp" where
  "TenantAggregate_changeSlug L slug a =
     (let oldValue = ta_slug a; newValue = slug
      in if oldValue = newValue then ret a
         else bindE (touched L (ta_updatedAt a)) (\<lambda>t.
           ret (tenant_apply (TenantSlugChangedEvent (ta_id a) oldValue newValue)
             (a\<lparr>ta_slug := slug, ta_updatedAt := t\<rparr>))))"

definition TenantAggregate_update ::
  "'x lib \<Rightarrow> string option \<Rightarrow> string option \<Rightarrow> tenant_aggregate \<Rightarrow>
   ('x, error, tenant_aggregate) comp" where
  "TenantAggregate_update L name slug a0 =
     bindE (case name of None \<Rightarrow> ret a0 | Some v \<Rightarrow> TenantAggregate_changeName L v a0) (\<lambda>a1.
     bindE (case slug of None \<Rightarrow> ret a1 | Some v \<Rightarrow> TenantAggregate_changeSlug L v a1) (\<lambda>a2.
     ret (tenant_apply (TenantUpdatedEvent (TenantAggregate_toPrimitives a2)) a2)))"

record tenant_view_model =
  tv_id :: string
  tv_createdAt :: int
  tv_updatedAt :: int
  tv_appId :: string
  tv_name :: string
  tv_slug :: string

record tenant_builder =
  tb_id :: string
  tb_createdAt :: "int option"
  tb_updatedAt :: "int option"
  tb_appId :: string
  tb_name :: string
  tb_slug :: string

definition TenantBuilder_new :: tenant_builder where
  "TenantBuilder_new = \<lparr>tb_id = [], tb_createdAt = None, tb_updatedAt = None, tb_appId = [],
     tb_name = [], tb_slug = []\<rparr>"

definition TenantBuilder_validate :: "'x lib \<Rightarrow> tenant_builder \<Rightarrow> ('s, error, unit) comp" where
  "TenantBuilder_validate L b =
     bindE (liftE (base_validate L (tb_id b) (tb_createdAt b) (tb_updatedAt b))) (\<lambda>_.
     if tb_appId b = [] then throw (field_required L ''appId'')
     else if tb_name b = [] then throw (field_required L ''name'')
     else if tb_slug b = [] then throw (field_required L ''slug'')
     else ret ())"

definition TenantBuilder_build :: "'x lib \<Rightarrow> tenant_builder \<Rightarrow> ('x, error, tenant_aggregate) comp" where
  "TenantBuilder_build L b =
     bindE (TenantBuilder_validate L b) (\<lambda>_.
     bindE (liftE (uuid_vo L (tb_id b))) (\<lambda>id.
     bindE (liftE (uuid_vo L (tb_appId b))) (\<lambda>appId.
     bindE (liftE (TenantNameValueObject L (tb_name b))) (\<lambda>name.
     bindE (liftE (TenantSlugValueObject L (tb_slug b))) (\<lambda>slug.
     bindE (date_or_now L (tb_createdAt b)) (\<lambda>createdAt.
     bindE (date_or_now L (tb_updatedAt b)) (\<lambda>updatedAt.
     ret \<lparr>ta_id = id, ta_createdAt = createdAt, ta_updatedAt = updatedAt, ta_appId = appId,
          ta_name = name, ta_slug = slug, ta_events = []\<rparr>)))))))"

definition TenantBuilder_buildViewModel ::
  "'x lib \<Rightarrow> tenant_builder \<Rightarrow> ('x, error, tenant_view_model) comp" where
  "TenantBuilder_buildViewModel L b =
     bindE (TenantBuilder_validate L b) (\<lambda>_.
     bindE (date_or_now L (tb_createdAt b)) (\<lambda>createdAt.
     bindE (date_or_now L (tb_updatedAt b)) (\<lambda>updatedAt.
     ret \<lparr>tv_id = tb_id b, tv_createdAt = createdAt, tv_updatedAt = updatedAt,
          tv_appId = tb_appId b, tv_name = tb_name b, tv_slug = tb_slug b\<rparr>)))"

definition tenant_builder_of_entity :: "tenant_builder \<Rightarrow> tenant_entity \<Rightarrow> tenant_builder" where
  "tenant_builder_of_entity b e = b\<lparr>tb_id := te_id e, tb_appId := te_appId e,
     tb_name := te_name e, tb_slug := te_slug e, tb_createdAt := Some (te_createdAt e),
     tb_updatedAt := Some (te_updatedAt e)\<rparr>"

definition TenantTypeOrmMapper_toAggregate ::
  "'x lib \<Rightarrow> tenant_entity \<Rightarrow> ('x, error, tenant_aggregate) comp" where
  "TenantTypeOrmMapper_toAggregate L entity =
     TenantBuilder_build L (tenant_builder_of_entity TenantBuilder_new entity)"

definition TenantTypeOrmMapper_toEntity :: "tenant_aggregate \<Rightarrow> tenant_entity" where
  "TenantTypeOrmMapper_toEntity aggregate =
     (let primitives = TenantAggregate_toPrimitives aggregate
      in \<lparr>te_id = tp_id primitives, te_appId = tp_appId primitives, te_name = tp_name primitives,
          te_slug = tp_slug primitives, te_createdAt = tp_createdAt primitives,
          te_updatedAt = tp_updatedAt primitives\<rparr>)"

definition TenantTypeOrmMapper_toViewModel ::
  "'x lib \<Rightarrow> tenant_entity \<Rightarrow> ('x, error, tenant_view_model) comp" where
  "TenantTypeOrmMapper_toViewModel L entity =
     TenantBuilder_buildViewModel L (tenant_builder_of_entity TenantBuilder_new entity)"

section \<open>The membership\<close>

record membership_aggregate =
  ma_id :: string
  ma_createdAt :: int
  ma_updatedAt :: int
  ma_tenantId :: string
  ma_userId :: string
  ma_role :: string
  ma_events :: "membership_event list"

definition TenantMembershipAggregate_toPrimitives ::
  "membership_aggregate \<Rightarrow> membership_primitives" where
  "TenantMembershipAggregate_toPrimitives a =
     \<lparr>mp_id = ma_id a, mp_tenantId = ma_tenantId a, mp_userId = ma_userId a, mp_role = ma_role a,
      mp_createdAt = ma_createdAt a, mp_updatedAt = ma_updatedAt a\<rparr>"

definition membership_apply :: "membership_event \<Rightarrow> membership_aggregate \<Rightarrow> membership_aggregate" where
  "membership_apply e a = a\<lparr>ma_events := ma_events a @ [e]\<rparr>"

definition TenantMembershipAggregate_create :: "membership_aggregate \<Rightarrow> membership_aggregate" where
  "TenantMembershipAggregate_create a =
     membership_apply (TenantMembershipCreatedEvent (TenantMembershipAggregate_toPrimitives a)) a"

definition TenantMembershipAggregate_delete :: "membership_aggregate \<Rightarrow> membership_aggregate" where
  "TenantMembershipAggregate_delete a =
     membership_apply (TenantMembershipDeletedEvent (TenantMembershipAggregate_toPrimitives a)) a"

definition TenantMembershipAggregate_changeRole ::
  "'x lib \<Rightarrow> string \<Rightarrow> membership_aggregate \<Rightarrow> ('x, error, membership_aggregate) comp" where
  "TenantMembershipAggregate_changeRole L role a =
     (let oldValue = ma_role a; newValue = role
      in if oldValue = newValue then ret a
         else bindE (touched L (ma_updatedAt a)) (\<lambda>t.
           ret (membership_apply (TenantMembershipRoleChangedEvent (ma_id a) oldValue newValue)
             (a\<lparr>ma_role := role, ma_updatedAt := t\<rparr>))))"

definition TenantMembershipAggregate_update ::
  "'x lib \<Rightarrow> string option \<Rightarrow> membership_aggregate \<Rightarrow> ('x, error, membership_aggregate) comp" where
  "TenantMembershipAggregate_update L role a0 =
     bindE (case role of None \<Rightarrow> ret a0 | Some v \<Rightarrow> TenantMembershipAggregate_changeRole L v a0) (\<lambda>a1.
     ret (membership_apply
       (TenantMembershipUpdatedEvent (TenantMembershipAggregate_toPrimitives a1)) a1))"

record membership_view_model =
  mv_id :: string
  mv_createdAt :: int
  mv_updatedAt :: int
  mv_tenantId :: string
  mv_userId :: string
  mv_role :: string

record membership_builder =
  mb_id :: string
  mb_createdAt :: "int option"
  mb_updatedAt :: "int option"
  mb_tenantId :: string
  mb_userId :: string
  mb_role :: string

definition TenantMembershipBuilder_new :: membership_builder where
  "TenantMembershipBuilder_new = \<lparr>mb_id = [], mb_createdAt = None, mb_updatedAt = None,
     mb_tenantId = [], mb_userId = [], mb_role = []\<rparr>"

definition TenantMembershipBuilder_validate ::
  "'x lib \<Rightarrow> membership_builder \<Rightarrow> ('s, error, unit) comp" where
  "TenantMembershipBuilder_validate L b =
     bindE (liftE (base_validate L (mb_id b) (mb_createdAt b) (mb_updatedAt b))) (\<lambda>_.
     if mb_tenantId b = [] then throw (field_required L ''tenantId'')
     else if mb_userId b = [] then throw (field_required L ''userId'')
     else if mb_role b = [] then throw (field_required L ''role'')
     else ret ())"

definition TenantMembershipBuilder_build ::
  "'x lib \<Rightarrow> membership_builder \<Rightarrow> ('x, error, membership_aggregate) comp" where
  "TenantMembershipBuilder_build L b =
     bindE (TenantMembershipBuilder_validate L b) (\<lambda>_.
     bindE (liftE (uuid_vo L (mb_id b))) (\<lambda>id.
     bindE (liftE (uuid_vo L (mb_tenantId b))) (\<lambda>tenantId.
     bindE (liftE (uuid_vo L (mb_userId b))) (\<lambda>userId.
     bindE (liftE (TenantRoleValueObject L (mb_role b))) (\<lambda>role.
     bindE (date_or_now L (mb_createdAt b)) (\<lambda>createdAt.
     bindE (date_or_now L (mb_updatedAt b)) (\<lambda>updatedAt.
     ret \<lparr>ma_id = id, ma_createdAt = createdAt, ma_updatedAt = updatedAt, ma_tenantId = tenantId,
          ma_userId = userId, ma_role = role, ma_events = []\<rparr>)))))))"

definition TenantMembershipBuilder_buildViewModel ::
  "'x lib \<Rightarrow> membership_builder \<Rightarrow> ('x, error, membership_view_model) comp" where
  "TenantMembershipBuilder_buildViewModel L b =
     bindE (TenantMembershipBuilder_validate L b) (\<lambda>_.
     bindE (date_or_now L (mb_createdAt b)) (\<lambda>createdAt.
     bindE (date_or_now L (mb_updatedAt b)) (\<lambda>updatedAt.
     ret \<lparr>mv_id = mb_id b, mv_createdAt = createdAt, mv_updatedAt = updatedAt,
          mv_tenantId = mb_tenantId b, mv_userId = mb_userId b, mv_role = mb_role b\<rparr>)))"

definition membership_builder_of_entity ::
  "membership_builder \<Rightarrow> membership_entity \<Rightarrow> membership_builder" where
  "membership_builder_of_entity b e = b\<lparr>mb_id := me_id e, mb_tenantId := me_tenantId e,
     mb_userId := me_userId e, mb_role := me_role e, mb_createdAt := Some (me_createdAt e),
     mb_updatedAt := Some (me_updatedAt e)\<rparr>"

definition TenantMembershipTypeOrmMapper_toAggregate ::
  "'x lib \<Rightarrow> membership_entity \<Rightarrow> ('x, error, membership_aggregate) comp" where
  "TenantMembershipTypeOrmMapper_toAggregate L entity =
     TenantMembershipBuilder_build L
       (membership_builder_of_entity TenantMembershipBuilder_new entity)"

definition TenantMembershipTypeOrmMapper_toEntity :: "membership_aggregate \<Rightarrow> membership_entity" where
  "TenantMembershipTypeOrmMapper_toEntity aggregate =
     (let primitives = TenantMembershipAggregate_toPrimitives aggregate
      in \<lparr>me_id = mp_id primitives, me_tenantId = mp_tenantId primitives,
          me_userId = mp_userId primitives, me_role = mp_role primitives,
          me_createdAt = mp_createdAt primitives, me_updatedAt = mp_updatedAt primitives\<rparr>)"

definition TenantMembershipTypeOrmMapper_toViewModel ::
  "'x lib \<Rightarrow> membership_entity \<Rightarrow> ('x, error, membership_view_model) comp" where
  "TenantMembershipTypeOrmMapper_toViewModel L entity =
     TenantMembershipBuilder_buildViewModel L
       (membership_builder_of_entity TenantMembershipBuilder_new entity)"

section \<open>The repositories\<close>

record 's ITenantWriteRepository =
  twr_findById :: "string \<Rightarrow> ('s, error, tenant_aggregate option) comp"
  twr_findByAppIdAndSlug :: "string \<Rightarrow> string \<Rightarrow> ('s, error, tenant_aggregate option) comp"
  twr_save :: "tenant_aggregate \<Rightarrow> ('s, error, tenant_aggregate) comp"
  twr_delete :: "string \<Rightarrow> ('s, error, unit) comp"

record 's ITenantReadRepository =
  trr_findById :: "string \<Rightarrow> ('s, error, tenant_view_model option) comp"
  trr_findByCriteria :: "criteria \<Rightarrow> ('s, error, tenant_view_model paginated_result) comp"

record 's ITenantMembershipWriteRepository =
  mwr_findById :: "string \<Rightarrow> ('s, error, membership_aggregate option) comp"
  mwr_findByTenantIdAndUserId ::
    "string \<Rightarrow> string \<Rightarrow> ('s, error, membership_aggregate option) comp"
  mwr_save :: "membership_aggregate \<Rightarrow> ('s, error, membership_aggregate) comp"
  mwr_delete :: "string \<Rightarrow> ('s, error, unit) comp"
  mwr_deleteAllByTenantId :: "string \<Rightarrow> ('s, error, unit) comp"

record 's ITenantMembershipReadRepository =
  mrr_findById :: "string \<Rightarrow> ('s, error, membership_view_model option) comp"
  mrr_findAllByTenantId :: "string \<Rightarrow> ('s, error, membership_view_model list) comp"
  mrr_findAllByUserId :: "string \<Rightarrow> ('s, error, membership_view_model list) comp"
  mrr_findByCriteria :: "criteria \<Rightarrow> ('s, error, membership_view_model paginated_result) comp"

definition TenantTypeOrmWriteRepository ::
  "'x lib \<Rightarrow> ('x world, tenant_entity) Repository \<Rightarrow> 'x world ITenantWriteRepository" where
  "TenantTypeOrmWriteRepository L repo =
     \<lparr>twr_findById = (\<lambda>id. bindE (repo_findOne repo (\<lambda>e. te_id e = id))
        (optE (\<lambda>entity. outside (TenantTypeOrmMapper_toAggregate L entity)))),
      twr_findByAppIdAndSlug = (\<lambda>appId slug.
        bindE (repo_findOne repo (\<lambda>e. te_appId e = appId \<and> te_slug e = slug))
        (optE (\<lambda>entity. outside (TenantTypeOrmMapper_toAggregate L entity)))),
      twr_save = (\<lambda>tenant. bindE (repo_save repo (TenantTypeOrmMapper_toEntity tenant))
        (\<lambda>saved. outside (TenantTypeOrmMapper_toAggregate L saved))),
      twr_delete = (\<lambda>id. repo_delete repo (\<lambda>e. te_id e = id))\<rparr>"

definition TenantTypeOrmReadRepository ::
  "'x lib \<Rightarrow> tenant_entity criteria_kit \<Rightarrow> ('x world, tenant_entity) Repository \<Rightarrow>
   'x world ITenantReadRepository" where
  "TenantTypeOrmReadRepository L K repo =
     \<lparr>trr_findById = (\<lambda>id. bindE (repo_findOne repo (\<lambda>e. te_id e = id))
        (optE (\<lambda>entity. outside (TenantTypeOrmMapper_toViewModel L entity)))),
      trr_findByCriteria = find_by_criteria K repo (TenantTypeOrmMapper_toViewModel L) ''tenant''
        (''createdAt'', DESC)\<rparr>"

definition TenantMembershipTypeOrmWriteRepository ::
  "'x lib \<Rightarrow> ('x world, membership_entity) Repository \<Rightarrow> 'x world ITenantMembershipWriteRepository" where
  "TenantMembershipTypeOrmWriteRepository L repo =
     \<lparr>mwr_findById = (\<lambda>id. bindE (repo_findOne repo (\<lambda>e. me_id e = id))
        (optE (\<lambda>entity. outside (TenantMembershipTypeOrmMapper_toAggregate L entity)))),
      mwr_findByTenantIdAndUserId = (\<lambda>tenantId userId.
        bindE (repo_findOne repo (\<lambda>e. me_tenantId e = tenantId \<and> me_userId e = userId))
        (optE (\<lambda>entity. outside (TenantMembershipTypeOrmMapper_toAggregate L entity)))),
      mwr_save = (\<lambda>membership.
        bindE (repo_save repo (TenantMembershipTypeOrmMapper_toEntity membership))
        (\<lambda>saved. outside (TenantMembershipTypeOrmMapper_toAggregate L saved))),
      mwr_delete = (\<lambda>id. repo_delete repo (\<lambda>e. me_id e = id)),
      mwr_deleteAllByTenantId = (\<lambda>tenantId. repo_delete repo (\<lambda>e. me_tenantId e = tenantId))\<rparr>"

definition TenantMembershipTypeOrmReadRepository ::
  "'x lib \<Rightarrow> membership_entity criteria_kit \<Rightarrow> ('x world, membership_entity) Repository \<Rightarrow>
   'x world ITenantMembershipReadRepository" where
  "TenantMembershipTypeOrmReadRepository L K repo =
     \<lparr>mrr_findById = (\<lambda>id. bindE (repo_findOne repo (\<lambda>e. me_id e = id))
        (optE (\<lambda>entity. outside (TenantMembershipTypeOrmMapper_toViewModel L entity)))),
      mrr_findAllByTenantId = (\<lambda>tenantId. bindE (repo_find repo (\<lambda>e. me_tenantId e = tenantId))
        (\<lambda>entities. mapE (\<lambda>e. outside (TenantMembershipTypeOrmMapper_toViewModel L e)) entities)),
      mrr_findAllByUserId = (\<lambda>userId. bindE (repo_find repo (\<lambda>e. me_userId e = userId))
        (\<lambda>entities. mapE (\<lambda>e. outside (TenantMembershipTypeOrmMapper_toViewModel L e)) entities)),
      mrr_findByCriteria = find_by_criteria K repo (TenantMembershipTypeOrmMapper_toViewModel L)
        ''tenant_membership'' (''createdAt'', DESC)\<rparr>"

section \<open>Reading and writing rows\<close>

definition tenant_from_row :: "'x lib \<Rightarrow> tenant_entity \<Rightarrow> error + tenant_aggregate" where
  "tenant_from_row L e = fst (TenantTypeOrmMapper_toAggregate L e undefined)"

definition tenant_view_from_row :: "'x lib \<Rightarrow> tenant_entity \<Rightarrow> error + tenant_view_model" where
  "tenant_view_from_row L e = fst (TenantTypeOrmMapper_toViewModel L e undefined)"

definition membership_from_row :: "'x lib \<Rightarrow> membership_entity \<Rightarrow> error + membership_aggregate" where
  "membership_from_row L e = fst (TenantMembershipTypeOrmMapper_toAggregate L e undefined)"

definition membership_view_from_row ::
  "'x lib \<Rightarrow> membership_entity \<Rightarrow> error + membership_view_model" where
  "membership_view_from_row L e = fst (TenantMembershipTypeOrmMapper_toViewModel L e undefined)"

lemmas tenant_build_defs = TenantTypeOrmMapper_toAggregate_def TenantBuilder_build_def
  TenantBuilder_validate_def tenant_builder_of_entity_def

lemmas tenant_view_defs = TenantTypeOrmMapper_toViewModel_def TenantBuilder_buildViewModel_def
  TenantBuilder_validate_def tenant_builder_of_entity_def

lemmas membership_build_defs = TenantMembershipTypeOrmMapper_toAggregate_def
  TenantMembershipBuilder_build_def TenantMembershipBuilder_validate_def
  membership_builder_of_entity_def

lemmas membership_view_defs = TenantMembershipTypeOrmMapper_toViewModel_def
  TenantMembershipBuilder_buildViewModel_def TenantMembershipBuilder_validate_def
  membership_builder_of_entity_def

lemma tenant_toAggregate_run: "TenantTypeOrmMapper_toAggregate L e = liftE (tenant_from_row L e)"
  by (simp add: fun_eq_iff tenant_from_row_def tenant_build_defs bindE_def split: sum.split)

lemma tenant_toViewModel_run: "TenantTypeOrmMapper_toViewModel L e = liftE (tenant_view_from_row L e)"
  by (simp add: fun_eq_iff tenant_view_from_row_def tenant_view_defs bindE_def split: sum.split)

lemma membership_toAggregate_run:
  "TenantMembershipTypeOrmMapper_toAggregate L e = liftE (membership_from_row L e)"
  by (simp add: fun_eq_iff membership_from_row_def membership_build_defs bindE_def split: sum.split)

lemma membership_toViewModel_run:
  "TenantMembershipTypeOrmMapper_toViewModel L e = liftE (membership_view_from_row L e)"
  by (simp add: fun_eq_iff membership_view_from_row_def membership_view_defs bindE_def split: sum.split)

lemma tenant_from_row_Inr:
  assumes "tenant_from_row L e = Inr a"
  shows "uuid_vo L (te_id e) = Inr (ta_id a)" "uuid_vo L (te_appId e) = Inr (ta_appId a)"
    "TenantNameValueObject L (te_name e) = Inr (ta_name a)"
    "TenantSlugValueObject L (te_slug e) = Inr (ta_slug a)"
    "ta_createdAt a = te_createdAt e" "ta_updatedAt a = te_updatedAt e" "ta_events a = []"
  using assms by (auto simp: tenant_from_row_def tenant_build_defs bindE_def split: sum.splits if_splits)

lemma membership_from_row_Inr:
  assumes "membership_from_row L e = Inr a"
  shows "uuid_vo L (me_id e) = Inr (ma_id a)" "uuid_vo L (me_tenantId e) = Inr (ma_tenantId a)"
    "uuid_vo L (me_userId e) = Inr (ma_userId a)"
    "TenantRoleValueObject L (me_role e) = Inr (ma_role a)" "ma_events a = []"
  using assms
  by (auto simp: membership_from_row_def membership_build_defs bindE_def split: sum.splits if_splits)

lemma membership_view_from_row_Inr:
  "membership_view_from_row L e = Inr v \<Longrightarrow>
     mv_tenantId v = me_tenantId e \<and> mv_userId v = me_userId e \<and> mv_role v = me_role e"
  by (auto simp: membership_view_from_row_def membership_view_defs bindE_def
      split: sum.splits if_splits)

definition tenant_wf :: "'x lib \<Rightarrow> tenant_aggregate \<Rightarrow> bool" where
  "tenant_wf L a \<longleftrightarrow> uuid_vo L (ta_id a) = Inr (ta_id a) \<and>
     uuid_vo L (ta_appId a) = Inr (ta_appId a) \<and> ta_appId a \<noteq> [] \<and>
     TenantNameValueObject L (ta_name a) = Inr (ta_name a) \<and> ta_name a \<noteq> [] \<and>
     TenantSlugValueObject L (ta_slug a) = Inr (ta_slug a) \<and> ta_slug a \<noteq> [] \<and>
     base_validate L (ta_id a) (Some (ta_createdAt a)) (Some (ta_updatedAt a)) = Inr ()"

definition membership_wf :: "'x lib \<Rightarrow> membership_aggregate \<Rightarrow> bool" where
  "membership_wf L a \<longleftrightarrow> uuid_vo L (ma_id a) = Inr (ma_id a) \<and>
     uuid_vo L (ma_tenantId a) = Inr (ma_tenantId a) \<and> ma_tenantId a \<noteq> [] \<and>
     uuid_vo L (ma_userId a) = Inr (ma_userId a) \<and> ma_userId a \<noteq> [] \<and>
     TenantRoleValueObject L (ma_role a) = Inr (ma_role a) \<and> ma_role a \<noteq> [] \<and>
     base_validate L (ma_id a) (Some (ma_createdAt a)) (Some (ma_updatedAt a)) = Inr ()"

lemma tenant_events_frame [simp]:
  "TenantAggregate_toPrimitives (a\<lparr>ta_events := es\<rparr>) = TenantAggregate_toPrimitives a"
  "TenantTypeOrmMapper_toEntity (a\<lparr>ta_events := es\<rparr>) = TenantTypeOrmMapper_toEntity a"
  "tenant_wf L (a\<lparr>ta_events := es\<rparr>) = tenant_wf L a"
  by (simp_all add: TenantAggregate_toPrimitives_def TenantTypeOrmMapper_toEntity_def tenant_wf_def)

lemma membership_events_frame [simp]:
  "TenantMembershipAggregate_toPrimitives (m\<lparr>ma_events := es\<rparr>) =
     TenantMembershipAggregate_toPrimitives m"
  "TenantMembershipTypeOrmMapper_toEntity (m\<lparr>ma_events := es\<rparr>) =
     TenantMembershipTypeOrmMapper_toEntity m"
  "membership_wf L (m\<lparr>ma_events := es\<rparr>) = membership_wf L m"
  by (simp_all add: TenantMembershipAggregate_toPrimitives_def
      TenantMembershipTypeOrmMapper_toEntity_def membership_wf_def)

lemma tenant_entity_sel [simp]:
  "te_id (TenantTypeOrmMapper_toEntity a) = ta_id a"
  "te_appId (TenantTypeOrmMapper_toEntity a) = ta_appId a"
  "te_slug (TenantTypeOrmMapper_toEntity a) = ta_slug a"
  "te_name (TenantTypeOrmMapper_toEntity a) = ta_name a"
  by (simp_all add: TenantTypeOrmMapper_toEntity_def TenantAggregate_toPrimitives_def Let_def)

lemma membership_entity_sel [simp]:
  "me_id (TenantMembershipTypeOrmMapper_toEntity m) = ma_id m"
  "me_tenantId (TenantMembershipTypeOrmMapper_toEntity m) = ma_tenantId m"
  "me_userId (TenantMembershipTypeOrmMapper_toEntity m) = ma_userId m"
  "me_role (TenantMembershipTypeOrmMapper_toEntity m) = ma_role m"
  by (simp_all add: TenantMembershipTypeOrmMapper_toEntity_def
      TenantMembershipAggregate_toPrimitives_def Let_def)

lemma tenant_wf_row:
  "tenant_wf L a \<Longrightarrow> tenant_from_row L (TenantTypeOrmMapper_toEntity a) = Inr (a\<lparr>ta_events := []\<rparr>)"
  by (auto simp: tenant_from_row_def tenant_wf_def tenant_build_defs TenantTypeOrmMapper_toEntity_def
      TenantAggregate_toPrimitives_def bindE_def Let_def)

lemma membership_wf_row:
  "membership_wf L m \<Longrightarrow>
     membership_from_row L (TenantMembershipTypeOrmMapper_toEntity m) = Inr (m\<lparr>ma_events := []\<rparr>)"
  by (auto simp: membership_from_row_def membership_wf_def membership_build_defs
      TenantMembershipTypeOrmMapper_toEntity_def TenantMembershipAggregate_toPrimitives_def
      bindE_def Let_def)

section \<open>The repositories on the tables\<close>

abbreviation tenant_write_repo :: "'x lib \<Rightarrow> 'x world ITenantWriteRepository" where
  "tenant_write_repo L \<equiv> TenantTypeOrmWriteRepository L tenant_repo"

abbreviation membership_write_repo :: "'x lib \<Rightarrow> 'x world ITenantMembershipWriteRepository" where
  "membership_write_repo L \<equiv> TenantMembershipTypeOrmWriteRepository L membership_repo"

abbreviation tenant_read_repo ::
  "'x lib \<Rightarrow> tenant_entity criteria_kit \<Rightarrow> 'x world ITenantReadRepository" where
  "tenant_read_repo L K \<equiv> TenantTypeOrmReadRepository L K tenant_repo"

abbreviation membership_read_repo ::
  "'x lib \<Rightarrow> membership_entity criteria_kit \<Rightarrow> 'x world ITenantMembershipReadRepository" where
  "membership_read_repo L K \<equiv> TenantMembershipTypeOrmReadRepository L K membership_repo"

lemma tenant_write_repo_run:
  "twr_findById (tenant_write_repo L) i w =
     (opt_sum (tenant_from_row L) (find (\<lambda>e. te_id e = i) (tenant_tbl w)), w)"
  "twr_findByAppIdAndSlug (tenant_write_repo L) ap s w =
     (opt_sum (tenant_from_row L) (find (\<lambda>e. te_appId e = ap \<and> te_slug e = s) (tenant_tbl w)), w)"
  "twr_save (tenant_write_repo L) a w =
     (case check_tenant w (TenantTypeOrmMapper_toEntity a) of
        Some c \<Rightarrow> (Inl (QueryFailedError c), w)
      | None \<Rightarrow> (tenant_from_row L (TenantTypeOrmMapper_toEntity a),
          w\<lparr>tenant_tbl := upsert te_id (TenantTypeOrmMapper_toEntity a) (tenant_tbl w)\<rparr>))"
  "twr_delete (tenant_write_repo L) i w = (Inr (), delete_tenants (\<lambda>e. te_id e = i) w)"
  by (simp_all add: TenantTypeOrmWriteRepository_def tenant_repo_def bindE_find
      tenant_toAggregate_run optE_liftE)
    (simp_all add: bindE_def sql_repository_sel split: option.split)

lemma membership_write_repo_run:
  "mwr_findByTenantIdAndUserId (membership_write_repo L) tn u w =
     (opt_sum (membership_from_row L)
        (find (\<lambda>e. me_tenantId e = tn \<and> me_userId e = u) (membership_tbl w)), w)"
  "mwr_save (membership_write_repo L) m w =
     (case check_membership w (TenantMembershipTypeOrmMapper_toEntity m) of
        Some c \<Rightarrow> (Inl (QueryFailedError c), w)
      | None \<Rightarrow> (membership_from_row L (TenantMembershipTypeOrmMapper_toEntity m),
          w\<lparr>membership_tbl :=
            upsert me_id (TenantMembershipTypeOrmMapper_toEntity m) (membership_tbl w)\<rparr>))"
  "mwr_deleteAllByTenantId (membership_write_repo L) tn w =
     (Inr (), delete_memberships (\<lambda>e. me_tenantId e = tn) w)"
  by (simp_all add: TenantMembershipTypeOrmWriteRepository_def membership_repo_def bindE_find
      membership_toAggregate_run optE_liftE)
    (simp_all add: bindE_def sql_repository_sel split: option.split)

lemma membership_read_repo_run:
  "mrr_findAllByTenantId (membership_read_repo L K) tn w =
     (map_sums (membership_view_from_row L)
        (filter (\<lambda>e. me_tenantId e = tn) (membership_tbl w)), w)"
  "mrr_findAllByUserId (membership_read_repo L K) u w =
     (map_sums (membership_view_from_row L) (filter (\<lambda>e. me_userId e = u) (membership_tbl w)), w)"
  by (simp_all add: TenantMembershipTypeOrmReadRepository_def membership_repo_def bindE_find
      membership_toViewModel_run mapE_liftE)

lemma tenancy_repos_schema [preserving]:
  "preserves schema_ok (twr_findById (tenant_write_repo L) i)"
  "preserves schema_ok (twr_findByAppIdAndSlug (tenant_write_repo L) ap s)"
  "preserves schema_ok (twr_save (tenant_write_repo L) a)"
  "preserves schema_ok (twr_delete (tenant_write_repo L) i)"
  "preserves schema_ok (mwr_findByTenantIdAndUserId (membership_write_repo L) tn u)"
  "preserves schema_ok (mwr_save (membership_write_repo L) m)"
  "preserves schema_ok (mwr_deleteAllByTenantId (membership_write_repo L) tn)"
  "preserves schema_ok (mrr_findAllByTenantId (membership_read_repo L K) tn)"
  "preserves schema_ok (mrr_findAllByUserId (membership_read_repo L K) u)"
  by (auto simp: TenantTypeOrmWriteRepository_def TenantMembershipTypeOrmWriteRepository_def
      TenantMembershipTypeOrmReadRepository_def intro!: preserving find_by_criteria_keeps)

end
