(* ===== verification/User_Context.thy ===== *)
theory User_Context
  imports Sample_World
begin

text \<open>
  The \<open>user\<close> context (\<open>src/contexts/user\<close>): the user aggregate and its events, the builder, the
  TypeORM mapper, the two repositories, the assertion services, the commands \<open>CreateUser\<close> and
  \<open>SetUserPlatformAdmin\<close>, and the queries by email and by id.

  A builder's unset string field is the empty string: its own tests (\<open>!this._email\<close>) treat
  \<open>undefined\<close> and the empty string alike. \<open>ua_events\<close> are the events an aggregate has applied and
  not yet published.
\<close>

section \<open>The aggregate\<close>

record user_aggregate =
  ua_id :: string
  ua_createdAt :: int
  ua_updatedAt :: int
  ua_externalId :: string
  ua_email :: string
  ua_displayName :: "string option"
  ua_platformAdmin :: bool
  ua_events :: "user_event list"

definition UserAggregate_toPrimitives :: "user_aggregate \<Rightarrow> user_primitives" where
  "UserAggregate_toPrimitives a =
     \<lparr>up_id = ua_id a, up_externalId = ua_externalId a, up_email = ua_email a,
      up_displayName = ua_displayName a, up_platformAdmin = ua_platformAdmin a,
      up_createdAt = ua_createdAt a, up_updatedAt = ua_updatedAt a\<rparr>"

definition user_apply :: "user_event \<Rightarrow> user_aggregate \<Rightarrow> user_aggregate" where
  "user_apply e a = a\<lparr>ua_events := ua_events a @ [e]\<rparr>"

definition UserAggregate_create :: "user_aggregate \<Rightarrow> user_aggregate" where
  "UserAggregate_create a = user_apply (UserRegisteredEvent (UserAggregate_toPrimitives a)) a"

definition UserAggregate_delete :: "user_aggregate \<Rightarrow> user_aggregate" where
  "UserAggregate_delete a = user_apply (UserDeletedEvent (UserAggregate_toPrimitives a)) a"

definition UserAggregate_changeEmail ::
  "'x lib \<Rightarrow> string \<Rightarrow> user_aggregate \<Rightarrow> ('x, error, user_aggregate) comp" where
  "UserAggregate_changeEmail L email a =
     (let oldValue = ua_email a; newValue = email
      in if oldValue = newValue then ret a
         else bindE (touched L (ua_updatedAt a)) (\<lambda>t.
           ret (user_apply (UserEmailChangedEvent (ua_id a) oldValue newValue)
             (a\<lparr>ua_email := email, ua_updatedAt := t\<rparr>))))"

definition UserAggregate_changeDisplayName ::
  "'x lib \<Rightarrow> string option \<Rightarrow> user_aggregate \<Rightarrow> ('x, error, user_aggregate) comp" where
  "UserAggregate_changeDisplayName L displayName a =
     (let oldValue = ua_displayName a; newValue = displayName
      in if oldValue = newValue then ret a
         else bindE (touched L (ua_updatedAt a)) (\<lambda>t.
           ret (user_apply (UserDisplayNameChangedEvent (ua_id a) oldValue newValue)
             (a\<lparr>ua_displayName := displayName, ua_updatedAt := t\<rparr>))))"

definition UserAggregate_changePlatformAdmin ::
  "'x lib \<Rightarrow> bool \<Rightarrow> user_aggregate \<Rightarrow> ('x, error, user_aggregate) comp" where
  "UserAggregate_changePlatformAdmin L platformAdmin a =
     (let oldValue = ua_platformAdmin a; newValue = platformAdmin
      in if oldValue = newValue then ret a
         else bindE (touched L (ua_updatedAt a)) (\<lambda>t.
           ret (user_apply (UserPlatformAdminChangedEvent (ua_id a) oldValue newValue)
             (a\<lparr>ua_platformAdmin := platformAdmin, ua_updatedAt := t\<rparr>))))"

text \<open>The optional properties of \<open>update\<close>: a property that is \<open>undefined\<close> is not changed.\<close>

record user_changes =
  uc_email :: "string option"
  uc_displayName :: "string option"
  uc_platformAdmin :: "bool option"

definition UserAggregate_update ::
  "'x lib \<Rightarrow> user_changes \<Rightarrow> user_aggregate \<Rightarrow> ('x, error, user_aggregate) comp" where
  "UserAggregate_update L props a0 =
     bindE (case uc_email props of None \<Rightarrow> ret a0
            | Some v \<Rightarrow> UserAggregate_changeEmail L v a0) (\<lambda>a1.
     bindE (case uc_displayName props of None \<Rightarrow> ret a1
            | Some v \<Rightarrow> UserAggregate_changeDisplayName L (Some v) a1) (\<lambda>a2.
     bindE (case uc_platformAdmin props of None \<Rightarrow> ret a2
            | Some v \<Rightarrow> UserAggregate_changePlatformAdmin L v a2) (\<lambda>a3.
     ret (user_apply (UserUpdatedEvent (UserAggregate_toPrimitives a3)) a3))))"

section \<open>The builder\<close>

record user_view_model =
  uv_id :: string
  uv_createdAt :: int
  uv_updatedAt :: int
  uv_externalId :: string
  uv_email :: string
  uv_displayName :: "string option"
  uv_platformAdmin :: bool

record user_builder =
  ub_id :: string
  ub_createdAt :: "int option"
  ub_updatedAt :: "int option"
  ub_externalId :: string
  ub_email :: string
  ub_displayName :: "string option"
  ub_platformAdmin :: bool

definition UserBuilder_new :: user_builder where
  "UserBuilder_new = \<lparr>ub_id = [], ub_createdAt = None, ub_updatedAt = None, ub_externalId = [],
     ub_email = [], ub_displayName = None, ub_platformAdmin = False\<rparr>"

definition UserBuilder_validate :: "'x lib \<Rightarrow> user_builder \<Rightarrow> ('s, error, unit) comp" where
  "UserBuilder_validate L b =
     bindE (liftE (base_validate L (ub_id b) (ub_createdAt b) (ub_updatedAt b))) (\<lambda>_.
     if ub_externalId b = [] then throw (field_required L ''externalId'')
     else if ub_email b = [] then throw (field_required L ''email'')
     else ret ())"

definition UserBuilder_build :: "'x lib \<Rightarrow> user_builder \<Rightarrow> ('x, error, user_aggregate) comp" where
  "UserBuilder_build L b =
     bindE (UserBuilder_validate L b) (\<lambda>_.
     bindE (liftE (UserIdValueObject L (ub_id b))) (\<lambda>id.
     bindE (liftE (ExternalIdValueObject L (ub_externalId b))) (\<lambda>externalId.
     bindE (liftE (UserEmailValueObject L (ub_email b))) (\<lambda>email.
     bindE (optE (\<lambda>d. liftE (DisplayNameValueObject L d)) (ub_displayName b)) (\<lambda>displayName.
     bindE (date_or_now L (ub_createdAt b)) (\<lambda>createdAt.
     bindE (date_or_now L (ub_updatedAt b)) (\<lambda>updatedAt.
     ret \<lparr>ua_id = id, ua_createdAt = createdAt, ua_updatedAt = updatedAt,
          ua_externalId = externalId, ua_email = email, ua_displayName = displayName,
          ua_platformAdmin = ub_platformAdmin b, ua_events = []\<rparr>)))))))"

definition UserBuilder_buildViewModel ::
  "'x lib \<Rightarrow> user_builder \<Rightarrow> ('x, error, user_view_model) comp" where
  "UserBuilder_buildViewModel L b =
     bindE (liftE (base_validate L (ub_id b) (ub_createdAt b) (ub_updatedAt b))) (\<lambda>_.
     if ub_externalId b = [] then throw (field_required L ''externalId'')
     else if ub_email b = [] then throw (field_required L ''email'')
     else
       bindE (date_or_now L (ub_createdAt b)) (\<lambda>createdAt.
       bindE (date_or_now L (ub_updatedAt b)) (\<lambda>updatedAt.
       ret \<lparr>uv_id = ub_id b, uv_createdAt = createdAt, uv_updatedAt = updatedAt,
            uv_externalId = ub_externalId b, uv_email = ub_email b,
            uv_displayName = ub_displayName b, uv_platformAdmin = ub_platformAdmin b\<rparr>)))"

section \<open>The mapper\<close>

text \<open>
  The builder is a singleton that keeps the fields of its last use. The functions below that use
  it take its state as \<open>b\<close>; \<open>user_builder_leftovers\<close> shows it never matters, because every use sets
  every field, and the callers pass a new builder.
\<close>

definition user_builder_of_entity :: "user_builder \<Rightarrow> user_entity \<Rightarrow> user_builder" where
  "user_builder_of_entity b e = b\<lparr>ub_id := ue_id e, ub_externalId := ue_externalId e,
     ub_email := ue_email e, ub_displayName := ue_displayName e,
     ub_platformAdmin := ue_platformAdmin e, ub_createdAt := Some (ue_createdAt e),
     ub_updatedAt := Some (ue_updatedAt e)\<rparr>"

definition UserTypeOrmMapper_toAggregate ::
  "'x lib \<Rightarrow> user_entity \<Rightarrow> ('x, error, user_aggregate) comp" where
  "UserTypeOrmMapper_toAggregate L entity =
     UserBuilder_build L (user_builder_of_entity UserBuilder_new entity)"

definition UserTypeOrmMapper_toEntity :: "user_aggregate \<Rightarrow> user_entity" where
  "UserTypeOrmMapper_toEntity aggregate =
     (let primitives = UserAggregate_toPrimitives aggregate
      in \<lparr>ue_id = up_id primitives, ue_externalId = up_externalId primitives,
          ue_email = up_email primitives, ue_displayName = up_displayName primitives,
          ue_platformAdmin = up_platformAdmin primitives, ue_createdAt = up_createdAt primitives,
          ue_updatedAt = up_updatedAt primitives\<rparr>)"

definition UserTypeOrmMapper_toViewModel ::
  "'x lib \<Rightarrow> user_entity \<Rightarrow> ('x, error, user_view_model) comp" where
  "UserTypeOrmMapper_toViewModel L entity =
     UserBuilder_buildViewModel L (user_builder_of_entity UserBuilder_new entity)"

section \<open>The repositories\<close>

record 's IUserWriteRepository =
  uwr_findById :: "string \<Rightarrow> ('s, error, user_aggregate option) comp"
  uwr_findByEmail :: "string \<Rightarrow> ('s, error, user_aggregate option) comp"
  uwr_findByExternalId :: "string \<Rightarrow> ('s, error, user_aggregate option) comp"
  uwr_save :: "user_aggregate \<Rightarrow> ('s, error, user_aggregate) comp"
  uwr_delete :: "string \<Rightarrow> ('s, error, unit) comp"

record 's IUserReadRepository =
  urr_findById :: "string \<Rightarrow> ('s, error, user_view_model option) comp"
  urr_findByEmail :: "string \<Rightarrow> ('s, error, user_view_model option) comp"

definition UserTypeOrmWriteRepository ::
  "'x lib \<Rightarrow> ('x world, user_entity) Repository \<Rightarrow> 'x world IUserWriteRepository" where
  "UserTypeOrmWriteRepository L repo =
     \<lparr>uwr_findById = (\<lambda>id. bindE (repo_findOne repo (\<lambda>e. ue_id e = id))
        (optE (\<lambda>entity. outside (UserTypeOrmMapper_toAggregate L entity)))),
      uwr_findByEmail = (\<lambda>email. bindE (repo_findOne repo (\<lambda>e. ue_email e = email))
        (optE (\<lambda>entity. outside (UserTypeOrmMapper_toAggregate L entity)))),
      uwr_findByExternalId = (\<lambda>externalId.
        bindE (repo_findOne repo (\<lambda>e. ue_externalId e = externalId))
        (optE (\<lambda>entity. outside (UserTypeOrmMapper_toAggregate L entity)))),
      uwr_save = (\<lambda>user. bindE (repo_save repo (UserTypeOrmMapper_toEntity user))
        (\<lambda>saved. outside (UserTypeOrmMapper_toAggregate L saved))),
      uwr_delete = (\<lambda>id. repo_delete repo (\<lambda>e. ue_id e = id))\<rparr>"

definition UserTypeOrmReadRepository ::
  "'x lib \<Rightarrow> ('x world, user_entity) Repository \<Rightarrow> 'x world IUserReadRepository" where
  "UserTypeOrmReadRepository L repo =
     \<lparr>urr_findById = (\<lambda>id. bindE (repo_findOne repo (\<lambda>e. ue_id e = id))
        (optE (\<lambda>entity. outside (UserTypeOrmMapper_toViewModel L entity)))),
      urr_findByEmail = (\<lambda>email. bindE (repo_findOne repo (\<lambda>e. ue_email e = email))
        (optE (\<lambda>entity. outside (UserTypeOrmMapper_toViewModel L entity))))\<rparr>"

section \<open>Services, commands and queries\<close>

definition AssertUserExistsService_execute ::
  "'s IUserWriteRepository \<Rightarrow> string \<Rightarrow> ('s, error, user_aggregate) comp" where
  "AssertUserExistsService_execute repo userId =
     bindE (uwr_findById repo userId) (\<lambda>user.
     case user of None \<Rightarrow> throw (new_UserNotFoundException userId) | Some u \<Rightarrow> ret u)"

definition AssertUserEmailAvailableService_execute ::
  "'s IUserWriteRepository \<Rightarrow> string \<Rightarrow> ('s, error, unit) comp" where
  "AssertUserEmailAvailableService_execute repo email =
     bindE (uwr_findByEmail repo email) (\<lambda>existing.
     case existing of None \<Rightarrow> ret ()
     | Some _ \<Rightarrow> throw (new_UserEmailAlreadyRegisteredException email))"

record create_user_command =
  cu_externalId :: string
  cu_email :: string
  cu_displayName :: "string option"

definition new_CreateUserCommand ::
  "'x lib \<Rightarrow> string \<Rightarrow> string \<Rightarrow> string option \<Rightarrow> ('s, error, create_user_command) comp" where
  "new_CreateUserCommand L externalId email displayName =
     bindE (liftE (ExternalIdValueObject L externalId)) (\<lambda>x.
     bindE (liftE (UserEmailValueObject L email)) (\<lambda>e.
     bindE (optE (\<lambda>d. liftE (DisplayNameValueObject L d)) displayName) (\<lambda>d.
     ret \<lparr>cu_externalId = x, cu_email = e, cu_displayName = d\<rparr>)))"

definition CreateUserCommandHandler_execute ::
  "'x lib \<Rightarrow> 'x world IUserWriteRepository \<Rightarrow> create_user_command \<Rightarrow>
   ('x world, error, string) comp" where
  "CreateUserCommandHandler_execute L repo command =
     bindE (AssertUserEmailAvailableService_execute repo (cu_email command)) (\<lambda>_.
     bindE (outside (now L)) (\<lambda>t.
     bindE (outside (generate_uuid L)) (\<lambda>id.
     bindE (outside (UserBuilder_build L (UserBuilder_new\<lparr>ub_id := id,
         ub_externalId := cu_externalId command, ub_email := cu_email command,
         ub_displayName := cu_displayName command, ub_platformAdmin := False,
         ub_createdAt := Some t, ub_updatedAt := Some t\<rparr>))) (\<lambda>built.
     let user = UserAggregate_create built in
     bindE (uwr_save repo user) (\<lambda>_.
     bindE (publish (map User_Event (ua_events user))) (\<lambda>_.
     ret (ua_id user)))))))"

record set_user_platform_admin_command =
  spa_userId :: string
  spa_platformAdmin :: bool

definition new_SetUserPlatformAdminCommand ::
  "'x lib \<Rightarrow> string \<Rightarrow> bool \<Rightarrow> ('s, error, set_user_platform_admin_command) comp" where
  "new_SetUserPlatformAdminCommand L userId platformAdmin =
     bindE (liftE (UserIdValueObject L userId)) (\<lambda>u.
     ret \<lparr>spa_userId = u, spa_platformAdmin = platformAdmin\<rparr>)"

definition SetUserPlatformAdminCommandHandler_execute ::
  "'x lib \<Rightarrow> 'x world IUserWriteRepository \<Rightarrow> set_user_platform_admin_command \<Rightarrow>
   ('x world, error, unit) comp" where
  "SetUserPlatformAdminCommandHandler_execute L repo command =
     bindE (AssertUserExistsService_execute repo (spa_userId command)) (\<lambda>found.
     if ua_platformAdmin found = spa_platformAdmin command then ret ()
     else
       bindE (outside (UserAggregate_update L \<lparr>uc_email = None, uc_displayName = None,
         uc_platformAdmin = Some (spa_platformAdmin command)\<rparr> found)) (\<lambda>user.
       bindE (uwr_save repo user) (\<lambda>_.
       publish (map User_Event (ua_events user)))))"

definition new_UserFindByEmailQuery :: "'x lib \<Rightarrow> string \<Rightarrow> ('s, error, string) comp" where
  "new_UserFindByEmailQuery L email = liftE (UserEmailValueObject L email)"

definition UserFindByEmailQueryHandler_execute ::
  "'s IUserReadRepository \<Rightarrow> string \<Rightarrow> ('s, error, user_view_model option) comp" where
  "UserFindByEmailQueryHandler_execute repo email = urr_findByEmail repo email"

definition new_UserFindByIdQuery :: "'x lib \<Rightarrow> string \<Rightarrow> ('s, error, string) comp" where
  "new_UserFindByIdQuery L userId = liftE (UserIdValueObject L userId)"

definition UserFindByIdQueryHandler_execute ::
  "'s IUserReadRepository \<Rightarrow> string \<Rightarrow> ('s, error, user_view_model option) comp" where
  "UserFindByIdQueryHandler_execute repo userId = urr_findById repo userId"

section \<open>The aggregate's updates\<close>

text \<open>What \<open>update\<close> promises: the new value of each field, and the events of the fields that
  really change, in the order of the code.\<close>

definition user_changed_events :: "user_changes \<Rightarrow> user_aggregate \<Rightarrow> user_event list" where
  "user_changed_events props a =
     (case uc_email props of None \<Rightarrow> []
      | Some v \<Rightarrow> if v = ua_email a then [] else [UserEmailChangedEvent (ua_id a) (ua_email a) v]) @
     (case uc_displayName props of None \<Rightarrow> []
      | Some v \<Rightarrow> if Some v = ua_displayName a then []
          else [UserDisplayNameChangedEvent (ua_id a) (ua_displayName a) (Some v)]) @
     (case uc_platformAdmin props of None \<Rightarrow> []
      | Some v \<Rightarrow> if v = ua_platformAdmin a then []
          else [UserPlatformAdminChangedEvent (ua_id a) (ua_platformAdmin a) v])"

lemmas user_change_defs = UserAggregate_changeEmail_def UserAggregate_changeDisplayName_def
  UserAggregate_changePlatformAdmin_def user_apply_def

text \<open>\<open>UserAggregate.update\<close> never throws; it sets exactly the given fields, keeps the
  identity, the external id and the creation date, appends one change event per field whose
  value differs (old and new value, in the order email, display name, platform admin) and then
  one \<open>UserUpdatedEvent\<close> of the final state; when no value differs, \<open>updatedAt\<close> is kept.\<close>

lemma user_update_spec:
  "\<exists>a' x'. UserAggregate_update L props a x = (Inr a', x') \<and>
     ua_email a' = (case uc_email props of None \<Rightarrow> ua_email a | Some v \<Rightarrow> v) \<and>
     ua_displayName a' = (case uc_displayName props of None \<Rightarrow> ua_displayName a | Some v \<Rightarrow> Some v) \<and>
     ua_platformAdmin a' = (case uc_platformAdmin props of None \<Rightarrow> ua_platformAdmin a | Some v \<Rightarrow> v) \<and>
     ua_id a' = ua_id a \<and> ua_externalId a' = ua_externalId a \<and> ua_createdAt a' = ua_createdAt a \<and>
     ua_events a' = ua_events a @ user_changed_events props a @
       [UserUpdatedEvent (UserAggregate_toPrimitives a')] \<and>
     (if user_changed_events props a = [] then ua_updatedAt a' = ua_updatedAt a \<and> x' = x else True)"
  by (cases "uc_email props"; cases "uc_displayName props"; cases "uc_platformAdmin props")
    (auto simp: UserAggregate_update_def user_change_defs user_changed_events_def Let_def
      bindE_def touched_run UserAggregate_toPrimitives_def)

section \<open>Reading and writing rows\<close>

definition user_from_row :: "'x lib \<Rightarrow> user_entity \<Rightarrow> error + user_aggregate" where
  "user_from_row L e = fst (UserTypeOrmMapper_toAggregate L e undefined)"

definition user_view_from_row :: "'x lib \<Rightarrow> user_entity \<Rightarrow> error + user_view_model" where
  "user_view_from_row L e = fst (UserTypeOrmMapper_toViewModel L e undefined)"

lemmas user_build_defs = UserTypeOrmMapper_toAggregate_def UserBuilder_build_def
  UserBuilder_validate_def user_builder_of_entity_def

lemmas user_view_defs = UserTypeOrmMapper_toViewModel_def UserBuilder_buildViewModel_def
  user_builder_of_entity_def

text \<open>Reading a row does not touch the outside world: its dates are set.\<close>

lemma user_toAggregate_run: "UserTypeOrmMapper_toAggregate L e = liftE (user_from_row L e)"
proof (rule ext)
  fix x
  show "UserTypeOrmMapper_toAggregate L e x = liftE (user_from_row L e) x"
    by (cases "ue_displayName e")
      (simp_all add: user_from_row_def user_build_defs bindE_def split: sum.split)
qed

lemma user_toViewModel_run: "UserTypeOrmMapper_toViewModel L e = liftE (user_view_from_row L e)"
  by (simp add: fun_eq_iff user_view_from_row_def user_view_defs bindE_def split: sum.split)

lemma user_from_row_Inr:
  assumes "user_from_row L e = Inr a"
  shows "UserIdValueObject L (ue_id e) = Inr (ua_id a)"
    "ExternalIdValueObject L (ue_externalId e) = Inr (ua_externalId a)"
    "UserEmailValueObject L (ue_email e) = Inr (ua_email a)"
    "ua_platformAdmin a = ue_platformAdmin e" "ua_createdAt a = ue_createdAt e"
    "ua_updatedAt a = ue_updatedAt e" "ua_events a = []"
    "case ue_displayName e of None \<Rightarrow> ua_displayName a = None
     | Some d \<Rightarrow> \<exists>d'. DisplayNameValueObject L d = Inr d' \<and> ua_displayName a = Some d'"
  using assms
  by (cases "ue_displayName e";
      auto simp: user_from_row_def user_build_defs bindE_def split: sum.splits if_splits)+

lemma user_view_from_row_Inr:
  "user_view_from_row L e = Inr v \<Longrightarrow>
     uv_id v = ue_id e \<and> uv_externalId v = ue_externalId e \<and> uv_email v = ue_email e \<and>
     uv_displayName v = ue_displayName e \<and> uv_platformAdmin v = ue_platformAdmin e \<and>
     uv_createdAt v = ue_createdAt e \<and> uv_updatedAt v = ue_updatedAt e"
  by (auto simp: user_view_from_row_def user_view_defs bindE_def split: sum.splits if_splits)

text \<open>An aggregate all of whose values its value objects accept unchanged.\<close>

definition user_wf :: "'x lib \<Rightarrow> user_aggregate \<Rightarrow> bool" where
  "user_wf L a \<longleftrightarrow> UserIdValueObject L (ua_id a) = Inr (ua_id a) \<and>
     ExternalIdValueObject L (ua_externalId a) = Inr (ua_externalId a) \<and> ua_externalId a \<noteq> [] \<and>
     UserEmailValueObject L (ua_email a) = Inr (ua_email a) \<and> ua_email a \<noteq> [] \<and>
     (case ua_displayName a of None \<Rightarrow> True | Some d \<Rightarrow> DisplayNameValueObject L d = Inr d) \<and>
     base_validate L (ua_id a) (Some (ua_createdAt a)) (Some (ua_updatedAt a)) = Inr ()"

text \<open>A user aggregate whose fields its value objects accept survives the database: mapping
  it to an entity and the entity back gives the same aggregate, with no pending events.\<close>

lemma user_mapper_roundtrip:
  assumes "user_wf L a"
  shows "UserTypeOrmMapper_toAggregate L (UserTypeOrmMapper_toEntity a) x =
    (Inr (a\<lparr>ua_events := []\<rparr>), x)"
  using assms
  by (cases "ua_displayName a")
    (auto simp: user_wf_def user_build_defs UserTypeOrmMapper_toEntity_def
      UserAggregate_toPrimitives_def bindE_def Let_def)

text \<open>The builder is a singleton shared by every use, and what an earlier use left in it never
  reaches a later one: mapping a row through a builder in any state gives what a new builder
  gives, for aggregates and for view models.\<close>

lemma user_builder_leftovers:
  "UserBuilder_build L (user_builder_of_entity b e) = UserTypeOrmMapper_toAggregate L e \<and>
   UserBuilder_buildViewModel L (user_builder_of_entity b e) = UserTypeOrmMapper_toViewModel L e"
  by (cases b) (simp add: UserTypeOrmMapper_toAggregate_def UserTypeOrmMapper_toViewModel_def
      user_builder_of_entity_def UserBuilder_new_def)

section \<open>The repositories on the user table\<close>

abbreviation user_write_repo :: "'x lib \<Rightarrow> 'x world IUserWriteRepository" where
  "user_write_repo L \<equiv> UserTypeOrmWriteRepository L user_repo"

abbreviation user_read_repo :: "'x lib \<Rightarrow> 'x world IUserReadRepository" where
  "user_read_repo L \<equiv> UserTypeOrmReadRepository L user_repo"

lemma user_write_repo_run:
  "uwr_findById (user_write_repo L) i w =
     (opt_sum (user_from_row L) (find (\<lambda>e. ue_id e = i) (user_tbl w)), w)"
  "uwr_findByEmail (user_write_repo L) m w =
     (opt_sum (user_from_row L) (find (\<lambda>e. ue_email e = m) (user_tbl w)), w)"
  "uwr_findByExternalId (user_write_repo L) k w =
     (opt_sum (user_from_row L) (find (\<lambda>e. ue_externalId e = k) (user_tbl w)), w)"
  "uwr_save (user_write_repo L) a w =
     (case check_user w (UserTypeOrmMapper_toEntity a) of
        Some c \<Rightarrow> (Inl (QueryFailedError c), w)
      | None \<Rightarrow> (user_from_row L (UserTypeOrmMapper_toEntity a),
          w\<lparr>user_tbl := upsert ue_id (UserTypeOrmMapper_toEntity a) (user_tbl w)\<rparr>))"
  "uwr_delete (user_write_repo L) i w = (Inr (), delete_users (\<lambda>e. ue_id e = i) w)"
  by (simp_all add: UserTypeOrmWriteRepository_def user_repo_def bindE_find user_toAggregate_run
      optE_liftE)
    (simp_all add: bindE_def sql_repository_sel split: option.split)

lemma user_read_repo_run:
  "urr_findById (user_read_repo L) i w =
     (opt_sum (user_view_from_row L) (find (\<lambda>e. ue_id e = i) (user_tbl w)), w)"
  "urr_findByEmail (user_read_repo L) m w =
     (opt_sum (user_view_from_row L) (find (\<lambda>e. ue_email e = m) (user_tbl w)), w)"
  by (simp_all add: UserTypeOrmReadRepository_def user_repo_def bindE_find user_toViewModel_run
      optE_liftE)

lemma user_repos_schema [preserving]:
  "preserves schema_ok (uwr_findById (user_write_repo L) i)"
  "preserves schema_ok (uwr_findByEmail (user_write_repo L) m)"
  "preserves schema_ok (uwr_findByExternalId (user_write_repo L) k)"
  "preserves schema_ok (uwr_save (user_write_repo L) a)"
  "preserves schema_ok (uwr_delete (user_write_repo L) i)"
  "preserves schema_ok (urr_findById (user_read_repo L) i)"
  "preserves schema_ok (urr_findByEmail (user_read_repo L) m)"
  by (auto simp: UserTypeOrmWriteRepository_def UserTypeOrmReadRepository_def intro!: preserving)

lemma user_wf_row:
  "user_wf L a \<Longrightarrow> user_from_row L (UserTypeOrmMapper_toEntity a) = Inr (a\<lparr>ua_events := []\<rparr>)"
  by (cases "ua_displayName a")
    (auto simp: user_from_row_def user_wf_def user_build_defs UserTypeOrmMapper_toEntity_def
      UserAggregate_toPrimitives_def bindE_def Let_def)

section \<open>The commands\<close>

lemma user_events_frame [simp]:
  "UserAggregate_toPrimitives (a\<lparr>ua_events := es\<rparr>) = UserAggregate_toPrimitives a"
  "UserTypeOrmMapper_toEntity (a\<lparr>ua_events := es\<rparr>) = UserTypeOrmMapper_toEntity a"
  "user_wf L (a\<lparr>ua_events := es\<rparr>) = user_wf L a"
  by (simp_all add: UserAggregate_toPrimitives_def UserTypeOrmMapper_toEntity_def user_wf_def)

lemma user_wf_build:
  assumes "user_wf L a" and "ua_events a = []"
  shows "UserBuilder_build L (UserBuilder_new\<lparr>ub_id := ua_id a,
         ub_externalId := ua_externalId a, ub_email := ua_email a,
         ub_displayName := ua_displayName a, ub_platformAdmin := ua_platformAdmin a,
         ub_createdAt := Some (ua_createdAt a), ub_updatedAt := Some (ua_updatedAt a)\<rparr>) = ret a"
  using assms
  by (cases "ua_displayName a")
    (auto simp: user_wf_def user_build_defs)

lemma create_user_run:
  assumes free: "\<forall>e \<in> set (user_tbl w). ue_email e \<noteq> cu_email c"
    and t: "new_date L (ext w) = (t, x1)" and i: "uuid_generate L x1 = (i, x2)"
    and a: "a = \<lparr>ua_id = i, ua_createdAt = t, ua_updatedAt = t, ua_externalId = cu_externalId c,
       ua_email = cu_email c, ua_displayName = cu_displayName c, ua_platformAdmin = False,
       ua_events = []\<rparr>"
    and wf: "user_wf L a"
    and chk: "check_user w (UserTypeOrmMapper_toEntity a) = None"
  shows "CreateUserCommandHandler_execute L (user_write_repo L) c w =
     (Inr i, w\<lparr>user_tbl := upsert ue_id (UserTypeOrmMapper_toEntity a) (user_tbl w),
        published := published w @ [User_Event (UserRegisteredEvent (UserAggregate_toPrimitives a))],
        ext := x2\<rparr>)"
proof -
  have none: "find (\<lambda>e. ue_email e = cu_email c) (user_tbl w) = None"
    using free by (auto simp: find_None_iff)
  have wf': "user_wf L (UserAggregate_create a)"
    using wf by (simp add: user_wf_def UserAggregate_create_def user_apply_def)
  have row: "UserTypeOrmMapper_toEntity (UserAggregate_create a) = UserTypeOrmMapper_toEntity a"
    by (simp add: UserTypeOrmMapper_toEntity_def UserAggregate_toPrimitives_def
        UserAggregate_create_def user_apply_def)
  have build: "UserBuilder_build L (UserBuilder_new\<lparr>ub_id := i,
         ub_externalId := cu_externalId c, ub_email := cu_email c,
         ub_displayName := cu_displayName c, ub_platformAdmin := False,
         ub_createdAt := Some t, ub_updatedAt := Some t\<rparr>) = ret a"
    using user_wf_build [OF wf] a by simp
  have "ua_events (UserAggregate_create a) = [UserRegisteredEvent (UserAggregate_toPrimitives a)]"
    "ua_id (UserAggregate_create a) = i"
    using a by (simp_all add: UserAggregate_create_def user_apply_def)
  with none build user_wf_row [OF wf'] row chk show ?thesis
    by (simp add: CreateUserCommandHandler_execute_def AssertUserEmailAvailableService_execute_def
        bindE_def user_write_repo_run outside_run now_run t generate_uuid_run i publish_run Let_def)
qed

text \<open>For a command whose email no user has, whose fields the value objects accept and whose row
  the schema admits, \<open>CreateUser\<close> returns the generated id, writes exactly the one row (never a
  platform admin, both dates the time of the call) and publishes exactly one \<open>UserRegisteredEvent\<close>
  of that user; nothing else changes.\<close>

lemma create_user_success:
  assumes free: "\<forall>e \<in> set (user_tbl w). ue_email e \<noteq> cu_email c"
    and t: "new_date L (ext w) = (t, x1)" and i: "uuid_generate L x1 = (i, x2)"
    and a: "a = \<lparr>ua_id = i, ua_createdAt = t, ua_updatedAt = t, ua_externalId = cu_externalId c,
       ua_email = cu_email c, ua_displayName = cu_displayName c, ua_platformAdmin = False,
       ua_events = []\<rparr>"
    and wf: "user_wf L a"
    and chk: "check_user w (UserTypeOrmMapper_toEntity a) = None"
  shows "CreateUserCommandHandler_execute L (user_write_repo L) c w =
     (Inr i, w\<lparr>user_tbl := upsert ue_id (UserTypeOrmMapper_toEntity a) (user_tbl w),
        published := published w @ [User_Event (UserRegisteredEvent (UserAggregate_toPrimitives a))],
        ext := x2\<rparr>)"
  using assms by (rule create_user_run)

text \<open>When a user with the command's email exists (and the stored rows are readable),
  \<open>CreateUser\<close> throws \<open>UserEmailAlreadyRegisteredException\<close> for that email and changes nothing: no
  row, no event, no call to the outside world.\<close>

lemma create_user_duplicate:
  assumes "e \<in> set (user_tbl w)" and "ue_email e = cu_email c"
    and "\<forall>e \<in> set (user_tbl w). \<exists>a. user_from_row L e = Inr a"
  shows "CreateUserCommandHandler_execute L (user_write_repo L) c w =
     (Inl (new_UserEmailAlreadyRegisteredException (cu_email c)), w)"
proof -
  obtain e' where e': "find (\<lambda>e. ue_email e = cu_email c) (user_tbl w) = Some e'"
    using assms(1,2) by (cases "find (\<lambda>e. ue_email e = cu_email c) (user_tbl w)") (auto simp: find_None_iff)
  moreover from find_Some_iff_ex [OF e'] assms(3) obtain a where "user_from_row L e' = Inr a" by blast
  ultimately
  show ?thesis
    by (simp add: CreateUserCommandHandler_execute_def AssertUserEmailAvailableService_execute_def
        bindE_def user_write_repo_run)
qed

text \<open>Setting the platform-admin flag a user already has changes nothing at all: no write, no
  event, no new update date.\<close>

lemma set_platform_admin_noop:
  assumes e: "find (\<lambda>e. ue_id e = spa_userId c) (user_tbl w) = Some e"
    and a: "user_from_row L e = Inr a" and same: "ue_platformAdmin e = spa_platformAdmin c"
  shows "SetUserPlatformAdminCommandHandler_execute L (user_write_repo L) c w = (Inr (), w)"
  using e a same user_from_row_Inr(4) [OF a]
  by (simp add: SetUserPlatformAdminCommandHandler_execute_def AssertUserExistsService_execute_def
      bindE_def user_write_repo_run)

lemma set_platform_admin_run:
  assumes e: "find (\<lambda>e. ue_id e = spa_userId c) (user_tbl w) = Some e"
    and a: "user_from_row L e = Inr a" and diff: "ue_platformAdmin e \<noteq> spa_platformAdmin c"
    and t: "touch L (ua_updatedAt a) (ext w) = (t, x1)"
    and b: "b = a\<lparr>ua_platformAdmin := spa_platformAdmin c, ua_updatedAt := t\<rparr>"
    and wf: "user_wf L b" and chk: "check_user w (UserTypeOrmMapper_toEntity b) = None"
  shows "SetUserPlatformAdminCommandHandler_execute L (user_write_repo L) c w =
     (Inr (), w\<lparr>user_tbl := upsert ue_id (UserTypeOrmMapper_toEntity b) (user_tbl w),
        published := published w @
          [User_Event (UserPlatformAdminChangedEvent (ua_id a) (ua_platformAdmin a)
             (spa_platformAdmin c)), User_Event (UserUpdatedEvent (UserAggregate_toPrimitives b))],
        ext := x1\<rparr>)"
proof -
  have ev: "ua_events a = []" "ua_platformAdmin a = ue_platformAdmin e"
    using user_from_row_Inr [OF a] by simp_all
  have "UserAggregate_update L \<lparr>uc_email = None, uc_displayName = None,
         uc_platformAdmin = Some (spa_platformAdmin c)\<rparr> a (ext w) =
      (Inr (b\<lparr>ua_events := [UserPlatformAdminChangedEvent (ua_id a) (ua_platformAdmin a)
         (spa_platformAdmin c), UserUpdatedEvent (UserAggregate_toPrimitives b)]\<rparr>), x1)"
    using diff t ev b
    by (simp add: UserAggregate_update_def user_change_defs Let_def bindE_def touched_run
        UserAggregate_toPrimitives_def)
  with e a diff ev(2) chk user_wf_row [OF wf] show ?thesis
    by (simp add: SetUserPlatformAdminCommandHandler_execute_def AssertUserExistsService_execute_def
        bindE_def user_write_repo_run outside_run publish_run)
qed

lemma user_handlers_schema [preserving]:
  "preserves schema_ok (CreateUserCommandHandler_execute L (user_write_repo L) c)"
  "preserves schema_ok (SetUserPlatformAdminCommandHandler_execute L (user_write_repo L) d)"
  by (auto simp: CreateUserCommandHandler_execute_def SetUserPlatformAdminCommandHandler_execute_def
     AssertUserExistsService_execute_def AssertUserEmailAvailableService_execute_def Let_def intro!: preserving)


lemmas user_sample_defs = sample_defs vo_defs check_user_def user_wf_def
  UserTypeOrmMapper_toEntity_def UserAggregate_toPrimitives_def user_from_row_def
  user_build_defs upsert_def js_trim_def js_space_def js_lower_def js_lower_char_def

definition sample_create_user :: create_user_command where
  "sample_create_user = \<lparr>cu_externalId = ''k9'', cu_email = ''n@x'', cu_displayName = Some ''N''\<rparr>"

definition sample_user_aggregate :: "user_entity \<Rightarrow> user_aggregate" where
  "sample_user_aggregate e = \<lparr>ua_id = ue_id e, ua_createdAt = ue_createdAt e, ua_updatedAt = ue_updatedAt e,
     ua_externalId = ue_externalId e, ua_email = ue_email e, ua_displayName = ue_displayName e,
     ua_platformAdmin = ue_platformAdmin e, ua_events = []\<rparr>"

end
