(* ===== verification/App_Context.thy ===== *)
theory App_Context
  imports Criteria_Query Sample_World
begin

text \<open>
  The \<open>app\<close> context (\<open>src/contexts/app\<close>): the application catalogue. The app aggregate and its
  events, the builder, the TypeORM mapper, the two repositories, the assertion services, the
  command \<open>CreateApp\<close> and the queries by id and by criteria.
\<close>

section \<open>The aggregate\<close>

record app_aggregate =
  aa_id :: string
  aa_createdAt :: int
  aa_updatedAt :: int
  aa_slug :: string
  aa_name :: string
  aa_events :: "app_event list"

definition AppAggregate_toPrimitives :: "app_aggregate \<Rightarrow> app_primitives" where
  "AppAggregate_toPrimitives a =
     \<lparr>ap_id = aa_id a, ap_slug = aa_slug a, ap_name = aa_name a,
      ap_createdAt = aa_createdAt a, ap_updatedAt = aa_updatedAt a\<rparr>"

definition app_apply :: "app_event \<Rightarrow> app_aggregate \<Rightarrow> app_aggregate" where
  "app_apply e a = a\<lparr>aa_events := aa_events a @ [e]\<rparr>"

definition AppAggregate_create :: "app_aggregate \<Rightarrow> app_aggregate" where
  "AppAggregate_create a = app_apply (AppCreatedEvent (AppAggregate_toPrimitives a)) a"

definition AppAggregate_delete :: "app_aggregate \<Rightarrow> app_aggregate" where
  "AppAggregate_delete a = app_apply (AppDeletedEvent (AppAggregate_toPrimitives a)) a"

definition AppAggregate_changeName ::
  "'x lib \<Rightarrow> string \<Rightarrow> app_aggregate \<Rightarrow> ('x, error, app_aggregate) comp" where
  "AppAggregate_changeName L name a =
     (let oldValue = aa_name a; newValue = name
      in if oldValue = newValue then ret a
         else bindE (touched L (aa_updatedAt a)) (\<lambda>t.
           ret (app_apply (AppNameChangedEvent (aa_id a) oldValue newValue)
             (a\<lparr>aa_name := name, aa_updatedAt := t\<rparr>))))"

definition AppAggregate_changeSlug ::
  "'x lib \<Rightarrow> string \<Rightarrow> app_aggregate \<Rightarrow> ('x, error, app_aggregate) comp" where
  "AppAggregate_changeSlug L slug a =
     (let oldValue = aa_slug a; newValue = slug
      in if oldValue = newValue then ret a
         else bindE (touched L (aa_updatedAt a)) (\<lambda>t.
           ret (app_apply (AppSlugChangedEvent (aa_id a) oldValue newValue)
             (a\<lparr>aa_slug := slug, aa_updatedAt := t\<rparr>))))"

definition AppAggregate_update ::
  "'x lib \<Rightarrow> string option \<Rightarrow> string option \<Rightarrow> app_aggregate \<Rightarrow> ('x, error, app_aggregate) comp" where
  "AppAggregate_update L name slug a0 =
     bindE (case name of None \<Rightarrow> ret a0 | Some v \<Rightarrow> AppAggregate_changeName L v a0) (\<lambda>a1.
     bindE (case slug of None \<Rightarrow> ret a1 | Some v \<Rightarrow> AppAggregate_changeSlug L v a1) (\<lambda>a2.
     ret (app_apply (AppUpdatedEvent (AppAggregate_toPrimitives a2)) a2)))"

section \<open>The builder and the mapper\<close>

record app_view_model =
  av_id :: string
  av_createdAt :: int
  av_updatedAt :: int
  av_slug :: string
  av_name :: string

record app_builder =
  ab_id :: string
  ab_createdAt :: "int option"
  ab_updatedAt :: "int option"
  ab_slug :: string
  ab_name :: string

definition AppBuilder_new :: app_builder where
  "AppBuilder_new = \<lparr>ab_id = [], ab_createdAt = None, ab_updatedAt = None, ab_slug = [], ab_name = []\<rparr>"

definition AppBuilder_validate :: "'x lib \<Rightarrow> app_builder \<Rightarrow> ('s, error, unit) comp" where
  "AppBuilder_validate L b =
     bindE (liftE (base_validate L (ab_id b) (ab_createdAt b) (ab_updatedAt b))) (\<lambda>_.
     if ab_slug b = [] then throw (field_required L ''slug'')
     else if ab_name b = [] then throw (field_required L ''name'')
     else ret ())"

definition AppBuilder_build :: "'x lib \<Rightarrow> app_builder \<Rightarrow> ('x, error, app_aggregate) comp" where
  "AppBuilder_build L b =
     bindE (AppBuilder_validate L b) (\<lambda>_.
     bindE (liftE (uuid_vo L (ab_id b))) (\<lambda>id.
     bindE (liftE (AppSlugValueObject L (ab_slug b))) (\<lambda>slug.
     bindE (liftE (AppNameValueObject L (ab_name b))) (\<lambda>name.
     bindE (date_or_now L (ab_createdAt b)) (\<lambda>createdAt.
     bindE (date_or_now L (ab_updatedAt b)) (\<lambda>updatedAt.
     ret \<lparr>aa_id = id, aa_createdAt = createdAt, aa_updatedAt = updatedAt, aa_slug = slug,
          aa_name = name, aa_events = []\<rparr>))))))"

definition AppBuilder_buildViewModel ::
  "'x lib \<Rightarrow> app_builder \<Rightarrow> ('x, error, app_view_model) comp" where
  "AppBuilder_buildViewModel L b =
     bindE (AppBuilder_validate L b) (\<lambda>_.
     bindE (date_or_now L (ab_createdAt b)) (\<lambda>createdAt.
     bindE (date_or_now L (ab_updatedAt b)) (\<lambda>updatedAt.
     ret \<lparr>av_id = ab_id b, av_createdAt = createdAt, av_updatedAt = updatedAt,
          av_slug = ab_slug b, av_name = ab_name b\<rparr>)))"

definition app_builder_of_entity :: "app_builder \<Rightarrow> app_entity \<Rightarrow> app_builder" where
  "app_builder_of_entity b e = b\<lparr>ab_id := ae_id e, ab_slug := ae_slug e, ab_name := ae_name e,
     ab_createdAt := Some (ae_createdAt e), ab_updatedAt := Some (ae_updatedAt e)\<rparr>"

definition AppTypeOrmMapper_toAggregate ::
  "'x lib \<Rightarrow> app_entity \<Rightarrow> ('x, error, app_aggregate) comp" where
  "AppTypeOrmMapper_toAggregate L entity =
     AppBuilder_build L (app_builder_of_entity AppBuilder_new entity)"

definition AppTypeOrmMapper_toEntity :: "app_aggregate \<Rightarrow> app_entity" where
  "AppTypeOrmMapper_toEntity aggregate =
     (let primitives = AppAggregate_toPrimitives aggregate
      in \<lparr>ae_id = ap_id primitives, ae_slug = ap_slug primitives, ae_name = ap_name primitives,
          ae_createdAt = ap_createdAt primitives, ae_updatedAt = ap_updatedAt primitives\<rparr>)"

definition AppTypeOrmMapper_toViewModel ::
  "'x lib \<Rightarrow> app_entity \<Rightarrow> ('x, error, app_view_model) comp" where
  "AppTypeOrmMapper_toViewModel L entity =
     AppBuilder_buildViewModel L (app_builder_of_entity AppBuilder_new entity)"

section \<open>The repositories\<close>

record 's IAppWriteRepository =
  awr_findById :: "string \<Rightarrow> ('s, error, app_aggregate option) comp"
  awr_findBySlug :: "string \<Rightarrow> ('s, error, app_aggregate option) comp"
  awr_save :: "app_aggregate \<Rightarrow> ('s, error, app_aggregate) comp"
  awr_delete :: "string \<Rightarrow> ('s, error, unit) comp"

record 's IAppReadRepository =
  arr_findById :: "string \<Rightarrow> ('s, error, app_view_model option) comp"
  arr_findByCriteria :: "criteria \<Rightarrow> ('s, error, app_view_model paginated_result) comp"

definition AppTypeOrmWriteRepository ::
  "'x lib \<Rightarrow> ('x world, app_entity) Repository \<Rightarrow> 'x world IAppWriteRepository" where
  "AppTypeOrmWriteRepository L repo =
     \<lparr>awr_findById = (\<lambda>id. bindE (repo_findOne repo (\<lambda>e. ae_id e = id))
        (optE (\<lambda>entity. outside (AppTypeOrmMapper_toAggregate L entity)))),
      awr_findBySlug = (\<lambda>slug. bindE (repo_findOne repo (\<lambda>e. ae_slug e = slug))
        (optE (\<lambda>entity. outside (AppTypeOrmMapper_toAggregate L entity)))),
      awr_save = (\<lambda>app. bindE (repo_save repo (AppTypeOrmMapper_toEntity app))
        (\<lambda>saved. outside (AppTypeOrmMapper_toAggregate L saved))),
      awr_delete = (\<lambda>id. repo_delete repo (\<lambda>e. ae_id e = id))\<rparr>"

definition AppTypeOrmReadRepository ::
  "'x lib \<Rightarrow> app_entity criteria_kit \<Rightarrow> ('x world, app_entity) Repository \<Rightarrow>
   'x world IAppReadRepository" where
  "AppTypeOrmReadRepository L K repo =
     \<lparr>arr_findById = (\<lambda>id. bindE (repo_findOne repo (\<lambda>e. ae_id e = id))
        (optE (\<lambda>entity. outside (AppTypeOrmMapper_toViewModel L entity)))),
      arr_findByCriteria = find_by_criteria K repo (AppTypeOrmMapper_toViewModel L) ''app''
        (''slug'', ASC)\<rparr>"

section \<open>Services, commands and queries\<close>

definition AppAssertAppExistsService_execute ::
  "'s IAppWriteRepository \<Rightarrow> string \<Rightarrow> ('s, error, app_aggregate) comp" where
  "AppAssertAppExistsService_execute repo appId =
     bindE (awr_findById repo appId) (\<lambda>app.
     case app of None \<Rightarrow> throw (new_AppNotFoundException appId) | Some a \<Rightarrow> ret a)"

definition AssertAppSlugAvailableService_execute ::
  "'s IAppWriteRepository \<Rightarrow> string \<Rightarrow> ('s, error, unit) comp" where
  "AssertAppSlugAvailableService_execute repo slug =
     bindE (awr_findBySlug repo slug) (\<lambda>existing.
     case existing of None \<Rightarrow> ret () | Some _ \<Rightarrow> throw (new_AppSlugAlreadyExistsException slug))"

record create_app_command =
  ca_slug :: string
  ca_name :: string

text \<open>A slug that is absent or empty is derived from the validated name.\<close>

definition new_CreateAppCommand ::
  "'x lib \<Rightarrow> string \<Rightarrow> string option \<Rightarrow> ('s, error, create_app_command) comp" where
  "new_CreateAppCommand L name slug =
     bindE (liftE (AppNameValueObject L name)) (\<lambda>n.
     bindE (case slug of
         Some s \<Rightarrow> if s \<noteq> [] then liftE (AppSlugValueObject L s)
           else bindE (liftE (generate_slug L n)) (\<lambda>g. liftE (AppSlugValueObject L g))
       | None \<Rightarrow> bindE (liftE (generate_slug L n)) (\<lambda>g. liftE (AppSlugValueObject L g))) (\<lambda>s.
     ret \<lparr>ca_slug = s, ca_name = n\<rparr>))"

definition CreateAppCommandHandler_execute ::
  "'x lib \<Rightarrow> 'x world IAppWriteRepository \<Rightarrow> create_app_command \<Rightarrow> ('x world, error, string) comp" where
  "CreateAppCommandHandler_execute L repo command =
     bindE (AssertAppSlugAvailableService_execute repo (ca_slug command)) (\<lambda>_.
     bindE (outside (now L)) (\<lambda>t.
     bindE (outside (generate_uuid L)) (\<lambda>id.
     bindE (outside (AppBuilder_build L (AppBuilder_new\<lparr>ab_id := id, ab_slug := ca_slug command,
         ab_name := ca_name command, ab_createdAt := Some t, ab_updatedAt := Some t\<rparr>))) (\<lambda>built.
     let app = AppAggregate_create built in
     bindE (awr_save repo app) (\<lambda>_.
     bindE (publish (map App_Event (aa_events app))) (\<lambda>_.
     ret (aa_id app)))))))"

definition new_AppFindByIdQuery :: "'x lib \<Rightarrow> string \<Rightarrow> ('s, error, string) comp" where
  "new_AppFindByIdQuery L appId = liftE (uuid_vo L appId)"

definition AppFindByIdQueryHandler_execute ::
  "'s IAppReadRepository \<Rightarrow> string \<Rightarrow> ('s, error, app_view_model option) comp" where
  "AppFindByIdQueryHandler_execute repo appId = arr_findById repo appId"

definition AppFindByCriteriaQueryHandler_execute ::
  "'s IAppReadRepository \<Rightarrow> criteria \<Rightarrow> ('s, error, app_view_model paginated_result) comp" where
  "AppFindByCriteriaQueryHandler_execute repo c = arr_findByCriteria repo c"

section \<open>The repositories on the app table\<close>

definition app_from_row :: "'x lib \<Rightarrow> app_entity \<Rightarrow> error + app_aggregate" where
  "app_from_row L e = fst (AppTypeOrmMapper_toAggregate L e undefined)"

definition app_view_from_row :: "'x lib \<Rightarrow> app_entity \<Rightarrow> error + app_view_model" where
  "app_view_from_row L e = fst (AppTypeOrmMapper_toViewModel L e undefined)"

lemmas app_build_defs = AppTypeOrmMapper_toAggregate_def AppBuilder_build_def
  AppBuilder_validate_def app_builder_of_entity_def

lemmas app_view_defs = AppTypeOrmMapper_toViewModel_def AppBuilder_buildViewModel_def
  AppBuilder_validate_def app_builder_of_entity_def

lemma app_toAggregate_run: "AppTypeOrmMapper_toAggregate L e = liftE (app_from_row L e)"
  by (simp add: fun_eq_iff app_from_row_def app_build_defs bindE_def split: sum.split)

lemma app_toViewModel_run: "AppTypeOrmMapper_toViewModel L e = liftE (app_view_from_row L e)"
  by (simp add: fun_eq_iff app_view_from_row_def app_view_defs bindE_def split: sum.split)

definition app_wf :: "'x lib \<Rightarrow> app_aggregate \<Rightarrow> bool" where
  "app_wf L a \<longleftrightarrow> uuid_vo L (aa_id a) = Inr (aa_id a) \<and>
     AppSlugValueObject L (aa_slug a) = Inr (aa_slug a) \<and> aa_slug a \<noteq> [] \<and>
     AppNameValueObject L (aa_name a) = Inr (aa_name a) \<and> aa_name a \<noteq> [] \<and>
     base_validate L (aa_id a) (Some (aa_createdAt a)) (Some (aa_updatedAt a)) = Inr ()"

lemma app_events_frame [simp]:
  "AppAggregate_toPrimitives (a\<lparr>aa_events := es\<rparr>) = AppAggregate_toPrimitives a"
  "AppTypeOrmMapper_toEntity (a\<lparr>aa_events := es\<rparr>) = AppTypeOrmMapper_toEntity a"
  "app_wf L (a\<lparr>aa_events := es\<rparr>) = app_wf L a"
  by (simp_all add: AppAggregate_toPrimitives_def AppTypeOrmMapper_toEntity_def app_wf_def)

lemma app_wf_row:
  "app_wf L a \<Longrightarrow> app_from_row L (AppTypeOrmMapper_toEntity a) = Inr (a\<lparr>aa_events := []\<rparr>)"
  by (auto simp: app_from_row_def app_wf_def app_build_defs AppTypeOrmMapper_toEntity_def
      AppAggregate_toPrimitives_def bindE_def Let_def)

abbreviation app_write_repo :: "'x lib \<Rightarrow> 'x world IAppWriteRepository" where
  "app_write_repo L \<equiv> AppTypeOrmWriteRepository L app_repo"

abbreviation app_read_repo :: "'x lib \<Rightarrow> app_entity criteria_kit \<Rightarrow> 'x world IAppReadRepository" where
  "app_read_repo L K \<equiv> AppTypeOrmReadRepository L K app_repo"

lemma app_write_repo_run:
  "awr_findById (app_write_repo L) i w =
     (opt_sum (app_from_row L) (find (\<lambda>e. ae_id e = i) (app_tbl w)), w)"
  "awr_findBySlug (app_write_repo L) s w =
     (opt_sum (app_from_row L) (find (\<lambda>e. ae_slug e = s) (app_tbl w)), w)"
  "awr_save (app_write_repo L) a w =
     (case check_app w (AppTypeOrmMapper_toEntity a) of
        Some c \<Rightarrow> (Inl (QueryFailedError c), w)
      | None \<Rightarrow> (app_from_row L (AppTypeOrmMapper_toEntity a),
          w\<lparr>app_tbl := upsert ae_id (AppTypeOrmMapper_toEntity a) (app_tbl w)\<rparr>))"
  by (simp_all add: AppTypeOrmWriteRepository_def app_repo_def bindE_find app_toAggregate_run
      optE_liftE)
    (simp_all add: bindE_def sql_repository_sel split: option.split)

lemma app_read_repo_run:
  "arr_findById (app_read_repo L K) i w =
     (opt_sum (app_view_from_row L) (find (\<lambda>e. ae_id e = i) (app_tbl w)), w)"
  by (simp add: AppTypeOrmReadRepository_def app_repo_def bindE_find app_toViewModel_run optE_liftE)

lemma app_repos_schema [preserving]:
  "preserves schema_ok (awr_findById (app_write_repo L) i)"
  "preserves schema_ok (awr_findBySlug (app_write_repo L) s)"
  "preserves schema_ok (awr_save (app_write_repo L) a)"
  "preserves schema_ok (awr_delete (app_write_repo L) i)"
  "preserves schema_ok (arr_findById (app_read_repo L K) i)"
  "preserves schema_ok (arr_findByCriteria (app_read_repo L K) c)"
  by (auto simp: AppTypeOrmWriteRepository_def AppTypeOrmReadRepository_def
      intro!: preserving find_by_criteria_keeps)

lemma app_handlers_schema [preserving]:
  "preserves schema_ok (CreateAppCommandHandler_execute L (app_write_repo L) c)"
  by (auto simp: CreateAppCommandHandler_execute_def AssertAppSlugAvailableService_execute_def Let_def
      intro!: preserving)

section \<open>Creating an app\<close>

lemma app_wf_build:
  assumes "app_wf L a" and "aa_events a = []"
  shows "AppBuilder_build L (AppBuilder_new\<lparr>ab_id := aa_id a, ab_slug := aa_slug a,
     ab_name := aa_name a, ab_createdAt := Some (aa_createdAt a),
     ab_updatedAt := Some (aa_updatedAt a)\<rparr>) = ret a"
  using assms by (auto simp: app_wf_def app_build_defs)

text \<open>For a command whose slug no app has, whose values the value objects accept and whose row
  the schema admits, \<open>CreateApp\<close> returns the generated id, writes exactly that app and publishes
  exactly one \<open>AppCreatedEvent\<close>.\<close>

lemma create_app_success:
  assumes free: "\<forall>e \<in> set (app_tbl w). ae_slug e \<noteq> ca_slug c"
    and t: "new_date L (ext w) = (t, x1)" and i: "uuid_generate L x1 = (i, x2)"
    and a: "a = \<lparr>aa_id = i, aa_createdAt = t, aa_updatedAt = t, aa_slug = ca_slug c,
      aa_name = ca_name c, aa_events = []\<rparr>"
    and wf: "app_wf L a" and chk: "check_app w (AppTypeOrmMapper_toEntity a) = None"
  shows "CreateAppCommandHandler_execute L (app_write_repo L) c w =
     (Inr i, w\<lparr>app_tbl := upsert ae_id (AppTypeOrmMapper_toEntity a) (app_tbl w),
        published := published w @ [App_Event (AppCreatedEvent (AppAggregate_toPrimitives a))],
        ext := x2\<rparr>)"
proof -
  have none: "find (\<lambda>e. ae_slug e = ca_slug c) (app_tbl w) = None"
    using free by (auto simp: find_None_iff)
  have build: "AppBuilder_build L (AppBuilder_new\<lparr>ab_id := i, ab_slug := ca_slug c,
      ab_name := ca_name c, ab_createdAt := Some t, ab_updatedAt := Some t\<rparr>) = ret a"
    using app_wf_build [OF wf] a by simp
  have sel: "aa_id a = i" "aa_events a = []" using a by simp_all
  have create: "AppAggregate_create a = a\<lparr>aa_events := [AppCreatedEvent (AppAggregate_toPrimitives a)]\<rparr>"
    using sel by (simp add: AppAggregate_create_def app_apply_def)
  from none build app_wf_row [OF wf] chk sel show ?thesis
    by (simp add: CreateAppCommandHandler_execute_def AssertAppSlugAvailableService_execute_def create
        bindE_def app_write_repo_run outside_run now_run t generate_uuid_run i publish_run Let_def)
qed

lemmas app_sample_defs = sample_defs vo_defs check_app_def app_wf_def
  AppTypeOrmMapper_toEntity_def AppAggregate_toPrimitives_def upsert_def js_trim_def js_space_def

end
