(* ===== verification/Tenancy_Handlers.thy ===== *)
theory Tenancy_Handlers
  imports Tenancy_Domain User_Context App_Context
begin

text \<open>
  The application layer of the \<open>tenancy\<close> context (\<open>src/contexts/tenancy/application\<close>): the tenant
  roles and their permissions, the assertion services, the commands that create, update and delete
  a tenant and add a member, the queries, and the adapters to the \<open>user\<close> and \<open>app\<close> contexts. The
  locale \<open>app_lookup\<close> is the contract of the port to the app catalogue.
\<close>

section \<open>Roles and permissions\<close>

fun TENANT_ROLE_PERMISSIONS :: "tenant_role \<Rightarrow> tenant_permission list" where
  "TENANT_ROLE_PERMISSIONS OWNER = [VIEW_TENANT, MANAGE_TENANT, DELETE_TENANT, MANAGE_MEMBERS]"
| "TENANT_ROLE_PERMISSIONS ADMIN = [VIEW_TENANT, MANAGE_TENANT, MANAGE_MEMBERS]"
| "TENANT_ROLE_PERMISSIONS MEMBER = [VIEW_TENANT]"

text \<open>Roles are ordered by what they may do: member, admin, owner.\<close>

primrec role_rank :: "tenant_role \<Rightarrow> nat" where
  "role_rank MEMBER = 0"
| "role_rank ADMIN = 1"
| "role_rank OWNER = 2"

lemma role_rank_inj [simp]: "role_rank r = role_rank r' \<longleftrightarrow> r = r'"
  by (cases r; cases r') auto

instantiation tenant_role :: linorder
begin

definition less_eq_tenant_role :: "tenant_role \<Rightarrow> tenant_role \<Rightarrow> bool" where
  "less_eq_tenant_role r r' \<longleftrightarrow> role_rank r \<le> role_rank r'"

definition less_tenant_role :: "tenant_role \<Rightarrow> tenant_role \<Rightarrow> bool" where
  "less_tenant_role r r' \<longleftrightarrow> role_rank r < role_rank r'"

instance
  by standard (auto simp: less_eq_tenant_role_def less_tenant_role_def)

end

text \<open>A higher role holds every permission of a lower one, no two roles hold the same permissions,
  and only an owner may delete a tenant.\<close>

lemma role_permissions_monotone:
  "(set (TENANT_ROLE_PERMISSIONS r) \<subseteq> set (TENANT_ROLE_PERMISSIONS r')) = (r \<le> r') \<and>
   (DELETE_TENANT \<in> set (TENANT_ROLE_PERMISSIONS r)) = role_isOwner (tenant_role_value r)"
  by (cases r; cases r') (auto simp: less_eq_tenant_role_def role_isOwner_def)

section \<open>Ports and adapters\<close>

record 's IAppLookupPort =
  alp_assertExists :: "string \<Rightarrow> ('s, error, unit) comp"

record 's ITenancyUserLookupPort =
  tul_findUserIdByEmail :: "string \<Rightarrow> ('s, error, string option) comp"

definition AppLookupAdapter :: "'x lib \<Rightarrow> 's IAppReadRepository \<Rightarrow> 's IAppLookupPort" where
  "AppLookupAdapter L repo = \<lparr>alp_assertExists = (\<lambda>appId.
     bindE (new_AppFindByIdQuery L appId) (\<lambda>query.
     bindE (AppFindByIdQueryHandler_execute repo query) (\<lambda>app.
     if app = None then throw (new_AppNotFoundException appId) else ret ())))\<rparr>"

definition TenancyUserLookupAdapter ::
  "'x lib \<Rightarrow> 's IUserReadRepository \<Rightarrow> 's ITenancyUserLookupPort" where
  "TenancyUserLookupAdapter L repo = \<lparr>tul_findUserIdByEmail = (\<lambda>email.
     bindE (new_UserFindByEmailQuery L email) (\<lambda>query.
     bindE (UserFindByEmailQueryHandler_execute repo query) (\<lambda>user.
     ret (map_option uv_id user))))\<rparr>"

section \<open>Services\<close>

definition AssertAppExistsService_execute :: "'s IAppLookupPort \<Rightarrow> string \<Rightarrow> ('s, error, unit) comp" where
  "AssertAppExistsService_execute appLookup appId = alp_assertExists appLookup appId"

definition AssertTenantExistsService_execute ::
  "'s ITenantWriteRepository \<Rightarrow> string \<Rightarrow> ('s, error, tenant_aggregate) comp" where
  "AssertTenantExistsService_execute repo tenantId =
     bindE (twr_findById repo tenantId) (\<lambda>tenant.
     case tenant of None \<Rightarrow> throw (new_TenantNotFoundException tenantId) | Some t \<Rightarrow> ret t)"

definition AssertTenantOwnerService_execute ::
  "'s ITenantMembershipWriteRepository \<Rightarrow> string \<Rightarrow> string \<Rightarrow> ('s, error, unit) comp" where
  "AssertTenantOwnerService_execute repo tenantId userId =
     bindE (mwr_findByTenantIdAndUserId repo tenantId userId) (\<lambda>membership.
     if (case membership of None \<Rightarrow> True | Some m \<Rightarrow> \<not> role_isOwner (ma_role m))
     then throw (new_NotTenantOwnerException tenantId userId)
     else ret ())"

definition AssertTenantMembershipAvailableService_execute ::
  "'s ITenantMembershipWriteRepository \<Rightarrow> string \<Rightarrow> string \<Rightarrow> ('s, error, unit) comp" where
  "AssertTenantMembershipAvailableService_execute repo tenantId userId =
     bindE (mwr_findByTenantIdAndUserId repo tenantId userId) (\<lambda>existing.
     if existing \<noteq> None then throw (new_TenantMembershipAlreadyExistsException tenantId userId)
     else ret ())"

definition AssertTenantSlugAvailableService_execute ::
  "'s ITenantWriteRepository \<Rightarrow> string \<Rightarrow> string \<Rightarrow> ('s, error, unit) comp" where
  "AssertTenantSlugAvailableService_execute repo appId slug =
     bindE (twr_findByAppIdAndSlug repo appId slug) (\<lambda>existing.
     if existing \<noteq> None then throw (new_TenantSlugAlreadyExistsException slug appId)
     else ret ())"

section \<open>Commands\<close>

record create_tenant_command =
  ct_appId :: string
  ct_name :: string
  ct_slug :: string
  ct_creatorUserId :: string

definition new_CreateTenantCommand ::
  "'x lib \<Rightarrow> string \<Rightarrow> string \<Rightarrow> string option \<Rightarrow> string \<Rightarrow> ('s, error, create_tenant_command) comp" where
  "new_CreateTenantCommand L appId name slug creatorUserId =
     bindE (liftE (uuid_vo L appId)) (\<lambda>a.
     bindE (liftE (TenantNameValueObject L name)) (\<lambda>n.
     bindE (case slug of Some s \<Rightarrow> ret s | None \<Rightarrow> liftE (generate_slug L name)) (\<lambda>g.
     bindE (liftE (TenantSlugValueObject L g)) (\<lambda>s.
     bindE (liftE (uuid_vo L creatorUserId)) (\<lambda>u.
     ret \<lparr>ct_appId = a, ct_name = n, ct_slug = s, ct_creatorUserId = u\<rparr>)))))"

definition CreateTenantCommandHandler_execute ::
  "'x lib \<Rightarrow> 'x world ITenantWriteRepository \<Rightarrow> 'x world ITenantMembershipWriteRepository \<Rightarrow>
   'x world IAppLookupPort \<Rightarrow> create_tenant_command \<Rightarrow> ('x world, error, string) comp" where
  "CreateTenantCommandHandler_execute L tenants memberships appLookup command =
     bindE (AssertAppExistsService_execute appLookup (ct_appId command)) (\<lambda>_.
     bindE (AssertTenantSlugAvailableService_execute tenants (ct_appId command) (ct_slug command)) (\<lambda>_.
     bindE (outside (now L)) (\<lambda>t.
     bindE (outside (generate_uuid L)) (\<lambda>id.
     bindE (outside (TenantBuilder_build L (TenantBuilder_new\<lparr>tb_id := id,
       tb_appId := ct_appId command, tb_name := ct_name command, tb_slug := ct_slug command,
       tb_createdAt := Some t, tb_updatedAt := Some t\<rparr>))) (\<lambda>built.
     let tenant = TenantAggregate_create built in
     bindE (twr_save tenants tenant) (\<lambda>_.
     bindE (publish (map Tenant_Event (ta_events tenant))) (\<lambda>_.
     bindE (outside (now L)) (\<lambda>membershipNow.
     bindE (outside (generate_uuid L)) (\<lambda>membershipId.
     bindE (outside (TenantMembershipBuilder_build L (TenantMembershipBuilder_new\<lparr>mb_id := membershipId,
       mb_tenantId := ta_id tenant, mb_userId := ct_creatorUserId command,
       mb_role := tenant_role_value OWNER, mb_createdAt := Some membershipNow,
       mb_updatedAt := Some membershipNow\<rparr>))) (\<lambda>builtMembership.
     let membership = TenantMembershipAggregate_create builtMembership in
     bindE (mwr_save memberships membership) (\<lambda>_.
     bindE (publish (map Membership_Event (ma_events membership))) (\<lambda>_.
     ret (ta_id tenant)))))))))))))"

record update_tenant_command =
  ut_tenantId :: string
  ut_requesterUserId :: string
  ut_name :: "string option"
  ut_slug :: "string option"

definition new_UpdateTenantCommand ::
  "'x lib \<Rightarrow> string \<Rightarrow> string \<Rightarrow> string option \<Rightarrow> string option \<Rightarrow>
   ('s, error, update_tenant_command) comp" where
  "new_UpdateTenantCommand L tenantId requesterUserId name slug =
     bindE (liftE (uuid_vo L tenantId)) (\<lambda>t.
     bindE (liftE (uuid_vo L requesterUserId)) (\<lambda>r.
     bindE (optE (\<lambda>n. liftE (TenantNameValueObject L n)) name) (\<lambda>n.
     bindE (optE (\<lambda>s. liftE (TenantSlugValueObject L s)) slug) (\<lambda>s.
     ret \<lparr>ut_tenantId = t, ut_requesterUserId = r, ut_name = n, ut_slug = s\<rparr>))))"

definition UpdateTenantCommandHandler_execute ::
  "'x lib \<Rightarrow> 'x world ITenantWriteRepository \<Rightarrow> update_tenant_command \<Rightarrow> ('x world, error, string) comp" where
  "UpdateTenantCommandHandler_execute L tenants command =
     bindE (AssertTenantExistsService_execute tenants (ut_tenantId command)) (\<lambda>found.
     bindE (case ut_slug command of
         None \<Rightarrow> ret ()
       | Some s \<Rightarrow> whenE (s \<noteq> ta_slug found)
           (AssertTenantSlugAvailableService_execute tenants (ta_appId found) s)) (\<lambda>_.
     bindE (outside (TenantAggregate_update L (ut_name command) (ut_slug command) found)) (\<lambda>tenant.
     bindE (twr_save tenants tenant) (\<lambda>_.
     bindE (publish (map Tenant_Event (ta_events tenant))) (\<lambda>_.
     ret (ta_id tenant))))))"

record delete_tenant_command =
  dt_tenantId :: string
  dt_requesterUserId :: string

definition new_DeleteTenantCommand ::
  "'x lib \<Rightarrow> string \<Rightarrow> string \<Rightarrow> ('s, error, delete_tenant_command) comp" where
  "new_DeleteTenantCommand L tenantId requesterUserId =
     bindE (liftE (uuid_vo L tenantId)) (\<lambda>t.
     bindE (liftE (uuid_vo L requesterUserId)) (\<lambda>r.
     ret \<lparr>dt_tenantId = t, dt_requesterUserId = r\<rparr>))"

definition DeleteTenantCommandHandler_execute ::
  "'x world ITenantWriteRepository \<Rightarrow> 'x world ITenantMembershipWriteRepository \<Rightarrow>
   delete_tenant_command \<Rightarrow> ('x world, error, unit) comp" where
  "DeleteTenantCommandHandler_execute tenants memberships command =
     bindE (AssertTenantExistsService_execute tenants (dt_tenantId command)) (\<lambda>found.
     bindE (AssertTenantOwnerService_execute memberships (dt_tenantId command)
       (dt_requesterUserId command)) (\<lambda>_.
     let tenant = TenantAggregate_delete found in
     bindE (mwr_deleteAllByTenantId memberships (dt_tenantId command)) (\<lambda>_.
     bindE (twr_delete tenants (ta_id tenant)) (\<lambda>_.
     publish (map Tenant_Event (ta_events tenant))))))"

record add_tenant_member_command =
  am_tenantId :: string
  am_email :: string
  am_role :: string

definition new_AddTenantMemberCommand ::
  "'x lib \<Rightarrow> string \<Rightarrow> string \<Rightarrow> string \<Rightarrow> ('s, error, add_tenant_member_command) comp" where
  "new_AddTenantMemberCommand L tenantId email role =
     bindE (liftE (uuid_vo L tenantId)) (\<lambda>t.
     bindE (liftE (email_vo L email)) (\<lambda>e.
     bindE (liftE (TenantRoleValueObject L role)) (\<lambda>r.
     ret \<lparr>am_tenantId = t, am_email = e, am_role = r\<rparr>)))"

record IAddTenantMemberResult =
  amr_membershipId :: string
  amr_tenantId :: string
  amr_userId :: string
  amr_role :: string

definition AddTenantMemberCommandHandler_execute ::
  "'x lib \<Rightarrow> 'x world ITenantWriteRepository \<Rightarrow> 'x world ITenantMembershipWriteRepository \<Rightarrow>
   'x world ITenancyUserLookupPort \<Rightarrow> add_tenant_member_command \<Rightarrow>
   ('x world, error, IAddTenantMemberResult) comp" where
  "AddTenantMemberCommandHandler_execute L tenants memberships userLookup command =
     bindE (AssertTenantExistsService_execute tenants (am_tenantId command)) (\<lambda>_.
     bindE (tul_findUserIdByEmail userLookup (am_email command)) (\<lambda>lookup.
     case lookup of
       None \<Rightarrow> throw (new_MemberUserNotFoundException (am_email command))
     | Some foundId \<Rightarrow>
       bindE (liftE (uuid_vo L foundId)) (\<lambda>userId.
       bindE (AssertTenantMembershipAvailableService_execute memberships (am_tenantId command) userId) (\<lambda>_.
       bindE (outside (now L)) (\<lambda>t.
       bindE (outside (generate_uuid L)) (\<lambda>id.
       bindE (outside (TenantMembershipBuilder_build L (TenantMembershipBuilder_new\<lparr>mb_id := id,
         mb_tenantId := am_tenantId command, mb_userId := userId, mb_role := am_role command,
         mb_createdAt := Some t, mb_updatedAt := Some t\<rparr>))) (\<lambda>built.
       let membership = TenantMembershipAggregate_create built in
       bindE (mwr_save memberships membership) (\<lambda>_.
       bindE (publish (map Membership_Event (ma_events membership))) (\<lambda>_.
       ret \<lparr>amr_membershipId = ma_id membership, amr_tenantId = ma_tenantId membership,
            amr_userId = ma_userId membership, amr_role = ma_role membership\<rparr>)))))))))"

section \<open>Queries\<close>

definition TenantFindByCriteriaQueryHandler_execute ::
  "'s ITenantReadRepository \<Rightarrow> criteria \<Rightarrow> ('s, error, tenant_view_model paginated_result) comp" where
  "TenantFindByCriteriaQueryHandler_execute repo c = trr_findByCriteria repo c"

definition new_TenantMembershipFindByUserIdQuery :: "'x lib \<Rightarrow> string \<Rightarrow> ('s, error, string) comp" where
  "new_TenantMembershipFindByUserIdQuery L userId = liftE (uuid_vo L userId)"

definition TenantMembershipFindByUserIdQueryHandler_execute ::
  "'s ITenantMembershipReadRepository \<Rightarrow> string \<Rightarrow> ('s, error, membership_view_model list) comp" where
  "TenantMembershipFindByUserIdQueryHandler_execute repo userId = mrr_findAllByUserId repo userId"

definition new_TenantMembershipFindByTenantIdQuery :: "'x lib \<Rightarrow> string \<Rightarrow> ('s, error, string) comp" where
  "new_TenantMembershipFindByTenantIdQuery L tenantId = liftE (uuid_vo L tenantId)"

definition TenantMembershipFindByTenantIdQueryHandler_execute ::
  "'s ITenantWriteRepository \<Rightarrow> 's ITenantMembershipReadRepository \<Rightarrow> string \<Rightarrow>
   ('s, error, membership_view_model list) comp" where
  "TenantMembershipFindByTenantIdQueryHandler_execute tenants repo tenantId =
     bindE (AssertTenantExistsService_execute tenants tenantId) (\<lambda>_.
     mrr_findAllByTenantId repo tenantId)"

section \<open>The handlers keep the schema\<close>

lemmas tenancy_service_defs = AssertAppExistsService_execute_def AssertTenantExistsService_execute_def
  AssertTenantOwnerService_execute_def AssertTenantMembershipAvailableService_execute_def
  AssertTenantSlugAvailableService_execute_def

abbreviation app_lookup_adapter ::
  "'x lib \<Rightarrow> app_entity criteria_kit \<Rightarrow> 'x world IAppLookupPort" where
  "app_lookup_adapter L K \<equiv> AppLookupAdapter L (app_read_repo L K)"

abbreviation tenancy_user_lookup :: "'x lib \<Rightarrow> 'x world ITenancyUserLookupPort" where
  "tenancy_user_lookup L \<equiv> TenancyUserLookupAdapter L (user_read_repo L)"

lemma tenancy_handlers_schema [preserving]:
  "preserves schema_ok (CreateTenantCommandHandler_execute L (tenant_write_repo L)
     (membership_write_repo L) (app_lookup_adapter L K) c)"
  "preserves schema_ok (UpdateTenantCommandHandler_execute L (tenant_write_repo L) u)"
  "preserves schema_ok (DeleteTenantCommandHandler_execute (tenant_write_repo L)
     (membership_write_repo L) d)"
  "preserves schema_ok (AddTenantMemberCommandHandler_execute L (tenant_write_repo L)
     (membership_write_repo L) (tenancy_user_lookup L) m)"
  by (auto simp: CreateTenantCommandHandler_execute_def UpdateTenantCommandHandler_execute_def
      DeleteTenantCommandHandler_execute_def AddTenantMemberCommandHandler_execute_def
      tenancy_service_defs AppLookupAdapter_def TenancyUserLookupAdapter_def Let_def
      new_AppFindByIdQuery_def AppFindByIdQueryHandler_execute_def new_UserFindByEmailQuery_def
      UserFindByEmailQueryHandler_execute_def intro!: preserving)

end
