(* ===== verification/Auth_Adapters.thy ===== *)
theory Auth_Adapters
  imports Session_Runs Tenancy_Handlers
begin

text \<open>
  The adapters of the \<open>auth\<close> context (\<open>src/contexts/auth/infrastructure/adapters\<close>): the ports of its
  handlers, provided by the \<open>user\<close> and \<open>tenancy\<close> contexts (a query or a command dispatched on the
  bus) and by Keycloak over HTTP. The interpretation at the end shows that the adapters keep the
  contract \<open>auth_ports\<close>, so that all the lemmas on runs hold of the program as it is wired.
\<close>

section \<open>Adapters to the other contexts\<close>

definition UserLookupAdapter_toResult :: "user_view_model option \<Rightarrow> IUserLookupResult option" where
  "UserLookupAdapter_toResult user = (case user of None \<Rightarrow> None
     | Some u \<Rightarrow> Some \<lparr>ulr_userId = uv_id u, ulr_email = uv_email u, ulr_platformAdmin = uv_platformAdmin u\<rparr>)"

definition UserLookupAdapter :: "'x lib \<Rightarrow> 's IUserReadRepository \<Rightarrow> 's IUserLookupPort" where
  "UserLookupAdapter L repo =
     \<lparr>ulp_findByEmail = (\<lambda>email.
        bindE (new_UserFindByEmailQuery L email) (\<lambda>query.
        bindE (UserFindByEmailQueryHandler_execute repo query) (\<lambda>user.
        ret (UserLookupAdapter_toResult user)))),
      ulp_findById = (\<lambda>userId.
        bindE (new_UserFindByIdQuery L userId) (\<lambda>query.
        bindE (UserFindByIdQueryHandler_execute repo query) (\<lambda>user.
        ret (UserLookupAdapter_toResult user))))\<rparr>"

definition UserProvisioningAdapter ::
  "'x lib \<Rightarrow> 'x world IUserWriteRepository \<Rightarrow> 'x world IUserProvisioningPort" where
  "UserProvisioningAdapter L repo =
     \<lparr>upp_createUser = (\<lambda>input.
        bindE (new_CreateUserCommand L (upi_externalId input) (upi_email input) (upi_displayName input))
          (\<lambda>command. CreateUserCommandHandler_execute L repo command))\<rparr>"

definition UserPlatformAdminAdapter ::
  "'x lib \<Rightarrow> 'x world IUserWriteRepository \<Rightarrow> 'x world IUserPlatformAdminPort" where
  "UserPlatformAdminAdapter L repo =
     \<lparr>pap_setPlatformAdmin = (\<lambda>userId platformAdmin.
        bindE (new_SetUserPlatformAdminCommand L userId platformAdmin)
          (\<lambda>command. SetUserPlatformAdminCommandHandler_execute L repo command))\<rparr>"

definition TenantMembershipLookupAdapter ::
  "'x lib \<Rightarrow> 's ITenantMembershipReadRepository \<Rightarrow> 's ITenantMembershipLookupPort" where
  "TenantMembershipLookupAdapter L repo =
     \<lparr>tml_findMembershipsByUserId = (\<lambda>userId.
        bindE (new_TenantMembershipFindByUserIdQuery L userId) (\<lambda>query.
        bindE (TenantMembershipFindByUserIdQueryHandler_execute repo query) (\<lambda>memberships.
        ret (map (\<lambda>m. \<lparr>mc_tenantId = mv_tenantId m, mc_role = mv_role m\<rparr>) memberships))))\<rparr>"

section \<open>The adapter to Keycloak\<close>

text \<open>\<open>s.split(/\s+/)\<close>: the pieces between maximal runs of white space.\<close>

function split_spaces :: "string \<Rightarrow> string list" where
  "split_spaces s = takeWhile (\<lambda>c. \<not> js_space c) s #
     (case dropWhile (\<lambda>c. \<not> js_space c) s of
        [] \<Rightarrow> []
      | c # rest \<Rightarrow> split_spaces (dropWhile js_space rest))"
  by pat_completeness auto

termination
proof (relation "measure length")
  fix s :: string and c rest
  assume "dropWhile (\<lambda>c. \<not> js_space c) s = c # rest"
  then have "length (c # rest) \<le> length s" by (metis length_dropWhile_le)
  then show "(dropWhile js_space rest, s) \<in> measure length"
    using length_dropWhile_le [of js_space rest] by simp
qed simp

declare split_spaces.simps [simp del]

text \<open>\<open>parts.join(' ')\<close>.\<close>

fun join_spaces :: "string list \<Rightarrow> string" where
  "join_spaces [] = []"
| "join_spaces [p] = p"
| "join_spaces (p # q # ps) = p @ '' '' @ join_spaces (q # ps)"

definition keycloak_names :: "string option \<Rightarrow> string \<Rightarrow> string \<times> string" where
  "keycloak_names displayName email =
     (let trimmed = (case displayName of None \<Rightarrow> [] | Some d \<Rightarrow> js_trim d);
          nameSource = (if trimmed \<noteq> [] then trimmed else hd (js_split (CHR ''@'') email));
          parts = split_spaces nameSource;
          firstName = hd parts;
          rest = tl parts
      in (firstName, if rest \<noteq> [] then join_spaces rest else firstName))"

fun decimal :: "nat \<Rightarrow> string" where
  "decimal n = (if n < 10 then [char_of (48 + n)] else decimal (n div 10) @ [char_of (48 + n mod 10)])"

declare decimal.simps [simp del]

text \<open>\<open>${status}\<close> of an optional status.\<close>

definition status_text :: "nat option \<Rightarrow> string" where
  "status_text status = (case status of None \<Rightarrow> ''undefined'' | Some n \<Rightarrow> decimal n)"

definition token_url :: "keycloak_config \<Rightarrow> string" where
  "token_url kc = kc_baseUrl kc @ ''/realms/'' @ kc_realm kc @ ''/protocol/openid-connect/token''"

definition users_url :: "keycloak_config \<Rightarrow> string" where
  "users_url kc = kc_baseUrl kc @ ''/admin/realms/'' @ kc_realm kc @ ''/users''"

text \<open>\<open>firstValueFrom(httpService.post(...))\<close>: the failure is a value, for the caller's \<open>catch\<close>.\<close>

definition post :: "'x lib \<Rightarrow> http_request \<Rightarrow> ('x, error, http_failure + http_response) comp" where
  "post L rq = stepS (http_post L rq)"

definition Keycloak_getServiceAccountToken ::
  "'x lib \<Rightarrow> keycloak_config \<Rightarrow> ('x, error, string) comp" where
  "Keycloak_getServiceAccountToken L kc =
     bindE (post L \<lparr>rq_url = token_url kc,
       rq_body = [(''grant_type'', ''client_credentials''), (''client_id'', kc_clientId kc),
         (''client_secret'', kc_clientSecret kc)], rq_bearer = None\<rparr>) (\<lambda>r.
     case r of
       Inl failure \<Rightarrow> throw (JsError (''Failed to obtain a Keycloak service-account token ('' @
         status_text (hf_status failure) @ '')''))
     | Inr response \<Rightarrow> ret (rs_access_token response))"

definition Keycloak_decodeSub :: "'x lib \<Rightarrow> string \<Rightarrow> ('x, error, string) comp" where
  "Keycloak_decodeSub L jwt =
     (let parts = js_split (CHR ''.'') jwt;
          payloadSegment = (if 1 < length parts then Some (parts ! 1) else None)
      in bindE (liftE (base64url_utf8 L payloadSegment)) (\<lambda>text. liftE (json_sub L text)))"

definition Keycloak_registerIdentity ::
  "'x lib \<Rightarrow> keycloak_config \<Rightarrow> IRegisterIdentityInput \<Rightarrow> ('x, error, string) comp" where
  "Keycloak_registerIdentity L kc input =
     bindE (Keycloak_getServiceAccountToken L kc) (\<lambda>token.
     case keycloak_names (ri_displayName input) (ri_email input) of (firstName, lastName) \<Rightarrow>
     bindE (post L \<lparr>rq_url = users_url kc,
       rq_body = [(''username'', ri_email input), (''email'', ri_email input),
         (''firstName'', firstName), (''lastName'', lastName), (''enabled'', ''true''),
         (''emailVerified'', ''true''), (''credentials.type'', ''password''),
         (''credentials.value'', ri_password input), (''credentials.temporary'', ''false'')],
       rq_bearer = Some token\<rparr>) (\<lambda>r.
     case r of
       Inl failure \<Rightarrow>
         if hf_status failure = Some 409 then throw (new_EmailAlreadyRegisteredException (ri_email input))
         else throw (JsError (''Keycloak user creation failed ('' @ status_text (hf_status failure) @
           ''): '' @ hf_data failure))
     | Inr response \<Rightarrow>
         (let externalId = (case rs_location response of None \<Rightarrow> []
            | Some location \<Rightarrow> last (js_split (CHR ''/'') location))
          in if externalId = [] then
               throw (JsError ''Keycloak did not return a Location header with the new user id'')
             else ret externalId)))"

definition Keycloak_verifyCredentials ::
  "'x lib \<Rightarrow> keycloak_config \<Rightarrow> string \<Rightarrow> string \<Rightarrow> ('x, error, string) comp" where
  "Keycloak_verifyCredentials L kc email password =
     bindE (post L \<lparr>rq_url = token_url kc,
       rq_body = [(''grant_type'', ''password''), (''client_id'', kc_clientId kc),
         (''client_secret'', kc_clientSecret kc), (''username'', email), (''password'', password)],
       rq_bearer = None\<rparr>) (\<lambda>r.
     case r of
       Inl failure \<Rightarrow> throw (JsError ''Keycloak rejected the credentials'')
     | Inr response \<Rightarrow> Keycloak_decodeSub L (rs_access_token response))"

definition KeycloakIdentityProviderAdapter ::
  "'x lib \<Rightarrow> keycloak_config \<Rightarrow> 'x world IIdentityProviderPort" where
  "KeycloakIdentityProviderAdapter L kc =
     \<lparr>idp_registerIdentity = (\<lambda>input. outside (Keycloak_registerIdentity L kc input)),
      idp_verifyCredentials = (\<lambda>email password. outside (Keycloak_verifyCredentials L kc email password))\<rparr>"

section \<open>The wiring\<close>

abbreviation user_lookup :: "'x lib \<Rightarrow> 'x world IUserLookupPort" where
  "user_lookup L \<equiv> UserLookupAdapter L (user_read_repo L)"

abbreviation membership_lookup ::
  "'x lib \<Rightarrow> membership_entity criteria_kit \<Rightarrow> 'x world ITenantMembershipLookupPort" where
  "membership_lookup L K \<equiv> TenantMembershipLookupAdapter L (membership_read_repo L K)"

abbreviation platform_admin :: "'x lib \<Rightarrow> 'x world IUserPlatformAdminPort" where
  "platform_admin L \<equiv> UserPlatformAdminAdapter L (user_write_repo L)"

abbreviation user_provisioning :: "'x lib \<Rightarrow> 'x world IUserProvisioningPort" where
  "user_provisioning L \<equiv> UserProvisioningAdapter L (user_write_repo L)"

text \<open>What the reading adapters compute; they change nothing.\<close>

lemma user_lookup_adapter_run:
  "ulp_findByEmail (user_lookup L) m w = (case UserEmailValueObject L m of
       Inl err \<Rightarrow> (Inl err, w)
     | Inr v \<Rightarrow> (map_sum (\<lambda>e. e) UserLookupAdapter_toResult
         (opt_sum (user_view_from_row L) (find (\<lambda>e. ue_email e = v) (user_tbl w))), w))"
  "ulp_findById (user_lookup L) i w = (case UserIdValueObject L i of
       Inl err \<Rightarrow> (Inl err, w)
     | Inr v \<Rightarrow> (map_sum (\<lambda>e. e) UserLookupAdapter_toResult
         (opt_sum (user_view_from_row L) (find (\<lambda>e. ue_id e = v) (user_tbl w))), w))"
  by (auto simp: UserLookupAdapter_def new_UserFindByEmailQuery_def new_UserFindByIdQuery_def
      UserFindByEmailQueryHandler_execute_def UserFindByIdQueryHandler_execute_def bindE_def
      user_read_repo_run split: sum.split)

lemma membership_lookup_run:
  "tml_findMembershipsByUserId (membership_lookup L K) i w = (case uuid_vo L i of
       Inl err \<Rightarrow> (Inl err, w)
     | Inr v \<Rightarrow> (map_sum (\<lambda>e. e) (map (\<lambda>m. \<lparr>mc_tenantId = mv_tenantId m, mc_role = mv_role m\<rparr>))
         (map_sums (membership_view_from_row L)
           (filter (\<lambda>e. me_userId e = v) (membership_tbl w))), w))"
  by (auto simp: TenantMembershipLookupAdapter_def new_TenantMembershipFindByUserIdQuery_def
      TenantMembershipFindByUserIdQueryHandler_execute_def bindE_def
      membership_read_repo_run split: sum.split)

lemma lookups_keep:
  "preserves I (ulp_findByEmail (user_lookup L) m)"
  "preserves I (ulp_findById (user_lookup L) i)"
  "preserves I (tml_findMembershipsByUserId (membership_lookup L K) i)"
  by (auto simp: preserves_def user_lookup_adapter_run membership_lookup_run split: sum.splits)

section \<open>The contract of the ports\<close>

text \<open>Writing a user leaves the stored sessions alone.\<close>

lemma user_save_keeps: "preserves (sessions_are L F T) (uwr_save (user_write_repo L) a)"
  by (auto simp: preserves_def user_write_repo_run session_inv_def sessions_stored_def ids_spent_def
      intro: schema_ok_save_user split: option.splits)

lemma user_read_keeps:
  "preserves I (uwr_findById (user_write_repo L) i)" "preserves I (uwr_findByEmail (user_write_repo L) m)"
  by (auto simp: preserves_def user_write_repo_run)

lemma publish_keeps: "preserves (sessions_are L F T) (publish es)"
  by (auto simp: preserves_def publish_run session_inv_def sessions_stored_def ids_spent_def)

lemma id_supply_post: "id_supply L F \<Longrightarrow> id_decreasing F (post L rq)"
  by (simp add: id_supply_def id_decreasing_def post_def stepS_run)

lemma id_decreasing_sum [preserving]:
  "(\<And>x. id_decreasing F (k x)) \<Longrightarrow> (\<And>x. id_decreasing F (m x)) \<Longrightarrow>
     id_decreasing F (case z of Inl x \<Rightarrow> k x | Inr x \<Rightarrow> m x)"
  by (cases z) auto

lemma UserAggregate_update_ids:
  "id_supply L F \<Longrightarrow> id_decreasing F (UserAggregate_update L props a)"
  by (auto simp: UserAggregate_update_def user_change_defs Let_def
      intro!: preserving id_supply_calls split: option.splits)

lemma verify_ids: "id_supply L F \<Longrightarrow> id_decreasing F (Keycloak_verifyCredentials L kc m p)"
  unfolding Keycloak_verifyCredentials_def Keycloak_decodeSub_def Let_def
  by (intro preserving id_supply_post)

interpretation wired: auth_ports L "session_write_repo L" "user_lookup L"
  "KeycloakIdentityProviderAdapter L kc" "membership_lookup L K" "platform_admin L"
  for L :: "'x lib" and kc K
proof unfold_locales
  fix F :: "'x \<Rightarrow> string set" and T m p i b
  assume L: "id_supply L F"
  show "preserves (sessions_are L F T) (ulp_findByEmail (user_lookup L) m)"
    "preserves (sessions_are L F T) (ulp_findById (user_lookup L) i)"
    "preserves (sessions_are L F T) (tml_findMembershipsByUserId (membership_lookup L K) i)"
    by (rule lookups_keep)+
  show "preserves (sessions_are L F T)
      (idp_verifyCredentials (KeycloakIdentityProviderAdapter L kc) m p)"
    by (simp add: KeycloakIdentityProviderAdapter_def outside_keeps verify_ids [OF L])
  show "preserves (sessions_are L F T) (pap_setPlatformAdmin (platform_admin L) i b)"
    unfolding UserPlatformAdminAdapter_def IUserPlatformAdminPort.simps
      new_SetUserPlatformAdminCommand_def SetUserPlatformAdminCommandHandler_execute_def
      AssertUserExistsService_execute_def
    by (intro preserving user_save_keeps user_read_keeps publish_keeps outside_keeps
        UserAggregate_update_ids L)
qed

end
