(* ===== verification/Auth_Properties.thy ===== *)
theory Auth_Properties
  imports Auth_Adapters
begin

text \<open>
  The properties of the \<open>auth\<close> context: the refresh-token rotation and its reuse detection, login,
  registration, and the platform-admin flag, for the handlers as the module wires them (the TypeORM
  repository, the adapters to the \<open>user\<close> and \<open>tenancy\<close> contexts, Keycloak over HTTP).
\<close>

section \<open>Access tokens\<close>

text \<open>The claims of a user's access token, and when the lookups it needs succeed.\<close>

definition token_claims ::
  "user_view_model \<Rightarrow> bool \<Rightarrow> membership_view_model list \<Rightarrow> access_token_claims" where
  "token_claims v admin ms = \<lparr>cl_sub = uv_id v, cl_email = uv_email v, cl_platformAdmin = admin,
     cl_tenants = map (\<lambda>m. \<lparr>mc_tenantId = mv_tenantId m, mc_role = mv_role m\<rparr>) ms\<rparr>"

definition has_memberships ::
  "'x lib \<Rightarrow> 'x world \<Rightarrow> string \<Rightarrow> membership_view_model list \<Rightarrow> bool" where
  "has_memberships L w u ms \<longleftrightarrow>
     map_sums (membership_view_from_row L) (filter (\<lambda>e. me_userId e = u) (membership_tbl w)) = Inr ms"

lemma access_token_run:
  assumes u: "uuid_vo L u = Inr u" and r: "find (\<lambda>e. ue_id e = u) (user_tbl w) = Some r"
    and v: "user_view_from_row L r = Inr v" and ms: "has_memberships L w u ms"
    and sign: "jwt_sign L (token_claims v (uv_platformAdmin v) ms) (ext w) = (Inr token, x)"
  shows "refresh_access_token L (user_lookup L) (membership_lookup L K) u w =
    (Inr token, w\<lparr>ext := x\<rparr>)"
proof -
  have "uv_id v = u" using user_view_from_row_Inr [OF v] find_Some_iff_ex [OF r] by simp
  with assms show ?thesis
    by (simp add: refresh_access_token_def bindE_def user_lookup_adapter_run membership_lookup_run
        UserIdValueObject_def UserLookupAdapter_toResult_def outside_run TokenSignService_execute_def
        token_claims_def has_memberships_def)
qed

text \<open>A session lives the configured number of days, in milliseconds.\<close>

lemma expiry_ms: "expiry cfg t = t + ac_refreshTokenTtlDays cfg * 86400000"
  by (simp add: expiry_def)

section \<open>Refresh\<close>

lemma refresh_success_run:
  assumes raw: "random_base64url L 32 (ext w) = (raw, x1)" and t: "new_date L x1 = (t, x2)"
    and tx: "tx_pending w = None" and ok: "schema_ok w" and st: "sessions_stored L w"
    and e: "find (\<lambda>e. se_refreshTokenHash e = sha256_hex L (rf_refreshToken c)) (session_tbl w) = Some e"
    and live: "se_revokedAt e = None"
    and x3: "new_date L x2 = (t1, x3)" and exp: "t1 < se_refreshTokenExpiresAt e"
    and x4: "new_date L x3 = (t2, x4)" and x5: "uuid_generate L x4 = (i, x5)"
    and x6: "new_date L x5 = (t3, x6)" and x7: "touch L (se_updatedAt e) x6 = (u, x7)"
    and created: "created = \<lparr>sg_id = i, sg_createdAt = t2, sg_updatedAt = t2, sg_userId = se_userId e,
      sg_refreshTokenHash = sha256_hex L raw, sg_expiresAt = expiry cfg t, sg_revokedAt = None,
      sg_replacedBySessionId = None\<rparr>"
    and consumed: "consumed = (session_of_row e)\<lparr>sg_revokedAt := Some t3,
      sg_replacedBySessionId := Some i, sg_updatedAt := u\<rparr>"
    and wf: "session_wf L created" "session_wf L consumed"
    and fresh: "i \<notin> se_id ` set (session_tbl w)"
      "sha256_hex L raw \<notin> se_refreshTokenHash ` set (session_tbl w)"
    and hash: "hash_ok L"
    and user: "find (\<lambda>r. ue_id r = se_userId e) (user_tbl w) = Some r" "user_view_from_row L r = Inr v"
    and ms: "has_memberships L w (se_userId e) ms"
    and sign: "jwt_sign L (token_claims v (uv_platformAdmin v) ms) x7 = (Inr token, x8)"
  shows "RefreshSessionCommandHandler_execute L cfg (session_write_repo L) (user_lookup L)
      (membership_lookup L K) c w =
    (Inr \<lparr>lr_accessToken = token, lr_refreshToken = raw\<rparr>,
     w\<lparr>session_tbl := upsert se_id (SessionTypeOrmMapper_toEntity consumed)
         (upsert se_id (SessionTypeOrmMapper_toEntity created) (session_tbl w)), ext := x8\<rparr>)"
proof -
  let ?w = "w\<lparr>session_tbl := upsert se_id (SessionTypeOrmMapper_toEntity consumed)
         (upsert se_id (SessionTypeOrmMapper_toEntity created) (session_tbl w)), ext := x7\<rparr>"
  have "uuid_vo L (se_userId e) = Inr (se_userId e)" using wf(1) by (simp add: session_wf_def created)
  with user ms sign have "refresh_access_token L (user_lookup L) (membership_lookup L K) (se_userId e) ?w =
      (Inr token, ?w\<lparr>ext := x8\<rparr>)"
    by (intro access_token_run) (simp_all add: has_memberships_def)
  then show ?thesis
    by (subst session_db.refresh_rotates [OF raw t tx ok st e live x3 exp x4 x5 x6 x7 created consumed
          wf fresh]) (use hash in \<open>simp_all add: hash_ok_def bindE_def\<close>)
qed

text \<open>C1: presenting a live, unexpired refresh token: the handler returns a new access token for the
  session's user and the raw successor token; exactly two session rows change, the presented one
  (revoked, naming its successor) and the successor (same user, unrevoked, holding only the hash
  of the new token, expiring the configured number of days after the call), in one transaction.
  Nothing else in the database changes and nothing is published.\<close>

theorem refresh_success:
  assumes raw: "random_base64url L 32 (ext w) = (raw, x1)" and t: "new_date L x1 = (t, x2)"
    and tx: "tx_pending w = None" and ok: "schema_ok w" and st: "sessions_stored L w"
    and e: "find (\<lambda>e. se_refreshTokenHash e = sha256_hex L (rf_refreshToken c)) (session_tbl w) = Some e"
    and live: "se_revokedAt e = None"
    and x3: "new_date L x2 = (t1, x3)" and exp: "t1 < se_refreshTokenExpiresAt e"
    and x4: "new_date L x3 = (t2, x4)" and x5: "uuid_generate L x4 = (i, x5)"
    and x6: "new_date L x5 = (t3, x6)" and x7: "touch L (se_updatedAt e) x6 = (u, x7)"
    and created: "created = \<lparr>sg_id = i, sg_createdAt = t2, sg_updatedAt = t2, sg_userId = se_userId e,
      sg_refreshTokenHash = sha256_hex L raw, sg_expiresAt = t + ac_refreshTokenTtlDays cfg * 86400000, sg_revokedAt = None,
      sg_replacedBySessionId = None\<rparr>"
    and consumed: "consumed = (session_of_row e)\<lparr>sg_revokedAt := Some t3,
      sg_replacedBySessionId := Some i, sg_updatedAt := u\<rparr>"
    and wf: "session_wf L created" "session_wf L consumed"
    and fresh: "i \<notin> se_id ` set (session_tbl w)"
      "sha256_hex L raw \<notin> se_refreshTokenHash ` set (session_tbl w)"
    and hash: "hash_ok L"
    and user: "find (\<lambda>r. ue_id r = se_userId e) (user_tbl w) = Some r" "user_view_from_row L r = Inr v"
    and ms: "has_memberships L w (se_userId e) ms"
    and sign: "jwt_sign L (token_claims v (uv_platformAdmin v) ms) x7 = (Inr token, x8)"
  shows "RefreshSessionCommandHandler_execute L cfg (session_write_repo L) (user_lookup L)
      (membership_lookup L K) c w =
    (Inr \<lparr>lr_accessToken = token, lr_refreshToken = raw\<rparr>,
     w\<lparr>session_tbl := upsert se_id (SessionTypeOrmMapper_toEntity consumed)
         (upsert se_id (SessionTypeOrmMapper_toEntity created) (session_tbl w)), ext := x8\<rparr>)"
  by (rule refresh_success_run [unfolded expiry_ms, OF assms])

text \<open>C2: presenting a token that was already redeemed or revoked: the handler throws the reuse
  exception, and the revocation is kept: every session of that user that was still live is
  revoked (at one instant), the sessions of other users and those already revoked are untouched,
  and no successor is created.\<close>

theorem refresh_reuse_detected:
  assumes "random_base64url L 32 (ext w) = (raw, x1)" and "new_date L x1 = (t, x2)"
    and "tx_pending w = None" and "sessions_stored L w"
    and "find (\<lambda>e. se_refreshTokenHash e = sha256_hex L (rf_refreshToken c)) (session_tbl w) = Some e"
    and "se_revokedAt e \<noteq> None"
    and "touch L (se_updatedAt e) x2 = (u, x3)" and "sql_now L x3 = (t', x4)"
  shows "RefreshSessionCommandHandler_execute L cfg (session_write_repo L) (user_lookup L)
      (membership_lookup L K) c w =
    (Inl new_RefreshTokenReuseDetectedException,
     w\<lparr>session_tbl := map (\<lambda>s. if se_userId s = se_userId e \<and> se_revokedAt s = None
         then s\<lparr>se_revokedAt := Some (driver_date t')\<rparr> else s) (session_tbl w), ext := x4\<rparr>)"
  using session_db.refresh_reuse [OF assms] by (simp add: set_revoked_at_def)

text \<open>A token that no session holds, and a live token at or past its expiry, are refused with the
  same exception; neither call changes the database, so an expired token stays unrevoked.\<close>

lemma refresh_refused:
  assumes "random_base64url L 32 (ext w) = (raw, x1)" and "new_date L x1 = (t, x2)"
    and "tx_pending w = None" and "sessions_stored L w"
    and "case find (\<lambda>e. se_refreshTokenHash e = sha256_hex L (rf_refreshToken c)) (session_tbl w) of
        None \<Rightarrow> x' = x2
      | Some e \<Rightarrow> se_revokedAt e = None \<and>
          (\<exists>t'. new_date L x2 = (t', x') \<and> se_refreshTokenExpiresAt e \<le> t')"
  shows "RefreshSessionCommandHandler_execute L cfg (session_write_repo L) (user_lookup L)
      (membership_lookup L K) c w = (Inl new_InvalidRefreshTokenException, w\<lparr>ext := x'\<rparr>)"
proof (cases "find (\<lambda>e. se_refreshTokenHash e = sha256_hex L (rf_refreshToken c)) (session_tbl w)")
  case None
  with assms session_db.refresh_unknown [OF assms(1-3) None] show ?thesis by simp
next
  case (Some e)
  with assms(5) obtain t' where "se_revokedAt e = None" "new_date L x2 = (t', x')"
    "se_refreshTokenExpiresAt e \<le> t'" by auto
  from session_db.refresh_expired [OF assms(1-4) Some this] show ?thesis .
qed

text \<open>C6: whatever the outcome, one call of the refresh handler is one step of the abstract token
  machine: the stored sessions keep their invariant, and the token map either stays (and an error
  is returned) or moves by \<open>redeem\<close> on the presented token's hash, with the matching answer.\<close>

theorem refresh_handler_refines:
  assumes "id_supply L F" and "hash_ok L" and "uuid_ok L" and "session_inv L F w"
    and "RefreshSessionCommandHandler_execute L cfg (session_write_repo L) (user_lookup L)
      (membership_lookup L K) c w = (res, w')"
  shows "session_inv L F w' \<and> refresh_implements L (sha256_hex L (rf_refreshToken c))
    (tokens (session_tbl w)) res (tokens (session_tbl w'))"
  using assms by (rule wired.refresh_refines)

text \<open>One call of the login handler either changes no stored token and throws, or issues exactly
  one new live token: the hash of the refresh token it returns, which no session held before.\<close>

lemma login_handler_refines:
  assumes "id_supply L F" and "hash_ok L" and "uuid_ok L" and "session_inv L F w"
    and "LoginUserCommandHandler_execute L cfg (user_lookup L) (KeycloakIdentityProviderAdapter L kc)
      (membership_lookup L K) (session_write_repo L) (platform_admin L) c w = (res, w')"
  shows "session_inv L F w' \<and>
    login_implements L (tokens (session_tbl w)) res (tokens (session_tbl w'))"
  using assms by (rule wired.login_refines)

text \<open>Over any run of logins, refreshes and other requests, no refresh token is redeemed twice:
  two successful refreshes presented different tokens.\<close>

lemma refresh_token_single_use:
  assumes "id_supply L F" and "hash_ok L" and "uuid_ok L" and "session_inv L F w"
    and "service_run L F cfg (session_write_repo L) (user_lookup L)
      (KeycloakIdentityProviderAdapter L kc) (membership_lookup L K) (platform_admin L) w
      (xs @ Refresh c1 (Inr r1) # ys @ Refresh c2 (Inr r2) # zs) w'"
  shows "rf_refreshToken c1 \<noteq> rf_refreshToken c2"
  using assms by (rule wired.no_second_redemption)

text \<open>C5: once a spent token is presented again, every token its user held at that moment is dead: the
  replay throws the reuse exception, and no later refresh with one of them, in any run, succeeds.\<close>

theorem replay_kills_user_tokens:
  assumes "id_supply L F" and "hash_ok L" and "uuid_ok L" and "session_inv L F w"
    and "tokens (session_tbl w) (sha256_hex L (rf_refreshToken c1)) = Some k" and "\<not> tk_live k"
    and "tokens (session_tbl w) (sha256_hex L (rf_refreshToken c2)) = Some k'"
    and "tk_user k' = tk_user k"
    and "service_run L F cfg (session_write_repo L) (user_lookup L)
      (KeycloakIdentityProviderAdapter L kc) (membership_lookup L K) (platform_admin L) w
      (Refresh c1 r1 # ys @ Refresh c2 r2 # zs) w'"
  shows "r1 = Inl new_RefreshTokenReuseDetectedException \<and> isl r2"
  using assms by (rule wired.replay_ends_tokens)

section \<open>Login\<close>

lemma login_success_run:
  assumes verify: "Keycloak_verifyCredentials L kc (lu_email c) (lu_password c) (ext w) = (Inr sub, x1)"
    and email: "UserEmailValueObject L (lu_email c) = Inr (lu_email c)"
    and user: "find (\<lambda>r. ue_email r = lu_email c) (user_tbl w) = Some r" "user_view_from_row L r = Inr v"
    and id: "uuid_vo L (uv_id v) = Inr (uv_id v)" and ms: "has_memberships L w (uv_id v) ms"
    and flag: "case ReconcilePlatformAdminService_execute (uv_email v) (uv_platformAdmin v)
        (ac_platformAdminEmails cfg) of
        None \<Rightarrow> admin = uv_platformAdmin v \<and> w1 = w\<lparr>ext := x1\<rparr>
      | Some b \<Rightarrow> admin = b \<and>
          pap_setPlatformAdmin (platform_admin L) (uv_id v) b (w\<lparr>ext := x1\<rparr>) = (Inr (), w1)"
    and sign: "jwt_sign L (token_claims v admin ms) (ext w1) = (Inr token, x2)"
    and raw: "random_base64url L 32 x2 = (raw, x3)" and t: "new_date L x3 = (t, x4)"
    and t1: "new_date L x4 = (t1, x5)" and i: "uuid_generate L x5 = (i, x6)"
    and a: "a = \<lparr>sg_id = i, sg_createdAt = t1, sg_updatedAt = t1, sg_userId = uv_id v,
      sg_refreshTokenHash = sha256_hex L raw, sg_expiresAt = t + ac_refreshTokenTtlDays cfg * 86400000, sg_revokedAt = None,
      sg_replacedBySessionId = None\<rparr>"
    and wf: "session_wf L a"
    and chk: "check_session w1 (session_tbl w1) (SessionTypeOrmMapper_toEntity a) = None"
  shows "LoginUserCommandHandler_execute L cfg (user_lookup L) (KeycloakIdentityProviderAdapter L kc)
      (membership_lookup L K) (session_write_repo L) (platform_admin L) c w =
    (Inr \<lparr>lr_accessToken = token, lr_refreshToken = raw\<rparr>,
     w1\<lparr>session_tbl := upsert se_id (SessionTypeOrmMapper_toEntity a) (session_tbl w1), ext := x6\<rparr>)"
proof -
  have idp: "idp_verifyCredentials (KeycloakIdentityProviderAdapter L kc) (lu_email c) (lu_password c) w =
      (Inr sub, w\<lparr>ext := x1\<rparr>)"
    using verify by (simp add: KeycloakIdentityProviderAdapter_def outside_run)
  have new: "new_session L (uv_id v) (sha256_hex L raw) (expiry cfg t) x4 = (Inr a, x6)"
    using new_session_wf [OF t1 i] wf by (simp add: a expiry_ms)
  have row: "session_from_row L (SessionTypeOrmMapper_toEntity a) = Inr a" using wf by (rule session_wf_row)
  define tail where "tail admin = (\<lambda>w1. bindE (outside (TokenSignService_execute L (token_claims v admin ms)))
      (\<lambda>accessToken. bindE (outside (GenerateRefreshTokenService_execute L)) (\<lambda>rawRefreshToken.
       bindE (outside (now L)) (\<lambda>t. bindE (outside (new_session L (uv_id v)
         (sha256_hex L rawRefreshToken) (expiry cfg t))) (\<lambda>session.
       bindE (swr_save (session_write_repo L) session) (\<lambda>_.
       ret \<lparr>lr_accessToken = accessToken, lr_refreshToken = rawRefreshToken\<rparr>))))) w1)" for admin
  have tail: "tail admin w1 = (Inr \<lparr>lr_accessToken = token, lr_refreshToken = raw\<rparr>,
      w1\<lparr>session_tbl := upsert se_id (SessionTypeOrmMapper_toEntity a) (session_tbl w1), ext := x6\<rparr>)"
    using sign raw t new chk row
    by (simp add: tail_def bindE_def outside_run TokenSignService_execute_def
        GenerateRefreshTokenService_execute_def stepS_run now_run session_db.save_law)
  show ?thesis
    using idp email user id ms flag tail
    by (simp add: LoginUserCommandHandler_execute_def catchE_def bindE_def user_lookup_adapter_run
        membership_lookup_run UserLookupAdapter_toResult_def has_memberships_def Let_def
        HashRefreshTokenService_execute_def token_claims_def tail_def split: option.splits)
qed

text \<open>C17: logging in with credentials Keycloak accepts, as a user the service has: one session row is
  added, unrevoked and holding only the hash of the returned refresh token; the access token
  carries the user, the memberships, and the platform-admin flag as it stands after the
  reconciliation with the configured list, which is written first when it differs.\<close>

theorem login_success:
  assumes verify: "Keycloak_verifyCredentials L kc (lu_email c) (lu_password c) (ext w) = (Inr sub, x1)"
    and email: "UserEmailValueObject L (lu_email c) = Inr (lu_email c)"
    and user: "find (\<lambda>r. ue_email r = lu_email c) (user_tbl w) = Some r" "user_view_from_row L r = Inr v"
    and id: "uuid_vo L (uv_id v) = Inr (uv_id v)" and ms: "has_memberships L w (uv_id v) ms"
    and flag: "case ReconcilePlatformAdminService_execute (uv_email v) (uv_platformAdmin v)
        (ac_platformAdminEmails cfg) of
        None \<Rightarrow> admin = uv_platformAdmin v \<and> w1 = w\<lparr>ext := x1\<rparr>
      | Some b \<Rightarrow> admin = b \<and>
          pap_setPlatformAdmin (platform_admin L) (uv_id v) b (w\<lparr>ext := x1\<rparr>) = (Inr (), w1)"
    and sign: "jwt_sign L (token_claims v admin ms) (ext w1) = (Inr token, x2)"
    and raw: "random_base64url L 32 x2 = (raw, x3)" and t: "new_date L x3 = (t, x4)"
    and t1: "new_date L x4 = (t1, x5)" and i: "uuid_generate L x5 = (i, x6)"
    and a: "a = \<lparr>sg_id = i, sg_createdAt = t1, sg_updatedAt = t1, sg_userId = uv_id v,
      sg_refreshTokenHash = sha256_hex L raw, sg_expiresAt = t + ac_refreshTokenTtlDays cfg * 86400000, sg_revokedAt = None,
      sg_replacedBySessionId = None\<rparr>"
    and wf: "session_wf L a"
    and chk: "check_session w1 (session_tbl w1) (SessionTypeOrmMapper_toEntity a) = None"
  shows "LoginUserCommandHandler_execute L cfg (user_lookup L) (KeycloakIdentityProviderAdapter L kc)
      (membership_lookup L K) (session_write_repo L) (platform_admin L) c w =
    (Inr \<lparr>lr_accessToken = token, lr_refreshToken = raw\<rparr>,
     w1\<lparr>session_tbl := upsert se_id (SessionTypeOrmMapper_toEntity a) (session_tbl w1), ext := x6\<rparr>)"
  using assms by (rule login_success_run)

text \<open>C18: a login that Keycloak refuses (for whatever reason) and a login of an address that no user of
  the service has both throw the one credentials exception, and change nothing in the database:
  the answer does not tell which addresses are registered.\<close>

theorem login_refused:
  assumes "Keycloak_verifyCredentials L kc (lu_email c) (lu_password c) (ext w) = (res, x1)"
    and "isl res \<or> UserEmailValueObject L (lu_email c) = Inr (lu_email c) \<and>
      lu_email c \<notin> ue_email ` set (user_tbl w)"
  shows "LoginUserCommandHandler_execute L cfg (user_lookup L) (KeycloakIdentityProviderAdapter L kc)
      (membership_lookup L K) (session_write_repo L) (platform_admin L) c w =
    (Inl new_InvalidCredentialsException, w\<lparr>ext := x1\<rparr>)"
proof (cases res)
  case (Inl err)
  with assms(1) show ?thesis
    by (simp add: LoginUserCommandHandler_execute_def KeycloakIdentityProviderAdapter_def outside_run
        catchE_def bindE_def)
next
  case (Inr sub)
  with assms(2) have "find (\<lambda>r. ue_email r = lu_email c) (user_tbl w) = None"
    "UserEmailValueObject L (lu_email c) = Inr (lu_email c)" by (auto intro: find_key_None)
  with Inr assms(1) show ?thesis
    by (simp add: LoginUserCommandHandler_execute_def KeycloakIdentityProviderAdapter_def outside_run
        catchE_def bindE_def user_lookup_adapter_run UserLookupAdapter_toResult_def)
qed

text \<open>The reconciliation of the platform-admin flag: with no list configured it never changes the
  flag; with a list it asks for a change exactly when the flag differs from the membership of the
  normalised address in the list, after the change the flag is that membership, and a second
  reconciliation asks for nothing.\<close>

lemma reconcile_converges:
  "ReconcilePlatformAdminService_execute email cur None = None \<and>
   (let r = ReconcilePlatformAdminService_execute email cur (Some emails);
        cur' = (case r of None \<Rightarrow> cur | Some b \<Rightarrow> b)
    in cur' = (js_lower (js_trim email) \<in> set emails) \<and> (r = None) = (cur' = cur) \<and>
       ReconcilePlatformAdminService_execute email cur' (Some emails) = None)"
  by (auto simp: ReconcilePlatformAdminService_execute_def Let_def)

section \<open>Registration\<close>

text \<open>Registering an address that a user of the service already has throws before Keycloak is
  called: nothing changes, in the database or outside.\<close>

lemma register_known_email:
  assumes "UserEmailValueObject L (ru_email c) = Inr (ru_email c)"
    and "ru_email c \<in> ue_email ` set (user_tbl w)"
    and "\<forall>r \<in> set (user_tbl w). \<exists>v. user_view_from_row L r = Inr v"
  shows "RegisterUserCommandHandler_execute (user_lookup L) (KeycloakIdentityProviderAdapter L kc)
      (user_provisioning L) c w = (Inl (new_EmailAlreadyRegisteredException (ru_email c)), w)"
proof -
  obtain r where r: "find (\<lambda>r. ue_email r = ru_email c) (user_tbl w) = Some r"
    using assms(2) by (cases "find (\<lambda>r. ue_email r = ru_email c) (user_tbl w)") (auto simp: find_None_iff)
  with find_Some_iff_ex [OF r] assms(3) obtain v where "user_view_from_row L r = Inr v" by blast
  with r assms(1) show ?thesis
    by (simp add: RegisterUserCommandHandler_execute_def bindE_def user_lookup_adapter_run
        UserLookupAdapter_toResult_def)
qed

lemma register_unknown_email:
  assumes "UserEmailValueObject L (ru_email c) = Inr (ru_email c)"
    and "ru_email c \<notin> ue_email ` set (user_tbl w)"
    and "Keycloak_registerIdentity L kc \<lparr>ri_email = ru_email c, ri_password = ru_password c,
      ri_displayName = ru_displayName c\<rparr> (ext w) = (res, x1)"
  shows "RegisterUserCommandHandler_execute (user_lookup L) (KeycloakIdentityProviderAdapter L kc)
      (user_provisioning L) c w = (case res of
        Inl err \<Rightarrow> (Inl err, w\<lparr>ext := x1\<rparr>)
      | Inr k \<Rightarrow> bindE (new_CreateUserCommand L k (ru_email c) (ru_displayName c))
          (CreateUserCommandHandler_execute L (user_write_repo L)) (w\<lparr>ext := x1\<rparr>))"
proof -
  have "find (\<lambda>r. ue_email r = ru_email c) (user_tbl w) = None"
    using assms(2) by (rule find_key_None)
  with assms show ?thesis
    by (simp add: RegisterUserCommandHandler_execute_def bindE_def user_lookup_adapter_run
        UserLookupAdapter_toResult_def KeycloakIdentityProviderAdapter_def outside_run
        UserProvisioningAdapter_def split: sum.split)
qed

text \<open>Registering a new address: one identity is created in Keycloak and then one user row, with
  the identity's id as its external id, the address and display name of the command, and no
  platform-admin right; the user's id is returned and \<open>UserRegisteredEvent\<close> published.\<close>

lemma register_success:
  assumes e: "UserEmailValueObject L (ru_email c) = Inr (ru_email c)"
    and new: "ru_email c \<notin> ue_email ` set (user_tbl w)"
    and reg: "Keycloak_registerIdentity L kc \<lparr>ri_email = ru_email c, ri_password = ru_password c,
      ri_displayName = ru_displayName c\<rparr> (ext w) = (Inr k, x1)"
    and t: "new_date L x1 = (t, x2)" and i: "uuid_generate L x2 = (i, x3)"
    and a: "a = \<lparr>ua_id = i, ua_createdAt = t, ua_updatedAt = t, ua_externalId = k,
       ua_email = ru_email c, ua_displayName = ru_displayName c, ua_platformAdmin = False,
       ua_events = []\<rparr>"
    and wf: "user_wf L a" and chk: "check_user w (UserTypeOrmMapper_toEntity a) = None"
  shows "RegisterUserCommandHandler_execute (user_lookup L) (KeycloakIdentityProviderAdapter L kc)
      (user_provisioning L) c w =
    (Inr i, w\<lparr>user_tbl := upsert ue_id (UserTypeOrmMapper_toEntity a) (user_tbl w),
       published := published w @ [User_Event (UserRegisteredEvent (UserAggregate_toPrimitives a))],
       ext := x3\<rparr>)"
proof -
  let ?c = "\<lparr>cu_externalId = k, cu_email = ru_email c, cu_displayName = ru_displayName c\<rparr>"
  have cmd: "new_CreateUserCommand L k (ru_email c) (ru_displayName c) = ret ?c"
    using wf e by (cases "ru_displayName c") (simp_all add: a user_wf_def new_CreateUserCommand_def fun_eq_iff)
  have "CreateUserCommandHandler_execute L (user_write_repo L) ?c (w\<lparr>ext := x1\<rparr>) =
      (Inr i, w\<lparr>ext := x1, user_tbl := upsert ue_id (UserTypeOrmMapper_toEntity a) (user_tbl w),
       published := published w @ [User_Event (UserRegisteredEvent (UserAggregate_toPrimitives a))],
       ext := x3\<rparr>)"
    by (subst create_user_run [where t = t and ?x1.0 = x2 and i = i and ?x2.0 = x3 and a = a])
      (use new t i wf chk in \<open>auto simp: a image_iff\<close>)
  then show ?thesis
    by (simp add: register_unknown_email [OF e new reg] cmd)
qed

text \<open>C32: the command validates the display name less strictly than \<open>CreateUser\<close> does, and the identity
  is created before the user: with a display name that \<open>DisplayNameValueObject\<close> rejects, the call
  fails after Keycloak has created the identity and no user is written; and as Keycloak then knows
  the address, registering it again fails, although no user of the service has it.\<close>

theorem register_orphaned_identity:
  assumes e: "UserEmailValueObject L (ru_email c) = Inr (ru_email c)"
    and new: "ru_email c \<notin> ue_email ` set (user_tbl w)"
    and reg: "Keycloak_registerIdentity L kc \<lparr>ri_email = ru_email c, ri_password = ru_password c,
      ri_displayName = ru_displayName c\<rparr> (ext w) = (Inr k, x1)"
    and k: "ExternalIdValueObject L k = Inr k'"
    and name: "ru_displayName c = Some d" "DisplayNameValueObject L d = Inl err"
    and again: "ru_email c2 = ru_email c"
      "Keycloak_registerIdentity L kc \<lparr>ri_email = ru_email c2, ri_password = ru_password c2,
        ri_displayName = ru_displayName c2\<rparr> x1 =
       (Inl (new_EmailAlreadyRegisteredException (ru_email c)), x2)"
  shows "RegisterUserCommandHandler_execute (user_lookup L) (KeycloakIdentityProviderAdapter L kc)
      (user_provisioning L) c w = (Inl err, w\<lparr>ext := x1\<rparr>) \<and>
    RegisterUserCommandHandler_execute (user_lookup L) (KeycloakIdentityProviderAdapter L kc)
      (user_provisioning L) c2 (w\<lparr>ext := x1\<rparr>) =
    (Inl (new_EmailAlreadyRegisteredException (ru_email c)), w\<lparr>ext := x2\<rparr>)"
proof
  show "RegisterUserCommandHandler_execute (user_lookup L) (KeycloakIdentityProviderAdapter L kc)
      (user_provisioning L) c w = (Inl err, w\<lparr>ext := x1\<rparr>)"
    by (simp add: register_unknown_email [OF e new reg] new_CreateUserCommand_def e k name bindE_def)
  show "RegisterUserCommandHandler_execute (user_lookup L) (KeycloakIdentityProviderAdapter L kc)
      (user_provisioning L) c2 (w\<lparr>ext := x1\<rparr>) =
    (Inl (new_EmailAlreadyRegisteredException (ru_email c)), w\<lparr>ext := x2\<rparr>)"
    using register_unknown_email [where kc = kc and c = c2 and w = "w\<lparr>ext := x1\<rparr>"
        and res = "Inl (new_EmailAlreadyRegisteredException (ru_email c))" and ?x1.0 = x2] e new again
    by simp
qed

section \<open>The name sent to Keycloak\<close>

definition is_word :: "string \<Rightarrow> bool" where
  "is_word p \<longleftrightarrow> p \<noteq> [] \<and> (\<forall>c \<in> set p. \<not> js_space c)"

lemma join_spaces_ends:
  assumes "ws \<noteq> []" and "\<forall>p \<in> set ws. is_word p"
  shows "join_spaces ws \<noteq> [] \<and> \<not> js_space (hd (join_spaces ws)) \<and> \<not> js_space (last (join_spaces ws))"
  using assms by (induction ws rule: join_spaces.induct) (auto simp: is_word_def hd_append)

lemma takeWhile_word:
  "is_word p \<Longrightarrow> takeWhile (\<lambda>c. \<not> js_space c) (p @ CHR '' '' # s) = p"
  "is_word p \<Longrightarrow> dropWhile (\<lambda>c. \<not> js_space c) (p @ CHR '' '' # s) = CHR '' '' # s"
  by (auto simp: is_word_def takeWhile_append2 dropWhile_append2 js_space_def)

lemma split_join_spaces: "ws \<noteq> [] \<Longrightarrow> \<forall>p \<in> set ws. is_word p \<Longrightarrow> split_spaces (join_spaces ws) = ws"
proof (induction ws rule: join_spaces.induct)
  case (2 p)
  then have "takeWhile (\<lambda>c. \<not> js_space c) p = p" "dropWhile (\<lambda>c. \<not> js_space c) p = []"
    by (auto simp: is_word_def)
  then show ?case
    by (simp add: split_spaces.simps [of p] del: dropWhile_eq_Nil_conv takeWhile_eq_all_conv)
next
  case (3 p q ps)
  then have "dropWhile js_space (join_spaces (q # ps)) = join_spaces (q # ps)"
    using join_spaces_ends [of "q # ps"] by (intro dropWhile_id) auto
  with 3 show ?case by (subst split_spaces.simps) (simp add: takeWhile_word)
qed simp

text \<open>A display name made of words separated by single spaces, with any white space around it, is
  sent to Keycloak as its first word and the rest of its words; a name of one word is sent as
  both, so neither name is ever empty.\<close>

lemma keycloak_names_of_words:
  assumes "ws \<noteq> []" and "\<forall>p \<in> set ws. is_word p"
    and "\<forall>c \<in> set lead. js_space c" and "\<forall>c \<in> set trail. js_space c"
  shows "keycloak_names (Some (lead @ join_spaces ws @ trail)) email =
    (hd ws, if tl ws = [] then hd ws else join_spaces (tl ws))"
proof -
  note ends = join_spaces_ends [OF assms(1,2)]
  have "\<not> (\<forall>c \<in> set (join_spaces ws). js_space c)" using ends hd_in_set by blast
  then have "js_trim (lead @ join_spaces ws @ trail) = js_trim (join_spaces ws)"
    using assms(3,4) ends
    by (auto simp: js_trim_def dropWhile_append2 dropWhile_append)
  also have "\<dots> = join_spaces ws" using ends by (intro js_trim_id) simp
  finally show ?thesis
    using ends split_join_spaces [OF assms(1,2)] by (simp add: keycloak_names_def Let_def)
qed

end
