(* ===== verification/Tenancy_Properties.thy ===== *)
theory Tenancy_Properties
  imports Tenancy_Handlers
begin

text \<open>
  What the tenancy commands do, branch by branch, with the repositories on the migrated tables:
  creating a tenant and its owner, the failure that leaves a tenant without an owner, deleting,
  updating, and adding a member. The contract of the app catalogue is the locale \<open>app_lookup\<close>.
\<close>

section \<open>The app catalogue as a port\<close>

locale app_lookup =
  fixes L :: "'x lib" and lookup :: "'x world IAppLookupPort"
  assumes found_law: "uuid_vo L i = Inr i \<Longrightarrow> e \<in> set (app_tbl w) \<Longrightarrow> ae_id e = i \<Longrightarrow>
      (\<forall>e \<in> set (app_tbl w). \<exists>v. app_view_from_row L e = Inr v) \<Longrightarrow>
      alp_assertExists lookup i w = (Inr (), w)"
    and missing_law: "uuid_vo L i = Inr i \<Longrightarrow> i \<notin> ae_id ` set (app_tbl w) \<Longrightarrow>
      alp_assertExists lookup i w = (Inl (new_AppNotFoundException i), w)"

lemma app_adapter_run:
  "alp_assertExists (app_lookup_adapter L K) i w =
     (case uuid_vo L i of Inl err \<Rightarrow> (Inl err, w)
      | Inr q \<Rightarrow> (case opt_sum (app_view_from_row L) (find (\<lambda>e. ae_id e = q) (app_tbl w)) of
          Inl err \<Rightarrow> (Inl err, w)
        | Inr None \<Rightarrow> (Inl (new_AppNotFoundException i), w)
        | Inr (Some v) \<Rightarrow> (Inr (), w)))"
  by (auto simp: AppLookupAdapter_def new_AppFindByIdQuery_def AppFindByIdQueryHandler_execute_def
      bindE_def app_read_repo_run split: sum.split option.split)

interpretation app_adapter: app_lookup L "app_lookup_adapter L K" for L :: "'x lib" and K
proof
  fix i e and w :: "'x world"
  assume vo: "uuid_vo L i = Inr i" and e: "e \<in> set (app_tbl w)" "ae_id e = i"
    and rd: "\<forall>e \<in> set (app_tbl w). \<exists>v. app_view_from_row L e = Inr v"
  obtain e' where e': "find (\<lambda>e. ae_id e = i) (app_tbl w) = Some e'"
    using e by (cases "find (\<lambda>e. ae_id e = i) (app_tbl w)") (auto simp: find_None_iff)
  with rd find_Some_iff_ex [OF e'] obtain v where "app_view_from_row L e' = Inr v" by blast
  with vo e' show "alp_assertExists (app_lookup_adapter L K) i w = (Inr (), w)"
    by (simp add: app_adapter_run)
next
  fix i and w :: "'x world"
  assume vo: "uuid_vo L i = Inr i" and none: "i \<notin> ae_id ` set (app_tbl w)"
  then have "find (\<lambda>e. ae_id e = i) (app_tbl w) = None" by (auto simp: find_None_iff)
  with vo show "alp_assertExists (app_lookup_adapter L K) i w = (Inl (new_AppNotFoundException i), w)"
    by (simp add: app_adapter_run)
qed

section \<open>Creating a tenant\<close>

lemma tenant_wf_build:
  assumes "tenant_wf L a" and "ta_events a = []"
  shows "TenantBuilder_build L (TenantBuilder_new\<lparr>tb_id := ta_id a, tb_appId := ta_appId a,
     tb_name := ta_name a, tb_slug := ta_slug a, tb_createdAt := Some (ta_createdAt a),
     tb_updatedAt := Some (ta_updatedAt a)\<rparr>) = ret a"
  using assms by (auto simp: tenant_wf_def tenant_build_defs)

lemma membership_wf_build:
  assumes "membership_wf L m" and "ma_events m = []"
  shows "TenantMembershipBuilder_build L (TenantMembershipBuilder_new\<lparr>mb_id := ma_id m,
     mb_tenantId := ma_tenantId m, mb_userId := ma_userId m, mb_role := ma_role m,
     mb_createdAt := Some (ma_createdAt m), mb_updatedAt := Some (ma_updatedAt m)\<rparr>) = ret m"
  using assms by (auto simp: membership_wf_def membership_build_defs)

definition new_tenant :: "create_tenant_command \<Rightarrow> string \<Rightarrow> int \<Rightarrow> tenant_aggregate" where
  "new_tenant c i t = \<lparr>ta_id = i, ta_createdAt = t, ta_updatedAt = t, ta_appId = ct_appId c,
     ta_name = ct_name c, ta_slug = ct_slug c, ta_events = []\<rparr>"

definition new_membership :: "string \<Rightarrow> string \<Rightarrow> string \<Rightarrow> string \<Rightarrow> int \<Rightarrow> membership_aggregate" where
  "new_membership i tenant user role t = \<lparr>ma_id = i, ma_createdAt = t, ma_updatedAt = t,
     ma_tenantId = tenant, ma_userId = user, ma_role = role, ma_events = []\<rparr>"

context app_lookup
begin

text \<open>Both outcomes of the last write, for an app that exists and a slug that is free.\<close>

lemma create_tenant_run:
  assumes app: "uuid_vo L (ct_appId c) = Inr (ct_appId c)" "ct_appId c \<in> ae_id ` set (app_tbl w)"
    and rd: "\<forall>e \<in> set (app_tbl w). \<exists>v. app_view_from_row L e = Inr v"
    and free: "\<forall>e \<in> set (tenant_tbl w). \<not> (te_appId e = ct_appId c \<and> te_slug e = ct_slug c)"
    and t: "new_date L (ext w) = (t, x1)" and i: "uuid_generate L x1 = (i, x2)"
    and t': "new_date L x2 = (t', x3)" and j: "uuid_generate L x3 = (j, x4)"
    and a: "a = new_tenant c i t" and m: "m = new_membership j i (ct_creatorUserId c) ''OWNER'' t'"
    and wf: "tenant_wf L a" "membership_wf L m"
    and chk: "check_tenant w (TenantTypeOrmMapper_toEntity a) = None"
    and w1: "w1 = w\<lparr>tenant_tbl := upsert te_id (TenantTypeOrmMapper_toEntity a) (tenant_tbl w),
        published := published w @ [Tenant_Event (TenantCreatedEvent (TenantAggregate_toPrimitives a))],
        ext := x4\<rparr>"
  shows "CreateTenantCommandHandler_execute L (tenant_write_repo L) (membership_write_repo L) lookup c w =
    (case check_membership w1 (TenantMembershipTypeOrmMapper_toEntity m) of
       Some con \<Rightarrow> (Inl (QueryFailedError con), w1)
     | None \<Rightarrow> (Inr i, w1\<lparr>
         membership_tbl := upsert me_id (TenantMembershipTypeOrmMapper_toEntity m) (membership_tbl w),
         published := published w1 @ [Membership_Event
           (TenantMembershipCreatedEvent (TenantMembershipAggregate_toPrimitives m))]\<rparr>))"
proof -
  obtain e where e: "e \<in> set (app_tbl w)" "ae_id e = ct_appId c" using app(2) by auto
  have exists: "alp_assertExists lookup (ct_appId c) w = (Inr (), w)"
    using found_law [OF app(1) e rd] .
  have none: "find (\<lambda>e. te_appId e = ct_appId c \<and> te_slug e = ct_slug c) (tenant_tbl w) = None"
    using free by (auto simp: find_None_iff)
  have sel: "ta_id a = i" "ta_events a = []" "ma_id m = j" "ma_events m = []"
    using a m by (simp_all add: new_tenant_def new_membership_def)
  have bt: "TenantBuilder_build L (TenantBuilder_new\<lparr>tb_id := i, tb_appId := ct_appId c,
      tb_name := ct_name c, tb_slug := ct_slug c, tb_createdAt := Some t, tb_updatedAt := Some t\<rparr>) = ret a"
    using tenant_wf_build [OF wf(1)] a by (simp add: new_tenant_def)
  have bm: "TenantMembershipBuilder_build L (TenantMembershipBuilder_new\<lparr>mb_id := j, mb_tenantId := i,
      mb_userId := ct_creatorUserId c, mb_role := ''OWNER'', mb_createdAt := Some t',
      mb_updatedAt := Some t'\<rparr>) = ret m"
    using membership_wf_build [OF wf(2)] m by (simp add: new_membership_def)
  have ct: "TenantAggregate_create a =
      a\<lparr>ta_events := [TenantCreatedEvent (TenantAggregate_toPrimitives a)]\<rparr>"
    using sel by (simp add: TenantAggregate_create_def tenant_apply_def)
  have cm: "TenantMembershipAggregate_create m = m\<lparr>ma_events :=
      [TenantMembershipCreatedEvent (TenantMembershipAggregate_toPrimitives m)]\<rparr>"
    using sel by (simp add: TenantMembershipAggregate_create_def membership_apply_def)
  have "check_membership w1 = check_membership
      (w\<lparr>tenant_tbl := upsert te_id (TenantTypeOrmMapper_toEntity a) (tenant_tbl w)\<rparr>)"
    by (simp add: w1)
  with exists none sel bt bm ct cm tenant_wf_row [OF wf(1)] membership_wf_row [OF wf(2)] chk show ?thesis
    by (simp add: CreateTenantCommandHandler_execute_def tenancy_service_defs bindE_def
        tenant_write_repo_run membership_write_repo_run outside_run now_run t t' generate_uuid_run i j
        publish_run Let_def w1 split: option.split)
qed

lemma create_tenant_unknown_app:
  assumes "uuid_vo L (ct_appId c) = Inr (ct_appId c)" and "ct_appId c \<notin> ae_id ` set (app_tbl w)"
  shows "CreateTenantCommandHandler_execute L tenants memberships lookup c w =
    (Inl (new_AppNotFoundException (ct_appId c)), w)"
  using missing_law [OF assms]
  by (simp add: CreateTenantCommandHandler_execute_def tenancy_service_defs bindE_def)

end

text \<open>The rows a creation writes.\<close>

abbreviation tenant_row :: "create_tenant_command \<Rightarrow> string \<Rightarrow> int \<Rightarrow> tenant_entity" where
  "tenant_row c i t \<equiv> TenantTypeOrmMapper_toEntity (new_tenant c i t)"

abbreviation membership_row :: "string \<Rightarrow> string \<Rightarrow> string \<Rightarrow> string \<Rightarrow> int \<Rightarrow> membership_entity" where
  "membership_row j i u r t \<equiv> TenantMembershipTypeOrmMapper_toEntity (new_membership j i u r t)"

lemma new_tenant_sel [simp]:
  "ta_id (new_tenant c i t) = i" "ta_appId (new_tenant c i t) = ct_appId c"
  "ta_slug (new_tenant c i t) = ct_slug c" "ta_name (new_tenant c i t) = ct_name c"
  by (simp_all add: new_tenant_def)

lemma new_membership_sel [simp]:
  "ma_id (new_membership j i u r t) = j" "ma_tenantId (new_membership j i u r t) = i"
  "ma_userId (new_membership j i u r t) = u" "ma_role (new_membership j i u r t) = r"
  by (simp_all add: new_membership_def)

text \<open>C19: for an app that exists, a slug the app's tenants do not use, and a creator that is a user,
  \<open>CreateTenant\<close> returns the generated id; exactly two rows are added, the tenant and the creator's
  membership with the role \<open>OWNER\<close>, and exactly the two creation events are published, the tenant's
  first.\<close>

theorem create_tenant_success:
  assumes app: "uuid_vo L (ct_appId c) = Inr (ct_appId c)" "ct_appId c \<in> ae_id ` set (app_tbl w)"
    and rd: "\<forall>e \<in> set (app_tbl w). \<exists>v. app_view_from_row L e = Inr v"
    and free: "\<forall>e \<in> set (tenant_tbl w). \<not> (te_appId e = ct_appId c \<and> te_slug e = ct_slug c)"
    and t: "new_date L (ext w) = (t, x1)" and i: "uuid_generate L x1 = (i, x2)"
    and t': "new_date L x2 = (t', x3)" and j: "uuid_generate L x3 = (j, x4)"
    and wf: "tenant_wf L (new_tenant c i t)"
      "membership_wf L (new_membership j i (ct_creatorUserId c) ''OWNER'' t')"
    and ok: "schema_ok w"
    and fresh: "i \<notin> te_id ` set (tenant_tbl w)" "j \<notin> me_id ` set (membership_tbl w)"
    and len: "length (ct_name c) \<le> 150" "length (ct_slug c) \<le> 100"
    and creator: "ct_creatorUserId c \<in> ue_id ` set (user_tbl w)"
  shows "CreateTenantCommandHandler_execute L (tenant_write_repo L) (membership_write_repo L)
      (app_lookup_adapter L K) c w =
    (Inr i, w\<lparr>tenant_tbl := tenant_tbl w @ [tenant_row c i t],
       membership_tbl := membership_tbl w @ [membership_row j i (ct_creatorUserId c) ''OWNER'' t'],
       published := published w @
         [Tenant_Event (TenantCreatedEvent (TenantAggregate_toPrimitives (new_tenant c i t))),
          Membership_Event (TenantMembershipCreatedEvent (TenantMembershipAggregate_toPrimitives
            (new_membership j i (ct_creatorUserId c) ''OWNER'' t')))],
       ext := x4\<rparr>)"
proof -
  have chk: "check_tenant w (tenant_row c i t) = None"
    using app(2) free len by (auto simp: check_tenant_def)
  have add: "upsert te_id (tenant_row c i t) (tenant_tbl w) = tenant_tbl w @ [tenant_row c i t]"
    "upsert me_id (membership_row j i (ct_creatorUserId c) ''OWNER'' t') (membership_tbl w) =
      membership_tbl w @ [membership_row j i (ct_creatorUserId c) ''OWNER'' t']"
    using fresh by (auto simp: upsert_def)
  have "i \<notin> me_tenantId ` set (membership_tbl w)"
    using ok fresh(1) by (auto simp: schema_ok_def)
  then have "check_membership (w\<lparr>tenant_tbl := tenant_tbl w @ [tenant_row c i t]\<rparr>)
      (membership_row j i (ct_creatorUserId c) ''OWNER'' t') = None"
    using creator by (auto simp: check_membership_def)
  then show ?thesis
    using app_adapter.create_tenant_run [OF app rd free t i t' j refl refl wf chk refl] add
    by simp
qed

text \<open>C20: the tenant and its first membership are not written together: when the creator is not a
  user, \<open>CreateTenant\<close> throws the foreign-key error of the membership, but the tenant stays in the
  table without any member, and its \<open>TenantCreatedEvent\<close> has been published.\<close>

theorem create_tenant_ownerless:
  assumes app: "uuid_vo L (ct_appId c) = Inr (ct_appId c)" "ct_appId c \<in> ae_id ` set (app_tbl w)"
    and rd: "\<forall>e \<in> set (app_tbl w). \<exists>v. app_view_from_row L e = Inr v"
    and free: "\<forall>e \<in> set (tenant_tbl w). \<not> (te_appId e = ct_appId c \<and> te_slug e = ct_slug c)"
    and t: "new_date L (ext w) = (t, x1)" and i: "uuid_generate L x1 = (i, x2)"
    and t': "new_date L x2 = (t', x3)" and j: "uuid_generate L x3 = (j, x4)"
    and wf: "tenant_wf L (new_tenant c i t)"
      "membership_wf L (new_membership j i (ct_creatorUserId c) ''OWNER'' t')"
    and ok: "schema_ok w" and fresh: "i \<notin> te_id ` set (tenant_tbl w)"
    and len: "length (ct_name c) \<le> 150" "length (ct_slug c) \<le> 100"
    and creator: "ct_creatorUserId c \<notin> ue_id ` set (user_tbl w)"
  shows "\<exists>w'. CreateTenantCommandHandler_execute L (tenant_write_repo L) (membership_write_repo L)
      (app_lookup_adapter L K) c w = (Inl (QueryFailedError ''FK_tenant_membership_user_id''), w') \<and>
    tenant_row c i t \<in> set (tenant_tbl w') \<and> i \<notin> me_tenantId ` set (membership_tbl w') \<and>
    Tenant_Event (TenantCreatedEvent (TenantAggregate_toPrimitives (new_tenant c i t)))
      \<in> set (published w')"
proof -
  have chk: "check_tenant w (tenant_row c i t) = None"
    using app(2) free len by (auto simp: check_tenant_def)
  have add: "upsert te_id (tenant_row c i t) (tenant_tbl w) = tenant_tbl w @ [tenant_row c i t]"
    using fresh by (auto simp: upsert_def)
  have none: "i \<notin> me_tenantId ` set (membership_tbl w)"
    using ok fresh by (auto simp: schema_ok_def)
  then have "check_membership (w\<lparr>tenant_tbl := tenant_tbl w @ [tenant_row c i t]\<rparr>)
      (membership_row j i (ct_creatorUserId c) ''OWNER'' t') = Some ''FK_tenant_membership_user_id''"
    using creator by (auto simp: check_membership_def)
  then show ?thesis
    using app_adapter.create_tenant_run [OF app rd free t i t' j refl refl wf chk refl] add none
    by simp
qed

text \<open>A slug that a tenant of the same app already has is refused with
  \<open>TenantSlugAlreadyExistsException\<close>, and an app that does not exist with \<open>AppNotFoundException\<close>;
  nothing changes.\<close>

lemma create_tenant_refused:
  assumes vo: "uuid_vo L (ct_appId c) = Inr (ct_appId c)"
    and rd: "\<forall>e \<in> set (app_tbl w). \<exists>v. app_view_from_row L e = Inr v"
      "\<forall>e \<in> set (tenant_tbl w). \<exists>a. tenant_from_row L e = Inr a"
    and bad: "ct_appId c \<notin> ae_id ` set (app_tbl w) \<or>
      (\<exists>e \<in> set (tenant_tbl w). te_appId e = ct_appId c \<and> te_slug e = ct_slug c)"
  shows "CreateTenantCommandHandler_execute L (tenant_write_repo L) (membership_write_repo L)
      (app_lookup_adapter L K) c w =
    (Inl (if ct_appId c \<in> ae_id ` set (app_tbl w)
          then new_TenantSlugAlreadyExistsException (ct_slug c) (ct_appId c)
          else new_AppNotFoundException (ct_appId c)), w)"
proof (cases "ct_appId c \<in> ae_id ` set (app_tbl w)")
  case True
  with bad obtain e0 where "e0 \<in> set (tenant_tbl w)" "te_appId e0 = ct_appId c" "te_slug e0 = ct_slug c"
    by blast
  then obtain e where e: "find (\<lambda>e. te_appId e = ct_appId c \<and> te_slug e = ct_slug c) (tenant_tbl w) = Some e"
    by (cases "find (\<lambda>e. te_appId e = ct_appId c \<and> te_slug e = ct_slug c) (tenant_tbl w)")
      (auto simp: find_None_iff)
  with rd(2) find_Some_iff_ex [OF e] obtain a where "tenant_from_row L e = Inr a" by blast
  moreover from True obtain e1 where "e1 \<in> set (app_tbl w)" "ae_id e1 = ct_appId c" by auto
  ultimately show ?thesis
    using True e app_adapter.found_law [OF vo _ _ rd(1)]
    by (simp add: CreateTenantCommandHandler_execute_def tenancy_service_defs bindE_def
        tenant_write_repo_run)
qed (use app_adapter.create_tenant_unknown_app [OF vo] in simp)

section \<open>Deleting a tenant\<close>

text \<open>C9: a user whose membership of the tenant has the role \<open>OWNER\<close> deletes the tenant: exactly its row
  and its memberships go, every other row of every table stays, and one \<open>TenantDeletedEvent\<close> is
  published.\<close>

theorem delete_tenant_success:
  assumes ok: "schema_ok w"
    and e: "find (\<lambda>e. te_id e = dt_tenantId c) (tenant_tbl w) = Some e"
    and a: "tenant_from_row L e = Inr a" "ta_id a = te_id e"
    and m: "find (\<lambda>m. me_tenantId m = dt_tenantId c \<and> me_userId m = dt_requesterUserId c)
      (membership_tbl w) = Some m"
    and b: "membership_from_row L m = Inr b" "role_isOwner (ma_role b)"
  shows "DeleteTenantCommandHandler_execute (tenant_write_repo L) (membership_write_repo L) c w =
    (Inr (), w\<lparr>tenant_tbl := filter (\<lambda>e. te_id e \<noteq> dt_tenantId c) (tenant_tbl w),
       membership_tbl := filter (\<lambda>m. me_tenantId m \<noteq> dt_tenantId c) (membership_tbl w),
       published := published w @ [Tenant_Event (TenantDeletedEvent (TenantAggregate_toPrimitives a))]\<rparr>)"
proof -
  have id: "ta_id a = dt_tenantId c" using a find_Some_iff_ex [OF e] by simp
  have ev: "ta_events (TenantAggregate_delete a) = [TenantDeletedEvent (TenantAggregate_toPrimitives a)]"
    "ta_id (TenantAggregate_delete a) = dt_tenantId c"
    using tenant_from_row_Inr(7) [OF a(1)] id
    by (simp_all add: TenantAggregate_delete_def tenant_apply_def)
  let ?ms = "filter (\<lambda>m. me_tenantId m \<noteq> dt_tenantId c) (membership_tbl w)"
  have "filter (\<lambda>m. me_tenantId m \<in> te_id ` {e \<in> set (tenant_tbl w). te_id e \<noteq> dt_tenantId c}) ?ms = ?ms"
    by (rule filter_True) (use ok in \<open>auto simp: schema_ok_def\<close>)
  then have "delete_tenants (\<lambda>e. te_id e = dt_tenantId c)
      (delete_memberships (\<lambda>e. me_tenantId e = dt_tenantId c) w) =
      w\<lparr>tenant_tbl := filter (\<lambda>e. te_id e \<noteq> dt_tenantId c) (tenant_tbl w), membership_tbl := ?ms\<rparr>"
    by (cases w) (simp add: delete_tenants_def delete_memberships_def Let_def)
  with e a m b ev show ?thesis
    by (simp add: DeleteTenantCommandHandler_execute_def tenancy_service_defs bindE_def
        tenant_write_repo_run membership_write_repo_run publish_run Let_def)
qed

text \<open>Whoever is not an owner of the tenant, a member with another role or no member at all,
  cannot delete it: \<open>NotTenantOwnerException\<close> (\<open>TenantNotFoundException\<close> for an unknown tenant), and
  nothing changes.\<close>

lemma delete_tenant_denied:
  assumes rd: "\<forall>e \<in> set (tenant_tbl w). \<exists>a. tenant_from_row L e = Inr a"
      "\<forall>m \<in> set (membership_tbl w). \<exists>b. membership_from_row L m = Inr b \<and> ma_role b = me_role m"
    and no: "\<forall>m \<in> set (membership_tbl w). me_tenantId m = dt_tenantId c \<longrightarrow>
      me_userId m = dt_requesterUserId c \<longrightarrow> me_role m \<noteq> ''OWNER''"
  shows "DeleteTenantCommandHandler_execute (tenant_write_repo L) (membership_write_repo L) c w =
    (Inl (if dt_tenantId c \<in> te_id ` set (tenant_tbl w)
          then new_NotTenantOwnerException (dt_tenantId c) (dt_requesterUserId c)
          else new_TenantNotFoundException (dt_tenantId c)), w)"
proof (cases "dt_tenantId c \<in> te_id ` set (tenant_tbl w)")
  case True
  then obtain e where e: "find (\<lambda>e. te_id e = dt_tenantId c) (tenant_tbl w) = Some e"
    by (cases "find (\<lambda>e. te_id e = dt_tenantId c) (tenant_tbl w)") (auto simp: find_None_iff)
  with rd(1) find_Some_iff_ex [OF e] obtain a where a: "tenant_from_row L e = Inr a" by blast
  let ?q = "\<lambda>m. me_tenantId m = dt_tenantId c \<and> me_userId m = dt_requesterUserId c"
  have "AssertTenantOwnerService_execute (membership_write_repo L) (dt_tenantId c)
      (dt_requesterUserId c) w = (Inl (new_NotTenantOwnerException (dt_tenantId c) (dt_requesterUserId c)), w)"
  proof (cases "find ?q (membership_tbl w)")
    case None
    then show ?thesis by (simp add: tenancy_service_defs bindE_def membership_write_repo_run)
  next
    case (Some m)
    with rd(2) no find_Some_iff_ex [OF Some] obtain b where "membership_from_row L m = Inr b"
      "ma_role b \<noteq> ''OWNER''" by metis
    with Some show ?thesis
      by (simp add: tenancy_service_defs bindE_def membership_write_repo_run role_isOwner_def)
  qed
  with True e a show ?thesis
    by (simp add: DeleteTenantCommandHandler_execute_def AssertTenantExistsService_execute_def
        bindE_def tenant_write_repo_run)
next
  case False
  then have "find (\<lambda>e. te_id e = dt_tenantId c) (tenant_tbl w) = None" by (rule find_key_None)
  with False show ?thesis
    by (simp add: DeleteTenantCommandHandler_execute_def tenancy_service_defs bindE_def
        tenant_write_repo_run)
qed

section \<open>Updating a tenant\<close>

text \<open>What an update promises of the aggregate: as for a user (\<open>user_update_spec\<close>).\<close>

definition tenant_changed_events ::
  "string option \<Rightarrow> string option \<Rightarrow> tenant_aggregate \<Rightarrow> tenant_event list" where
  "tenant_changed_events name slug a =
     (case name of None \<Rightarrow> []
      | Some v \<Rightarrow> if v = ta_name a then [] else [TenantNameChangedEvent (ta_id a) (ta_name a) v]) @
     (case slug of None \<Rightarrow> []
      | Some v \<Rightarrow> if v = ta_slug a then [] else [TenantSlugChangedEvent (ta_id a) (ta_slug a) v])"

lemma tenant_update_run:
  "\<exists>b x'. TenantAggregate_update L name slug a x = (Inr b, x') \<and>
     ta_name b = (case name of None \<Rightarrow> ta_name a | Some v \<Rightarrow> v) \<and>
     ta_slug b = (case slug of None \<Rightarrow> ta_slug a | Some v \<Rightarrow> v) \<and>
     ta_id b = ta_id a \<and> ta_appId b = ta_appId a \<and> ta_createdAt b = ta_createdAt a \<and>
     ta_events b = ta_events a @ tenant_changed_events name slug a @
       [TenantUpdatedEvent (TenantAggregate_toPrimitives b)]"
  by (cases name; cases slug)
    (auto simp: TenantAggregate_update_def TenantAggregate_changeName_def
      TenantAggregate_changeSlug_def tenant_apply_def tenant_changed_events_def Let_def bindE_def
      touched_run TenantAggregate_toPrimitives_def)

lemma slug_available_run:
  assumes rd: "\<forall>e \<in> set (tenant_tbl w). \<exists>a. tenant_from_row L e = Inr a"
  shows "AssertTenantSlugAvailableService_execute (tenant_write_repo L) i s w =
    (if \<exists>e' \<in> set (tenant_tbl w). te_appId e' = i \<and> te_slug e' = s
     then (Inl (new_TenantSlugAlreadyExistsException s i), w) else (Inr (), w))"
proof (cases "find (\<lambda>e'. te_appId e' = i \<and> te_slug e' = s) (tenant_tbl w)")
  case None
  then have "\<not> (\<exists>e' \<in> set (tenant_tbl w). te_appId e' = i \<and> te_slug e' = s)"
    by (auto simp: find_None_iff)
  with None show ?thesis by (simp add: tenancy_service_defs bindE_def tenant_write_repo_run)
next
  case (Some e')
  with rd find_Some_iff_ex [OF Some] obtain a' where "tenant_from_row L e' = Inr a'" by blast
  with Some find_Some_iff_ex [OF Some] show ?thesis
    by (auto simp: tenancy_service_defs bindE_def tenant_write_repo_run)
qed

text \<open>The part of the handler after its checks.\<close>

lemma update_tenant_tail:
  assumes b: "TenantAggregate_update L name slug a (ext w) = (Inr b, x)"
    and ev: "ta_events a = []"
    and wf: "tenant_wf L b" and chk: "check_tenant w (TenantTypeOrmMapper_toEntity b) = None"
  shows "bindE (outside (TenantAggregate_update L name slug a)) (\<lambda>tenant.
      bindE (twr_save (tenant_write_repo L) tenant) (\<lambda>_.
      bindE (publish (map Tenant_Event (ta_events tenant))) (\<lambda>_. ret (ta_id tenant)))) w =
    (Inr (ta_id a), w\<lparr>tenant_tbl := upsert te_id (TenantTypeOrmMapper_toEntity b) (tenant_tbl w),
       published := published w @ map Tenant_Event (tenant_changed_events name slug a @
         [TenantUpdatedEvent (TenantAggregate_toPrimitives b)]), ext := x\<rparr>)"
proof -
  from tenant_update_run [of L name slug a "ext w"] b ev
  have "ta_id b = ta_id a" "ta_events b = tenant_changed_events name slug a @
       [TenantUpdatedEvent (TenantAggregate_toPrimitives b)]" by auto
  with b chk tenant_wf_row [OF wf] show ?thesis
    by (simp add: bindE_def tenant_write_repo_run outside_run publish_run)
qed

text \<open>Updating a tenant with a slug that is free in its app (or its own) writes back the same tenant
  of the same app with the new name and slug, and publishes one event per changed value and one
  update event; a slug that another tenant of the app has is refused and nothing changes.\<close>

lemma update_tenant_spec:
  assumes e: "find (\<lambda>e. te_id e = ut_tenantId c) (tenant_tbl w) = Some e"
    and a: "tenant_from_row L e = Inr a"
    and rd: "\<forall>e \<in> set (tenant_tbl w). \<exists>a. tenant_from_row L e = Inr a"
    and b: "TenantAggregate_update L (ut_name c) (ut_slug c) a (ext w) = (Inr b, x)"
    and wf: "tenant_wf L b" and chk: "check_tenant w (TenantTypeOrmMapper_toEntity b) = None"
  shows "UpdateTenantCommandHandler_execute L (tenant_write_repo L) c w =
    (if \<exists>s. ut_slug c = Some s \<and> s \<noteq> ta_slug a \<and>
          (\<exists>e' \<in> set (tenant_tbl w). te_appId e' = ta_appId a \<and> te_slug e' = s)
     then (Inl (new_TenantSlugAlreadyExistsException (the (ut_slug c)) (ta_appId a)), w)
     else (Inr (ta_id a),
       w\<lparr>tenant_tbl := upsert te_id (TenantTypeOrmMapper_toEntity b) (tenant_tbl w),
         published := published w @ map Tenant_Event (tenant_changed_events (ut_name c) (ut_slug c) a @
           [TenantUpdatedEvent (TenantAggregate_toPrimitives b)]),
         ext := x\<rparr>)) \<and>
    ta_id b = ta_id a \<and> ta_appId b = ta_appId a \<and> ta_createdAt b = ta_createdAt a \<and>
    ta_name b = (case ut_name c of None \<Rightarrow> ta_name a | Some v \<Rightarrow> v) \<and>
    ta_slug b = (case ut_slug c of None \<Rightarrow> ta_slug a | Some v \<Rightarrow> v)" (is "?run \<and> ?fields")
proof
  show ?fields using tenant_update_run [of L "ut_name c" "ut_slug c" a "ext w"] b by auto
  let ?tail = "bindE (outside (TenantAggregate_update L (ut_name c) (ut_slug c) a)) (\<lambda>tenant.
      bindE (twr_save (tenant_write_repo L) tenant) (\<lambda>_.
      bindE (publish (map Tenant_Event (ta_events tenant))) (\<lambda>_. ret (ta_id tenant))))"
  have "ta_events a = []" using tenant_from_row_Inr [OF a] by simp
  note tail = update_tenant_tail [OF b this wf chk]
  have found: "AssertTenantExistsService_execute (tenant_write_repo L) (ut_tenantId c) w = (Inr a, w)"
    using e a by (simp add: AssertTenantExistsService_execute_def bindE_def tenant_write_repo_run)
  show ?run
  proof (cases "ut_slug c")
    case None
    with found tail show ?thesis
      by (simp add: UpdateTenantCommandHandler_execute_def bindE_run_Inr)
  next
    case (Some s)
    have "UpdateTenantCommandHandler_execute L (tenant_write_repo L) c w = bindE (whenE (s \<noteq> ta_slug a)
        (AssertTenantSlugAvailableService_execute (tenant_write_repo L) (ta_appId a) s)) (\<lambda>_. ?tail) w"
      using found Some by (simp add: UpdateTenantCommandHandler_execute_def bindE_run_Inr)
    then show ?thesis
      using Some slug_available_run [OF rd, of "ta_appId a" s] tail
      by (cases "s = ta_slug a") (auto simp: whenE_def bindE_run_Inr bindE_run_Inl)
  qed
qed

section \<open>Adding a member\<close>

lemma user_lookup_run:
  "tul_findUserIdByEmail (tenancy_user_lookup L) m w = (case UserEmailValueObject L m of
       Inl err \<Rightarrow> (Inl err, w)
     | Inr q \<Rightarrow> (map_sum (\<lambda>e. e) (map_option uv_id)
         (opt_sum (user_view_from_row L) (find (\<lambda>e. ue_email e = q) (user_tbl w))), w))"
  by (auto simp: TenancyUserLookupAdapter_def new_UserFindByEmailQuery_def
      UserFindByEmailQueryHandler_execute_def bindE_def user_read_repo_run split: sum.split)

text \<open>Adding a user, found by email, to a tenant it is not a member of adds exactly one membership
  row with the given role, publishes exactly its creation event, and returns the new membership.\<close>

lemma add_member_success:
  assumes e: "find (\<lambda>e. te_id e = am_tenantId c) (tenant_tbl w) = Some e" "tenant_from_row L e = Inr a"
    and mail: "UserEmailValueObject L (am_email c) = Inr (am_email c)"
    and u: "find (\<lambda>u. ue_email u = am_email c) (user_tbl w) = Some u" "user_view_from_row L u = Inr v"
      "uuid_vo L (ue_id u) = Inr (ue_id u)"
    and new: "\<forall>m \<in> set (membership_tbl w). \<not> (me_tenantId m = am_tenantId c \<and> me_userId m = ue_id u)"
    and t: "new_date L (ext w) = (t, x1)" and j: "uuid_generate L x1 = (j, x2)"
    and m: "m = new_membership j (am_tenantId c) (ue_id u) (am_role c) t" and wf: "membership_wf L m"
    and fresh: "j \<notin> me_id ` set (membership_tbl w)" and len: "length (am_role c) \<le> 50"
  shows "AddTenantMemberCommandHandler_execute L (tenant_write_repo L) (membership_write_repo L)
      (tenancy_user_lookup L) c w =
    (Inr \<lparr>amr_membershipId = j, amr_tenantId = am_tenantId c, amr_userId = ue_id u, amr_role = am_role c\<rparr>,
     w\<lparr>membership_tbl := membership_tbl w @ [TenantMembershipTypeOrmMapper_toEntity m],
       published := published w @
         [Membership_Event (TenantMembershipCreatedEvent (TenantMembershipAggregate_toPrimitives m))],
       ext := x2\<rparr>)"
proof -
  let ?row = "TenantMembershipTypeOrmMapper_toEntity m"
  have id: "uv_id v = ue_id u" using user_view_from_row_Inr [OF u(2)] by simp
  have none: "find (\<lambda>m. me_tenantId m = am_tenantId c \<and> me_userId m = ue_id u) (membership_tbl w) = None"
    using new by (auto simp: find_None_iff)
  have b: "TenantMembershipBuilder_build L (TenantMembershipBuilder_new\<lparr>mb_id := j,
      mb_tenantId := am_tenantId c, mb_userId := ue_id u, mb_role := am_role c,
      mb_createdAt := Some t, mb_updatedAt := Some t\<rparr>) = ret m"
    using membership_wf_build [OF wf] m by (simp add: new_membership_def)
  have cm: "TenantMembershipAggregate_create m = m\<lparr>ma_events :=
      [TenantMembershipCreatedEvent (TenantMembershipAggregate_toPrimitives m)]\<rparr>"
    by (simp add: TenantMembershipAggregate_create_def membership_apply_def m new_membership_def)
  have add: "upsert me_id ?row (membership_tbl w) = membership_tbl w @ [?row]"
    using fresh by (auto simp: upsert_def m)
  have "am_tenantId c \<in> te_id ` set (tenant_tbl w)" "ue_id u \<in> ue_id ` set (user_tbl w)"
    using find_Some_iff_ex [OF e(1)] find_Some_iff_ex [OF u(1)] by (metis image_eqI)+
  then have chk: "check_membership w ?row = None"
    using new len by (auto simp: check_membership_def m)
  have sel: "ma_id m = j" "ma_tenantId m = am_tenantId c" "ma_userId m = ue_id u" "ma_role m = am_role c"
    by (simp_all add: m)
  from e mail u id none b cm add chk sel membership_wf_row [OF wf] show ?thesis
    by (simp add: AddTenantMemberCommandHandler_execute_def tenancy_service_defs bindE_def
        tenant_write_repo_run user_lookup_run membership_write_repo_run outside_run now_run t
        generate_uuid_run j publish_run Let_def)
qed

text \<open>Adding a member is refused, in this order, for a tenant that does not exist, for an email no
  user has, and for a user who already is a member; nothing changes.\<close>

lemma add_member_refused:
  assumes rd: "\<forall>e \<in> set (tenant_tbl w). \<exists>a. tenant_from_row L e = Inr a"
      "\<forall>m \<in> set (membership_tbl w). \<exists>b. membership_from_row L m = Inr b"
      "\<forall>u \<in> set (user_tbl w). \<exists>v. user_view_from_row L u = Inr v \<and> uuid_vo L (ue_id u) = Inr (ue_id u)"
    and mail: "UserEmailValueObject L (am_email c) = Inr (am_email c)"
    and bad: "am_tenantId c \<notin> te_id ` set (tenant_tbl w) \<or> am_email c \<notin> ue_email ` set (user_tbl w) \<or>
      (\<exists>u m. find (\<lambda>u. ue_email u = am_email c) (user_tbl w) = Some u \<and> m \<in> set (membership_tbl w) \<and>
         me_tenantId m = am_tenantId c \<and> me_userId m = ue_id u)"
  shows "AddTenantMemberCommandHandler_execute L (tenant_write_repo L) (membership_write_repo L)
      (tenancy_user_lookup L) c w =
    (Inl (if am_tenantId c \<notin> te_id ` set (tenant_tbl w) then new_TenantNotFoundException (am_tenantId c)
          else case find (\<lambda>u. ue_email u = am_email c) (user_tbl w) of
            None \<Rightarrow> new_MemberUserNotFoundException (am_email c)
          | Some u \<Rightarrow> new_TenantMembershipAlreadyExistsException (am_tenantId c) (ue_id u)), w)"
proof (cases "am_tenantId c \<in> te_id ` set (tenant_tbl w)")
  case False
  then show ?thesis
    using find_key_None [of "am_tenantId c" te_id "tenant_tbl w"]
    by (simp add: AddTenantMemberCommandHandler_execute_def tenancy_service_defs bindE_def
        tenant_write_repo_run)
next
  case True
  then obtain e where e: "find (\<lambda>e. te_id e = am_tenantId c) (tenant_tbl w) = Some e"
    by (cases "find (\<lambda>e. te_id e = am_tenantId c) (tenant_tbl w)") (auto simp: find_None_iff)
  with rd(1) find_Some_iff_ex [OF e] obtain a where a: "tenant_from_row L e = Inr a" by blast
  show ?thesis
  proof (cases "find (\<lambda>u. ue_email u = am_email c) (user_tbl w)")
    case None
    with True e a mail show ?thesis
      by (simp add: AddTenantMemberCommandHandler_execute_def tenancy_service_defs bindE_def
          tenant_write_repo_run user_lookup_run)
  next
    case (Some u)
    with rd(3) find_Some_iff_ex [OF Some] obtain v where v: "user_view_from_row L u = Inr v"
      "uuid_vo L (ue_id u) = Inr (ue_id u)" by blast
    with user_view_from_row_Inr [OF v(1)] have id: "uv_id v = ue_id u" by simp
    have "am_email c \<in> ue_email ` set (user_tbl w)"
      using find_Some_iff_ex [OF Some] by (metis image_eqI)
    with bad True Some obtain m0 where "m0 \<in> set (membership_tbl w)"
      "me_tenantId m0 = am_tenantId c" "me_userId m0 = ue_id u" by auto
    then obtain m where m: "find (\<lambda>m. me_tenantId m = am_tenantId c \<and> me_userId m = ue_id u)
        (membership_tbl w) = Some m"
      by (cases "find (\<lambda>m. me_tenantId m = am_tenantId c \<and> me_userId m = ue_id u) (membership_tbl w)")
        (auto simp: find_None_iff)
    with rd(2) find_Some_iff_ex [OF m] obtain b where "membership_from_row L m = Inr b" by blast
    with True e a mail Some v id m show ?thesis
      by (simp add: AddTenantMemberCommandHandler_execute_def tenancy_service_defs bindE_def
          tenant_write_repo_run user_lookup_run membership_write_repo_run)
  qed
qed

section \<open>Concrete applications\<close>

definition sample_tenant :: "string \<Rightarrow> string \<Rightarrow> tenant_entity" where
  "sample_tenant i s = \<lparr>te_id = i, te_appId = ''a1'', te_name = ''Home'', te_slug = s,
     te_createdAt = 0, te_updatedAt = 0\<rparr>"

definition sample_member :: "string \<Rightarrow> string \<Rightarrow> string \<Rightarrow> string \<Rightarrow> membership_entity" where
  "sample_member i t u r = \<lparr>me_id = i, me_tenantId = t, me_userId = u, me_role = r,
     me_createdAt = 0, me_updatedAt = 0\<rparr>"

definition tenancy_world :: "nat world" where
  "tenancy_world = sample_world\<lparr>
     tenant_tbl := [sample_tenant ''t1'' ''home'', sample_tenant ''t2'' ''work''],
     membership_tbl := [sample_member ''m1'' ''t1'' ''u1'' ''OWNER'',
       sample_member ''m2'' ''t1'' ''u2'' ''MEMBER'', sample_member ''m3'' ''t2'' ''u1'' ''OWNER'']\<rparr>"

lemma tenancy_world_ok: "schema_ok tenancy_world"
  by (simp add: schema_ok_def tenancy_world_def sample_tenant_def sample_member_def sample_defs)

lemmas tenancy_sample_defs = sample_defs vo_defs check_app_def check_tenant_def check_membership_def
  tenant_wf_def membership_wf_def new_tenant_def new_membership_def tenancy_world_def
  sample_tenant_def sample_member_def tenant_from_row_def membership_from_row_def
  app_view_from_row_def user_view_from_row_def tenant_build_defs membership_build_defs app_view_defs
  user_view_defs js_trim_def js_space_def js_lower_def js_lower_char_def

definition sample_create_tenant :: create_tenant_command where
  "sample_create_tenant = \<lparr>ct_appId = ''a1'', ct_name = ''Shed'', ct_slug = ''shed'',
     ct_creatorUserId = ''u2''\<rparr>"

lemma create_tenant_success_witness:
  "fst (CreateTenantCommandHandler_execute sample_lib (tenant_write_repo sample_lib)
     (membership_write_repo sample_lib) (app_lookup_adapter sample_lib sample_kit) sample_create_tenant
     tenancy_world) = Inr ''uiiiiii''"
  by (subst create_tenant_success [where t = 5 and ?x1.0 = 6 and i = "''uiiiiii''" and ?x2.0 = 7
        and t' = 7 and ?x3.0 = 8 and j = "''uiiiiiiii''" and ?x4.0 = 9])
    (simp_all add: tenancy_world_ok, simp_all add: tenancy_sample_defs sample_create_tenant_def)

lemma create_tenant_ownerless_witness:
  "\<exists>w'. CreateTenantCommandHandler_execute sample_lib (tenant_write_repo sample_lib)
     (membership_write_repo sample_lib) (app_lookup_adapter sample_lib sample_kit)
     (sample_create_tenant\<lparr>ct_creatorUserId := ''u9''\<rparr>) tenancy_world =
       (Inl (QueryFailedError ''FK_tenant_membership_user_id''), w') \<and>
     ''uiiiiii'' \<in> te_id ` set (tenant_tbl w') \<and> ''uiiiiii'' \<notin> me_tenantId ` set (membership_tbl w')"
proof -
  let ?c = "sample_create_tenant\<lparr>ct_creatorUserId := ''u9''\<rparr>"
  obtain w' where "CreateTenantCommandHandler_execute sample_lib (tenant_write_repo sample_lib)
     (membership_write_repo sample_lib) (app_lookup_adapter sample_lib sample_kit) ?c tenancy_world =
       (Inl (QueryFailedError ''FK_tenant_membership_user_id''), w')"
    "tenant_row ?c ''uiiiiii'' 5 \<in> set (tenant_tbl w')"
    "''uiiiiii'' \<notin> me_tenantId ` set (membership_tbl w')"
    using create_tenant_ownerless [of sample_lib ?c tenancy_world 5 6 "''uiiiiii''" 7 7 8
        "''uiiiiiiii''" 9 sample_kit]
    by (simp add: tenancy_world_ok) (simp add: tenancy_sample_defs sample_create_tenant_def, blast)
  then show ?thesis by (intro exI [of _ w']) force
qed

lemma delete_tenant_success_witness:
  "let r = DeleteTenantCommandHandler_execute (tenant_write_repo sample_lib)
       (membership_write_repo sample_lib) \<lparr>dt_tenantId = ''t1'', dt_requesterUserId = ''u1''\<rparr> tenancy_world
   in fst r = Inr () \<and> map te_id (tenant_tbl (snd r)) = [''t2''] \<and>
     map me_id (membership_tbl (snd r)) = [''m3'']"
  by (subst delete_tenant_success [where e = "sample_tenant ''t1'' ''home''" and
        m = "sample_member ''m1'' ''t1'' ''u1'' ''OWNER''" and
        a = "\<lparr>ta_id = ''t1'', ta_createdAt = 0, ta_updatedAt = 0, ta_appId = ''a1'', ta_name = ''Home'',
          ta_slug = ''home'', ta_events = []\<rparr>" and
        b = "\<lparr>ma_id = ''m1'', ma_createdAt = 0, ma_updatedAt = 0, ma_tenantId = ''t1'', ma_userId = ''u1'',
          ma_role = ''OWNER'', ma_events = []\<rparr>", OF tenancy_world_ok])
    (simp_all add: tenancy_sample_defs role_isOwner_def Let_def)

end
