(* ===== verification/Service_Invariants.thy ===== *)
theory Service_Invariants
  imports Auth_Adapters Tenancy_Properties
begin

text \<open>
  What every command of the service keeps, across the four contexts: the constraints of the
  database schema, and, for the commands that are not about sessions, the stored sessions. The
  second makes the \<open>Other\<close> requests of \<open>service_run\<close> exactly the rest of the service's commands.
\<close>

section \<open>The schema\<close>

lemma outside_tx: "preserves tx_ok (outside m)"
  by (auto simp: preserves_def outside_run)

lemma revoke_all_tx: "preserves tx_ok (swr_revokeAllByUserId (session_write_repo L) u)"
  using tx_ok_revokeAll [of L u] by (simp add: SessionTypeOrmWriteRepository_def)

lemma refresh_callback_tx: "preserves tx_ok (refresh_callback L (session_write_repo L) h expires current lk)"
  unfolding refresh_callback_def by (intro preserving outside_tx revoke_all_tx)

lemma rotate_schema:
  "preserves schema_ok (swr_rotate (session_write_repo L) h
     (refresh_callback L (session_write_repo L) h' expires))"
  using schema_rotate [OF refresh_callback_tx] by (simp add: SessionTypeOrmWriteRepository_def)

lemma refresh_schema:
  "preserves schema_ok (RefreshSessionCommandHandler_execute L cfg (session_write_repo L) (user_lookup L)
     (membership_lookup L K) c)"
  unfolding RefreshSessionCommandHandler_execute_def refresh_access_token_def Let_def
  by (intro preserving rotate_schema lookups_keep) simp_all

lemma platform_admin_schema: "preserves schema_ok (pap_setPlatformAdmin (platform_admin L) i b)"
  unfolding UserPlatformAdminAdapter_def IUserPlatformAdminPort.simps new_SetUserPlatformAdminCommand_def
  by (intro preserving)

lemma provisioning_schema: "preserves schema_ok (upp_createUser (user_provisioning L) i)"
  unfolding UserProvisioningAdapter_def IUserProvisioningPort.simps new_CreateUserCommand_def
  by (intro preserving)

lemma keycloak_schema:
  "preserves schema_ok (idp_verifyCredentials (KeycloakIdentityProviderAdapter L kc) m p)"
  "preserves schema_ok (idp_registerIdentity (KeycloakIdentityProviderAdapter L kc) i)"
  unfolding KeycloakIdentityProviderAdapter_def IIdentityProviderPort.simps
  by (intro preserving; simp)+

lemma login_schema:
  "preserves schema_ok (LoginUserCommandHandler_execute L cfg (user_lookup L)
     (KeycloakIdentityProviderAdapter L kc) (membership_lookup L K) (session_write_repo L)
     (platform_admin L) c)"
  unfolding LoginUserCommandHandler_execute_def Let_def
  by (intro preserving lookups_keep keycloak_schema platform_admin_schema) simp_all

lemma register_schema:
  "preserves schema_ok (RegisterUserCommandHandler_execute (user_lookup L)
     (KeycloakIdentityProviderAdapter L kc) (user_provisioning L) c)"
  unfolding RegisterUserCommandHandler_execute_def
  by (intro preserving lookups_keep keycloak_schema provisioning_schema)

text \<open>Every command of the service, whatever it answers, keeps the constraints of the database:
  unique slugs, emails, external ids, token hashes and memberships, no dangling reference, and
  the bounded columns within their bounds.\<close>

lemma commands_keep_schema:
  "preserves schema_ok (RegisterUserCommandHandler_execute (user_lookup L)
     (KeycloakIdentityProviderAdapter L kc) (user_provisioning L) register) \<and>
   preserves schema_ok (LoginUserCommandHandler_execute L cfg (user_lookup L)
     (KeycloakIdentityProviderAdapter L kc) (membership_lookup L K) (session_write_repo L)
     (platform_admin L) login) \<and>
   preserves schema_ok (RefreshSessionCommandHandler_execute L cfg (session_write_repo L) (user_lookup L)
     (membership_lookup L K) refresh) \<and>
   preserves schema_ok (CreateUserCommandHandler_execute L (user_write_repo L) create_user) \<and>
   preserves schema_ok (SetUserPlatformAdminCommandHandler_execute L (user_write_repo L) admin) \<and>
   preserves schema_ok (CreateAppCommandHandler_execute L (app_write_repo L) create_app) \<and>
   preserves schema_ok (CreateTenantCommandHandler_execute L (tenant_write_repo L)
     (membership_write_repo L) (app_lookup_adapter L K') create_tenant) \<and>
   preserves schema_ok (UpdateTenantCommandHandler_execute L (tenant_write_repo L) update_tenant) \<and>
   preserves schema_ok (DeleteTenantCommandHandler_execute (tenant_write_repo L)
     (membership_write_repo L) delete_tenant) \<and>
   preserves schema_ok (AddTenantMemberCommandHandler_execute L (tenant_write_repo L)
     (membership_write_repo L) (tenancy_user_lookup L) add_member)"
  by (intro conjI register_schema login_schema refresh_schema preserving)

section \<open>The stored sessions\<close>

lemma keeps_sessions:
  assumes "preserves schema_ok m"
    and "\<And>w r w'. m w = (r, w') \<Longrightarrow>
      session_tbl w' = session_tbl w \<and> tx_pending w' = tx_pending w \<and> ext w' = ext w"
  shows "preserves (sessions_are L F T) m"
proof (rule preservesI)
  fix w r w' assume I: "sessions_are L F T w" and run: "m w = (r, w')"
  then have "schema_ok w'" using preservesD [OF assms(1) _ run] by (simp add: session_inv_def)
  with I assms(2) [OF run] show "sessions_are L F T w'"
    by (simp add: session_inv_def sessions_stored_def ids_spent_def)
qed

lemma repos_keep_sessions:
  "preserves (sessions_are L F T) (awr_findBySlug (app_write_repo L) s)"
  "preserves (sessions_are L F T) (awr_save (app_write_repo L) a)"
  "preserves (sessions_are L F T) (twr_findById (tenant_write_repo L) i)"
  "preserves (sessions_are L F T) (twr_findByAppIdAndSlug (tenant_write_repo L) ap s)"
  "preserves (sessions_are L F T) (twr_save (tenant_write_repo L) t)"
  "preserves (sessions_are L F T) (twr_delete (tenant_write_repo L) i)"
  "preserves (sessions_are L F T) (mwr_findByTenantIdAndUserId (membership_write_repo L) i u)"
  "preserves (sessions_are L F T) (mwr_save (membership_write_repo L) m)"
  "preserves (sessions_are L F T) (mwr_deleteAllByTenantId (membership_write_repo L) i)"
  by (rule keeps_sessions, (rule preserving)?,
      auto simp: app_write_repo_run tenant_write_repo_run membership_write_repo_run
        delete_tenants_def delete_memberships_def Let_def split: option.splits)+

lemma builds_ids:
  assumes "id_supply L F"
  shows "id_decreasing F (UserBuilder_build L ub)" "id_decreasing F (AppBuilder_build L ab)"
    "id_decreasing F (TenantBuilder_build L tb)" "id_decreasing F (TenantMembershipBuilder_build L mb)"
    "id_decreasing F (TenantAggregate_update L n s t)"
  using id_supply_calls [OF assms]
  by (auto simp: UserBuilder_build_def UserBuilder_validate_def AppBuilder_build_def AppBuilder_validate_def
      TenantBuilder_build_def TenantBuilder_validate_def TenantMembershipBuilder_build_def
      TenantMembershipBuilder_validate_def TenantAggregate_update_def TenantAggregate_changeName_def
      TenantAggregate_changeSlug_def tenant_apply_def Let_def intro!: preserving split: option.splits)

lemma register_ids: "id_supply L F \<Longrightarrow> id_decreasing F (Keycloak_registerIdentity L kc input)"
  unfolding Keycloak_registerIdentity_def Keycloak_getServiceAccountToken_def Let_def
  by (cases "keycloak_names (ri_displayName input) (ri_email input)")
    (auto intro!: preserving id_supply_post split: sum.splits)

lemmas keeping_rules = preserving repos_keep_sessions user_save_keeps user_read_keeps publish_keeps
  lookups_keep outside_keeps id_supply_calls builds_ids UserAggregate_update_ids

lemma app_lookup_keeps: "preserves I (alp_assertExists (app_lookup_adapter L K) i)"
  by (auto simp: preserves_def app_adapter_run split: sum.splits option.splits)

lemma user_lookup_keeps: "preserves I (tul_findUserIdByEmail (tenancy_user_lookup L) m)"
  by (auto simp: preserves_def TenancyUserLookupAdapter_def new_UserFindByEmailQuery_def
      UserFindByEmailQueryHandler_execute_def bindE_def user_read_repo_run split: sum.splits prod.splits)

lemma create_user_keeps: "id_supply L F \<Longrightarrow>
    preserves (sessions_are L F T) (CreateUserCommandHandler_execute L (user_write_repo L) c)"
  unfolding CreateUserCommandHandler_execute_def AssertUserEmailAvailableService_execute_def Let_def
  by (intro keeping_rules)

lemma register_keeps: "id_supply L F \<Longrightarrow>
    preserves (sessions_are L F T) (RegisterUserCommandHandler_execute (user_lookup L)
      (KeycloakIdentityProviderAdapter L kc) (user_provisioning L) c)"
  unfolding RegisterUserCommandHandler_execute_def KeycloakIdentityProviderAdapter_def
    IIdentityProviderPort.simps UserProvisioningAdapter_def IUserProvisioningPort.simps
    new_CreateUserCommand_def
  by (intro keeping_rules create_user_keeps register_ids)

lemma set_admin_keeps: "id_supply L F \<Longrightarrow>
    preserves (sessions_are L F T) (SetUserPlatformAdminCommandHandler_execute L (user_write_repo L) c)"
  unfolding SetUserPlatformAdminCommandHandler_execute_def AssertUserExistsService_execute_def
  by (intro keeping_rules)

lemma create_app_keeps: "id_supply L F \<Longrightarrow>
    preserves (sessions_are L F T) (CreateAppCommandHandler_execute L (app_write_repo L) c)"
  unfolding CreateAppCommandHandler_execute_def AssertAppSlugAvailableService_execute_def Let_def
  by (intro keeping_rules)

lemma tenant_commands_keep:
  assumes "id_supply L F"
  shows "preserves (sessions_are L F T) (CreateTenantCommandHandler_execute L (tenant_write_repo L)
      (membership_write_repo L) (app_lookup_adapter L K) create_tenant)"
    and "preserves (sessions_are L F T) (UpdateTenantCommandHandler_execute L (tenant_write_repo L) update_tenant)"
    and "preserves (sessions_are L F T) (DeleteTenantCommandHandler_execute (tenant_write_repo L)
      (membership_write_repo L) delete_tenant)"
    and "preserves (sessions_are L F T) (AddTenantMemberCommandHandler_execute L (tenant_write_repo L)
      (membership_write_repo L) (tenancy_user_lookup L) add_member)"
  unfolding CreateTenantCommandHandler_execute_def UpdateTenantCommandHandler_execute_def
    DeleteTenantCommandHandler_execute_def AddTenantMemberCommandHandler_execute_def
    tenancy_service_defs Let_def
  by (intro keeping_rules app_lookup_keeps user_lookup_keeps assms)+

text \<open>Every command of the service other than login and refresh leaves the sessions table exactly
  as it was, and keeps the invariant that the runs of the token machine rely on: nothing but a
  login can create a refresh token, and nothing but a refresh can rotate or revoke one.\<close>

lemma other_commands_keep_sessions:
  assumes "id_supply L F"
  shows "preserves (sessions_are L F T) (RegisterUserCommandHandler_execute (user_lookup L)
      (KeycloakIdentityProviderAdapter L kc) (user_provisioning L) register) \<and>
    preserves (sessions_are L F T) (SetUserPlatformAdminCommandHandler_execute L (user_write_repo L) admin) \<and>
    preserves (sessions_are L F T) (CreateAppCommandHandler_execute L (app_write_repo L) create_app) \<and>
    preserves (sessions_are L F T) (CreateTenantCommandHandler_execute L (tenant_write_repo L)
      (membership_write_repo L) (app_lookup_adapter L K) create_tenant) \<and>
    preserves (sessions_are L F T) (UpdateTenantCommandHandler_execute L (tenant_write_repo L) update_tenant) \<and>
    preserves (sessions_are L F T) (DeleteTenantCommandHandler_execute (tenant_write_repo L)
      (membership_write_repo L) delete_tenant) \<and>
    preserves (sessions_are L F T) (AddTenantMemberCommandHandler_execute L (tenant_write_repo L)
      (membership_write_repo L) (tenancy_user_lookup L) add_member)"
  using assms by (intro conjI register_keeps set_admin_keeps create_app_keeps tenant_commands_keep)

end
