(* ===== verification/Auth_Witnesses.thy ===== *)
theory Auth_Witnesses
  imports Auth_Properties Service_Invariants
begin

text \<open>
  The witnesses of the properties of the \<open>auth\<close> context: each applies its property at the sample
  world, where its hypotheses are computed to hold. The sample library's identifiers, one per value
  of its counter, form an identifier supply, and its digests a hash in the sense of \<open>hash_ok\<close>.
\<close>

section \<open>The sample library keeps its documented behaviour\<close>

definition sample_ids :: "nat \<Rightarrow> string set" where
  "sample_ids x = (\<lambda>n. CHR ''u'' # replicate n (CHR ''i'')) ` {x..}"

lemma sample_id_supply: "id_supply sample_lib sample_ids"
  by (auto simp: id_supply_def sample_ids_def sample_lib_def sample_nonempty_vo_def
      dest: arg_cong [where f = length])

lemma sample_sha: "sha256_hex sample_lib s = take 64 (s @ replicate 64 (CHR ''0''))"
  by (simp add: sample_lib_def)

lemma sample_sha_length: "length (sha256_hex sample_lib s) = 64"
  by (auto simp: sample_sha min_def)

lemma sample_hash_ok: "hash_ok sample_lib"
  using sample_sha_length
  by (simp add: hash_ok_def RefreshTokenHashValueObject_def)
    (simp add: sample_lib_def sample_string_vo_def no_options_def)

lemma sample_uuid_ok: "uuid_ok sample_lib"
  by (simp add: uuid_ok_def sample_lib_def sample_nonempty_vo_def split: if_splits)

lemma sample_sha_neq:
  "s \<noteq> [] \<Longrightarrow> s' \<noteq> [] \<Longrightarrow> hd s \<noteq> hd s' \<Longrightarrow> sha256_hex sample_lib s \<noteq> sha256_hex sample_lib s'"
  by (cases s; cases s') (auto simp: sample_sha)

section \<open>A world with sessions\<close>

definition sample_session :: "string \<Rightarrow> string \<Rightarrow> string \<Rightarrow> int \<Rightarrow> int option \<Rightarrow> session_entity" where
  "sample_session i u tok expires revoked = \<lparr>se_id = i, se_userId = u,
     se_refreshTokenHash = sha256_hex sample_lib tok, se_refreshTokenExpiresAt = expires,
     se_revokedAt = revoked, se_replacedBySessionId = None, se_createdAt = 0, se_updatedAt = 0\<rparr>"

definition session_world :: "nat world" where
  "session_world = sample_world\<lparr>session_tbl :=
     [sample_session ''s1'' ''u1'' ''a'' 1000 None, sample_session ''s2'' ''u1'' ''b'' 1000 (Some 1),
      sample_session ''s3'' ''u2'' ''c'' 1000 None, sample_session ''s4'' ''u2'' ''d'' 3 None]\<rparr>"

definition sample_cfg :: auth_config where
  "sample_cfg = \<lparr>ac_refreshTokenTtlDays = 1, ac_platformAdminEmails = Some [''a@x''],
     ac_keycloak = \<lparr>kc_baseUrl = ''http://kc'', kc_realm = ''r'', kc_clientId = ''c'',
       kc_clientSecret = ''s''\<rparr>\<rparr>"

lemma sample_hash_vo: "RefreshTokenHashValueObject sample_lib (sha256_hex sample_lib s) =
    Inr (sha256_hex sample_lib s)" "sha256_hex sample_lib s \<noteq> []" "length (sha256_hex sample_lib s) = 64"
  using sample_hash_ok by (auto simp: hash_ok_def dest: spec [of _ s])

lemma sample_lib_sel:
  "uuid_vo sample_lib = sample_nonempty_vo" "base_validate sample_lib i c u = (if i = [] then Inl (invalid i) else Inr ())"
  "touch sample_lib d x = (int x, Suc x)" "new_date sample_lib x = (int x, Suc x)"
  "uuid_generate sample_lib x = (CHR ''u'' # replicate x (CHR ''i''), Suc x)"
  "random_base64url sample_lib n x = (CHR ''t'' # replicate x (CHR ''i''), Suc x)"
  "jwt_sign sample_lib cl x = (Inr (''jwt:'' @ cl_sub cl), x)" "sql_now sample_lib x = (1000 * int x, Suc x)"
  "http_post sample_lib rq x = (Inr \<lparr>rs_location = Some ''users/k1'', rs_access_token = ''h.p.s''\<rparr>, x)"
  "base64url_utf8 sample_lib (Some p) = Inr p" "json_sub sample_lib p = Inr p"
  by (simp_all add: sample_lib_def)

lemmas session_sample_defs = session_from_row_def session_of_row_def session_wf_def session_build_defs
  truthy_def sample_hash_vo sample_lib_sel sample_nonempty_vo_def sample_session_def session_world_def

lemma session_world_ok: "session_inv sample_lib sample_ids session_world"
proof -
  have "schema_ok session_world"
    by (simp add: schema_ok_def session_world_def sample_session_def sample_hash_vo sample_sha_neq)
      (simp add: sample_defs)
  moreover have "sessions_stored sample_lib session_world"
    by (simp add: sessions_stored_def session_sample_defs)
  moreover have "ids_spent sample_ids session_world"
    by (auto simp: ids_spent_def session_world_def sample_session_def sample_ids_def)
  moreover have "tx_pending session_world = None"
    by (simp add: session_world_def sample_world_def empty_world_def)
  ultimately show ?thesis by (simp add: session_inv_def)
qed

section \<open>Refresh\<close>

abbreviation sample_refresh :: "string \<Rightarrow> nat world \<Rightarrow> (error + ILoginSessionResult) \<times> nat world" where
  "sample_refresh tok \<equiv> RefreshSessionCommandHandler_execute sample_lib sample_cfg
     (session_write_repo sample_lib) (user_lookup sample_lib) (membership_lookup sample_lib sample_kit)
     \<lparr>rf_refreshToken = tok\<rparr>"

lemma find_sample_hash:
  "find (\<lambda>e. se_refreshTokenHash e = sha256_hex sample_lib ''a'') (session_tbl session_world) =
     Some (sample_session ''s1'' ''u1'' ''a'' 1000 None)"
  "find (\<lambda>e. se_refreshTokenHash e = sha256_hex sample_lib ''b'') (session_tbl session_world) =
     Some (sample_session ''s2'' ''u1'' ''b'' 1000 (Some 1))"
  "find (\<lambda>e. se_refreshTokenHash e = sha256_hex sample_lib ''d'') (session_tbl session_world) =
     Some (sample_session ''s4'' ''u2'' ''d'' 3 None)"
  by (simp_all add: session_world_def sample_session_def sample_sha_neq)

definition sample_view :: "user_entity \<Rightarrow> user_view_model" where
  "sample_view e = \<lparr>uv_id = ue_id e, uv_createdAt = ue_createdAt e, uv_updatedAt = ue_updatedAt e,
     uv_externalId = ue_externalId e, uv_email = ue_email e, uv_displayName = ue_displayName e,
     uv_platformAdmin = ue_platformAdmin e\<rparr>"

lemma sample_views: "user_view_from_row sample_lib sample_user = Inr (sample_view sample_user)"
  "user_view_from_row sample_lib sample_user2 = Inr (sample_view sample_user2)"
  by (simp_all add: sample_view_def sample_user_def sample_user2_def user_view_from_row_def user_view_defs
      sample_lib_sel)

lemma session_world_sel [simp]:
  "ext session_world = 5" "tx_pending session_world = None" "user_tbl session_world = [sample_user, sample_user2]"
  "membership_tbl session_world = []" "published session_world = []"
  by (simp_all add: session_world_def sample_world_def empty_world_def)

lemma session_world_parts: "schema_ok session_world" "sessions_stored sample_lib session_world"
  using session_world_ok by (simp_all add: session_inv_def)

lemma session_world_memberships: "has_memberships sample_lib session_world u []"
  by (simp add: has_memberships_def)

lemma refresh_reuse_detected_witness:
  "sample_refresh ''b'' session_world =
     (Inl new_RefreshTokenReuseDetectedException, session_world\<lparr>session_tbl :=
        [sample_session ''s1'' ''u1'' ''a'' 1000 (Some 8), sample_session ''s2'' ''u1'' ''b'' 1000 (Some 1),
         sample_session ''s3'' ''u2'' ''c'' 1000 None, sample_session ''s4'' ''u2'' ''d'' 3 None], ext := 9\<rparr>)"
  by (subst refresh_reuse_detected [where ?x1.0 = 6 and t = 6 and ?x2.0 = 7 and u = 7 and ?x3.0 = 8 and
        t' = 8000 and ?x4.0 = 9 and e = "sample_session ''s2'' ''u1'' ''b'' 1000 (Some 1)"])
    (simp_all add: find_sample_hash session_world_parts, simp_all add: session_sample_defs driver_date_def)

definition sample_created :: session_aggregate where
  "sample_created = \<lparr>sg_id = ''uiiiiiiiii'', sg_createdAt = 8, sg_updatedAt = 8, sg_userId = ''u1'',
     sg_refreshTokenHash = sha256_hex sample_lib ''tiiiii'', sg_expiresAt = expiry sample_cfg 6,
     sg_revokedAt = None, sg_replacedBySessionId = None\<rparr>"

definition sample_consumed :: session_aggregate where
  "sample_consumed = (session_of_row (sample_session ''s1'' ''u1'' ''a'' 1000 None))\<lparr>sg_revokedAt := Some 10,
     sg_replacedBySessionId := Some ''uiiiiiiiii'', sg_updatedAt := 11\<rparr>"

lemma refresh_success_witness:
  "sample_refresh ''a'' session_world =
     (Inr \<lparr>lr_accessToken = ''jwt:u1'', lr_refreshToken = ''tiiiii''\<rparr>,
      session_world\<lparr>session_tbl := upsert se_id (SessionTypeOrmMapper_toEntity sample_consumed)
        (upsert se_id (SessionTypeOrmMapper_toEntity sample_created) (session_tbl session_world)),
        ext := 12\<rparr>)"
  by (rule refresh_success [where raw = "''tiiiii''" and ?x1.0 = 6 and t = 6 and ?x2.0 = 7 and
        e = "sample_session ''s1'' ''u1'' ''a'' 1000 None" and ?t1.0 = 7 and ?x3.0 = 8 and ?t2.0 = 8 and
        ?x4.0 = 9 and i = "''uiiiiiiiii''" and ?x5.0 = 10 and ?t3.0 = 10 and ?x6.0 = 11 and u = 11 and
        ?x7.0 = 12 and r = sample_user and v = "sample_view sample_user" and ms = "[]"])
    (simp_all add: find_sample_hash session_world_parts sample_hash_ok sample_views
       session_world_memberships,
     simp_all add: sample_created_def sample_consumed_def session_sample_defs
       sample_sha_neq sample_user_def sample_view_def token_claims_def replicate_numeral_unfold expiry_ms)

text \<open>Two refreshes, one after the other, of the tokens of two users.\<close>

abbreviation sample_run :: "nat world \<Rightarrow> request list \<Rightarrow> nat world \<Rightarrow> bool" where
  "sample_run \<equiv> service_run sample_lib sample_ids sample_cfg (session_write_repo sample_lib)
     (user_lookup sample_lib) (KeycloakIdentityProviderAdapter sample_lib (ac_keycloak sample_cfg))
     (membership_lookup sample_lib sample_kit) (platform_admin sample_lib)"

lemma sample_refresh_run:
  "sample_refresh tok w = (res, w1) \<Longrightarrow> sample_run w1 rs w' \<Longrightarrow>
     sample_run w (Refresh \<lparr>rf_refreshToken = tok\<rparr> res # rs) w'"
  by (rule run_refresh)

lemma run_one: "sample_run w [Refresh \<lparr>rf_refreshToken = tok\<rparr> (fst (sample_refresh tok w))]
    (snd (sample_refresh tok w))"
  by (rule sample_refresh_run [OF prod.collapse [symmetric] run_nil])

lemma run_two: "w1 = snd (sample_refresh t1 w) \<Longrightarrow>
    sample_run w [Refresh \<lparr>rf_refreshToken = t1\<rparr> (fst (sample_refresh t1 w)),
      Refresh \<lparr>rf_refreshToken = t2\<rparr> (fst (sample_refresh t2 w1))] (snd (sample_refresh t2 w1))"
  by (rule sample_refresh_run [OF _ run_one]) simp

lemma replay_kills_user_tokens_witness:
  "isl (fst (sample_refresh ''a'' (snd (sample_refresh ''b'' session_world))))"
  using replay_kills_user_tokens [of sample_lib sample_ids session_world "\<lparr>rf_refreshToken = ''b''\<rparr>"
      "token_of (sample_session ''s2'' ''u1'' ''b'' 1000 (Some 1))" "\<lparr>rf_refreshToken = ''a''\<rparr>"
      "token_of (sample_session ''s1'' ''u1'' ''a'' 1000 None)" sample_cfg
      "ac_keycloak sample_cfg" sample_kit _ "[]" _ "[]", simplified append.simps,
      OF sample_id_supply sample_hash_ok sample_uuid_ok session_world_ok _ _ _ _ run_two [OF refl]]
  by (simp add: tokens_def find_sample_hash token_of_def sample_session_def)

lemma refresh_handler_refines_witness:
  "refresh_implements sample_lib (sha256_hex sample_lib ''a'') (tokens (session_tbl session_world))
     (fst (sample_refresh ''a'' session_world))
     (tokens (session_tbl (snd (sample_refresh ''a'' session_world))))"
  using refresh_handler_refines [OF sample_id_supply sample_hash_ok sample_uuid_ok session_world_ok
      prod.collapse [symmetric], of sample_cfg sample_kit "\<lparr>rf_refreshToken = ''a''\<rparr>"] by simp

definition second_world :: "nat world" where
  "second_world = session_world\<lparr>session_tbl :=
     upsert se_id (SessionTypeOrmMapper_toEntity sample_consumed)
       (upsert se_id (SessionTypeOrmMapper_toEntity sample_created) (session_tbl session_world)),
     ext := 12\<rparr>"

lemma second_world_tbl: "session_tbl second_world =
   [SessionTypeOrmMapper_toEntity sample_consumed, sample_session ''s2'' ''u1'' ''b'' 1000 (Some 1),
    sample_session ''s3'' ''u2'' ''c'' 1000 None, sample_session ''s4'' ''u2'' ''d'' 3 None,
    SessionTypeOrmMapper_toEntity sample_created]"
  by (simp add: second_world_def upsert_def session_world_def sample_session_def
      SessionTypeOrmMapper_toEntity_def SessionAggregate_toPrimitives_def sample_consumed_def
      sample_created_def session_of_row_def Let_def)

lemma first_refresh: "sample_refresh ''a'' session_world =
    (Inr \<lparr>lr_accessToken = ''jwt:u1'', lr_refreshToken = ''tiiiii''\<rparr>, second_world)"
  unfolding second_world_def
  by (rule refresh_success_run [where raw = "''tiiiii''" and ?x1.0 = 6 and t = 6 and ?x2.0 = 7 and
        e = "sample_session ''s1'' ''u1'' ''a'' 1000 None" and ?t1.0 = 7 and ?x3.0 = 8 and ?t2.0 = 8 and
        ?x4.0 = 9 and i = "''uiiiiiiiii''" and ?x5.0 = 10 and ?t3.0 = 10 and ?x6.0 = 11 and u = 11 and
        ?x7.0 = 12 and r = sample_user and v = "sample_view sample_user" and ms = "[]"])
    (simp_all add: find_sample_hash session_world_parts sample_hash_ok sample_views
       session_world_memberships,
     simp_all add: sample_created_def sample_consumed_def session_sample_defs
       sample_sha_neq sample_user_def sample_view_def token_claims_def replicate_numeral_unfold)

lemma second_world_ok: "schema_ok second_world" "sessions_stored sample_lib second_world"
  using wired.refresh_refines [OF sample_id_supply sample_hash_ok sample_uuid_ok session_world_ok first_refresh]
  by (simp_all add: session_inv_def)

lemma second_world_sel:
  "ext second_world = 12" "tx_pending second_world = None" "user_tbl second_world = [sample_user, sample_user2]"
  "has_memberships sample_lib second_world u []"
  by (simp_all add: second_world_def has_memberships_def)

lemma second_hashes:
  "find (\<lambda>e. se_refreshTokenHash e = sha256_hex sample_lib ''c'') (session_tbl second_world) =
     Some (sample_session ''s3'' ''u2'' ''c'' 1000 None)"
  "sha256_hex sample_lib ''tiiiiiiiiiiii'' \<notin> se_refreshTokenHash ` set (session_tbl second_world)"
proof -
  have "sha256_hex sample_lib ''tiiiiiiiiiiii'' \<noteq> sha256_hex sample_lib ''tiiiii''"
    by (simp add: sample_sha replicate_numeral_unfold)
  then show "sha256_hex sample_lib ''tiiiiiiiiiiii'' \<notin> se_refreshTokenHash ` set (session_tbl second_world)"
    by (simp add: second_world_tbl sample_session_def SessionTypeOrmMapper_toEntity_def
        SessionAggregate_toPrimitives_def sample_consumed_def sample_created_def session_of_row_def Let_def
        sample_sha_neq)
  show "find (\<lambda>e. se_refreshTokenHash e = sha256_hex sample_lib ''c'') (session_tbl second_world) =
     Some (sample_session ''s3'' ''u2'' ''c'' 1000 None)"
    by (simp add: second_world_tbl sample_session_def SessionTypeOrmMapper_toEntity_def
        SessionAggregate_toPrimitives_def sample_consumed_def sample_created_def session_of_row_def Let_def
        sample_sha_neq)
qed

lemma second_ids: "se_id ` set (session_tbl second_world) = {''s1'', ''s2'', ''s3'', ''s4'', ''uiiiiiiiii''}"
  by (auto simp: second_world_tbl sample_session_def SessionTypeOrmMapper_toEntity_def
      SessionAggregate_toPrimitives_def sample_consumed_def sample_created_def session_of_row_def Let_def)

lemma second_refresh: "fst (sample_refresh ''c'' second_world) =
    Inr \<lparr>lr_accessToken = ''jwt:u2'', lr_refreshToken = ''tiiiiiiiiiiii''\<rparr>"
  by (subst refresh_success_run [where raw = "''tiiiiiiiiiiii''" and ?x1.0 = 13 and t = 13 and ?x2.0 = 14 and
        e = "sample_session ''s3'' ''u2'' ''c'' 1000 None" and ?t1.0 = 14 and ?x3.0 = 15 and ?t2.0 = 15 and
        ?x4.0 = 16 and i = "''uiiiiiiiiiiiiiiii''" and ?x5.0 = 17 and ?t3.0 = 17 and ?x6.0 = 18 and u = 18
        and ?x7.0 = 19 and r = sample_user2 and v = "sample_view sample_user2" and ms = "[]" and
        token = "''jwt:u2''" and ?x8.0 = 19, OF _ _ _ _ _ _ _ _ _ _ _ _ _ refl refl])
    (simp_all add: second_hashes second_ids second_world_ok second_world_sel sample_hash_ok sample_views,
     simp_all add: session_sample_defs sample_sha_neq sample_user_def sample_user2_def sample_view_def
       token_claims_def replicate_numeral_unfold)

section \<open>Login\<close>

abbreviation sample_login ::
  "auth_config \<Rightarrow> login_user_command \<Rightarrow> nat world \<Rightarrow> (error + ILoginSessionResult) \<times> nat world" where
  "sample_login cfg \<equiv> LoginUserCommandHandler_execute sample_lib cfg (user_lookup sample_lib)
     (KeycloakIdentityProviderAdapter sample_lib (ac_keycloak sample_cfg))
     (membership_lookup sample_lib sample_kit) (session_write_repo sample_lib) (platform_admin sample_lib)"

lemmas keycloak_sample_defs = Keycloak_verifyCredentials_def Keycloak_registerIdentity_def
  Keycloak_getServiceAccountToken_def Keycloak_decodeSub_def post_def stepS_run bindE_def

lemma sample_verify: "Keycloak_verifyCredentials sample_lib kc m p x = (Inr ''p'', x)"
  by (simp add: keycloak_sample_defs sample_lib_sel)

lemma sample_world_sel:
  "ext sample_world = 5" "user_tbl sample_world = [sample_user, sample_user2]" "session_tbl sample_world = []"
  "membership_tbl sample_world = []" "tx_pending sample_world = None" "sample_world\<lparr>ext := 5\<rparr> = sample_world"
  by (simp_all add: sample_world_def empty_world_def)

lemma sample_email: "UserEmailValueObject sample_lib ''a@x'' = Inr ''a@x''"
  "UserEmailValueObject sample_lib ''n@x'' = Inr ''n@x''"
  by (simp_all add: user_sample_defs)

definition sample_logged_in :: session_aggregate where
  "sample_logged_in = \<lparr>sg_id = ''uiiiiiiii'', sg_createdAt = 7, sg_updatedAt = 7, sg_userId = ''u1'',
     sg_refreshTokenHash = sha256_hex sample_lib ''tiiiii'', sg_expiresAt = expiry sample_cfg 6,
     sg_revokedAt = None, sg_replacedBySessionId = None\<rparr>"

lemma sample_login_run:
  "sample_login (sample_cfg\<lparr>ac_platformAdminEmails := None\<rparr>) \<lparr>lu_email = ''a@x'', lu_password = ''pw''\<rparr>
     (sample_world) =
   (Inr \<lparr>lr_accessToken = ''jwt:u1'', lr_refreshToken = ''tiiiii''\<rparr>,
    sample_world\<lparr>session_tbl := [SessionTypeOrmMapper_toEntity sample_logged_in], ext := 9\<rparr>)"
  by (subst login_success_run [where sub = "''p''" and ?x1.0 = 5 and r = sample_user and
        v = "sample_view sample_user" and ms = "[]" and admin = False and ?w1.0 = sample_world and
        token = "''jwt:u1''" and ?x2.0 = 5 and raw = "''tiiiii''" and ?x3.0 = 6 and t = 6 and ?x4.0 = 7
        and ?t1.0 = 7 and ?x5.0 = 8 and i = "''uiiiiiiii''" and ?x6.0 = 9 and a = sample_logged_in])
    (simp_all add: sample_verify sample_email sample_views sample_world_sel has_memberships_def
       check_session_def ReconcilePlatformAdminService_execute_def,
     simp_all add: sample_logged_in_def session_sample_defs sample_user_def sample_view_def
       token_claims_def replicate_numeral_unfold SessionTypeOrmMapper_toEntity_def upsert_def
       SessionAggregate_toPrimitives_def Let_def expiry_def)

lemma login_success_witness:
  "sample_login (sample_cfg\<lparr>ac_platformAdminEmails := None\<rparr>) \<lparr>lu_email = ''a@x'', lu_password = ''pw''\<rparr>
     (sample_world) =
   (Inr \<lparr>lr_accessToken = ''jwt:u1'', lr_refreshToken = ''tiiiii''\<rparr>,
    sample_world\<lparr>session_tbl := [SessionTypeOrmMapper_toEntity sample_logged_in], ext := 9\<rparr>)"
  by (subst login_success [where sub = "''p''" and ?x1.0 = 5 and r = sample_user and
        v = "sample_view sample_user" and ms = "[]" and admin = False and ?w1.0 = sample_world and
        token = "''jwt:u1''" and ?x2.0 = 5 and raw = "''tiiiii''" and ?x3.0 = 6 and t = 6 and ?x4.0 = 7
        and ?t1.0 = 7 and ?x5.0 = 8 and i = "''uiiiiiiii''" and ?x6.0 = 9 and a = sample_logged_in])
    (simp_all add: sample_verify sample_email sample_views sample_world_sel has_memberships_def
       check_session_def ReconcilePlatformAdminService_execute_def,
     simp_all add: sample_logged_in_def session_sample_defs sample_user_def sample_view_def
       token_claims_def replicate_numeral_unfold SessionTypeOrmMapper_toEntity_def upsert_def
       SessionAggregate_toPrimitives_def Let_def expiry_def)

lemma login_refused_witness:
  "sample_login sample_cfg \<lparr>lu_email = ''n@x'', lu_password = ''pw''\<rparr> sample_world =
     (Inl new_InvalidCredentialsException, sample_world)"
  by (subst login_refused [where res = "Inr ''p''" and ?x1.0 = 5])
    (simp_all add: sample_verify sample_email sample_world_sel sample_user_def sample_user2_def)

section \<open>Registration\<close>

text \<open>A Keycloak that creates one identity, and answers 409 from then on.\<close>

definition keycloak_lib :: "nat lib" where
  "keycloak_lib = sample_lib\<lparr>http_post := (\<lambda>rq x.
     if rq_bearer rq \<noteq> None \<and> 6 < x then (Inl \<lparr>hf_status = Some 409, hf_data = ''conflict''\<rparr>, Suc x)
     else (Inr \<lparr>rs_location = Some ''users/k1'', rs_access_token = ''h.p.s''\<rparr>, Suc x))\<rparr>"

abbreviation sample_register ::
  "register_user_command \<Rightarrow> nat world \<Rightarrow> (error + string) \<times> nat world" where
  "sample_register \<equiv> RegisterUserCommandHandler_execute (user_lookup keycloak_lib)
     (KeycloakIdentityProviderAdapter keycloak_lib (ac_keycloak sample_cfg)) (user_provisioning keycloak_lib)"

lemma keycloak_lib_sel:
  "uuid_vo keycloak_lib = uuid_vo sample_lib" "email_vo keycloak_lib = email_vo sample_lib"
  "string_vo keycloak_lib = string_vo sample_lib" "base_validate keycloak_lib = base_validate sample_lib"
  "new_date keycloak_lib = new_date sample_lib" "uuid_generate keycloak_lib = uuid_generate sample_lib"
  by (simp_all add: keycloak_lib_def)

lemma keycloak_email: "UserEmailValueObject keycloak_lib = UserEmailValueObject sample_lib"
  by (simp add: fun_eq_iff UserEmailValueObject_def keycloak_lib_sel)

lemma keycloak_register:
  "Keycloak_registerIdentity keycloak_lib kc input 5 = (Inr ''k1'', 7)"
  "Keycloak_registerIdentity keycloak_lib kc input 7 =
     (Inl (new_EmailAlreadyRegisteredException (ri_email input)), 9)"
  by (simp_all add: keycloak_sample_defs keycloak_lib_def split: prod.split)

definition sample_command :: "string \<Rightarrow> register_user_command" where
  "sample_command name = \<lparr>ru_email = ''n@x'', ru_password = ''secret123'', ru_displayName = Some name\<rparr>"

lemma register_orphaned_identity_witness:
  "sample_register (sample_command ''  '') empty_world = (Inl (invalid ''  ''), empty_world\<lparr>ext := 7\<rparr>) \<and>
   sample_register (sample_command ''N'') (empty_world\<lparr>ext := 7\<rparr>) =
     (Inl (new_EmailAlreadyRegisteredException ''n@x''), empty_world\<lparr>ext := 9\<rparr>)"
  using register_orphaned_identity [of keycloak_lib "sample_command ''  ''" empty_world
      "ac_keycloak sample_cfg" "''k1''" 7 "''k1''" "''  ''" "invalid ''  ''" "sample_command ''N''" 9]
  by (simp add: keycloak_email sample_email keycloak_register sample_command_def)
    (simp add: user_sample_defs keycloak_lib_sel keycloak_register)

end
