(* ===== verification/Row_Validity.thy ===== *)
theory Row_Validity
  imports Service_Invariants
begin

text \<open>
  Type soundness of the tables: every stored row is the image of an aggregate all of whose fields
  their value objects accept, so reading a row never throws. The invariant holds of every state a
  command of the service reaches, whether the command returns or throws, provided the kit
  validates as documented (\<open>kit_validates\<close>).
\<close>

section \<open>Documented behaviour of the value objects\<close>

text \<open>
  Besides \<open>kit_stable\<close>: the value of an identifier, an address, a slug or an enum is not empty, nor
  is that of a string with a minimum length; and what the base builder requires of a complete
  aggregate is an id (its dates are set).
\<close>

definition kit_validates :: "'x lib \<Rightarrow> bool" where
  "kit_validates L \<longleftrightarrow> kit_stable L \<and>
     (\<forall>s v. uuid_vo L s = Inr v \<longrightarrow> v \<noteq> []) \<and> (\<forall>s v. email_vo L s = Inr v \<longrightarrow> v \<noteq> []) \<and>
     (\<forall>s v. slug_vo L s = Inr v \<longrightarrow> v \<noteq> []) \<and>
     (\<forall>vals s v. [] \<notin> set vals \<longrightarrow> enum_vo L vals s = Inr v \<longrightarrow> v \<noteq> []) \<and>
     (\<forall>opts n s v. so_minLength opts = Some n \<longrightarrow> 0 < n \<longrightarrow> string_vo L opts s = Inr v \<longrightarrow> v \<noteq> []) \<and>
     (\<forall>i c u. i \<noteq> [] \<longrightarrow> base_validate L i (Some c) (Some u) = Inr ())"

lemma vo_value:
  assumes "kit_validates L"
  shows "UserIdValueObject L s = Inr v \<Longrightarrow> UserIdValueObject L v = Inr v \<and> v \<noteq> []"
    "UserEmailValueObject L s = Inr v \<Longrightarrow> UserEmailValueObject L v = Inr v \<and> v \<noteq> []"
    "ExternalIdValueObject L s = Inr v \<Longrightarrow> ExternalIdValueObject L v = Inr v \<and> v \<noteq> []"
    "DisplayNameValueObject L s = Inr v \<Longrightarrow> DisplayNameValueObject L v = Inr v \<and> v \<noteq> []"
    "AppNameValueObject L s = Inr v \<Longrightarrow> AppNameValueObject L v = Inr v \<and> v \<noteq> []"
    "AppSlugValueObject L s = Inr v \<Longrightarrow> AppSlugValueObject L v = Inr v \<and> v \<noteq> []"
    "TenantNameValueObject L s = Inr v \<Longrightarrow> TenantNameValueObject L v = Inr v \<and> v \<noteq> []"
    "TenantSlugValueObject L s = Inr v \<Longrightarrow> TenantSlugValueObject L v = Inr v \<and> v \<noteq> []"
    "TenantRoleValueObject L s = Inr v \<Longrightarrow> TenantRoleValueObject L v = Inr v \<and> v \<noteq> []"
    "RefreshTokenHashValueObject L s = Inr v \<Longrightarrow> RefreshTokenHashValueObject L v = Inr v \<and> v \<noteq> []"
    "uuid_vo L s = Inr v \<Longrightarrow> uuid_vo L v = Inr v \<and> v \<noteq> []"
proof -
  from assms have "kit_stable L" by (simp add: kit_validates_def)
  note stable = kit_stable_vos [OF this, THEN vo_stableD]
  have str: "string_vo L opts s = Inr v \<Longrightarrow> so_minLength opts = Some n \<Longrightarrow> 0 < n \<Longrightarrow> v \<noteq> []" for opts n s v
    using assms unfolding kit_validates_def by blast
  have uuid: "uuid_vo L s = Inr v \<Longrightarrow> v \<noteq> []" and slug: "slug_vo L s = Inr v \<Longrightarrow> v \<noteq> []"
    and email: "email_vo L s = Inr v \<Longrightarrow> v \<noteq> []"
    and enum: "[] \<notin> set vals \<Longrightarrow> enum_vo L vals s = Inr v \<Longrightarrow> v \<noteq> []" for vals s v
    using assms unfolding kit_validates_def by blast+
  show "UserIdValueObject L s = Inr v \<Longrightarrow> UserIdValueObject L v = Inr v \<and> v \<noteq> []"
    using stable(1) uuid by (simp add: UserIdValueObject_def)
  show "UserEmailValueObject L s = Inr v \<Longrightarrow> UserEmailValueObject L v = Inr v \<and> v \<noteq> []"
    using stable(2) email by (simp add: UserEmailValueObject_def)
  show "ExternalIdValueObject L s = Inr v \<Longrightarrow> ExternalIdValueObject L v = Inr v \<and> v \<noteq> []"
    using stable(3) str [of "no_options\<lparr>so_minLength := Some 1, so_maxLength := Some 255, so_trim := True\<rparr>"] by (simp add: ExternalIdValueObject_def)
  show "DisplayNameValueObject L s = Inr v \<Longrightarrow> DisplayNameValueObject L v = Inr v \<and> v \<noteq> []"
    using stable(4) str [of "no_options\<lparr>so_minLength := Some 1, so_maxLength := Some 120, so_trim := True\<rparr>"] by (simp add: DisplayNameValueObject_def)
  show "AppNameValueObject L s = Inr v \<Longrightarrow> AppNameValueObject L v = Inr v \<and> v \<noteq> []"
    using stable(5) str [of "no_options\<lparr>so_minLength := Some 1, so_maxLength := Some 150, so_trim := True\<rparr>"] by (simp add: AppNameValueObject_def)
  show "AppSlugValueObject L s = Inr v \<Longrightarrow> AppSlugValueObject L v = Inr v \<and> v \<noteq> []"
    using stable(6) slug by (simp add: AppSlugValueObject_def)
  show "TenantNameValueObject L s = Inr v \<Longrightarrow> TenantNameValueObject L v = Inr v \<and> v \<noteq> []"
    using stable(7) str [of "no_options\<lparr>so_minLength := Some 1, so_maxLength := Some 150, so_trim := True\<rparr>"] by (simp add: TenantNameValueObject_def)
  show "TenantSlugValueObject L s = Inr v \<Longrightarrow> TenantSlugValueObject L v = Inr v \<and> v \<noteq> []"
    using stable(8) slug by (simp add: TenantSlugValueObject_def)
  show "TenantRoleValueObject L s = Inr v \<Longrightarrow> TenantRoleValueObject L v = Inr v \<and> v \<noteq> []"
    using stable(9) enum [of "[''OWNER'', ''MEMBER'', ''ADMIN'']"] by (simp add: TenantRoleValueObject_def)
  show "RefreshTokenHashValueObject L s = Inr v \<Longrightarrow> RefreshTokenHashValueObject L v = Inr v \<and> v \<noteq> []"
    using stable(10) str [of "no_options\<lparr>so_minLength := Some 64, so_maxLength := Some 64,
       so_pattern := Some ''^[a-f0-9]{64}$''\<rparr>"] by (simp add: RefreshTokenHashValueObject_def)
  show "uuid_vo L s = Inr v \<Longrightarrow> uuid_vo L v = Inr v \<and> v \<noteq> []"
    using stable(11) uuid by simp
qed

lemma base_valid: "kit_validates L \<Longrightarrow> i \<noteq> [] \<Longrightarrow> base_validate L i (Some c) (Some u) = Inr ()"
  by (simp add: kit_validates_def)

section \<open>What the builders build\<close>

lemma user_build_wf:
  assumes K: "kit_validates L" and run: "UserBuilder_build L b x = (Inr a, x')"
  shows "user_wf L a"
proof -
  note vo = vo_value [OF K]
  have ids: "UserIdValueObject L (ub_id b) = Inr (ua_id a)"
    "ExternalIdValueObject L (ub_externalId b) = Inr (ua_externalId a)"
    "UserEmailValueObject L (ub_email b) = Inr (ua_email a)"
    "case ua_displayName a of None \<Rightarrow> True | Some d \<Rightarrow> \<exists>s. DisplayNameValueObject L s = Inr d"
    using run by (cases "ub_displayName b";
        auto simp: UserBuilder_build_def UserBuilder_validate_def bindE_Inr_iff)+
  from ids(4) have "case ua_displayName a of None \<Rightarrow> True | Some d \<Rightarrow> DisplayNameValueObject L d = Inr d"
    by (auto split: option.splits dest: vo(4))
  with vo(1) [OF ids(1)] vo(3) [OF ids(2)] vo(2) [OF ids(3)] show ?thesis
    by (simp add: user_wf_def base_valid [OF K])
qed

lemma app_build_wf:
  assumes K: "kit_validates L" and run: "AppBuilder_build L b x = (Inr a, x')"
  shows "app_wf L a"
proof -
  note vo = vo_value [OF K]
  have ids: "uuid_vo L (ab_id b) = Inr (aa_id a)" "AppSlugValueObject L (ab_slug b) = Inr (aa_slug a)"
    "AppNameValueObject L (ab_name b) = Inr (aa_name a)"
    using run by (auto simp: AppBuilder_build_def AppBuilder_validate_def bindE_Inr_iff)
  from vo(11) [OF ids(1)] vo(6) [OF ids(2)] vo(5) [OF ids(3)] show ?thesis
    by (simp add: app_wf_def base_valid [OF K])
qed

lemma tenant_build_wf:
  assumes K: "kit_validates L" and run: "TenantBuilder_build L b x = (Inr a, x')"
  shows "tenant_wf L a"
proof -
  note vo = vo_value [OF K]
  have ids: "uuid_vo L (tb_id b) = Inr (ta_id a)" "uuid_vo L (tb_appId b) = Inr (ta_appId a)"
    "TenantNameValueObject L (tb_name b) = Inr (ta_name a)"
    "TenantSlugValueObject L (tb_slug b) = Inr (ta_slug a)"
    using run by (auto simp: TenantBuilder_build_def TenantBuilder_validate_def bindE_Inr_iff)
  from vo(11) [OF ids(1)] vo(11) [OF ids(2)] vo(7) [OF ids(3)] vo(8) [OF ids(4)] show ?thesis
    by (simp add: tenant_wf_def base_valid [OF K])
qed

lemma membership_build_wf:
  assumes K: "kit_validates L" and run: "TenantMembershipBuilder_build L b x = (Inr a, x')"
  shows "membership_wf L a"
proof -
  note vo = vo_value [OF K]
  have ids: "uuid_vo L (mb_id b) = Inr (ma_id a)" "uuid_vo L (mb_tenantId b) = Inr (ma_tenantId a)"
    "uuid_vo L (mb_userId b) = Inr (ma_userId a)" "TenantRoleValueObject L (mb_role b) = Inr (ma_role a)"
    using run
    by (auto simp: TenantMembershipBuilder_build_def TenantMembershipBuilder_validate_def bindE_Inr_iff)
  from vo(11) [OF ids(1)] vo(11) [OF ids(2)] vo(11) [OF ids(3)] vo(9) [OF ids(4)] show ?thesis
    by (simp add: membership_wf_def base_valid [OF K])
qed

lemma session_build_wf:
  assumes K: "kit_validates L" and run: "SessionBuilder_build L b x = (Inr a, x')"
  shows "session_wf L a"
proof -
  note vo = vo_value [OF K]
  have ids: "uuid_vo L (sb_id b) = Inr (sg_id a)" "uuid_vo L (sb_userId b) = Inr (sg_userId a)"
    "RefreshTokenHashValueObject L (sb_refreshTokenHash b) = Inr (sg_refreshTokenHash a)"
    "case sg_replacedBySessionId a of None \<Rightarrow> True | Some j \<Rightarrow> \<exists>s. uuid_vo L s = Inr j"
    using run by (cases "truthy (sb_replacedBySessionId b)";
        auto simp: SessionBuilder_build_def SessionBuilder_validate_def bindE_Inr_iff)+
  from ids(4) have "case sg_replacedBySessionId a of None \<Rightarrow> True | Some j \<Rightarrow> j \<noteq> [] \<and> uuid_vo L j = Inr j"
    by (auto split: option.splits dest: vo(11))
  with vo(11) [OF ids(1)] vo(11) [OF ids(2)] vo(10) [OF ids(3)] show ?thesis
    by (simp add: session_wf_def base_valid [OF K])
qed

section \<open>Valid rows\<close>

text \<open>A row is valid when its mapper reads it, and writes back what it read.\<close>

definition app_row_ok :: "'x lib \<Rightarrow> app_entity \<Rightarrow> bool" where
  "app_row_ok L e = (case app_from_row L e of Inl _ \<Rightarrow> False | Inr a \<Rightarrow> AppTypeOrmMapper_toEntity a = e)"

definition user_row_ok :: "'x lib \<Rightarrow> user_entity \<Rightarrow> bool" where
  "user_row_ok L e = (case user_from_row L e of Inl _ \<Rightarrow> False | Inr a \<Rightarrow> UserTypeOrmMapper_toEntity a = e)"

definition tenant_row_ok :: "'x lib \<Rightarrow> tenant_entity \<Rightarrow> bool" where
  "tenant_row_ok L e =
     (case tenant_from_row L e of Inl _ \<Rightarrow> False | Inr a \<Rightarrow> TenantTypeOrmMapper_toEntity a = e)"

definition membership_row_ok :: "'x lib \<Rightarrow> membership_entity \<Rightarrow> bool" where
  "membership_row_ok L e = (case membership_from_row L e of Inl _ \<Rightarrow> False
     | Inr a \<Rightarrow> TenantMembershipTypeOrmMapper_toEntity a = e)"

definition session_row_ok :: "'x lib \<Rightarrow> session_entity \<Rightarrow> bool" where
  "session_row_ok L e =
     (case session_from_row L e of Inl _ \<Rightarrow> False | Inr a \<Rightarrow> SessionTypeOrmMapper_toEntity a = e)"

definition rows_ok :: "'x lib \<Rightarrow> 'x world \<Rightarrow> bool" where
  "rows_ok L w \<longleftrightarrow> list_all (app_row_ok L) (app_tbl w) \<and> list_all (user_row_ok L) (user_tbl w) \<and>
     list_all (tenant_row_ok L) (tenant_tbl w) \<and> list_all (membership_row_ok L) (membership_tbl w) \<and>
     list_all (session_row_ok L) (session_tbl w) \<and>
     (case tx_pending w of None \<Rightarrow> True | Some ps \<Rightarrow> list_all (session_row_ok L) ps)"

lemma wf_rows_ok:
  "app_wf L a \<Longrightarrow> app_row_ok L (AppTypeOrmMapper_toEntity a)"
  "user_wf L u \<Longrightarrow> user_row_ok L (UserTypeOrmMapper_toEntity u)"
  "tenant_wf L t \<Longrightarrow> tenant_row_ok L (TenantTypeOrmMapper_toEntity t)"
  "membership_wf L m \<Longrightarrow> membership_row_ok L (TenantMembershipTypeOrmMapper_toEntity m)"
  "session_wf L s \<Longrightarrow> session_row_ok L (SessionTypeOrmMapper_toEntity s)"
  by (simp_all add: app_row_ok_def user_row_ok_def tenant_row_ok_def membership_row_ok_def
      session_row_ok_def app_wf_row user_wf_row tenant_wf_row membership_wf_row session_wf_row)

lemma from_row_wf:
  assumes "kit_validates L"
  shows "user_from_row L ue = Inr u \<Longrightarrow> user_wf L u"
    "tenant_from_row L te = Inr t \<Longrightarrow> tenant_wf L t"
    "session_from_row L se = Inr s \<Longrightarrow> session_wf L s"
proof -
  show "user_wf L u" if "user_from_row L ue = Inr u"
    by (rule user_build_wf [OF assms, where b = "user_builder_of_entity UserBuilder_new ue" and x = undefined
          and x' = undefined])
      (use that in \<open>simp add: user_toAggregate_run [unfolded UserTypeOrmMapper_toAggregate_def]\<close>)
  show "tenant_wf L t" if "tenant_from_row L te = Inr t"
    by (rule tenant_build_wf [OF assms, where b = "tenant_builder_of_entity TenantBuilder_new te" and x = undefined
          and x' = undefined])
      (use that in \<open>simp add: tenant_toAggregate_run [unfolded TenantTypeOrmMapper_toAggregate_def]\<close>)
  show "session_wf L s" if "session_from_row L se = Inr s"
    by (rule session_build_wf [OF assms, where b = "session_builder_of_entity SessionBuilder_new se" and x = undefined
          and x' = undefined])
      (use that in \<open>simp add: session_toAggregate_run [unfolded SessionTypeOrmMapper_toAggregate_def]\<close>)
qed

lemma rows_ok_frame [simp]:
  "rows_ok L (w\<lparr>ext := x\<rparr>) = rows_ok L w" "rows_ok L (w\<lparr>published := es\<rparr>) = rows_ok L w"
  by (simp_all add: rows_ok_def)

lemma list_all_upsert: "list_all P rs \<Longrightarrow> P r \<Longrightarrow> list_all P (upsert key r rs)"
  by (auto simp: list_all_iff set_upsert)

lemma list_all_filter: "list_all P rs \<Longrightarrow> list_all P (filter Q rs)"
  by (auto simp: list_all_iff)

lemma saves_keep_rows:
  "app_wf L a \<Longrightarrow> preserves (rows_ok L) (awr_save (app_write_repo L) a)"
  "user_wf L u \<Longrightarrow> preserves (rows_ok L) (uwr_save (user_write_repo L) u)"
  "tenant_wf L t \<Longrightarrow> preserves (rows_ok L) (twr_save (tenant_write_repo L) t)"
  "membership_wf L m \<Longrightarrow> preserves (rows_ok L) (mwr_save (membership_write_repo L) m)"
  by (auto simp: preserves_def rows_ok_def app_write_repo_run user_write_repo_run
      tenant_write_repo_run membership_write_repo_run split: option.splits
      intro: list_all_upsert wf_rows_ok)

lemma deletes_keep_rows:
  "preserves (rows_ok L) (mwr_deleteAllByTenantId (membership_write_repo L) i)"
  "preserves (rows_ok L) (twr_delete (tenant_write_repo L) i)"
  by (auto simp: preserves_def rows_ok_def tenant_write_repo_run membership_write_repo_run
      delete_tenants_def delete_memberships_def Let_def split: option.splits intro: list_all_filter)

lemma reads_keep:
  "preserves I (awr_findBySlug (app_write_repo L) s)" "preserves I (twr_findById (tenant_write_repo L) i)"
  "preserves I (twr_findByAppIdAndSlug (tenant_write_repo L) i s)"
  "preserves I (mwr_findByTenantIdAndUserId (membership_write_repo L) i u)"
  by (auto simp: preserves_def app_write_repo_run tenant_write_repo_run membership_write_repo_run)

section \<open>Results that keep a promise\<close>

text \<open>\<open>yields I P m\<close>: \<open>m\<close> carries \<open>I\<close> along, and a value it returns satisfies \<open>P\<close>.\<close>

definition yields :: "('s \<Rightarrow> bool) \<Rightarrow> ('a \<Rightarrow> bool) \<Rightarrow> ('s, 'e, 'a) comp \<Rightarrow> bool" where
  "yields I P m \<longleftrightarrow> (\<forall>s r s'. I s \<longrightarrow> m s = (r, s') \<longrightarrow> I s' \<and> (\<forall>a. r = Inr a \<longrightarrow> P a))"

lemma yieldsI: "(\<And>s r s'. I s \<Longrightarrow> m s = (r, s') \<Longrightarrow> I s' \<and> (\<forall>a. r = Inr a \<longrightarrow> P a)) \<Longrightarrow> yields I P m"
  by (auto simp: yields_def)

lemma yieldsD: "yields I P m \<Longrightarrow> I s \<Longrightarrow> m s = (r, s') \<Longrightarrow> I s' \<and> (\<forall>a. r = Inr a \<longrightarrow> P a)"
  by (auto simp: yields_def)

lemma yields_bindE:
  assumes "yields I P m" and "\<And>a. P a \<Longrightarrow> yields I Q (k a)"
  shows "yields I Q (bindE m k)"
proof (rule yieldsI)
  fix s r s' assume I: "I s" and run: "bindE m k s = (r, s')"
  from run show "I s' \<and> (\<forall>a. r = Inr a \<longrightarrow> Q a)"
    by (rule bindE_run_cases) (use I assms in \<open>blast dest: yieldsD\<close>)+
qed

lemma preserves_yields: "preserves I m \<longleftrightarrow> yields I (\<lambda>_. True) m"
  by (simp add: preserves_def yields_def)

lemma preserves_bindE_yields:
  assumes "yields I P m" and "\<And>a. P a \<Longrightarrow> preserves I (k a)"
  shows "preserves I (bindE m k)"
  using assms yields_bindE unfolding preserves_yields by blast

lemma yields_ret: "P a \<Longrightarrow> yields I P (ret a)"
  by (simp add: yields_def)

lemma yields_throw: "yields I P (throw e)"
  by (simp add: yields_def)

lemma yields_if: "yields I P m \<Longrightarrow> yields I P n \<Longrightarrow> yields I P (if b then m else n)"
  by simp

lemma yields_outside:
  assumes "\<And>w x. I w \<Longrightarrow> I (w\<lparr>ext := x\<rparr>)" and "\<And>x a x'. m x = (Inr a, x') \<Longrightarrow> P a"
  shows "yields I P (outside m)"
  using assms by (fastforce simp: yields_def outside_run prod_eq_iff)

lemma yields_liftE: "(\<And>a. r = Inr a \<Longrightarrow> P a) \<Longrightarrow> yields I P (liftE r)"
  by (auto simp: yields_def)

section \<open>The commands\<close>

lemma revoked_row_ok:
  assumes K: "kit_validates L" and ok: "session_row_ok L e"
  shows "session_row_ok L (e\<lparr>se_revokedAt := z\<rparr>)"
proof -
  from ok obtain a where a: "session_from_row L e = Inr a" "SessionTypeOrmMapper_toEntity a = e"
    by (auto simp: session_row_ok_def split: sum.splits)
  with from_row_wf(3) [OF K a(1)] have "session_wf L (a\<lparr>sg_revokedAt := z\<rparr>)"
    by (simp add: session_wf_def)
  moreover have "SessionTypeOrmMapper_toEntity (a\<lparr>sg_revokedAt := z\<rparr>) = e\<lparr>se_revokedAt := z\<rparr>"
    using a(2) by (auto simp: SessionTypeOrmMapper_toEntity_def SessionAggregate_toPrimitives_def Let_def)
  ultimately show ?thesis by (metis wf_rows_ok(5))
qed

lemma session_store_keeps_rows:
  "session_wf L s \<Longrightarrow> preserves (rows_ok L) (swr_save (session_write_repo L) s)"
  "kit_validates L \<Longrightarrow> preserves (rows_ok L) (swr_revokeAllByUserId (session_write_repo L) u)"
  "session_wf L s \<Longrightarrow> preserves (rows_ok L) (sm_save (session_sql L) (SessionTypeOrmMapper_toEntity s))"
proof -
  show "preserves (rows_ok L) (swr_save (session_write_repo L) s)" if "session_wf L s"
    using that by (auto simp: preserves_def rows_ok_def SessionTypeOrmWriteRepository_def session_repo_def
        bindE_def sql_repository_sel outside_run split: option.splits sum.splits prod.splits
        intro: list_all_upsert wf_rows_ok)
  show "preserves (rows_ok L) (swr_revokeAllByUserId (session_write_repo L) u)" if "kit_validates L"
  proof -
    have "list_all (session_row_ok L) rs \<Longrightarrow> list_all (session_row_ok L) (set_revoked_at t p rs)" for t p rs
      using revoked_row_ok [OF that] by (induction rs) (auto simp: set_revoked_at_def)
    then show ?thesis
      by (auto simp: preserves_def rows_ok_def SessionTypeOrmWriteRepository_def session_sql_def
          SessionTypeOrmWriteRepository_revokeAllByUserId_def split: prod.splits)
  qed
  show "preserves (rows_ok L) (sm_save (session_sql L) (SessionTypeOrmMapper_toEntity s))" if "session_wf L s"
    using that by (auto simp: preserves_def rows_ok_def session_sql_def tx_save_def wf_rows_ok
        split: option.splits)
qed

lemma visible_rows_ok: "rows_ok L w \<Longrightarrow> list_all (session_row_ok L) (visible_sessions w)"
proof -
  have "list_all (session_row_ok L) t \<Longrightarrow> list_all (session_row_ok L) ps \<Longrightarrow>
      list_all (session_row_ok L) (fold (upsert se_id) ps t)" for ps t
    by (induction ps arbitrary: t) (auto intro: list_all_upsert)
  then show "rows_ok L w \<Longrightarrow> ?thesis"
    by (auto simp: rows_ok_def visible_sessions_def split: option.splits)
qed

lemma transaction_keeps_rows:
  assumes "preserves (rows_ok L) body"
  shows "preserves (rows_ok L) (transaction body)"
proof (rule preservesI)
  fix w r w' assume ok: "rows_ok L w" and run: "transaction body w = (r, w')"
  obtain r1 w1 where b: "body (w\<lparr>tx_pending := Some []\<rparr>) = (r1, w1)" by fastforce
  from ok have "rows_ok L (w\<lparr>tx_pending := Some []\<rparr>)" by (simp add: rows_ok_def)
  with assms b have w1: "rows_ok L w1" by (blast dest: preservesD)
  with run b visible_rows_ok [OF w1] show "rows_ok L w'"
    by (cases r1) (auto simp: transaction_def rows_ok_def)
qed

lemma rotate_keeps_rows:
  assumes K: "kit_validates L"
    and cb: "\<And>current lk. session_wf L current \<Longrightarrow>
      yields (rows_ok L) (\<lambda>r. session_wf L (rr_created r) \<and> session_wf L (rr_revoked r)) (cb current lk)"
  shows "preserves (rows_ok L) (swr_rotate (session_write_repo L) h cb)"
proof -
  have find: "preserves (rows_ok L) (\<lambda>w. (Inr (find p (visible_sessions w)), w))" for p
    by (simp add: preserves_def)
  have row: "yields (rows_ok L) (session_wf L) (outside (SessionTypeOrmMapper_toAggregate L e))" for e
    by (rule yields_outside) (use from_row_wf(3) [OF K] in \<open>auto simp: session_toAggregate_run\<close>)
  show ?thesis
    unfolding SessionTypeOrmWriteRepository_def ISessionWriteRepository.simps
      SessionTypeOrmWriteRepository_rotate_def lockByRefreshTokenHash_def session_sql_sel Let_def
    apply (rule transaction_keeps_rows)
    apply (rule preserves_bindE [OF find])
    apply (rule preserves_case_option)
    apply (rule preserving)
    apply (rule preserves_bindE_yields [OF row])
    apply (rule preserves_bindE_yields [OF cb], assumption)
    apply (intro preserving session_store_keeps_rows(3) [unfolded session_sql_sel]; simp)
    done
qed

lemma fresh_session_wf:
  "kit_validates L \<Longrightarrow> new_session L u h expires x = (Inr a, x') \<Longrightarrow> session_wf L a"
  unfolding new_session_def by (elim bindE_InrE) (rule session_build_wf)

lemma revoke_wf:
  assumes K: "kit_validates L" and c: "session_wf L c" and a: "session_wf L a"
    and run: "SessionAggregate_revoke L (sg_id c) a x = (Inr b, x')"
  shows "session_wf L b"
proof -
  from run obtain t u where b: "b = a\<lparr>sg_revokedAt := Some t, sg_replacedBySessionId := Some (sg_id c),
      sg_updatedAt := u\<rparr>"
    by (auto simp: SessionAggregate_revoke_def bindE_Inr_iff)
  have "sg_id c \<noteq> []" "sg_id a \<noteq> []" using c a vo_value(11) [OF K] by (auto simp: session_wf_def)
  with a c show ?thesis by (simp add: b session_wf_def base_valid [OF K])
qed

lemma callback_keeps_rows:
  assumes K: "kit_validates L" and c: "session_wf L current"
  shows "yields (rows_ok L) (\<lambda>r. session_wf L (rr_created r) \<and> session_wf L (rr_revoked r))
    (refresh_callback L (session_write_repo L) h expires current lk)"
proof -
  have skip: "yields (rows_ok L) Q (bindE m k)" if "preserves (rows_ok L) m" and "\<And>a. yields (rows_ok L) Q (k a)"
    for m :: "('a world, error, 'z) comp" and Q and k :: "_ \<Rightarrow> ('a world, error, IRotateResult) comp"
    using that by (auto simp: preserves_yields intro: yields_bindE)
  have created: "yields (rows_ok L) (session_wf L) (outside (new_session L u h e))" for u h e
    by (rule yields_outside) (auto dest: fresh_session_wf [OF K])
  have revoked: "yields (rows_ok L) (session_wf L) (outside (SessionAggregate_revoke L (sg_id a) current))"
    if "session_wf L a" for a
    by (rule yields_outside) (auto dest: revoke_wf [OF K that c])
  show ?thesis
  proof (cases "SessionAggregate_isRevoked current")
    case True
    show ?thesis unfolding refresh_callback_def if_P [OF True]
      apply (rule skip, rule preserves_outside, simp)
      apply (rule skip, rule session_store_keeps_rows(2) [OF K])
      apply (rule yields_throw)
      done
  next
    case False
    show ?thesis unfolding refresh_callback_def if_not_P [OF False]
      apply (rule skip, rule preserves_outside, simp)
      apply (rule yields_if)
       apply (rule yields_throw)
      apply (rule yields_bindE [OF created], rule yields_bindE [OF revoked], assumption)
      apply (simp add: yields_ret)
      done
  qed
qed

lemma refresh_keeps_rows:
  "kit_validates L \<Longrightarrow> preserves (rows_ok L) (RefreshSessionCommandHandler_execute L cfg
     (session_write_repo L) (user_lookup L) (membership_lookup L K) c)"
  unfolding RefreshSessionCommandHandler_execute_def refresh_access_token_def Let_def
  by (intro preserving rotate_keeps_rows callback_keeps_rows lookups_keep) simp_all

lemma create_user_rows:
  assumes K: "kit_validates L"
  shows "preserves (rows_ok L) (CreateUserCommandHandler_execute L (user_write_repo L) c)"
proof -
  have built: "yields (rows_ok L) (user_wf L) (outside (UserBuilder_build L b))" for b
    by (rule yields_outside) (auto dest: user_build_wf [OF K])
  show ?thesis
    unfolding CreateUserCommandHandler_execute_def AssertUserEmailAvailableService_execute_def Let_def
    by (intro preserves_bindE_yields [OF built] preserving user_read_keeps saves_keep_rows)
      (simp_all add: UserAggregate_create_def user_apply_def)
qed

lemma set_admin_rows:
  assumes K: "kit_validates L"
  shows "preserves (rows_ok L) (SetUserPlatformAdminCommandHandler_execute L (user_write_repo L) c)"
proof -
  have found: "yields (rows_ok L) (user_wf L) (AssertUserExistsService_execute (user_write_repo L) i)" for i
    using from_row_wf(1) [OF K]
    by (auto simp: yields_def AssertUserExistsService_execute_def bindE_def user_write_repo_run
        opt_sum_Inr_Some split: sum.splits option.splits)
  have updated: "yields (rows_ok L) (user_wf L) (outside (UserAggregate_update L
      \<lparr>uc_email = None, uc_displayName = None, uc_platformAdmin = Some b\<rparr> a))" if "user_wf L a" for a b
    by (rule yields_outside) (use that in \<open>auto simp: UserAggregate_update_def
        UserAggregate_changePlatformAdmin_def Let_def bindE_Inr_iff user_apply_def user_wf_def
        base_valid [OF K] vo_value [OF K] split: if_splits\<close>)
  show ?thesis
    unfolding SetUserPlatformAdminCommandHandler_execute_def
    apply (rule preserves_bindE_yields [OF found])
    apply (intro preserves_bindE_yields [OF updated] preserving saves_keep_rows; simp?)
    done
qed

lemma create_app_rows:
  assumes K: "kit_validates L"
  shows "preserves (rows_ok L) (CreateAppCommandHandler_execute L (app_write_repo L) c)"
proof -
  have built: "yields (rows_ok L) (app_wf L) (outside (AppBuilder_build L b))" for b
    by (rule yields_outside) (auto dest: app_build_wf [OF K])
  show ?thesis
    unfolding CreateAppCommandHandler_execute_def AssertAppSlugAvailableService_execute_def Let_def
    by (intro preserves_bindE_yields [OF built] preserving reads_keep saves_keep_rows)
      (simp_all add: AppAggregate_create_def app_apply_def)
qed

lemma membership_built:
  "kit_validates L \<Longrightarrow> yields (rows_ok L) (membership_wf L) (outside (TenantMembershipBuilder_build L b))"
  by (rule yields_outside) (auto dest: membership_build_wf)

lemma create_tenant_rows:
  assumes K: "kit_validates L"
  shows "preserves (rows_ok L) (CreateTenantCommandHandler_execute L (tenant_write_repo L)
     (membership_write_repo L) (app_lookup_adapter L C) c)"
proof -
  have built: "yields (rows_ok L) (tenant_wf L) (outside (TenantBuilder_build L b))" for b
    by (rule yields_outside) (auto dest: tenant_build_wf [OF K])
  show ?thesis
    unfolding CreateTenantCommandHandler_execute_def tenancy_service_defs Let_def
    by (intro preserves_bindE_yields [OF built] preserves_bindE_yields [OF membership_built [OF K]]
        preserving reads_keep saves_keep_rows app_lookup_keeps)
      (simp_all add: TenantAggregate_create_def tenant_apply_def TenantMembershipAggregate_create_def
        membership_apply_def)
qed

lemma add_member_rows:
  assumes K: "kit_validates L"
  shows "preserves (rows_ok L) (AddTenantMemberCommandHandler_execute L (tenant_write_repo L)
     (membership_write_repo L) (tenancy_user_lookup L) c)"
  unfolding AddTenantMemberCommandHandler_execute_def tenancy_service_defs Let_def
  by (intro preserves_bindE_yields [OF membership_built [OF K]] preserving reads_keep saves_keep_rows
      user_lookup_keeps)
    (simp_all add: TenantMembershipAggregate_create_def membership_apply_def)

lemma delete_tenant_rows:
  "preserves (rows_ok L) (DeleteTenantCommandHandler_execute (tenant_write_repo L)
     (membership_write_repo L) c)"
  unfolding DeleteTenantCommandHandler_execute_def tenancy_service_defs Let_def
  by (intro preserving reads_keep deletes_keep_rows) simp_all

text \<open>What the constructor of \<open>UpdateTenantCommand\<close> guarantees of the new name and slug.\<close>

definition update_valid :: "'x lib \<Rightarrow> update_tenant_command \<Rightarrow> bool" where
  "update_valid L c \<longleftrightarrow>
     (case ut_name c of None \<Rightarrow> True | Some n \<Rightarrow> TenantNameValueObject L n = Inr n \<and> n \<noteq> []) \<and>
     (case ut_slug c of None \<Rightarrow> True | Some s \<Rightarrow> TenantSlugValueObject L s = Inr s \<and> s \<noteq> [])"

lemma update_command_valid:
  assumes "kit_validates L" and "new_UpdateTenantCommand L t r n s w = (Inr c, w')"
  shows "update_valid L c"
  using assms(2) vo_value(7,8) [OF assms(1)]
  by (cases n; cases s) (auto simp: new_UpdateTenantCommand_def update_valid_def bindE_Inr_iff)

lemma update_tenant_rows:
  assumes K: "kit_validates L" and c: "update_valid L c"
  shows "preserves (rows_ok L) (UpdateTenantCommandHandler_execute L (tenant_write_repo L) c)"
proof -
  have found: "yields (rows_ok L) (tenant_wf L) (AssertTenantExistsService_execute (tenant_write_repo L) i)" for i
    using from_row_wf(2) [OF K]
    by (auto simp: yields_def AssertTenantExistsService_execute_def bindE_def tenant_write_repo_run
        opt_sum_Inr_Some split: sum.splits option.splits)
  have "tenant_wf L b" if "tenant_wf L a" "TenantAggregate_update L (ut_name c) (ut_slug c) a x = (Inr b, x')"
    for a b x x'
    using that c by (cases "ut_name c"; cases "ut_slug c"; auto simp: TenantAggregate_update_def
        TenantAggregate_changeName_def TenantAggregate_changeSlug_def update_valid_def
        Let_def bindE_Inr_iff tenant_apply_def tenant_wf_def base_valid [OF K] dest: vo_value(11) [OF K] split: if_splits)
  then have updated: "yields (rows_ok L) (tenant_wf L)
      (outside (TenantAggregate_update L (ut_name c) (ut_slug c) a))" if "tenant_wf L a" for a
    using that by (intro yields_outside) auto
  show ?thesis
    unfolding UpdateTenantCommandHandler_execute_def AssertTenantSlugAvailableService_execute_def
    apply (rule preserves_bindE_yields [OF found])
    apply (intro preserves_bindE_yields [OF updated] preserving saves_keep_rows reads_keep; simp)
    done
qed

lemma login_keeps_rows:
  assumes K: "kit_validates L"
  shows "preserves (rows_ok L) (LoginUserCommandHandler_execute L cfg (user_lookup L)
     (KeycloakIdentityProviderAdapter L kc) (membership_lookup L C) (session_write_repo L)
     (platform_admin L) c)"
proof -
  have admin: "preserves (rows_ok L) (pap_setPlatformAdmin (platform_admin L) i b)" for i b
    unfolding UserPlatformAdminAdapter_def IUserPlatformAdminPort.simps new_SetUserPlatformAdminCommand_def
    by (intro preserving set_admin_rows K)
  have keycloak: "preserves (rows_ok L) (idp_verifyCredentials (KeycloakIdentityProviderAdapter L kc) m p)"
    for m p
    unfolding KeycloakIdentityProviderAdapter_def IIdentityProviderPort.simps by (intro preserving) simp_all
  have created: "yields (rows_ok L) (session_wf L) (outside (new_session L u h e))" for u h e
    by (rule yields_outside) (auto dest: fresh_session_wf [OF K])
  show ?thesis
    unfolding LoginUserCommandHandler_execute_def Let_def
    by (intro preserves_bindE_yields [OF created] preserving lookups_keep keycloak admin
        session_store_keeps_rows) simp_all
qed

lemma register_keeps_rows:
  assumes K: "kit_validates L"
  shows "preserves (rows_ok L) (RegisterUserCommandHandler_execute (user_lookup L)
     (KeycloakIdentityProviderAdapter L kc) (user_provisioning L) c)"
  unfolding RegisterUserCommandHandler_execute_def KeycloakIdentityProviderAdapter_def
    IIdentityProviderPort.simps UserProvisioningAdapter_def IUserProvisioningPort.simps
    new_CreateUserCommand_def
  by (intro preserving lookups_keep create_user_rows K) simp_all

lemma update_tenant_command_rows:
  assumes K: "kit_validates L"
  shows "preserves (rows_ok L) (bindE (new_UpdateTenantCommand L t r n s)
     (UpdateTenantCommandHandler_execute L (tenant_write_repo L)))"
proof (rule preserves_bindE_yields)
  have "preserves (rows_ok L) (new_UpdateTenantCommand L t r n s)"
    unfolding new_UpdateTenantCommand_def by (intro preserving)
  then show "yields (rows_ok L) (update_valid L) (new_UpdateTenantCommand L t r n s)"
    by (auto simp: yields_def dest: preservesD update_command_valid [OF K])
qed (rule update_tenant_rows [OF K])

section \<open>Reading\<close>

text \<open>A lookup that returns, and changes nothing.\<close>

definition returns :: "('s, 'e, 'a) comp \<Rightarrow> 's \<Rightarrow> bool" where
  "returns m w \<longleftrightarrow> (\<exists>z. m w = (Inr z, w))"

lemma user_view_readable: "user_wf L a \<Longrightarrow> \<exists>v. user_view_from_row L (UserTypeOrmMapper_toEntity a) = Inr v"
  by (auto simp: user_wf_def user_view_from_row_def user_view_defs UserTypeOrmMapper_toEntity_def
      UserAggregate_toPrimitives_def bindE_def Let_def)

lemma membership_view_readable:
  "membership_row_ok L e \<Longrightarrow> \<exists>v. membership_view_from_row L e = Inr v"
  by (auto simp: membership_row_ok_def membership_from_row_def membership_view_from_row_def
      membership_view_defs membership_build_defs bindE_def split: sum.splits if_splits)

lemma app_view_readable: "app_row_ok L e \<Longrightarrow> \<exists>v. app_view_from_row L e = Inr v"
  by (auto simp: app_row_ok_def app_from_row_def app_view_from_row_def app_view_defs app_build_defs
      bindE_def split: sum.splits if_splits)

lemma tenant_view_readable: "tenant_row_ok L e \<Longrightarrow> \<exists>v. tenant_view_from_row L e = Inr v"
  by (auto simp: tenant_row_ok_def tenant_from_row_def tenant_view_from_row_def tenant_view_defs
      tenant_build_defs bindE_def split: sum.splits if_splits)

text \<open>Documented of the kit's query builder: what a criteria selects are rows of the table.\<close>

definition kit_selects :: "'row criteria_kit \<Rightarrow> bool" where
  "kit_selects K \<longleftrightarrow> (\<forall>c alias ds rows. set (applyCriteria K c alias ds rows) \<subseteq> set rows)"

lemma read_one:
  assumes "list_all ok rs" and "\<And>e. ok e \<Longrightarrow> \<exists>a. f e = Inr a" and "\<And>w. m w = (opt_sum f (find p (rs' w)), w)"
    and "rs' w = rs"
  shows "returns m w"
proof (cases "find p rs")
  case (Some e)
  then have "e \<in> set rs" by (simp add: find_Some_iff_ex)
  with assms(1,2) obtain a where "f e = Inr a" by (auto simp: list_all_iff)
  with Some assms(3,4) show ?thesis by (simp add: returns_def)
qed (use assms(3,4) in \<open>simp add: returns_def\<close>)

lemma read_many: "list_all ok rs \<Longrightarrow> (\<And>e. ok e \<Longrightarrow> \<exists>a. f e = Inr a) \<Longrightarrow> \<exists>vs. map_sums f rs = Inr vs"
  by (induction rs) fastforce+

lemma read_page:
  assumes "kit_selects K" and "list_all ok (get w)" and "\<And>e. ok e \<Longrightarrow> \<exists>a. f e = Inr a"
    and "\<And>e. view e = liftE (f e)"
  shows "returns (find_by_criteria K (sql_repository get put key check del) view alias ds c) w"
proof -
  obtain page limit skip where page: "calculatePagination K c = (page, limit, skip)" by (rule prod_cases3)
  have "list_all ok (take limit (drop skip (applyCriteria K c alias ds (get w))))"
    using assms(1,2) unfolding kit_selects_def list_all_iff by (metis in_set_dropD in_set_takeD subsetD)
  then obtain vs where "map_sums f (take limit (drop skip (applyCriteria K c alias ds (get w)))) = Inr vs"
    using read_many [of ok _ f, OF _ assms(3)] by blast
  then show ?thesis
    by (simp add: returns_def find_by_criteria_def page assms(4) Let_def bindE_find mapE_liftE)
qed

lemma rows_read:
  "app_row_ok L a \<Longrightarrow> \<exists>z. app_from_row L a = Inr z" "user_row_ok L b \<Longrightarrow> \<exists>z. user_from_row L b = Inr z"
  "tenant_row_ok L c \<Longrightarrow> \<exists>z. tenant_from_row L c = Inr z"
  "membership_row_ok L d \<Longrightarrow> \<exists>z. membership_from_row L d = Inr z"
  "session_row_ok L e \<Longrightarrow> \<exists>z. session_from_row L e = Inr z"
  by (auto simp: app_row_ok_def user_row_ok_def tenant_row_ok_def membership_row_ok_def session_row_ok_def
      split: sum.splits)

lemma user_row_view:
  assumes "kit_validates L" and "user_row_ok L e"
  shows "\<exists>v. user_view_from_row L e = Inr v"
proof -
  from assms(2) obtain a where "user_from_row L e = Inr a" "UserTypeOrmMapper_toEntity a = e"
    by (auto simp: user_row_ok_def split: sum.splits)
  then show ?thesis using user_view_readable from_row_wf(1) [OF assms(1)] by metis
qed

lemma tenant_membership_one_run:
  "trr_findById (tenant_read_repo L K) i w =
     (opt_sum (tenant_view_from_row L) (find (\<lambda>e. te_id e = i) (tenant_tbl w)), w)"
  "mwr_findById (membership_write_repo L) i w =
     (opt_sum (membership_from_row L) (find (\<lambda>e. me_id e = i) (membership_tbl w)), w)"
  "mrr_findById (membership_read_repo L K') i w =
     (opt_sum (membership_view_from_row L) (find (\<lambda>e. me_id e = i) (membership_tbl w)), w)"
  by (simp_all add: TenantTypeOrmReadRepository_def TenantMembershipTypeOrmWriteRepository_def
      TenantMembershipTypeOrmReadRepository_def tenant_repo_def membership_repo_def bindE_find
      tenant_toViewModel_run membership_toAggregate_run membership_toViewModel_run optE_liftE)

lemma session_repo_one_run:
  "swr_findById (session_write_repo L) i w =
     (opt_sum (session_from_row L) (find (\<lambda>e. se_id e = i) (session_tbl w)), w)"
  "swr_findByUserId (session_write_repo L) u w =
     (opt_sum (session_from_row L) (find (\<lambda>e. se_userId e = u) (session_tbl w)), w)"
  "swr_findByRefreshTokenHash (session_write_repo L) h w =
     (opt_sum (session_from_row L) (find (\<lambda>e. se_refreshTokenHash e = h) (session_tbl w)), w)"
  by (simp_all add: SessionTypeOrmWriteRepository_def session_repo_def bindE_find session_toAggregate_run optE_liftE)

text \<open>Every lookup of the repositories, those of the read side included.\<close>

lemma write_side_readable:
  assumes "rows_ok L w"
  shows "returns (uwr_findById (user_write_repo L) i) w" "returns (uwr_findByEmail (user_write_repo L) m) w"
    "returns (uwr_findByExternalId (user_write_repo L) k) w"
    "returns (awr_findById (app_write_repo L) i) w" "returns (awr_findBySlug (app_write_repo L) s) w"
    "returns (twr_findById (tenant_write_repo L) i) w"
    "returns (twr_findByAppIdAndSlug (tenant_write_repo L) i s) w"
    "returns (mwr_findById (membership_write_repo L) i) w"
    "returns (mwr_findByTenantIdAndUserId (membership_write_repo L) i u) w"
    "returns (swr_findById (session_write_repo L) i) w" "returns (swr_findByUserId (session_write_repo L) u) w"
    "returns (swr_findByRefreshTokenHash (session_write_repo L) h) w"
proof -
  from assms have rows: "list_all (app_row_ok L) (app_tbl w)" "list_all (user_row_ok L) (user_tbl w)"
    "list_all (tenant_row_ok L) (tenant_tbl w)" "list_all (membership_row_ok L) (membership_tbl w)"
    "list_all (session_row_ok L) (session_tbl w)" by (simp_all add: rows_ok_def)
  show "returns (uwr_findById (user_write_repo L) i) w" "returns (uwr_findByEmail (user_write_repo L) m) w"
    "returns (uwr_findByExternalId (user_write_repo L) k) w"
    by (rule read_one [OF rows(2) rows_read(2) user_write_repo_run(1) refl]
        read_one [OF rows(2) rows_read(2) user_write_repo_run(2) refl]
        read_one [OF rows(2) rows_read(2) user_write_repo_run(3) refl]; assumption)+
  show "returns (awr_findById (app_write_repo L) i) w" "returns (awr_findBySlug (app_write_repo L) s) w"
    by (rule read_one [OF rows(1) rows_read(1) app_write_repo_run(1) refl]
        read_one [OF rows(1) rows_read(1) app_write_repo_run(2) refl]; assumption)+
  show "returns (twr_findById (tenant_write_repo L) i) w"
    "returns (twr_findByAppIdAndSlug (tenant_write_repo L) i s) w"
    by (rule read_one [OF rows(3) rows_read(3) tenant_write_repo_run(1) refl]
        read_one [OF rows(3) rows_read(3) tenant_write_repo_run(2) refl]; assumption)+
  show "returns (mwr_findById (membership_write_repo L) i) w"
    "returns (mwr_findByTenantIdAndUserId (membership_write_repo L) i u) w"
    by (rule read_one [OF rows(4) rows_read(4) tenant_membership_one_run(2) refl]
        read_one [OF rows(4) rows_read(4) membership_write_repo_run(1) refl]; assumption)+
  show "returns (swr_findById (session_write_repo L) i) w" "returns (swr_findByUserId (session_write_repo L) u) w"
    "returns (swr_findByRefreshTokenHash (session_write_repo L) h) w"
    by (rule read_one [OF rows(5) rows_read(5) session_repo_one_run(1) refl]
        read_one [OF rows(5) rows_read(5) session_repo_one_run(2) refl]
        read_one [OF rows(5) rows_read(5) session_repo_one_run(3) refl]; assumption)+
qed

lemma read_side_readable:
  assumes "rows_ok L w"
  shows "kit_validates L \<Longrightarrow> returns (urr_findById (user_read_repo L) i) w"
    "kit_validates L \<Longrightarrow> returns (urr_findByEmail (user_read_repo L) m) w"
    "returns (arr_findById (app_read_repo L A) i) w" "returns (trr_findById (tenant_read_repo L T) i) w"
    "returns (mrr_findById (membership_read_repo L M) i) w"
    "returns (mrr_findAllByTenantId (membership_read_repo L M) i) w"
    "returns (mrr_findAllByUserId (membership_read_repo L M) u) w"
    "kit_selects A \<Longrightarrow> returns (arr_findByCriteria (app_read_repo L A) c) w"
    "kit_selects T \<Longrightarrow> returns (trr_findByCriteria (tenant_read_repo L T) c) w"
    "kit_selects M \<Longrightarrow> returns (mrr_findByCriteria (membership_read_repo L M) c) w"
proof -
  from assms have rows: "list_all (app_row_ok L) (app_tbl w)" "list_all (user_row_ok L) (user_tbl w)"
    "list_all (tenant_row_ok L) (tenant_tbl w)" "list_all (membership_row_ok L) (membership_tbl w)"
    by (simp_all add: rows_ok_def)
  show "returns (urr_findById (user_read_repo L) i) w" if "kit_validates L"
    by (rule read_one [OF rows(2) user_row_view [OF that] user_read_repo_run(1) refl])
  show "returns (urr_findByEmail (user_read_repo L) m) w" if "kit_validates L"
    by (rule read_one [OF rows(2) user_row_view [OF that] user_read_repo_run(2) refl])
  show "returns (arr_findById (app_read_repo L A) i) w"
    by (rule read_one [OF rows(1) app_view_readable app_read_repo_run refl])
  show "returns (trr_findById (tenant_read_repo L T) i) w"
    by (rule read_one [OF rows(3) tenant_view_readable tenant_membership_one_run(1) refl])
  show "returns (mrr_findById (membership_read_repo L M) i) w"
    by (rule read_one [OF rows(4) membership_view_readable tenant_membership_one_run(3) refl])
  show "returns (mrr_findAllByTenantId (membership_read_repo L M) i) w"
    "returns (mrr_findAllByUserId (membership_read_repo L M) u) w"
    using read_many [OF list_all_filter [OF rows(4)] membership_view_readable]
    by (simp_all add: returns_def membership_read_repo_run)
  show "returns (arr_findByCriteria (app_read_repo L A) c) w" if "kit_selects A"
    unfolding AppTypeOrmReadRepository_def IAppReadRepository.simps app_repo_def
    by (rule read_page [where get = app_tbl, OF that rows(1) app_view_readable app_toViewModel_run])
  show "returns (trr_findByCriteria (tenant_read_repo L T) c) w" if "kit_selects T"
    unfolding TenantTypeOrmReadRepository_def ITenantReadRepository.simps tenant_repo_def
    by (rule read_page [where get = tenant_tbl, OF that rows(3) tenant_view_readable tenant_toViewModel_run])
  show "returns (mrr_findByCriteria (membership_read_repo L M) c) w" if "kit_selects M"
    unfolding TenantMembershipTypeOrmReadRepository_def ITenantMembershipReadRepository.simps membership_repo_def
    by (rule read_page [where get = membership_tbl, OF that rows(4) membership_view_readable membership_toViewModel_run])
qed

section \<open>Every command\<close>


lemma sample_kit_validates: "kit_validates sample_lib"
  using sample_kit_stable
  by (auto simp: kit_validates_def sample_lib_def sample_nonempty_vo_def sample_email_vo_def
      sample_string_vo_def Let_def js_lower_def split: if_splits option.splits)

lemma sample_rows_ok: "rows_ok sample_lib sample_world"
  by (simp add: rows_ok_def app_row_ok_def user_row_ok_def app_from_row_def app_build_defs
      AppTypeOrmMapper_toEntity_def AppAggregate_toPrimitives_def user_sample_defs)

lemma sample_kit_selects: "kit_selects sample_kit"
  by (simp add: kit_selects_def sample_kit_def)


end
