(* ===== verification/Session_Liveness.thy ===== *)
theory Session_Liveness
  imports Auth_Witnesses Row_Validity
begin

text \<open>
  A client that keeps exchanging its newest refresh token in time stays logged in: login, then any
  number of refreshes, succeed. The argument composes the login handler, the refresh handler on its
  success branch, the token invariant of \<open>Session_Runs\<close> and the validity of rows, which rules out
  the errors of reading.
\<close>

section \<open>Documented behaviour of the clock and of the signer\<close>

text \<open>
  \<open>clk x\<close> is the time in state \<open>x\<close>: the clock reads a time between those before and after the
  reading, and no call of a refresh takes longer than \<open>d\<close>. The signer always signs.
\<close>

definition clock_ok :: "'x lib \<Rightarrow> ('x \<Rightarrow> int) \<Rightarrow> int \<Rightarrow> bool" where
  "clock_ok L clk d \<longleftrightarrow>
     (\<forall>x. clk x \<le> fst (new_date L x) \<and> fst (new_date L x) \<le> clk (snd (new_date L x)) \<and>
        clk (snd (new_date L x)) \<le> clk x + d) \<and>
     (\<forall>x u. clk (snd (touch L u x)) \<le> clk x + d) \<and> (\<forall>x. clk (snd (uuid_generate L x)) \<le> clk x + d) \<and>
     (\<forall>x n. clk (snd (random_base64url L n x)) \<le> clk x + d) \<and>
     (\<forall>x c. clk (snd (jwt_sign L c x)) \<le> clk x + d)"

definition signer_ok :: "'x lib \<Rightarrow> bool" where
  "signer_ok L \<longleftrightarrow> (\<forall>c x. \<exists>t x'. jwt_sign L c x = (Inr t, x'))"

lemma clock_okD:
  assumes "clock_ok L clk d"
  shows "new_date L x = (t, x') \<Longrightarrow> clk x \<le> t \<and> t \<le> clk x' \<and> clk x' \<le> clk x + d"
    "touch L u x = (t, x') \<Longrightarrow> clk x' \<le> clk x + d" "uuid_generate L x = (i, x') \<Longrightarrow> clk x' \<le> clk x + d"
    "random_base64url L n x = (s, x') \<Longrightarrow> clk x' \<le> clk x + d" "jwt_sign L c x = (r, x') \<Longrightarrow> clk x' \<le> clk x + d"
  using assms unfolding clock_ok_def by (metis fst_conv snd_conv)+

section \<open>A client that refreshes, among others\<close>

text \<open>
  What happens between two refreshes of the client: time passes, or another request of the service
  is handled, the client's own ones and those of the same user included. Queries are left out,
  which change nothing.
\<close>

datatype 'x event =
    TimePasses "'x \<Rightarrow> 'x"
  | RegisterCall register_user_command
  | LoginCall login_user_command
  | RefreshCall refresh_session_command
  | CreateUserCall create_user_command
  | SetPlatformAdminCall set_user_platform_admin_command
  | CreateAppCall create_app_command
  | CreateTenantCall create_tenant_command
  | UpdateTenantCall string string "string option" "string option"
  | DeleteTenantCall delete_tenant_command
  | AddMemberCall add_tenant_member_command

definition happens ::
  "'x lib \<Rightarrow> auth_config \<Rightarrow> membership_entity criteria_kit \<Rightarrow> app_entity criteria_kit \<Rightarrow> 'x event \<Rightarrow>
   'x world \<Rightarrow> 'x world" where
  "happens L cfg K A e w = (case e of
       TimePasses p \<Rightarrow> w\<lparr>ext := p (ext w)\<rparr>
     | RegisterCall c \<Rightarrow> snd (RegisterUserCommandHandler_execute (user_lookup L)
         (KeycloakIdentityProviderAdapter L (ac_keycloak cfg)) (user_provisioning L) c w)
     | LoginCall c \<Rightarrow> snd (LoginUserCommandHandler_execute L cfg (user_lookup L)
         (KeycloakIdentityProviderAdapter L (ac_keycloak cfg)) (membership_lookup L K) (session_write_repo L)
         (platform_admin L) c w)
     | RefreshCall c \<Rightarrow> snd (RefreshSessionCommandHandler_execute L cfg (session_write_repo L) (user_lookup L)
         (membership_lookup L K) c w)
     | CreateUserCall c \<Rightarrow> snd (CreateUserCommandHandler_execute L (user_write_repo L) c w)
     | SetPlatformAdminCall c \<Rightarrow> snd (SetUserPlatformAdminCommandHandler_execute L (user_write_repo L) c w)
     | CreateAppCall c \<Rightarrow> snd (CreateAppCommandHandler_execute L (app_write_repo L) c w)
     | CreateTenantCall c \<Rightarrow> snd (CreateTenantCommandHandler_execute L (tenant_write_repo L)
         (membership_write_repo L) (app_lookup_adapter L A) c w)
     | UpdateTenantCall t r n s \<Rightarrow> snd (bindE (new_UpdateTenantCommand L t r n s)
         (UpdateTenantCommandHandler_execute L (tenant_write_repo L)) w)
     | DeleteTenantCall c \<Rightarrow> snd (DeleteTenantCommandHandler_execute (tenant_write_repo L)
         (membership_write_repo L) c w)
     | AddMemberCall c \<Rightarrow> snd (AddTenantMemberCommandHandler_execute L (tenant_write_repo L)
         (membership_write_repo L) (tenancy_user_lookup L) c w))"

text \<open>The client presents its token, takes the successor, and presents that.\<close>

fun keep_refreshing ::
  "'x lib \<Rightarrow> auth_config \<Rightarrow> membership_entity criteria_kit \<Rightarrow> app_entity criteria_kit \<Rightarrow> 'x event list list \<Rightarrow>
   string \<Rightarrow> ('x world, error, string) comp" where
  "keep_refreshing L cfg K A [] token = ret token"
| "keep_refreshing L cfg K A (es # ess) token =
     bindE (modifyS (fold (happens L cfg K A) es)) (\<lambda>_.
     bindE (RefreshSessionCommandHandler_execute L cfg (session_write_repo L) (user_lookup L)
       (membership_lookup L K) \<lparr>rf_refreshToken = token\<rparr>) (\<lambda>result.
     keep_refreshing L cfg K A ess (lr_refreshToken result)))"

text \<open>
  What must not happen in between: nobody else presents the client's token, and nobody replays a
  token of the client's user, one that was consumed or revoked; for that revokes every session of
  the user (C2, C5). No identifier is given back.
\<close>

definition spares :: "'x lib \<Rightarrow> ('x \<Rightarrow> string set) \<Rightarrow> string \<Rightarrow> 'x event \<Rightarrow> 'x world \<Rightarrow> bool" where
  "spares L F token e w = (case e of
       TimePasses p \<Rightarrow> F (p (ext w)) \<subseteq> F (ext w)
     | RefreshCall c \<Rightarrow> sha256_hex L (rf_refreshToken c) \<noteq> sha256_hex L token \<and>
         list_all (\<lambda>m. list_all (\<lambda>r. se_refreshTokenHash m = sha256_hex L token \<longrightarrow>
           se_refreshTokenHash r = sha256_hex L (rf_refreshToken c) \<longrightarrow> se_userId r = se_userId m \<longrightarrow>
           se_revokedAt r = None) (session_tbl w)) (session_tbl w)
     | _ \<Rightarrow> True)"

fun all_spare ::
  "'x lib \<Rightarrow> ('x \<Rightarrow> string set) \<Rightarrow> auth_config \<Rightarrow> membership_entity criteria_kit \<Rightarrow> app_entity criteria_kit \<Rightarrow>
   string \<Rightarrow> 'x event list \<Rightarrow> 'x world \<Rightarrow> bool" where
  "all_spare L F cfg K A token [] w = True"
| "all_spare L F cfg K A token (e # es) w =
     (spares L F token e w \<and> all_spare L F cfg K A token es (happens L cfg K A e w))"

text \<open>In the whole run: in between at most \<open>D\<close> passes, and no token generated for the client
  collides with one that is stored.\<close>

fun undisturbed ::
  "'x lib \<Rightarrow> ('x \<Rightarrow> string set) \<Rightarrow> ('x \<Rightarrow> int) \<Rightarrow> int \<Rightarrow> auth_config \<Rightarrow> membership_entity criteria_kit \<Rightarrow>
   app_entity criteria_kit \<Rightarrow> 'x event list list \<Rightarrow> string \<Rightarrow> 'x world \<Rightarrow> bool" where
  "undisturbed L F clk D cfg K A [] token w = True"
| "undisturbed L F clk D cfg K A (es # ess) token w =
     (let w1 = fold (happens L cfg K A) es w in
      all_spare L F cfg K A token es w \<and> clk (ext w1) \<le> clk (ext w) + D \<and>
      sha256_hex L (fst (random_base64url L 32 (ext w1))) \<notin> se_refreshTokenHash ` set (session_tbl w1) \<and>
      (case RefreshSessionCommandHandler_execute L cfg (session_write_repo L) (user_lookup L)
          (membership_lookup L K) \<lparr>rf_refreshToken = token\<rparr> w1 of
         (Inl _, _) \<Rightarrow> True
       | (Inr result, w') \<Rightarrow> undisturbed L F clk D cfg K A ess (lr_refreshToken result) w'))"

text \<open>A live session holds the token, with more time left than the client takes.\<close>

definition logged_in :: "'x lib \<Rightarrow> ('x \<Rightarrow> int) \<Rightarrow> int \<Rightarrow> string \<Rightarrow> 'x world \<Rightarrow> bool" where
  "logged_in L clk margin token w \<longleftrightarrow> (\<exists>e \<in> set (session_tbl w).
     se_refreshTokenHash e = sha256_hex L token \<and> se_revokedAt e = None \<and>
     clk (ext w) + margin < se_refreshTokenExpiresAt e)"

section \<open>One refresh\<close>

lemma rows_ok_session:
  assumes "kit_validates L" and "rows_ok L w" and "e \<in> set (session_tbl w)"
  shows "session_from_row L e = Inr (session_of_row e)" "session_wf L (session_of_row e)"
proof -
  have "session_row_ok L e" using assms(2,3) by (simp add: rows_ok_def list_all_iff)
  then obtain a where a: "session_from_row L e = Inr a" "SessionTypeOrmMapper_toEntity a = e"
    by (auto simp: session_row_ok_def split: sum.splits)
  then show "session_from_row L e = Inr (session_of_row e)" by auto
  with a from_row_wf(3) [OF assms(1)] show "session_wf L (session_of_row e)" by metis
qed

lemma claims_readable:
  assumes K: "kit_validates L" and rows: "rows_ok L w" and ok: "schema_ok w"
    and u: "u \<in> ue_id ` set (user_tbl w)"
  obtains r v ms where "find (\<lambda>r. ue_id r = u) (user_tbl w) = Some r" "user_view_from_row L r = Inr v"
    "has_memberships L w u ms"
proof -
  obtain r where r: "r \<in> set (user_tbl w)" "ue_id r = u" using u by auto
  with ok have find: "find (\<lambda>r. ue_id r = u) (user_tbl w) = Some r"
    by (auto simp: schema_ok_def intro!: find_key)
  have "user_row_ok L r" using rows r(1) by (simp add: rows_ok_def list_all_iff)
  then obtain a where "user_from_row L r = Inr a" "UserTypeOrmMapper_toEntity a = r"
    by (auto simp: user_row_ok_def split: sum.splits)
  then obtain v where v: "user_view_from_row L r = Inr v"
    using user_view_readable from_row_wf(1) [OF K] by metis
  have "\<exists>g. \<forall>e \<in> set (membership_tbl w). membership_view_from_row L e = Inr (g e)"
  proof (intro bchoice ballI)
    fix e assume "e \<in> set (membership_tbl w)"
    then have "membership_row_ok L e" using rows by (simp add: rows_ok_def list_all_iff)
    then show "\<exists>v. membership_view_from_row L e = Inr v" by (rule membership_view_readable)
  qed
  then obtain g where "\<forall>e \<in> set (membership_tbl w). membership_view_from_row L e = Inr (g e)" ..
  then have "has_memberships L w u (map g (filter (\<lambda>e. me_userId e = u) (membership_tbl w)))"
    unfolding has_memberships_def by (intro map_sums_all) simp
  with find v that show thesis by blast
qed

text \<open>A refresh with a token that is logged in succeeds, and logs its successor in.\<close>

lemma refresh_progress:
  assumes K: "kit_validates L" and F: "id_supply L F" and hash: "hash_ok L" and signer: "signer_ok L"
    and clock: "clock_ok L clk d" and ttl: "margin + 7 * d < ac_refreshTokenTtlDays cfg * 86400000"
    and inv: "session_inv L F w" and rows: "rows_ok L w"
    and live: "logged_in L clk margin' token w" and enough: "3 * d \<le> margin'"
    and fresh: "sha256_hex L (fst (random_base64url L 32 (ext w))) \<notin> se_refreshTokenHash ` set (session_tbl w)"
  obtains acc raw w' where "RefreshSessionCommandHandler_execute L cfg (session_write_repo L) (user_lookup L)
      (membership_lookup L C) \<lparr>rf_refreshToken = token\<rparr> w = (Inr \<lparr>lr_accessToken = acc, lr_refreshToken = raw\<rparr>, w')"
    and "logged_in L clk margin raw w'"
proof -
  from inv have tx: "tx_pending w = None" and ok: "schema_ok w" and spent: "ids_spent F w"
    and st: "sessions_stored L w" by (simp_all add: session_inv_def)
  obtain e where e: "e \<in> set (session_tbl w)" "se_refreshTokenHash e = sha256_hex L token"
    "se_revokedAt e = None" and left: "clk (ext w) + margin' < se_refreshTokenExpiresAt e"
    using live by (auto simp: logged_in_def)
  have find: "find (\<lambda>e. se_refreshTokenHash e = sha256_hex L (rf_refreshToken \<lparr>rf_refreshToken = token\<rparr>))
      (session_tbl w) = Some e"
    using find_session [OF ok e(1)] e(2) by simp
  obtain raw x1 where x1: "random_base64url L 32 (ext w) = (raw, x1)" by fastforce
  obtain t x2 where x2: "new_date L x1 = (t, x2)" by fastforce
  obtain t1 x3 where x3: "new_date L x2 = (t1, x3)" by fastforce
  obtain t2 x4 where x4: "new_date L x3 = (t2, x4)" by fastforce
  obtain i x5 where x5: "uuid_generate L x4 = (i, x5)" by fastforce
  obtain t3 x6 where x6: "new_date L x5 = (t3, x6)" by fastforce
  obtain u x7 where x7: "touch L (se_updatedAt e) x6 = (u, x7)" by fastforce
  note c = clock_okD [OF clock]
  have early: "t1 < se_refreshTokenExpiresAt e"
    using c(4) [OF x1] c(1) [OF x2] c(1) [OF x3] left enough by linarith
  have F: "F x1 \<subseteq> F (ext w)" "F x2 \<subseteq> F x1" "F x3 \<subseteq> F x2" "F x4 \<subseteq> F x3" "i \<in> F x4" "i \<noteq> []"
    "uuid_vo L i = Inr i"
    using F x1 x2 x3 x4 x5 unfolding id_supply_def by (metis fst_conv snd_conv)+
  then have "i \<in> F (ext w)" by blast
  with spent have new_id: "i \<notin> se_id ` set (session_tbl w)" by (auto simp: ids_spent_def)
  note rd = rows_ok_session [OF K rows e(1)]
  define created where "created = \<lparr>sg_id = i, sg_createdAt = t2, sg_updatedAt = t2, sg_userId = se_userId e,
      sg_refreshTokenHash = sha256_hex L raw, sg_expiresAt = expiry cfg t, sg_revokedAt = None,
      sg_replacedBySessionId = None\<rparr>"
  define consumed where "consumed = (session_of_row e)\<lparr>sg_revokedAt := Some t3,
      sg_replacedBySessionId := Some i, sg_updatedAt := u\<rparr>"
  have digest: "RefreshTokenHashValueObject L (sha256_hex L raw) = Inr (sha256_hex L raw)"
    "sha256_hex L raw \<noteq> []" using hash by (auto simp: hash_ok_def dest: spec [of _ raw])
  have wf: "session_wf L created" "session_wf L consumed"
    using rd(2) F(6,7) digest vo_value(11) [OF K]
    by (auto simp: session_wf_def created_def consumed_def session_of_row_def base_valid [OF K])
  have new_hash: "sha256_hex L raw \<notin> se_refreshTokenHash ` set (session_tbl w)" using fresh x1 by simp
  have "se_userId e \<in> ue_id ` set (user_tbl w)" using ok e(1) by (auto simp: schema_ok_def)
  then obtain r v ms where user: "find (\<lambda>r. ue_id r = se_userId e) (user_tbl w) = Some r"
    "user_view_from_row L r = Inr v" and ms: "has_memberships L w (se_userId e) ms"
    using claims_readable [OF K rows ok] by metis
  obtain acc x8 where x8: "jwt_sign L (token_claims v (uv_platformAdmin v) ms) x7 = (Inr acc, x8)"
    using signer unfolding signer_ok_def by metis
  let ?c = "SessionTypeOrmMapper_toEntity created"
  let ?w' = "w\<lparr>session_tbl := upsert se_id (SessionTypeOrmMapper_toEntity consumed)
         (upsert se_id ?c (session_tbl w)), ext := x8\<rparr>"
  have run: "RefreshSessionCommandHandler_execute L cfg (session_write_repo L) (user_lookup L)
      (membership_lookup L C) \<lparr>rf_refreshToken = token\<rparr> w = (Inr \<lparr>lr_accessToken = acc, lr_refreshToken = raw\<rparr>, ?w')"
    by (rule refresh_success_run [OF x1 x2 tx ok st find e(3) x3 early x4 x5 x6 x7 created_def consumed_def
        wf new_id new_hash hash user ms x8])
  have "i \<noteq> se_id e" using new_id e(1) by auto
  then have "?c \<in> set (session_tbl ?w')"
    by (simp add: set_upsert created_def consumed_def session_of_row_def)
  moreover have "clk x8 + margin < expiry cfg t"
    using c(1) [OF x2] c(1) [OF x3] c(1) [OF x4] c(3) [OF x5] c(1) [OF x6] c(2) [OF x7] c(5) [OF x8] ttl
    unfolding expiry_ms by linarith
  ultimately have "logged_in L clk margin raw ?w'"
    unfolding logged_in_def by (intro bexI [of _ ?c]) (simp_all add: created_def)
  with run that show thesis by blast
qed

section \<open>Login\<close>

lemma new_session_shape:
  assumes "new_session L u h exp x = (Inr a, x')"
  shows "sg_expiresAt a = exp \<and> sg_revokedAt a = None \<and> RefreshTokenHashValueObject L h = Inr (sg_refreshTokenHash a) \<and>
    (\<exists>t x1. new_date L x = (t, x1) \<and> x' = snd (uuid_generate L x1))"
proof -
  obtain t x1 where t: "new_date L x = (t, x1)" by fastforce
  with assms show ?thesis
    by (auto simp: new_session_def bindE_def SessionBuilder_build_def SessionBuilder_validate_def
        now_run generate_uuid_run truthy_def SessionBuilder_new_def split: sum.splits if_splits)
qed

lemma always: "preserves (\<lambda>_. True) m"
  by (simp add: preserves_def)

text \<open>The end of a login: the session is saved, and lives from the moment its expiry was computed.\<close>

lemma login_tail_logs_in:
  assumes hash: "hash_ok L" and clock: "clock_ok L clk d"
    and ttl: "margin + 3 * d < ac_refreshTokenTtlDays cfg * 86400000"
  shows "achieves (\<lambda>_. True)
    (bindE (outside (now L)) (\<lambda>t. bindE (outside (new_session L u (sha256_hex L raw) (expiry cfg t))) (\<lambda>session.
     bindE (swr_save (session_write_repo L) session) (\<lambda>_.
     ret \<lparr>lr_accessToken = acc, lr_refreshToken = raw\<rparr>))))
    (\<lambda>res w'. \<forall>lr. res = Inr lr \<longrightarrow> logged_in L clk margin (lr_refreshToken lr) w')"
    (is "achieves _ ?m _")
proof (rule achievesI, intro allI impI)
  fix w res w' lr assume run: "?m w = (res, w')" and "res = Inr lr"
  obtain t x1 where t: "new_date L (ext w) = (t, x1)" by fastforce
  obtain r x2 where new: "new_session L u (sha256_hex L raw) (expiry cfg t) x1 = (r, x2)" by fastforce
  with run t \<open>res = Inr lr\<close> obtain a where a: "r = Inr a"
    by (cases r) (auto simp: bindE_def outside_run now_run)
  note shape = new_session_shape [OF new [unfolded a]]
  then obtain t' x3 where x3: "new_date L x1 = (t', x3)" "x2 = snd (uuid_generate L x3)" by blast
  have h: "sg_refreshTokenHash a = sha256_hex L raw"
    using shape hash by (auto simp: hash_ok_def)
  have w': "lr = \<lparr>lr_accessToken = acc, lr_refreshToken = raw\<rparr> \<and>
      w' = w\<lparr>session_tbl := upsert se_id (SessionTypeOrmMapper_toEntity a) (session_tbl w), ext := x2\<rparr>"
    using run t new a \<open>res = Inr lr\<close>
    by (auto simp: bindE_def outside_run now_run session_db.save_law split: option.splits sum.splits)
  have "clk x2 \<le> clk x3 + d" using clock_okD(3) [OF clock prod.collapse [symmetric], of x3] x3(2) by simp
  then have "clk x2 + margin < expiry cfg t"
    using clock_okD(1) [OF clock t] clock_okD(1) [OF clock x3(1)] ttl unfolding expiry_ms by linarith
  then show "logged_in L clk margin (lr_refreshToken lr) w'"
    using w' shape h unfolding logged_in_def
    by (intro bexI [of _ "SessionTypeOrmMapper_toEntity a"]) (simp_all add: set_upsert)
qed

lemma login_logs_in:
  assumes "hash_ok L" and "clock_ok L clk d"
    and "margin + 3 * d < ac_refreshTokenTtlDays cfg * 86400000"
    and run: "LoginUserCommandHandler_execute L cfg (user_lookup L) (KeycloakIdentityProviderAdapter L kc)
      (membership_lookup L C) (session_write_repo L) (platform_admin L) c w = (Inr lr, w')"
  shows "logged_in L clk margin (lr_refreshToken lr) w'"
proof -
  have "achieves (\<lambda>_. True) (LoginUserCommandHandler_execute L cfg (user_lookup L)
      (KeycloakIdentityProviderAdapter L kc) (membership_lookup L C) (session_write_repo L) (platform_admin L) c)
      (\<lambda>res w'. \<forall>lr. res = Inr lr \<longrightarrow> logged_in L clk margin (lr_refreshToken lr) w')"
    unfolding LoginUserCommandHandler_execute_def Let_def HashRefreshTokenService_execute_def
    by (intro login_tail_logs_in [OF assms(1-3)] achieves_bindE achieves_case_option achieves_throw always) simp_all
  from achievesD [OF this _ run] show ?thesis by blast
qed

section \<open>What others do\<close>

text \<open>The client's token, in the map of tokens.\<close>

definition holds_token :: "token_map \<Rightarrow> string \<Rightarrow> token \<Rightarrow> bool" where
  "holds_token \<sigma> h k \<longleftrightarrow> \<sigma> h = Some k \<and> tk_live k"

lemma redemption_keeps_token:
  assumes "holds_token \<sigma> h k" and "h0 \<noteq> h" and "\<And>k0. \<sigma> h0 = Some k0 \<Longrightarrow> tk_user k0 = tk_user k \<Longrightarrow> tk_live k0"
    and "refresh_implements L h0 \<sigma> res \<sigma>'"
  shows "holds_token \<sigma>' h k"
proof (cases "\<sigma>' = \<sigma>")
  case False
  with assms(4) obtain h' t x out where r: "redeem h0 h' t x \<sigma> = (out, \<sigma>')"
    and o: "case out of Redeemed u \<Rightarrow> \<sigma> h' = None | _ \<Rightarrow> True"
    unfolding refresh_implements_def by (fastforce split: redeem_result.splits)
  from r False obtain k0 where k0: "\<sigma> h0 = Some k0" by (cases "\<sigma> h0") (auto simp: redeem_def)
  show ?thesis
  proof (cases "tk_live k0")
    case True
    with r k0 False have "\<sigma>' = issue h' (tk_user k0) x (\<sigma>(h0 \<mapsto> k0\<lparr>tk_live := False\<rparr>))"
      and "out = Redeemed (tk_user k0)"
      by (auto simp: redeem_def split: if_splits)
    with o assms(1,2) show ?thesis by (auto simp: holds_token_def issue_def)
  next
    case dead: False
    with r k0 have "\<sigma>' = revoke_user (tk_user k0) \<sigma>" by (auto simp: redeem_def)
    moreover have "tk_user k0 \<noteq> tk_user k" using assms(3) [OF k0] dead by blast
    ultimately show ?thesis using assms(1) by (simp add: holds_token_def revoke_user_def)
  qed
qed (use assms(1) in simp)

lemma login_keeps_token:
  "holds_token \<sigma> h k \<Longrightarrow> login_implements L \<sigma> res \<sigma>' \<Longrightarrow> holds_token \<sigma>' h k"
  by (auto simp: login_implements_def holds_token_def issue_def)

lemma stored_token:
  assumes "schema_ok w" and "e \<in> set (session_tbl w)" and "se_revokedAt e = None"
  shows "holds_token (tokens (session_tbl w)) (se_refreshTokenHash e) (token_of e)"
  using find_session [OF assms(1,2)] assms(3) by (simp add: holds_token_def tokens_def token_of_def)

lemma token_stored:
  assumes "tokens rs h = Some k"
  shows "\<exists>e \<in> set rs. se_refreshTokenHash e = h \<and> token_of e = k"
proof -
  from assms obtain e where e: "find (\<lambda>e. se_refreshTokenHash e = h) rs = Some e" "token_of e = k"
    by (auto simp: tokens_def)
  from find_Some_iff_ex [OF e(1)] e(2) show ?thesis by blast
qed

text \<open>Whatever happens in between, the invariants hold afterwards and the client's token is as it was.\<close>

lemma preserves_snd: "preserves I m \<Longrightarrow> I w \<Longrightarrow> I (snd (m w))"
  by (rule preservesD [OF _ _ prod.collapse [symmetric]])

lemma keeps_token:
  assumes "preserves (sessions_are L F (session_tbl w)) m" and "session_inv L F w"
    and "holds_token (tokens (session_tbl w)) h k"
  shows "session_inv L F (snd (m w)) \<and> holds_token (tokens (session_tbl (snd (m w)))) h k"
  using preserves_snd [OF assms(1)] assms(2,3) by simp

lemma other_event_rows:
  assumes "kit_validates L" and "rows_ok L w"
  shows "rows_ok L (happens L cfg K A e w)"
proof -
  note rows = preserves_snd [where I = "rows_ok L" and w = w, OF _ assms(2)]
  show ?thesis
    using assms
    by (cases e) (simp_all only: happens_def event.case rows_ok_frame rows register_keeps_rows login_keeps_rows
        refresh_keeps_rows create_user_rows set_admin_rows create_app_rows create_tenant_rows
        update_tenant_command_rows delete_tenant_rows add_member_rows)
qed

lemma event_spares:
  assumes K: "kit_validates L" and F: "id_supply L F" and hash: "hash_ok L"
    and inv: "session_inv L F w" and spare: "spares L F token e w"
    and live: "holds_token (tokens (session_tbl w)) (sha256_hex L token) k"
  shows "session_inv L F (happens L cfg K' A e w) \<and>
    holds_token (tokens (session_tbl (happens L cfg K' A e w))) (sha256_hex L token) k"
proof -
  have uuid: "uuid_ok L" using vo_value(11) [OF K] by (auto simp: uuid_ok_def)
  note same = keeps_token [OF _ inv live]
  show ?thesis
  proof (cases e)
    case (TimePasses p)
    with inv spare live show ?thesis by (auto simp: happens_def spares_def intro: session_inv_ext)
  next
    case (LoginCall c)
    obtain res w' where run: "LoginUserCommandHandler_execute L cfg (user_lookup L)
        (KeycloakIdentityProviderAdapter L (ac_keycloak cfg)) (membership_lookup L K') (session_write_repo L)
        (platform_admin L) c w = (res, w')" by fastforce
    from wired.login_refines [OF F hash uuid inv run] live show ?thesis
      using LoginCall run by (auto simp: happens_def intro: login_keeps_token)
  next
    case (RefreshCall c)
    obtain res w' where run: "RefreshSessionCommandHandler_execute L cfg (session_write_repo L) (user_lookup L)
        (membership_lookup L K') c w = (res, w')" by fastforce
    let ?h = "sha256_hex L (rf_refreshToken c)"
    obtain m where m: "m \<in> set (session_tbl w)" "se_refreshTokenHash m = sha256_hex L token" "token_of m = k"
      using live by (auto simp: holds_token_def dest: token_stored)
    have "tk_live k0" if "tokens (session_tbl w) ?h = Some k0" and "tk_user k0 = tk_user k" for k0
    proof -
      from token_stored [OF that(1)] obtain r where "r \<in> set (session_tbl w)" "se_refreshTokenHash r = ?h"
        "token_of r = k0" by blast
      with m that(2) spare RefreshCall show ?thesis
        by (auto simp: spares_def list_all_iff token_of_def)
    qed
    with wired.refresh_refines [OF F hash uuid inv run] live spare RefreshCall run show ?thesis
      by (auto simp: happens_def spares_def intro: redemption_keeps_token)
  next
    case (UpdateTenantCall t r n s)
    have "preserves (sessions_are L F (session_tbl w)) (bindE (new_UpdateTenantCommand L t r n s)
        (UpdateTenantCommandHandler_execute L (tenant_write_repo L)))"
      unfolding new_UpdateTenantCommand_def by (intro preserving tenant_commands_keep(2) F)
    from same [OF this] UpdateTenantCall show ?thesis by (simp add: happens_def)
  qed (simp_all only: happens_def event.case, (rule same, intro register_keeps create_user_keeps set_admin_keeps
      create_app_keeps tenant_commands_keep F)+)
qed

lemma events_spare:
  assumes K: "kit_validates L" and F: "id_supply L F" and hash: "hash_ok L"
  shows "session_inv L F w \<Longrightarrow> rows_ok L w \<Longrightarrow> all_spare L F cfg K' A token es w \<Longrightarrow>
    holds_token (tokens (session_tbl w)) (sha256_hex L token) k \<Longrightarrow>
    session_inv L F (fold (happens L cfg K' A) es w) \<and> rows_ok L (fold (happens L cfg K' A) es w) \<and>
    holds_token (tokens (session_tbl (fold (happens L cfg K' A) es w))) (sha256_hex L token) k"
proof (induction es arbitrary: w)
  case (Cons e es)
  have "session_inv L F (happens L cfg K' A e w) \<and>
      holds_token (tokens (session_tbl (happens L cfg K' A e w))) (sha256_hex L token) k"
    by (rule event_spares [OF K F hash Cons.prems(1) _ Cons.prems(4)]) (use Cons.prems(3) in simp)
  with Cons.IH [of "happens L cfg K' A e w"] other_event_rows [OF K Cons.prems(2)] Cons.prems(3)
  show ?case by simp
qed simp

section \<open>Any number of refreshes\<close>

lemma keeps_refreshing:
  assumes K: "kit_validates L" and F: "id_supply L F" and hash: "hash_ok L" and signer: "signer_ok L"
    and clock: "clock_ok L clk d" and D: "0 \<le> D" "0 \<le> d"
    and ttl: "D + 10 * d < ac_refreshTokenTtlDays cfg * 86400000"
  shows "session_inv L F w \<Longrightarrow> rows_ok L w \<Longrightarrow> logged_in L clk (D + 3 * d) token w \<Longrightarrow>
    undisturbed L F clk D cfg C A ess token w \<Longrightarrow>
    \<exists>token' w'. keep_refreshing L cfg C A ess token w = (Inr token', w') \<and>
      logged_in L clk (D + 3 * d) token' w'"
proof (induction ess arbitrary: token w)
  case Nil
  then show ?case by simp
next
  case (Cons es ess)
  let ?w = "fold (happens L cfg C A) es w"
  from Cons.prems(4) have spare: "all_spare L F cfg C A token es w" and time: "clk (ext ?w) \<le> clk (ext w) + D"
    and fresh: "sha256_hex L (fst (random_base64url L 32 (ext ?w))) \<notin> se_refreshTokenHash ` set (session_tbl ?w)"
    by (simp_all add: Let_def)
  obtain e where e: "e \<in> set (session_tbl w)" "se_refreshTokenHash e = sha256_hex L token" "se_revokedAt e = None"
    "clk (ext w) + (D + 3 * d) < se_refreshTokenExpiresAt e"
    using Cons.prems(3) by (auto simp: logged_in_def)
  have "schema_ok w" using Cons.prems(1) by (simp add: session_inv_def)
  from stored_token [OF this e(1,3)] e(2)
  have "holds_token (tokens (session_tbl w)) (sha256_hex L token) (token_of e)" by simp
  from events_spare [OF K F hash Cons.prems(1,2) spare this]
  have inv: "session_inv L F ?w" and rows: "rows_ok L ?w"
    and holds: "holds_token (tokens (session_tbl ?w)) (sha256_hex L token) (token_of e)" by blast+
  from holds obtain e' where "e' \<in> set (session_tbl ?w)" "se_refreshTokenHash e' = sha256_hex L token"
    "token_of e' = token_of e" by (auto simp: holds_token_def dest: token_stored)
  then have live: "logged_in L clk (3 * d) token ?w"
    using e(3,4) time unfolding logged_in_def by (intro bexI [of _ e']) (auto simp: token_of_def)
  obtain acc raw w1 where
    run: "RefreshSessionCommandHandler_execute L cfg (session_write_repo L) (user_lookup L)
      (membership_lookup L C) \<lparr>rf_refreshToken = token\<rparr> ?w = (Inr \<lparr>lr_accessToken = acc, lr_refreshToken = raw\<rparr>, w1)"
    and live1: "logged_in L clk (D + 3 * d) raw w1"
    by (rule refresh_progress [OF K F hash signer clock _ inv rows live order_refl fresh,
          where margin = "D + 3 * d" and cfg = cfg and C = C]) (use ttl in auto)
  have uuid: "uuid_ok L" using vo_value(11) [OF K] by (auto simp: uuid_ok_def)
  have "session_inv L F w1" using wired.refresh_refines [OF F hash uuid inv run] by simp
  moreover have "rows_ok L w1" by (rule preservesD [OF refresh_keeps_rows [OF K] rows run])
  moreover have "undisturbed L F clk D cfg C A ess raw w1" using Cons.prems(4) run by (simp add: Let_def)
  ultimately show ?case
    using Cons.IH [of w1 raw] live1 run by (auto simp: bindE_def)
qed

text \<open>C16: a client that logged in stays logged in, whatever else the service is asked to do: between two of
  its refreshes any commands of the service may run, on behalf of anyone, and every refresh with
  the token it was given last succeeds. The conditions: what passes between two refreshes and the
  calls of a refresh together stay below the lifetime of a token; nobody else presents the client's
  token; nobody replays a consumed or revoked token of the same user, which would end all sessions
  of that user, this one included; and no token generated for the client collides with a stored
  one. The stored rows are valid, and the signer signs.\<close>

theorem stays_logged_in:
  assumes "kit_validates L" and "id_supply L F" and "hash_ok L" and "signer_ok L"
    and "clock_ok L clk d" and "0 \<le> D" and "0 \<le> d"
    and "D + 10 * d < ac_refreshTokenTtlDays cfg * 86400000"
    and "session_inv L F w" and "rows_ok L w"
    and "LoginUserCommandHandler_execute L cfg (user_lookup L) (KeycloakIdentityProviderAdapter L kc)
      (membership_lookup L C) (session_write_repo L) (platform_admin L) c w = (Inr lr, w1)"
    and "undisturbed L F clk D cfg C A between (lr_refreshToken lr) w1"
  shows "\<exists>token w2. keep_refreshing L cfg C A between (lr_refreshToken lr) w1 = (Inr token, w2) \<and>
    (\<exists>e \<in> set (session_tbl w2). se_refreshTokenHash e = sha256_hex L token \<and> se_revokedAt e = None)"
proof -
  have uuid: "uuid_ok L" using vo_value(11) [OF assms(1)] by (auto simp: uuid_ok_def)
  have "session_inv L F w1" using wired.login_refines [OF assms(2,3) uuid assms(9,11)] by simp
  moreover have "rows_ok L w1" by (rule preservesD [OF login_keeps_rows [OF assms(1)] assms(10,11)])
  moreover have "logged_in L clk (D + 3 * d) (lr_refreshToken lr) w1"
    by (rule login_logs_in [OF assms(3,5) _ assms(11)]) (use assms(6-8) in linarith)
  ultimately show ?thesis
    using keeps_refreshing [OF assms(1-8) _ _ _ assms(12)] unfolding logged_in_def by blast
qed

section \<open>Witness\<close>

lemma sample_clock: "clock_ok sample_lib int 1" "signer_ok sample_lib"
  by (simp_all add: clock_ok_def signer_ok_def sample_lib_def)

lemma sample_session_inv: "session_inv sample_lib sample_ids sample_world"
  using sample_world_ok
  by (simp add: session_inv_def sessions_stored_def ids_spent_def sample_world_sel)

text \<open>Between login and refresh time passes, and somebody presents a token that is not there.\<close>

abbreviation sample_between :: "nat event list" where
  "sample_between \<equiv> [TimePasses (\<lambda>x. x + 100), RefreshCall \<lparr>rf_refreshToken = ''x''\<rparr>]"

abbreviation sample_after_login :: "nat world" where
  "sample_after_login \<equiv> sample_world\<lparr>session_tbl := [SessionTypeOrmMapper_toEntity sample_logged_in], ext := 9\<rparr>"

lemma stays_logged_in_witness:
  "\<exists>token w2. keep_refreshing sample_lib (sample_cfg\<lparr>ac_platformAdminEmails := None\<rparr>) sample_kit sample_kit
     [sample_between] ''tiiiii'' sample_after_login = (Inr token, w2)"
proof -
  let ?cfg = "sample_cfg\<lparr>ac_platformAdminEmails := None\<rparr>"
  let ?w = "sample_world\<lparr>session_tbl := [SessionTypeOrmMapper_toEntity sample_logged_in], ext := 109\<rparr>"
  have away: "happens sample_lib ?cfg sample_kit sample_kit (RefreshCall \<lparr>rf_refreshToken = ''x''\<rparr>) ?w =
      sample_world\<lparr>session_tbl := [SessionTypeOrmMapper_toEntity sample_logged_in], ext := 111\<rparr>"
    unfolding happens_def event.case
    by (subst session_db.refresh_unknown [where raw = "''t'' @ replicate 109 (CHR ''i'')" and ?x1.0 = 110 and t = 110 and ?x2.0 = 111])
      (simp_all add: sample_lib_def sample_logged_in_def sample_world_def empty_world_def)
  have wait: "happens sample_lib ?cfg sample_kit sample_kit (TimePasses (\<lambda>x. x + 100)) sample_after_login = ?w"
    by (simp add: happens_def)
  have row: "sg_refreshTokenHash sample_logged_in = sha256_hex sample_lib ''tiiiii''"
    by (simp add: sample_logged_in_def)
  have hashes: "sha256_hex sample_lib (fst (random_base64url sample_lib 32 111)) \<noteq> sha256_hex sample_lib ''tiiiii''"
    "sha256_hex sample_lib ''x'' \<noteq> sha256_hex sample_lib ''tiiiii''"
    by (simp_all add: sample_lib_def replicate_numeral_unfold)
  have "\<exists>token w2. keep_refreshing sample_lib ?cfg sample_kit sample_kit [sample_between]
      (lr_refreshToken \<lparr>lr_accessToken = ''jwt:u1'', lr_refreshToken = ''tiiiii''\<rparr>) sample_after_login = (Inr token, w2) \<and>
    (\<exists>e \<in> set (session_tbl w2). se_refreshTokenHash e = sha256_hex sample_lib token \<and> se_revokedAt e = None)"
  proof (rule stays_logged_in [OF sample_kit_validates sample_id_supply sample_hash_ok sample_clock(2,1),
        where D = 102, OF _ _ _ sample_session_inv sample_rows_ok sample_login_run])
    show "102 + 10 * 1 < ac_refreshTokenTtlDays (sample_cfg\<lparr>ac_platformAdminEmails := None\<rparr>) * 86400000"
      by (simp add: sample_cfg_def)
    show "undisturbed sample_lib sample_ids int 102 ?cfg sample_kit sample_kit [sample_between]
        (lr_refreshToken \<lparr>lr_accessToken = ''jwt:u1'', lr_refreshToken = ''tiiiii''\<rparr>) sample_after_login"
      using hashes by (auto simp: Let_def away wait row spares_def sample_ids_def split: prod.split sum.split)
  qed simp_all
  then show ?thesis by auto
qed

end
