(* ===== verification/Core_Config.thy ===== *)
theory Core_Config
  imports Auth_Handlers
begin

text \<open>
  The configuration of the service (\<open>src/core/config\<close>, \<open>src/core/security/keys\<close>): what it reads from
  the environment, the origins that CORS admits, the list of platform admins and the signing key.
  \<open>process.env\<close> is a map from names to values; an unset variable is \<open>None\<close>. Node's \<open>crypto\<close> is a
  parameter. The validation at start-up is in \<open>Env_Schema\<close>.
\<close>

section \<open>Reading the environment\<close>

type_synonym env = "string \<Rightarrow> string option"

text \<open>\<open>env.X?.trim()\<close> as a truth value, and \<open>env.X?.trim() || fallback\<close>.\<close>

definition env_set :: "string option \<Rightarrow> bool" where
  "env_set v \<longleftrightarrow> (case v of None \<Rightarrow> False | Some s \<Rightarrow> js_trim s \<noteq> [])"

definition trim_or :: "string option \<Rightarrow> string \<Rightarrow> string" where
  "trim_or v fallback = (if env_set v then js_trim (the v) else fallback)"

text \<open>\<open>env.X ?? fallback\<close>\<close>

definition value_or :: "string option \<Rightarrow> string \<Rightarrow> string" where
  "value_or v fallback = (case v of None \<Rightarrow> fallback | Some s \<Rightarrow> s)"

text \<open>\<open>parseInt(s, 10)\<close>: white space, a sign, the longest run of digits; \<open>None\<close> is \<open>NaN\<close>.\<close>

definition is_digit :: "char \<Rightarrow> bool" where
  "is_digit c \<longleftrightarrow> (let n = of_char c :: nat in 48 \<le> n \<and> n \<le> 57)"

definition digits_value :: "string \<Rightarrow> int" where
  "digits_value ds = foldl (\<lambda>n c. n * 10 + (of_char c - 48)) 0 ds"

definition parse_digits :: "string \<Rightarrow> int option" where
  "parse_digits s = (let ds = takeWhile is_digit s in if ds = [] then None else Some (digits_value ds))"

definition parse_int :: "string \<Rightarrow> int option" where
  "parse_int s = (case dropWhile js_space s of
       [] \<Rightarrow> None
     | c # cs \<Rightarrow>
         if c = CHR ''-'' then map_option uminus (parse_digits cs)
         else if c = CHR ''+'' then parse_digits cs
         else parse_digits (c # cs))"

section \<open>CORS\<close>

definition normalizeOrigin :: "string \<Rightarrow> string" where
  "normalizeOrigin origin =
     (let t = js_trim origin in if t \<noteq> [] \<and> last t = CHR ''/'' then butlast t else t)"

definition resolveCorsOrigins :: "string option \<Rightarrow> string option \<Rightarrow> string option \<Rightarrow> string list" where
  "resolveCorsOrigins CORS_ORIGINS FRONTEND_URL NODE_ENV =
     (let fromEnv = (case CORS_ORIGINS of None \<Rightarrow> []
            | Some s \<Rightarrow> filter (\<lambda>p. p \<noteq> []) (map normalizeOrigin (js_split (CHR '','') s)))
      in if fromEnv \<noteq> [] then fromEnv
         else if env_set FRONTEND_URL then [normalizeOrigin (js_trim (the FRONTEND_URL))]
         else if NODE_ENV \<noteq> Some ''production'' then [''http://localhost:3001'']
         else [])"

definition validateProductionCorsOrigins :: "string option \<Rightarrow> string option \<Rightarrow> string list" where
  "validateProductionCorsOrigins CORS_ORIGINS FRONTEND_URL =
     (if resolveCorsOrigins CORS_ORIGINS FRONTEND_URL (Some ''production'') = [] then
        [''  - CORS_ORIGINS or FRONTEND_URL: at least one origin must be configured in production'']
      else [])"

section \<open>The signing key\<close>

text \<open>The calls to \<open>crypto\<close> and \<open>Buffer\<close>; a key that does not parse throws.\<close>

record rsa_jwk =
  jwk_e :: string
  jwk_kty :: string
  jwk_n :: string

record 'x crypto =
  decode_base64 :: "string \<Rightarrow> string"
  derive_public_key :: "string \<Rightarrow> error + string"
  export_jwk :: "string \<Rightarrow> error + rsa_jwk"
  thumbprint_digest :: "string \<Rightarrow> string"
  generate_rsa_pair :: "'x \<Rightarrow> (string \<times> string) \<times> 'x"

record ISigningKeyPair =
  privateKeyPem :: string
  publicKeyPem :: string
  kid :: string

text \<open>
  \<open>JSON.stringify({ e, kty, n })\<close>. The members are base64url and the key type, so nothing in them
  is escaped.
\<close>

definition json_member :: "string \<Rightarrow> string \<Rightarrow> string" where
  "json_member k v = quoted k @ '':'' @ quoted v"

definition computeRsaJwkThumbprint :: "'x crypto \<Rightarrow> string \<Rightarrow> error + string" where
  "computeRsaJwkThumbprint C publicKey = (case export_jwk C publicKey of
       Inl err \<Rightarrow> Inl err
     | Inr jwk \<Rightarrow> Inr (thumbprint_digest C (''{'' @ json_member ''e'' (jwk_e jwk) @ '','' @
         json_member ''kty'' (jwk_kty jwk) @ '','' @ json_member ''n'' (jwk_n jwk) @ ''}'')))"

text \<open>The dash in the message below is an em dash in the code, outside the code units of the model.\<close>

definition resolveSigningKeyPair ::
  "'x crypto \<Rightarrow> string option \<Rightarrow> string option \<Rightarrow> ('x, error, ISigningKeyPair) comp" where
  "resolveSigningKeyPair C JWT_PRIVATE_KEY NODE_ENV =
     (if env_set JWT_PRIVATE_KEY then
        let private = decode_base64 C (the JWT_PRIVATE_KEY) in
        bindE (liftE (derive_public_key C private)) (\<lambda>public.
        bindE (liftE (computeRsaJwkThumbprint C public)) (\<lambda>k.
        ret \<lparr>privateKeyPem = private, publicKeyPem = public, kid = k\<rparr>))
      else if NODE_ENV = Some ''production'' then
        throw (JsError (''JWT_PRIVATE_KEY is required when NODE_ENV is '' @ quoted ''production'' @
          '' - refusing to start without an explicit signing key.''))
      else
        bindE (stepS (generate_rsa_pair C)) (\<lambda>pair. case pair of (private, public) \<Rightarrow>
        bindE (liftE (computeRsaJwkThumbprint C public)) (\<lambda>k.
        ret \<lparr>privateKeyPem = private, publicKeyPem = public, kid = k\<rparr>)))"

section \<open>The sections of the configuration\<close>

definition parsePlatformAdminEmails :: "string option \<Rightarrow> string list option" where
  "parsePlatformAdminEmails raw = (case raw of None \<Rightarrow> None
     | Some s \<Rightarrow> Some (filter (\<lambda>e. 0 < length e)
         (map (\<lambda>email. js_lower (js_trim email)) (js_split (CHR '','') s))))"

record auth_section =
  as_jwtPrivateKey :: string
  as_jwtPublicKey :: string
  as_jwtKeyId :: string
  as_jwtExpiresIn :: string
  as_refreshTokenTtlDays :: "int option"
  as_cookieDomain :: "string option"
  as_platformAdminEmails :: "string list option"
  as_keycloak :: keycloak_config

definition authConfig :: "'x crypto \<Rightarrow> env \<Rightarrow> ('x, error, auth_section) comp" where
  "authConfig C env =
     bindE (resolveSigningKeyPair C (env ''JWT_PRIVATE_KEY'') (env ''NODE_ENV'')) (\<lambda>pair.
     ret \<lparr>as_jwtPrivateKey = privateKeyPem pair, as_jwtPublicKey = publicKeyPem pair,
       as_jwtKeyId = kid pair, as_jwtExpiresIn = value_or (env ''JWT_EXPIRES_IN'') ''15m'',
       as_refreshTokenTtlDays = parse_int (value_or (env ''REFRESH_TOKEN_TTL_DAYS'') ''30''),
       as_cookieDomain = env ''COOKIE_DOMAIN'',
       as_platformAdminEmails = parsePlatformAdminEmails (env ''PLATFORM_ADMIN_EMAILS''),
       as_keycloak = \<lparr>kc_baseUrl = value_or (env ''KEYCLOAK_BASE_URL'') ''http://localhost:8084'',
         kc_realm = value_or (env ''KEYCLOAK_REALM'') ''sisques-account'',
         kc_clientId = value_or (env ''KEYCLOAK_CLIENT_ID'') ''account-api'',
         kc_clientSecret = value_or (env ''KEYCLOAK_CLIENT_SECRET'') []\<rparr>\<rparr>)"

record app_section =
  cf_name :: string
  cf_nodeEnv :: string
  cf_frontendUrl :: string
  cf_corsOrigins :: "string list"

definition appConfig :: "env \<Rightarrow> app_section" where
  "appConfig env = \<lparr>cf_name = trim_or (env ''SERVICE_NAME'') ''account-api'',
     cf_nodeEnv = value_or (env ''NODE_ENV'') ''development'',
     cf_frontendUrl = (let u = value_or (env ''FRONTEND_URL'') ''http://localhost:3001''
       in if u \<noteq> [] \<and> last u = CHR ''/'' then butlast u else u),
     cf_corsOrigins = resolveCorsOrigins (env ''CORS_ORIGINS'') (env ''FRONTEND_URL'') (env ''NODE_ENV'')\<rparr>"

definition parseBrokers :: "string option \<Rightarrow> string list" where
  "parseBrokers raw =
     filter (\<lambda>b. 0 < length b) (map js_trim (js_split (CHR '','') (value_or raw [])))"

record kafka_sasl =
  ks_mechanism :: string
  ks_username :: string
  ks_password :: string

definition resolveSasl :: "env \<Rightarrow> kafka_sasl option" where
  "resolveSasl env =
     (if \<not> env_set (env ''KAFKA_SASL_USERNAME'') \<or> \<not> env_set (env ''KAFKA_SASL_PASSWORD'') then None
      else Some \<lparr>ks_mechanism = trim_or (env ''KAFKA_SASL_MECHANISM'') ''plain'',
        ks_username = js_trim (the (env ''KAFKA_SASL_USERNAME'')),
        ks_password = js_trim (the (env ''KAFKA_SASL_PASSWORD''))\<rparr>)"

record kafka_section =
  kf_enabled :: bool
  kf_clientId :: string
  kf_brokers :: "string list"
  kf_topicPrefix :: string
  kf_ssl :: bool
  kf_sasl :: "kafka_sasl option"

definition kafkaConfig :: "env \<Rightarrow> kafka_section" where
  "kafkaConfig env = \<lparr>kf_enabled = (env ''KAFKA_ENABLED'' = Some ''true''),
     kf_clientId = trim_or (env ''KAFKA_CLIENT_ID'') ''account-api'',
     kf_brokers = parseBrokers (env ''KAFKA_BROKERS''),
     kf_topicPrefix = trim_or (env ''KAFKA_TOPIC_PREFIX'') ''account-api'',
     kf_ssl = (env ''KAFKA_SSL'' = Some ''true''), kf_sasl = resolveSasl env\<rparr>"

record event_store_section =
  es_enabled :: bool
  es_connectionString :: string
  es_streamPrefix :: string

definition eventStoreConfig :: "env \<Rightarrow> event_store_section" where
  "eventStoreConfig env = \<lparr>es_enabled = (env ''EVENTSTORE_ENABLED'' = Some ''true''),
     es_connectionString = trim_or (env ''EVENTSTORE_CONNECTION_STRING'') ''kurrentdb://localhost:2113?tls=false'',
     es_streamPrefix = trim_or (env ''EVENTSTORE_STREAM_PREFIX'') ''account-api''\<rparr>"

record postgres_section =
  pg_type :: string
  pg_host :: "string option"
  pg_port :: "int option"
  pg_username :: "string option"
  pg_password :: "string option"
  pg_database :: "string option"
  pg_synchronize :: bool
  pg_migrationsRun :: bool

definition postgresConfig :: "env \<Rightarrow> postgres_section" where
  "postgresConfig env = \<lparr>pg_type = value_or (env ''DATABASE_DRIVER'') ''postgres'',
     pg_host = env ''DATABASE_HOST'', pg_port = parse_int (value_or (env ''DATABASE_PORT'') ''5432''),
     pg_username = env ''DATABASE_USERNAME'', pg_password = env ''DATABASE_PASSWORD'',
     pg_database = env ''DATABASE_DATABASE'',
     pg_synchronize = (env ''DATABASE_SYNCHRONIZE'' = Some ''true''),
     pg_migrationsRun = (env ''DATABASE_MIGRATIONS_RUN'' \<noteq> Some ''false'')\<rparr>"

section \<open>Properties\<close>

lemma env_set_Some [simp]: "env_set (Some s) \<longleftrightarrow> js_trim s \<noteq> []" "\<not> env_set None"
  by (simp_all add: env_set_def)

lemma listed_email:
  "js_lower (js_trim email) \<in> set (filter (\<lambda>e. 0 < length e)
      (map (\<lambda>p. js_lower (js_trim p)) (js_split (CHR '','') raw))) \<longleftrightarrow>
    js_trim email \<noteq> [] \<and>
    (\<exists>p \<in> set (js_split (CHR '','') raw). js_lower (js_trim p) = js_lower (js_trim email))"
  using js_lower_Nil_iff [of "js_trim email"] by (auto simp del: js_lower_Nil_iff) (metis (no_types, lifting) image_eqI)

text \<open>Who is a platform admin: with \<open>PLATFORM_ADMIN_EMAILS\<close> unset the flag is never touched; with
  it set, even to a blank value, a user becomes one exactly when an entry of the list, trimmed
  and in lower case, is the user's address (so a blank list revokes everyone).\<close>

lemma platform_admins_from_env:
  "ReconcilePlatformAdminService_execute email cur (parsePlatformAdminEmails None) = None \<and>
   ReconcilePlatformAdminService_execute email cur (parsePlatformAdminEmails (Some raw)) =
     (let listed = js_trim email \<noteq> [] \<and>
        (\<exists>p \<in> set (js_split (CHR '','') raw). js_lower (js_trim p) = js_lower (js_trim email))
      in if listed = cur then None else Some listed)"
  unfolding Let_def ReconcilePlatformAdminService_execute_def
  by (simp add: parsePlatformAdminEmails_def listed_email [symmetric] Let_def)

text \<open>The sample environment of a production deployment, and keys for it.\<close>

definition sample_env :: env where
  "sample_env = [''NODE_ENV'' \<mapsto> ''production'', ''JWT_PRIVATE_KEY'' \<mapsto> ''LS0t'',
     ''CORS_ORIGINS'' \<mapsto> '' https://a.example/ , '', ''DATABASE_DRIVER'' \<mapsto> ''postgres'',
     ''DATABASE_HOST'' \<mapsto> ''db'', ''DATABASE_PORT'' \<mapsto> ''5432'', ''DATABASE_USERNAME'' \<mapsto> ''u'',
     ''DATABASE_PASSWORD'' \<mapsto> ''p'', ''DATABASE_DATABASE'' \<mapsto> ''account'',
     ''OTEL_EXPORTER_OTLP_ENDPOINT'' \<mapsto> ''http://o:4318'', ''OTEL_TRACES_SAMPLE_RATIO'' \<mapsto> ''1'']"

definition sample_crypto :: "nat crypto" where
  "sample_crypto = \<lparr>decode_base64 = (\<lambda>s. ''PEM '' @ s), derive_public_key = (\<lambda>s. Inr (''PUBLIC '' @ s)),
     export_jwk = (\<lambda>s. Inr \<lparr>jwk_e = ''AQAB'', jwk_kty = ''RSA'', jwk_n = s\<rparr>),
     thumbprint_digest = (\<lambda>s. s), generate_rsa_pair = (\<lambda>n. ((''new key'', ''PUBLIC new key''), Suc n))\<rparr>"

end
