(* ===== verification/Core_Security.thy ===== *)
theory Core_Security
  imports Core_Config Tenancy_Handlers
begin

text \<open>
  The guards and keys shared by every context (\<open>src/core/security\<close>), and the tenant permission guard
  of \<open>src/contexts/tenancy/infrastructure/guards\<close>. A guard is a computation over an exchange: the
  execution context of NestJS as far as the code reads it, the cookies set on the response, and
  the world. Both requests an execution context can hold are in it, that of the HTTP arguments
  and that of the GraphQL context.
\<close>

section \<open>Exchanges\<close>

record express_request =
  req_authorization :: "string option"
  req_user :: "access_token_claims option"
  req_tenantId :: string

record cookie =
  ck_name :: string
  ck_value :: string
  ck_httpOnly :: bool
  ck_secure :: bool
  ck_sameSite :: string
  ck_domain :: "string option"
  ck_maxAge :: int

text \<open>
  \<open>req_tenantId\<close> is the path parameter \<open>:tenantId\<close>, \<open>ex_inputTenantId\<close> the field \<open>tenantId\<close> of the
  argument \<open>input\<close> of a GraphQL operation.
\<close>

record 'x exchange =
  ex_type :: string
  ex_http :: express_request
  ex_gql :: express_request
  ex_inputTenantId :: string
  ex_cookies :: "cookie list"
  ex_world :: "'x world"

text \<open>A call into the application, made by code that also sees the request.\<close>

definition in_world :: "('x world, 'e, 'a) comp \<Rightarrow> ('x exchange, 'e, 'a) comp" where
  "in_world m e = (case m (ex_world e) of (r, w) \<Rightarrow> (r, e\<lparr>ex_world := w\<rparr>))"

lemma in_world_run [run]:
  "in_world m e = (fst (m (ex_world e)), e\<lparr>ex_world := snd (m (ex_world e))\<rparr>)"
  by (simp add: in_world_def split: prod.split)

lemma in_world_liftE [simp]: "in_world (liftE r) = liftE r"
  by (simp add: in_world_def fun_eq_iff)

lemma in_world_bindE: "in_world (bindE m k) = bindE (in_world m) (\<lambda>a. in_world (k a))"
  by (simp add: in_world_def bindE_def fun_eq_iff split: prod.split sum.split)

section \<open>The guards\<close>

text \<open>\<open>getRequest\<close>, the same method in both guards and in \<open>extractCurrentUser\<close>.\<close>

definition getRequest :: "'x exchange \<Rightarrow> express_request" where
  "getRequest e = (if ex_type e = ''graphql'' then ex_gql e else ex_http e)"

definition set_user :: "access_token_claims \<Rightarrow> 'x exchange \<Rightarrow> 'x exchange" where
  "set_user claims e =
     (if ex_type e = ''graphql'' then e\<lparr>ex_gql := (ex_gql e)\<lparr>req_user := Some claims\<rparr>\<rparr>
      else e\<lparr>ex_http := (ex_http e)\<lparr>req_user := Some claims\<rparr>\<rparr>)"

definition JwtAuthGuard_extractToken :: "express_request \<Rightarrow> string option" where
  "JwtAuthGuard_extractToken r = (case req_authorization r of
       None \<Rightarrow> None
     | Some header \<Rightarrow>
         if \<not> starts_with ''Bearer '' header then None
         else Some (drop (length ''Bearer '') header))"

definition JwtAuthGuard_canActivate :: "'x lib \<Rightarrow> ('x exchange, error, bool) comp" where
  "JwtAuthGuard_canActivate L =
     bindE getS (\<lambda>e.
     case truthy (JwtAuthGuard_extractToken (getRequest e)) of
       None \<Rightarrow> throw (HttpException 401 ''Missing bearer token'')
     | Some token \<Rightarrow>
         catchE
           (bindE (in_world (outside (jwt_verify L token))) (\<lambda>claims.
            bindE (modifyS (set_user claims)) (\<lambda>_. ret True)))
           (\<lambda>_. throw (HttpException 401 ''Invalid or expired access token'')))"

definition PlatformAdminGuard_canActivate :: "('x exchange, error, bool) comp" where
  "PlatformAdminGuard_canActivate =
     bindE getS (\<lambda>e.
     if (case req_user (getRequest e) of None \<Rightarrow> True | Some user \<Rightarrow> \<not> cl_platformAdmin user)
     then throw (HttpException 403 ''Platform admin access required'')
     else ret True)"

record CurrentUserPayload =
  cu_userId :: string
  cu_email' :: string
  cu_platformAdmin :: bool
  cu_tenants :: "membership_claim list"

text \<open>Without a user, reading \<open>claims.sub\<close> is a \<open>TypeError\<close>.\<close>

definition extractCurrentUser :: "('x exchange, error, CurrentUserPayload) comp" where
  "extractCurrentUser =
     bindE getS (\<lambda>e.
     case req_user (getRequest e) of
       None \<Rightarrow> throw (JsError ''TypeError'')
     | Some claims \<Rightarrow> ret \<lparr>cu_userId = cl_sub claims, cu_email' = cl_email claims,
         cu_platformAdmin = cl_platformAdmin claims, cu_tenants = cl_tenants claims\<rparr>)"

section \<open>NestJS and the kit's permission guard\<close>

text \<open>
  What the routes use of code outside the repository: the class that
  \<open>createTenantPermissionGuard({ rolePermissions })\<close> makes, given the permission that the route's
  decorator \<open>RequiresPermission\<close> names; the pipe that validates a path parameter, and the one that
  validates the filters of a GraphQL query against a registry of fields; the kit's mapper of
  mutation responses, and the number of pages that its \<open>PaginatedResult\<close> computes.
\<close>

record mutation_response =
  mr_success :: bool
  mr_message :: string
  mr_id :: string

record find_by_criteria_input =
  fi_filters :: "(string \<times> string \<times> string) list option"
  fi_sorts :: "(string \<times> string) list option"
  fi_pagination :: "(int option \<times> int option) option"

record 'x nest =
  createTenantPermissionGuard ::
    "(tenant_role \<Rightarrow> tenant_permission list) \<Rightarrow> tenant_permission \<Rightarrow> ('x exchange, error, bool) comp"
  ParseUUIDPipe :: "string \<Rightarrow> error + string"
  FilterValidationPipe :: "(string \<times> string) list \<Rightarrow> find_by_criteria_input option \<Rightarrow>
    error + find_by_criteria_input option"
  MutationResponseGraphQLMapper_toResponseDto :: "mutation_response \<Rightarrow> mutation_response"
  totalPages :: "nat \<Rightarrow> nat \<Rightarrow> nat"

definition TenantPermissionGuard ::
  "'x nest \<Rightarrow> tenant_permission \<Rightarrow> ('x exchange, error, bool) comp" where
  "TenantPermissionGuard N permission = createTenantPermissionGuard N TENANT_ROLE_PERMISSIONS permission"

text \<open>
  \<open>@UseGuards\<close>: NestJS runs the guards of the class and then those of the method, and refuses the
  request with a \<open>ForbiddenException\<close> if one returns \<open>false\<close>.
\<close>

primrec guarded ::
  "('x exchange, error, bool) comp list \<Rightarrow> ('x exchange, error, 'a) comp \<Rightarrow> ('x exchange, error, 'a) comp"
where
  "guarded [] handler = handler"
| "guarded (g # gs) handler = bindE g (\<lambda>ok.
     if ok then guarded gs handler else throw (HttpException 403 ''Forbidden resource''))"

text \<open>
  The documented behaviour of the guard: it reads the memberships in \<open>request.user\<close>, changes
  nothing, lets a caller through only if a membership in the target tenant has a role whose
  permissions include the required one, and refuses with 403; a caller whose only membership in
  the tenant has such a role is let through. The target tenant is the path parameter over HTTP and
  the field of the input over GraphQL; nothing but the memberships and the target decides.
\<close>

definition target_tenant :: "'x exchange \<Rightarrow> string" where
  "target_tenant e = (if ex_type e = ''graphql'' then ex_inputTenantId e else req_tenantId (ex_http e))"

definition role_grants :: "(tenant_role \<Rightarrow> tenant_permission list) \<Rightarrow> tenant_permission \<Rightarrow> string \<Rightarrow> bool" where
  "role_grants permissions permission role \<longleftrightarrow>
     (\<exists>r \<in> set [OWNER, ADMIN, MEMBER]. tenant_role_value r = role \<and> permission \<in> set (permissions r))"

definition membership_grants ::
  "(tenant_role \<Rightarrow> tenant_permission list) \<Rightarrow> tenant_permission \<Rightarrow> access_token_claims \<Rightarrow> string \<Rightarrow> bool" where
  "membership_grants permissions permission claims tenantId \<longleftrightarrow>
     (\<exists>m \<in> set (cl_tenants claims). mc_tenantId m = tenantId \<and> role_grants permissions permission (mc_role m))"

definition rbac_ok :: "'x nest \<Rightarrow> bool" where
  "rbac_ok N \<longleftrightarrow> (\<forall>permissions p e r e'. createTenantPermissionGuard N permissions p e = (r, e') \<longrightarrow>
     e' = e \<and>
     (case r of
        Inl err \<Rightarrow> (\<exists>m. err = HttpException 403 m) \<and>
          (\<forall>claims. req_user (getRequest e) = Some claims \<longrightarrow>
             distinct (map mc_tenantId (cl_tenants claims)) \<longrightarrow>
             \<not> membership_grants permissions p claims (target_tenant e))
      | Inr ok \<Rightarrow> ok \<and> (\<exists>claims. req_user (getRequest e) = Some claims \<and>
          membership_grants permissions p claims (target_tenant e)))) \<and>
     (\<forall>permissions p e e'. req_user (getRequest e) = req_user (getRequest e') \<longrightarrow>
       target_tenant e = target_tenant e' \<longrightarrow>
       fst (createTenantPermissionGuard N permissions p e) =
       fst (createTenantPermissionGuard N permissions p e'))"

section \<open>What the guards do\<close>

lemma set_user_sel [simp]:
  "ex_type (set_user c e) = ex_type e" "ex_world (set_user c e) = ex_world e"
  "ex_cookies (set_user c e) = ex_cookies e" "target_tenant (set_user c e) = target_tenant e"
  "ex_inputTenantId (set_user c e) = ex_inputTenantId e"
  "req_tenantId (ex_http (set_user c e)) = req_tenantId (ex_http e)"
  "req_user (getRequest (set_user c e)) = Some c"
  by (simp_all add: set_user_def target_tenant_def getRequest_def)

text \<open>The token of a request, if there is a non-empty one.\<close>

definition bearer_token :: "'x exchange \<Rightarrow> string option" where
  "bearer_token e = truthy (JwtAuthGuard_extractToken (getRequest e))"

definition verified :: "'x lib \<Rightarrow> 'x exchange \<Rightarrow> string \<Rightarrow> error + access_token_claims" where
  "verified L e token = fst (jwt_verify L token (ext (ex_world e)))"

definition after_verify :: "'x lib \<Rightarrow> 'x exchange \<Rightarrow> string \<Rightarrow> 'x exchange" where
  "after_verify L e token =
     e\<lparr>ex_world := (ex_world e)\<lparr>ext := snd (jwt_verify L token (ext (ex_world e)))\<rparr>\<rparr>"

lemma JwtAuthGuard_run [run]:
  "JwtAuthGuard_canActivate L e = (case bearer_token e of
     None \<Rightarrow> (Inl (HttpException 401 ''Missing bearer token''), e)
   | Some token \<Rightarrow> (case verified L e token of
       Inl _ \<Rightarrow> (Inl (HttpException 401 ''Invalid or expired access token''), after_verify L e token)
     | Inr claims \<Rightarrow> (Inr True, set_user claims (after_verify L e token))))"
  by (auto simp: JwtAuthGuard_canActivate_def bearer_token_def verified_def after_verify_def bindE_def
      catchE_def in_world_run outside_run split: option.split sum.split)

lemma PlatformAdminGuard_run [run]:
  "PlatformAdminGuard_canActivate e =
     (if \<exists>c. req_user (getRequest e) = Some c \<and> cl_platformAdmin c then (Inr True, e)
      else (Inl (HttpException 403 ''Platform admin access required''), e))"
  by (auto simp: PlatformAdminGuard_canActivate_def bindE_def split: option.split)

lemma extractCurrentUser_run [run]:
  "req_user (getRequest e) = Some c \<Longrightarrow> extractCurrentUser e =
     (Inr \<lparr>cu_userId = cl_sub c, cu_email' = cl_email c, cu_platformAdmin = cl_platformAdmin c,
        cu_tenants = cl_tenants c\<rparr>, e)"
  by (simp add: extractCurrentUser_def bindE_def)

text \<open>A guard that looks but does not touch.\<close>

lemma after_verify_sel [simp]:
  "ex_type (after_verify L e t) = ex_type e" "ex_http (after_verify L e t) = ex_http e"
  "ex_gql (after_verify L e t) = ex_gql e" "ex_cookies (after_verify L e t) = ex_cookies e"
  "ex_inputTenantId (after_verify L e t) = ex_inputTenantId e"
  "target_tenant (after_verify L e t) = target_tenant e"
  by (simp_all add: after_verify_def target_tenant_def)

section \<open>The published key\<close>

record JsonWebKeyDto =
  kd_kty :: string
  kd_use :: string
  kd_alg :: string
  kd_kid :: string
  kd_n :: string
  kd_e :: string

definition JwksService_execute :: "'x crypto \<Rightarrow> string \<Rightarrow> string \<Rightarrow> error + JsonWebKeyDto" where
  "JwksService_execute C publicKey keyId = (case export_jwk C publicKey of
       Inl err \<Rightarrow> Inl err
     | Inr jwk \<Rightarrow> Inr \<lparr>kd_kty = ''RSA'', kd_use = ''sig'', kd_alg = ''RS256'', kd_kid = keyId,
         kd_n = jwk_n jwk, kd_e = jwk_e jwk\<rparr>)"

definition JwksController_jwks :: "'x crypto \<Rightarrow> auth_section \<Rightarrow> error + JsonWebKeyDto list" where
  "JwksController_jwks C config = (case JwksService_execute C (as_jwtPublicKey config) (as_jwtKeyId config) of
       Inl err \<Rightarrow> Inl err
     | Inr key \<Rightarrow> Inr [key])"

text \<open>What \<open>security.module.ts\<close> configures the one \<open>JwtService\<close> with, which signs and verifies.\<close>

record JwtModuleOptions =
  jm_privateKey :: string
  jm_publicKey :: string
  jm_algorithm :: string
  jm_keyid :: string
  jm_expiresIn :: string
  jm_algorithms :: "string list"

definition SecurityModule_jwtOptions :: "auth_section \<Rightarrow> JwtModuleOptions" where
  "SecurityModule_jwtOptions config = \<lparr>jm_privateKey = as_jwtPrivateKey config,
     jm_publicKey = as_jwtPublicKey config, jm_algorithm = ''RS256'', jm_keyid = as_jwtKeyId config,
     jm_expiresIn = as_jwtExpiresIn config, jm_algorithms = [''RS256'']\<rparr>"

text \<open>Node documents that a generated pair belongs together: \<open>createPublicKey\<close> of its private key is its public key.\<close>

definition crypto_ok :: "'x crypto \<Rightarrow> bool" where
  "crypto_ok C \<longleftrightarrow> (\<forall>x private public x'. generate_rsa_pair C x = ((private, public), x') \<longrightarrow>
     derive_public_key C private = Inr public)"

text \<open>However the pair was resolved, its public key is that of its private key and its \<open>kid\<close> the thumbprint.\<close>

lemma resolved_pair:
  assumes "crypto_ok C" and "resolveSigningKeyPair C key node x = (Inr pair, x')"
  shows "derive_public_key C (privateKeyPem pair) = Inr (publicKeyPem pair)"
    and "computeRsaJwkThumbprint C (publicKeyPem pair) = Inr (kid pair)"
    and "env_set key \<Longrightarrow> privateKeyPem pair = decode_base64 C (the key)"
proof -
  let ?pair = "\<lambda>private public k. \<lparr>privateKeyPem = private, publicKeyPem = public, kid = k\<rparr>"
  have generated: "derive_public_key C priv = Inr public" if "fst (generate_rsa_pair C x) = (priv, public)"
    for priv public
    using assms(1) that unfolding crypto_ok_def by (metis prod.collapse)
  have "\<exists>public private k. derive_public_key C private = Inr public \<and> computeRsaJwkThumbprint C public = Inr k \<and>
      pair = ?pair private public k \<and> (env_set key \<longrightarrow> private = decode_base64 C (the key))"
    using assms
    by (cases "env_set key"; cases "node = Some ''production''")
      (auto simp: resolveSigningKeyPair_def Let_def bindE_Inr_iff stepS_run generated split: prod.splits)
  then show "derive_public_key C (privateKeyPem pair) = Inr (publicKeyPem pair)"
    and "computeRsaJwkThumbprint C (publicKeyPem pair) = Inr (kid pair)"
    and "env_set key \<Longrightarrow> privateKeyPem pair = decode_base64 C (the key)" by auto
qed

text \<open>C35: the published key is the one the service signs with. After a start-up that resolved a key pair,
  \<open>GET /.well-known/jwks.json\<close> answers with exactly one key: the public key of the private key that
  the \<open>JwtService\<close> is given to sign with, under the algorithm and the \<open>kid\<close> that it puts into its
  tokens, and the \<open>JwtService\<close> verifies with that same public key and that algorithm only. The \<open>kid\<close>
  is the thumbprint of the published members, so a reader can recompute it. When \<open>JWT_PRIVATE_KEY\<close>
  is set, the service signs with the key that it encodes.\<close>

theorem jwks_publishes_signing_key:
  assumes "crypto_ok C" and "authConfig C env x = (Inr config, x')"
  shows "\<exists>public jwk. derive_public_key C (jm_privateKey (SecurityModule_jwtOptions config)) = Inr public \<and>
    export_jwk C public = Inr jwk \<and>
    JwksController_jwks C config = Inr [\<lparr>kd_kty = ''RSA'', kd_use = ''sig'',
      kd_alg = jm_algorithm (SecurityModule_jwtOptions config),
      kd_kid = jm_keyid (SecurityModule_jwtOptions config), kd_n = jwk_n jwk, kd_e = jwk_e jwk\<rparr>] \<and>
    jm_publicKey (SecurityModule_jwtOptions config) = public \<and>
    jm_algorithms (SecurityModule_jwtOptions config) = [jm_algorithm (SecurityModule_jwtOptions config)] \<and>
    jm_keyid (SecurityModule_jwtOptions config) =
      thumbprint_digest C (''{'' @ json_member ''e'' (jwk_e jwk) @ '','' @
        json_member ''kty'' (jwk_kty jwk) @ '','' @ json_member ''n'' (jwk_n jwk) @ ''}'') \<and>
    (env_set (env ''JWT_PRIVATE_KEY'') \<longrightarrow>
      jm_privateKey (SecurityModule_jwtOptions config) = decode_base64 C (the (env ''JWT_PRIVATE_KEY'')))"
proof -
  from assms(2) obtain pair where pair: "privateKeyPem pair = as_jwtPrivateKey config"
      "kid pair = as_jwtKeyId config" "publicKeyPem pair = as_jwtPublicKey config"
    and run: "resolveSigningKeyPair C (env ''JWT_PRIVATE_KEY'') (env ''NODE_ENV'') x = (Inr pair, x')"
    by (auto simp: authConfig_def bindE_Inr_iff)
  note resolved_pair [OF assms(1) run, unfolded pair]
  then show ?thesis
    by (auto simp: computeRsaJwkThumbprint_def JwksController_jwks_def JwksService_execute_def
        SecurityModule_jwtOptions_def split: sum.splits)
qed

lemma sample_crypto_ok: "crypto_ok sample_crypto"
  by (simp add: crypto_ok_def sample_crypto_def)

lemma jwks_publishes_signing_key_witness:
  "\<exists>config key. authConfig sample_crypto sample_env 7 = (Inr config, 7) \<and>
     JwksController_jwks sample_crypto config = Inr [key] \<and> kd_n key = ''PUBLIC PEM LS0t''"
proof -
  have "\<exists>config. authConfig sample_crypto sample_env 7 = (Inr config, 7)"
    by (simp add: authConfig_def resolveSigningKeyPair_def sample_crypto_def sample_env_def Let_def
        computeRsaJwkThumbprint_def js_trim_def js_space_def)
  then obtain config where run: "authConfig sample_crypto sample_env 7 = (Inr config, 7)" ..
  from jwks_publishes_signing_key [OF sample_crypto_ok run] obtain public jwk key where
    "jm_privateKey (SecurityModule_jwtOptions config) = decode_base64 sample_crypto (the (sample_env ''JWT_PRIVATE_KEY''))"
    "derive_public_key sample_crypto (jm_privateKey (SecurityModule_jwtOptions config)) = Inr public"
    "export_jwk sample_crypto public = Inr jwk"
    "JwksController_jwks sample_crypto config = Inr [key]" "kd_n key = jwk_n jwk"
    by (auto simp: sample_env_def env_set_def js_trim_def js_space_def)
  then have "kd_n key = ''PUBLIC PEM LS0t''" by (auto simp: sample_crypto_def sample_env_def)
  with run \<open>JwksController_jwks sample_crypto config = Inr [key]\<close> show ?thesis by blast
qed

end
