(* ===== verification/Transport_Tenancy.thy ===== *)
theory Transport_Tenancy
  imports Core_Security
begin

text \<open>
  The transport layer of the \<open>tenancy\<close> context (\<open>src/contexts/tenancy/transport\<close>): the REST controller,
  the GraphQL resolvers and their mappers. A route is a computation over an exchange: the guards
  of its class and of its method, the pipes and decorators of its parameters, and the body, which
  dispatches a command or a query. The body of a request and the input of a GraphQL operation are
  what NestJS' \<open>ValidationPipe\<close> hands over. \<open>commandBus.execute\<close> runs the handler of the command.
\<close>

section \<open>Responses\<close>

record TenantRestResponseDto =
  trd_id :: string
  trd_appId :: string
  trd_name :: string
  trd_slug :: string
  trd_createdAt :: int
  trd_updatedAt :: int

definition TenantRestMapper_toResponseDto :: "tenant_view_model \<Rightarrow> TenantRestResponseDto" where
  "TenantRestMapper_toResponseDto vm = \<lparr>trd_id = tv_id vm, trd_appId = tv_appId vm,
     trd_name = tv_name vm, trd_slug = tv_slug vm, trd_createdAt = tv_createdAt vm,
     trd_updatedAt = tv_updatedAt vm\<rparr>"

record TenantMembershipRestResponseDto =
  tmd_id :: string
  tmd_tenantId :: string
  tmd_userId :: string
  tmd_role :: string
  tmd_createdAt :: int
  tmd_updatedAt :: int

definition TenantMembershipRestMapper_toResponseDto ::
  "membership_view_model \<Rightarrow> TenantMembershipRestResponseDto" where
  "TenantMembershipRestMapper_toResponseDto vm = \<lparr>tmd_id = mv_id vm, tmd_tenantId = mv_tenantId vm,
     tmd_userId = mv_userId vm, tmd_role = mv_role vm, tmd_createdAt = mv_createdAt vm,
     tmd_updatedAt = mv_updatedAt vm\<rparr>"

record TenantResponseDto =
  tgd_id :: string
  tgd_appId :: string
  tgd_name :: string
  tgd_slug :: string
  tgd_createdAt :: int
  tgd_updatedAt :: int

record TenantMembershipResponseDto =
  mgd_id :: string
  mgd_tenantId :: string
  mgd_userId :: string
  mgd_role :: string
  mgd_createdAt :: int
  mgd_updatedAt :: int

definition TenantGraphQLMapper_toResponseDtoFromViewModel :: "tenant_view_model \<Rightarrow> TenantResponseDto" where
  "TenantGraphQLMapper_toResponseDtoFromViewModel vm = \<lparr>tgd_id = tv_id vm, tgd_appId = tv_appId vm,
     tgd_name = tv_name vm, tgd_slug = tv_slug vm, tgd_createdAt = tv_createdAt vm,
     tgd_updatedAt = tv_updatedAt vm\<rparr>"

definition TenantMembershipGraphQLMapper_toResponseDtoFromViewModel ::
  "membership_view_model \<Rightarrow> TenantMembershipResponseDto" where
  "TenantMembershipGraphQLMapper_toResponseDtoFromViewModel vm = \<lparr>mgd_id = mv_id vm,
     mgd_tenantId = mv_tenantId vm, mgd_userId = mv_userId vm, mgd_role = mv_role vm,
     mgd_createdAt = mv_createdAt vm, mgd_updatedAt = mv_updatedAt vm\<rparr>"

text \<open>A GraphQL page: the items, the counts of the result, and its number of pages.\<close>

record 'a gql_page =
  gp_items :: "'a list"
  gp_total :: nat
  gp_page :: nat
  gp_perPage :: nat
  gp_totalPages :: nat

definition TenantGraphQLMapper_toPaginatedResponseDto ::
  "'x nest \<Rightarrow> tenant_view_model paginated_result \<Rightarrow> TenantResponseDto gql_page" where
  "TenantGraphQLMapper_toPaginatedResponseDto N r =
     \<lparr>gp_items = map TenantGraphQLMapper_toResponseDtoFromViewModel (pr_items r), gp_total = pr_total r,
      gp_page = pr_page r, gp_perPage = pr_limit r, gp_totalPages = totalPages N (pr_total r) (pr_limit r)\<rparr>"

section \<open>The query string of a list\<close>

text \<open>
  \<open>if (query.x) filters.push({ field, operator, value: query.x })\<close>; an operator is written as the
  member of the kit's enum. A number is truthy unless it is zero.
\<close>

definition filter_if :: "string \<Rightarrow> string \<Rightarrow> string option \<Rightarrow> (string \<times> string \<times> string) list" where
  "filter_if field operator v = (case truthy v of None \<Rightarrow> [] | Some s \<Rightarrow> [(field, operator, s)])"

definition rest_pagination :: "int option \<Rightarrow> int option \<Rightarrow> (int option \<times> int option) option" where
  "rest_pagination page limit =
     (if (page \<noteq> None \<and> page \<noteq> Some 0) \<or> (limit \<noteq> None \<and> limit \<noteq> Some 0)
      then Some (Some (case page of None \<Rightarrow> 1 | Some p \<Rightarrow> p), Some (case limit of None \<Rightarrow> 20 | Some l \<Rightarrow> l))
      else None)"

record tenant_criteria_dto =
  tq_id :: "string option"
  tq_appId :: "string option"
  tq_slug :: "string option"
  tq_name :: "string option"
  tq_page :: "int option"
  tq_limit :: "int option"

definition tenant_criteria :: "tenant_criteria_dto \<Rightarrow> criteria" where
  "tenant_criteria q = \<lparr>cr_filters = Some (filter_if ''id'' ''EQUALS'' (tq_id q) @
       filter_if ''appId'' ''EQUALS'' (tq_appId q) @ filter_if ''slug'' ''LIKE'' (tq_slug q) @
       filter_if ''name'' ''LIKE'' (tq_name q)),
     cr_sorts = None, cr_pagination = rest_pagination (tq_page q) (tq_limit q)\<rparr>"

section \<open>The REST controller\<close>

text \<open>The validated bodies of the requests.\<close>

record create_tenant_dto =
  ctd_appId :: string
  ctd_name :: string
  ctd_slug :: "string option"

record update_tenant_dto =
  utd_name :: "string option"
  utd_slug :: "string option"

record add_tenant_member_dto =
  atd_email :: string
  atd_role :: tenant_role

text \<open>\<open>@Param('tenantId', ParseUUIDPipe)\<close>\<close>

definition param_tenantId :: "'x nest \<Rightarrow> ('x exchange, error, string) comp" where
  "param_tenantId N = bindE getS (\<lambda>e. liftE (ParseUUIDPipe N (req_tenantId (ex_http e))))"

definition TenantsController_findByCriteria ::
  "'x lib \<Rightarrow> tenant_entity criteria_kit \<Rightarrow> tenant_criteria_dto \<Rightarrow>
   ('x exchange, error, TenantRestResponseDto paginated_result) comp" where
  "TenantsController_findByCriteria L K query =
     guarded [JwtAuthGuard_canActivate L, PlatformAdminGuard_canActivate]
       (bindE (in_world (TenantFindByCriteriaQueryHandler_execute (tenant_read_repo L K)
          (tenant_criteria query))) (\<lambda>result.
        ret \<lparr>pr_items = map TenantRestMapper_toResponseDto (pr_items result),
          pr_total = pr_total result, pr_page = pr_page result, pr_limit = pr_limit result\<rparr>))"

definition TenantsController_create ::
  "'x lib \<Rightarrow> app_entity criteria_kit \<Rightarrow> create_tenant_dto \<Rightarrow> ('x exchange, error, string) comp" where
  "TenantsController_create L K dto =
     guarded [JwtAuthGuard_canActivate L]
       (bindE extractCurrentUser (\<lambda>user.
        in_world (bindE (new_CreateTenantCommand L (ctd_appId dto) (ctd_name dto) (ctd_slug dto)
            (cu_userId user))
          (CreateTenantCommandHandler_execute L (tenant_write_repo L) (membership_write_repo L)
            (app_lookup_adapter L K)))))"

definition TenantsController_update ::
  "'x lib \<Rightarrow> 'x nest \<Rightarrow> update_tenant_dto \<Rightarrow> ('x exchange, error, string) comp" where
  "TenantsController_update L N dto =
     guarded [JwtAuthGuard_canActivate L, TenantPermissionGuard N MANAGE_TENANT]
       (bindE (param_tenantId N) (\<lambda>tenantId.
        bindE extractCurrentUser (\<lambda>user.
        in_world (bindE (new_UpdateTenantCommand L tenantId (cu_userId user) (utd_name dto) (utd_slug dto))
          (UpdateTenantCommandHandler_execute L (tenant_write_repo L))))))"

definition TenantsController_remove :: "'x lib \<Rightarrow> 'x nest \<Rightarrow> ('x exchange, error, unit) comp" where
  "TenantsController_remove L N =
     guarded [JwtAuthGuard_canActivate L, TenantPermissionGuard N DELETE_TENANT]
       (bindE (param_tenantId N) (\<lambda>tenantId.
        bindE extractCurrentUser (\<lambda>user.
        in_world (bindE (new_DeleteTenantCommand L tenantId (cu_userId user))
          (DeleteTenantCommandHandler_execute (tenant_write_repo L) (membership_write_repo L))))))"

definition TenantsController_addMember ::
  "'x lib \<Rightarrow> 'x nest \<Rightarrow> add_tenant_member_dto \<Rightarrow> ('x exchange, error, IAddTenantMemberResult) comp" where
  "TenantsController_addMember L N dto =
     guarded [JwtAuthGuard_canActivate L, TenantPermissionGuard N MANAGE_MEMBERS]
       (bindE (param_tenantId N) (\<lambda>tenantId.
        in_world (bindE (new_AddTenantMemberCommand L tenantId (atd_email dto)
            (tenant_role_value (atd_role dto)))
          (AddTenantMemberCommandHandler_execute L (tenant_write_repo L) (membership_write_repo L)
            (tenancy_user_lookup L)))))"

definition TenantsController_listMembers ::
  "'x lib \<Rightarrow> membership_entity criteria_kit \<Rightarrow> 'x nest \<Rightarrow>
   ('x exchange, error, TenantMembershipRestResponseDto list) comp" where
  "TenantsController_listMembers L K N =
     guarded [JwtAuthGuard_canActivate L, TenantPermissionGuard N VIEW_TENANT]
       (bindE (param_tenantId N) (\<lambda>tenantId.
        bindE (in_world (bindE (new_TenantMembershipFindByTenantIdQuery L tenantId)
          (TenantMembershipFindByTenantIdQueryHandler_execute (tenant_write_repo L)
            (membership_read_repo L K)))) (\<lambda>members.
        ret (map TenantMembershipRestMapper_toResponseDto members))))"

section \<open>The GraphQL resolvers\<close>

text \<open>The field \<open>tenantId\<close> of an input is that of the exchange, from which the guard reads it too.\<close>

definition input_tenantId :: "('x exchange, error, string) comp" where
  "input_tenantId = bindE getS (\<lambda>e. ret (ex_inputTenantId e))"

definition TenantMutationsResolver_tenantCreate ::
  "'x lib \<Rightarrow> app_entity criteria_kit \<Rightarrow> 'x nest \<Rightarrow> create_tenant_dto \<Rightarrow>
   ('x exchange, error, mutation_response) comp" where
  "TenantMutationsResolver_tenantCreate L K N input =
     guarded [JwtAuthGuard_canActivate L]
       (bindE extractCurrentUser (\<lambda>user.
        bindE (in_world (bindE (new_CreateTenantCommand L (ctd_appId input) (ctd_name input)
            (ctd_slug input) (cu_userId user))
          (CreateTenantCommandHandler_execute L (tenant_write_repo L) (membership_write_repo L)
            (app_lookup_adapter L K)))) (\<lambda>tenantId.
        ret (MutationResponseGraphQLMapper_toResponseDto N \<lparr>mr_success = True,
          mr_message = ''Tenant created successfully'', mr_id = tenantId\<rparr>))))"

definition TenantMutationsResolver_tenantUpdate ::
  "'x lib \<Rightarrow> 'x nest \<Rightarrow> update_tenant_dto \<Rightarrow> ('x exchange, error, mutation_response) comp" where
  "TenantMutationsResolver_tenantUpdate L N input =
     guarded [JwtAuthGuard_canActivate L, TenantPermissionGuard N MANAGE_TENANT]
       (bindE input_tenantId (\<lambda>tenantId.
        bindE extractCurrentUser (\<lambda>user.
        bindE (in_world (bindE (new_UpdateTenantCommand L tenantId (cu_userId user) (utd_name input)
            (utd_slug input))
          (UpdateTenantCommandHandler_execute L (tenant_write_repo L)))) (\<lambda>_.
        ret (MutationResponseGraphQLMapper_toResponseDto N \<lparr>mr_success = True,
          mr_message = ''Tenant updated successfully'', mr_id = tenantId\<rparr>)))))"

definition TenantMutationsResolver_tenantDelete ::
  "'x lib \<Rightarrow> 'x nest \<Rightarrow> ('x exchange, error, mutation_response) comp" where
  "TenantMutationsResolver_tenantDelete L N =
     guarded [JwtAuthGuard_canActivate L, TenantPermissionGuard N DELETE_TENANT]
       (bindE input_tenantId (\<lambda>tenantId.
        bindE extractCurrentUser (\<lambda>user.
        bindE (in_world (bindE (new_DeleteTenantCommand L tenantId (cu_userId user))
          (DeleteTenantCommandHandler_execute (tenant_write_repo L) (membership_write_repo L)))) (\<lambda>_.
        ret (MutationResponseGraphQLMapper_toResponseDto N \<lparr>mr_success = True,
          mr_message = ''Tenant deleted successfully'', mr_id = tenantId\<rparr>)))))"

definition TenantMutationsResolver_tenantMemberAdd ::
  "'x lib \<Rightarrow> 'x nest \<Rightarrow> add_tenant_member_dto \<Rightarrow> ('x exchange, error, mutation_response) comp" where
  "TenantMutationsResolver_tenantMemberAdd L N input =
     guarded [JwtAuthGuard_canActivate L, TenantPermissionGuard N MANAGE_MEMBERS]
       (bindE input_tenantId (\<lambda>tenantId.
        bindE (in_world (bindE (new_AddTenantMemberCommand L tenantId (atd_email input)
            (tenant_role_value (atd_role input)))
          (AddTenantMemberCommandHandler_execute L (tenant_write_repo L) (membership_write_repo L)
            (tenancy_user_lookup L)))) (\<lambda>result.
        ret (MutationResponseGraphQLMapper_toResponseDto N \<lparr>mr_success = True,
          mr_message = ''Member added successfully'', mr_id = amr_membershipId result\<rparr>))))"

text \<open>The fields a client may filter and sort by, with the type of value each expects.\<close>

datatype TenantQueryableField = TQ_ID | TQ_APP_ID | TQ_NAME | TQ_SLUG | TQ_CREATED_AT | TQ_UPDATED_AT

primrec TenantQueryableField_value :: "TenantQueryableField \<Rightarrow> string" where
  "TenantQueryableField_value TQ_ID = ''id''"
| "TenantQueryableField_value TQ_APP_ID = ''appId''"
| "TenantQueryableField_value TQ_NAME = ''name''"
| "TenantQueryableField_value TQ_SLUG = ''slug''"
| "TenantQueryableField_value TQ_CREATED_AT = ''createdAt''"
| "TenantQueryableField_value TQ_UPDATED_AT = ''updatedAt''"

definition tenantFilterableFields :: "(string \<times> string) list" where
  "tenantFilterableFields = map (\<lambda>(f, t). (TenantQueryableField_value f, t))
     [(TQ_ID, ''uuid''), (TQ_APP_ID, ''uuid''), (TQ_NAME, ''string''), (TQ_SLUG, ''string''),
      (TQ_CREATED_AT, ''date''), (TQ_UPDATED_AT, ''date'')]"

definition gql_criteria :: "find_by_criteria_input option \<Rightarrow> criteria" where
  "gql_criteria input = (case input of
       None \<Rightarrow> \<lparr>cr_filters = None, cr_sorts = None, cr_pagination = None\<rparr>
     | Some i \<Rightarrow> \<lparr>cr_filters = fi_filters i, cr_sorts = fi_sorts i, cr_pagination = fi_pagination i\<rparr>)"

definition TenantQueriesResolver_tenantsFindByCriteria ::
  "'x lib \<Rightarrow> tenant_entity criteria_kit \<Rightarrow> 'x nest \<Rightarrow> find_by_criteria_input option \<Rightarrow>
   ('x exchange, error, TenantResponseDto gql_page) comp" where
  "TenantQueriesResolver_tenantsFindByCriteria L K N raw =
     guarded [JwtAuthGuard_canActivate L, PlatformAdminGuard_canActivate]
       (bindE (liftE (FilterValidationPipe N tenantFilterableFields raw)) (\<lambda>input.
        bindE (in_world (TenantFindByCriteriaQueryHandler_execute (tenant_read_repo L K)
          (gql_criteria input))) (\<lambda>result.
        ret (TenantGraphQLMapper_toPaginatedResponseDto N result))))"

definition TenantQueriesResolver_tenantMembershipsFindByTenantId ::
  "'x lib \<Rightarrow> membership_entity criteria_kit \<Rightarrow> 'x nest \<Rightarrow>
   ('x exchange, error, TenantMembershipResponseDto list) comp" where
  "TenantQueriesResolver_tenantMembershipsFindByTenantId L K N =
     guarded [JwtAuthGuard_canActivate L, TenantPermissionGuard N VIEW_TENANT]
       (bindE input_tenantId (\<lambda>tenantId.
        bindE (in_world (bindE (new_TenantMembershipFindByTenantIdQuery L tenantId)
          (TenantMembershipFindByTenantIdQueryHandler_execute (tenant_write_repo L)
            (membership_read_repo L K)))) (\<lambda>members.
        ret (map TenantMembershipGraphQLMapper_toResponseDtoFromViewModel members))))"

end
