(* ===== verification/Transport_Auth_App.thy ===== *)
theory Transport_Auth_App
  imports Transport_Tenancy Auth_Adapters
begin

text \<open>
  The transport layers of the contexts \<open>auth\<close> and \<open>app\<close> (\<open>src/contexts/auth/transport\<close>,
  \<open>src/contexts/app/transport\<close>): the controllers, the session cookies, the resolvers and the mappers.
\<close>

section \<open>Sessions over HTTP\<close>

text \<open>
  The configuration of a running service, as the two parts of the code that read it see it: the
  section \<open>auth\<close> (handlers) and the values that the cookies depend on.
\<close>

record cookie_config =
  cc_cookieDomain :: "string option"
  cc_nodeEnv :: string

definition session_cookie :: "cookie_config \<Rightarrow> string \<Rightarrow> string \<Rightarrow> int \<Rightarrow> cookie" where
  "session_cookie cfg name value maxAge = \<lparr>ck_name = name, ck_value = value, ck_httpOnly = True,
     ck_secure = (cc_nodeEnv cfg = ''production''), ck_sameSite = ''lax'',
     ck_domain = cc_cookieDomain cfg, ck_maxAge = maxAge\<rparr>"

definition setSessionCookies :: "cookie_config \<Rightarrow> string \<Rightarrow> string \<Rightarrow> ('x exchange, 'e, unit) comp" where
  "setSessionCookies cfg accessToken refreshToken =
     modifyS (\<lambda>e. e\<lparr>ex_cookies := ex_cookies e @
       [session_cookie cfg ''access_token'' accessToken (15 * 60 * 1000),
        session_cookie cfg ''refresh_token'' refreshToken (30 * 24 * 60 * 60 * 1000)]\<rparr>)"

record register_user_dto =
  rd_email :: string
  rd_password :: string
  rd_displayName :: "string option"

definition AuthController_register ::
  "'x lib \<Rightarrow> auth_config \<Rightarrow> register_user_dto \<Rightarrow> ('x exchange, error, string) comp" where
  "AuthController_register L cfg dto =
     in_world (bindE (new_RegisterUserCommand L (rd_email dto) (rd_password dto) (rd_displayName dto))
       (RegisterUserCommandHandler_execute (user_lookup L)
         (KeycloakIdentityProviderAdapter L (ac_keycloak cfg)) (user_provisioning L)))"

definition AuthController_login ::
  "'x lib \<Rightarrow> membership_entity criteria_kit \<Rightarrow> auth_config \<Rightarrow> cookie_config \<Rightarrow> string \<Rightarrow> string \<Rightarrow>
   ('x exchange, error, ILoginSessionResult) comp" where
  "AuthController_login L K cfg cookies email password =
     bindE (in_world (bindE (new_LoginUserCommand L email password)
       (LoginUserCommandHandler_execute L cfg (user_lookup L)
         (KeycloakIdentityProviderAdapter L (ac_keycloak cfg)) (membership_lookup L K)
         (session_write_repo L) (platform_admin L)))) (\<lambda>result.
     bindE (setSessionCookies cookies (lr_accessToken result) (lr_refreshToken result)) (\<lambda>_.
     ret result))"

definition AuthController_refresh ::
  "'x lib \<Rightarrow> membership_entity criteria_kit \<Rightarrow> auth_config \<Rightarrow> cookie_config \<Rightarrow> string \<Rightarrow>
   ('x exchange, error, ILoginSessionResult) comp" where
  "AuthController_refresh L K cfg cookies refreshToken =
     bindE (in_world (bindE (new_RefreshSessionCommand L refreshToken)
       (RefreshSessionCommandHandler_execute L cfg (session_write_repo L) (user_lookup L)
         (membership_lookup L K)))) (\<lambda>result.
     bindE (setSessionCookies cookies (lr_accessToken result) (lr_refreshToken result)) (\<lambda>_.
     ret result))"

section \<open>The app catalogue\<close>

record AppRestResponseDto =
  ard_id :: string
  ard_slug :: string
  ard_name :: string
  ard_createdAt :: int
  ard_updatedAt :: int

definition AppRestMapper_toResponseDto :: "app_view_model \<Rightarrow> AppRestResponseDto" where
  "AppRestMapper_toResponseDto vm = \<lparr>ard_id = av_id vm, ard_slug = av_slug vm, ard_name = av_name vm,
     ard_createdAt = av_createdAt vm, ard_updatedAt = av_updatedAt vm\<rparr>"

record AppResponseDto =
  agd_id :: string
  agd_slug :: string
  agd_name :: string
  agd_createdAt :: int
  agd_updatedAt :: int

definition AppGraphQLMapper_toResponseDtoFromViewModel :: "app_view_model \<Rightarrow> AppResponseDto" where
  "AppGraphQLMapper_toResponseDtoFromViewModel vm = \<lparr>agd_id = av_id vm, agd_slug = av_slug vm,
     agd_name = av_name vm, agd_createdAt = av_createdAt vm, agd_updatedAt = av_updatedAt vm\<rparr>"

definition AppGraphQLMapper_toPaginatedResponseDto ::
  "'x nest \<Rightarrow> app_view_model paginated_result \<Rightarrow> AppResponseDto gql_page" where
  "AppGraphQLMapper_toPaginatedResponseDto N r =
     \<lparr>gp_items = map AppGraphQLMapper_toResponseDtoFromViewModel (pr_items r), gp_total = pr_total r,
      gp_page = pr_page r, gp_perPage = pr_limit r, gp_totalPages = totalPages N (pr_total r) (pr_limit r)\<rparr>"

record app_criteria_dto =
  aq_id :: "string option"
  aq_slug :: "string option"
  aq_name :: "string option"
  aq_page :: "int option"
  aq_limit :: "int option"

definition app_criteria :: "app_criteria_dto \<Rightarrow> criteria" where
  "app_criteria q = \<lparr>cr_filters = Some (filter_if ''id'' ''EQUALS'' (aq_id q) @
       filter_if ''slug'' ''LIKE'' (aq_slug q) @ filter_if ''name'' ''LIKE'' (aq_name q)),
     cr_sorts = None, cr_pagination = rest_pagination (aq_page q) (aq_limit q)\<rparr>"

definition AppsController_create ::
  "'x lib \<Rightarrow> string option \<Rightarrow> string \<Rightarrow> ('x exchange, error, string) comp" where
  "AppsController_create L slug name =
     guarded [JwtAuthGuard_canActivate L]
       (in_world (bindE (new_CreateAppCommand L name slug)
         (CreateAppCommandHandler_execute L (app_write_repo L))))"

definition AppsController_findByCriteria ::
  "'x lib \<Rightarrow> app_entity criteria_kit \<Rightarrow> app_criteria_dto \<Rightarrow>
   ('x exchange, error, AppRestResponseDto paginated_result) comp" where
  "AppsController_findByCriteria L K query =
     guarded [JwtAuthGuard_canActivate L]
       (bindE (in_world (AppFindByCriteriaQueryHandler_execute (app_read_repo L K) (app_criteria query)))
         (\<lambda>result.
        ret \<lparr>pr_items = map AppRestMapper_toResponseDto (pr_items result),
          pr_total = pr_total result, pr_page = pr_page result, pr_limit = pr_limit result\<rparr>))"

definition AppMutationsResolver_appCreate ::
  "'x lib \<Rightarrow> 'x nest \<Rightarrow> string option \<Rightarrow> string \<Rightarrow> ('x exchange, error, mutation_response) comp" where
  "AppMutationsResolver_appCreate L N slug name =
     guarded [JwtAuthGuard_canActivate L]
       (bindE (in_world (bindE (new_CreateAppCommand L name slug)
         (CreateAppCommandHandler_execute L (app_write_repo L)))) (\<lambda>appId.
        ret (MutationResponseGraphQLMapper_toResponseDto N \<lparr>mr_success = True,
          mr_message = ''App created successfully'', mr_id = appId\<rparr>)))"

text \<open>The queries of the catalogue have no guard.\<close>

definition AppQueriesResolver_appFindById ::
  "'x lib \<Rightarrow> app_entity criteria_kit \<Rightarrow> string \<Rightarrow> ('x exchange, error, AppResponseDto option) comp" where
  "AppQueriesResolver_appFindById L K appId =
     bindE (in_world (bindE (new_AppFindByIdQuery L appId)
       (AppFindByIdQueryHandler_execute (app_read_repo L K)))) (\<lambda>result.
     ret (map_option AppGraphQLMapper_toResponseDtoFromViewModel result))"

datatype AppQueryableField = AQ_ID | AQ_SLUG | AQ_NAME | AQ_CREATED_AT | AQ_UPDATED_AT

primrec AppQueryableField_value :: "AppQueryableField \<Rightarrow> string" where
  "AppQueryableField_value AQ_ID = ''id''"
| "AppQueryableField_value AQ_SLUG = ''slug''"
| "AppQueryableField_value AQ_NAME = ''name''"
| "AppQueryableField_value AQ_CREATED_AT = ''createdAt''"
| "AppQueryableField_value AQ_UPDATED_AT = ''updatedAt''"

definition appFilterableFields :: "(string \<times> string) list" where
  "appFilterableFields = map (\<lambda>(f, t). (AppQueryableField_value f, t))
     [(AQ_ID, ''uuid''), (AQ_SLUG, ''string''), (AQ_NAME, ''string''), (AQ_CREATED_AT, ''date''),
      (AQ_UPDATED_AT, ''date'')]"

definition AppQueriesResolver_appsFindByCriteria ::
  "'x lib \<Rightarrow> app_entity criteria_kit \<Rightarrow> 'x nest \<Rightarrow> find_by_criteria_input option \<Rightarrow>
   ('x exchange, error, AppResponseDto gql_page) comp" where
  "AppQueriesResolver_appsFindByCriteria L K N raw =
     bindE (liftE (FilterValidationPipe N appFilterableFields raw)) (\<lambda>input.
     bindE (in_world (AppFindByCriteriaQueryHandler_execute (app_read_repo L K) (gql_criteria input)))
       (\<lambda>result.
     ret (AppGraphQLMapper_toPaginatedResponseDto N result)))"

end
