(* ===== verification/Exception_Filter.thy ===== *)
theory Exception_Filter
  imports Domain_Types
begin

text \<open>
  The mapping of exceptions to HTTP statuses: the resolver of each context
  (\<open>src/contexts/*/transport/exceptions\<close>) and the global filter that asks them in turn
  (\<open>src/core/filters/base-exception.filter.ts\<close>). \<open>instanceof\<close> is a test on the class, which no
  other class of the service extends.
\<close>

section \<open>The resolvers\<close>

fun resolveUserExceptionStatus :: "exception_class \<Rightarrow> nat option" where
  "resolveUserExceptionStatus UserEmailAlreadyRegisteredException = Some 409"
| "resolveUserExceptionStatus UserNotFoundException = Some 404"
| "resolveUserExceptionStatus _ = None"

fun resolveAuthExceptionStatus :: "exception_class \<Rightarrow> nat option" where
  "resolveAuthExceptionStatus EmailAlreadyRegisteredException = Some 409"
| "resolveAuthExceptionStatus InvalidCredentialsException = Some 401"
| "resolveAuthExceptionStatus InvalidRefreshTokenException = Some 401"
| "resolveAuthExceptionStatus RefreshTokenReuseDetectedException = Some 401"
| "resolveAuthExceptionStatus _ = None"

fun resolveAppExceptionStatus :: "exception_class \<Rightarrow> nat option" where
  "resolveAppExceptionStatus AppSlugAlreadyExistsException = Some 409"
| "resolveAppExceptionStatus AppNotFoundException = Some 404"
| "resolveAppExceptionStatus _ = None"

fun resolveTenancyExceptionStatus :: "exception_class \<Rightarrow> nat option" where
  "resolveTenancyExceptionStatus TenantSlugAlreadyExistsException = Some 409"
| "resolveTenancyExceptionStatus TenantMembershipAlreadyExistsException = Some 409"
| "resolveTenancyExceptionStatus TenantNotFoundException = Some 404"
| "resolveTenancyExceptionStatus MemberUserNotFoundException = Some 404"
| "resolveTenancyExceptionStatus NotTenantOwnerException = Some 403"
| "resolveTenancyExceptionStatus _ = None"

definition EXCEPTION_STATUS_RESOLVERS :: "(exception_class \<Rightarrow> nat option) list" where
  "EXCEPTION_STATUS_RESOLVERS = [resolveUserExceptionStatus, resolveAuthExceptionStatus,
     resolveAppExceptionStatus, resolveTenancyExceptionStatus]"

section \<open>The filter\<close>

text \<open>The loop of \<open>resolveStatus\<close>: the first resolver that answers decides, and 400 if none does.\<close>

primrec resolve_with :: "(exception_class \<Rightarrow> nat option) list \<Rightarrow> exception_class \<Rightarrow> nat" where
  "resolve_with [] e = 400"
| "resolve_with (r # rs) e = (case r e of Some status \<Rightarrow> status | None \<Rightarrow> resolve_with rs e)"

definition BaseExceptionFilter_resolveStatus :: "exception_class \<Rightarrow> nat" where
  "BaseExceptionFilter_resolveStatus e = resolve_with EXCEPTION_STATUS_RESOLVERS e"

text \<open>
  What \<open>catch\<close> does with an exception: it writes a JSON body to the response of an HTTP host, and
  throws a \<open>GraphQLError\<close> on any other. \<open>exception.name\<close> is set by the kit's base class: a parameter.
\<close>

datatype filter_outcome =
    JsonResponse nat string string
  | ThrownGraphQLError string string nat

definition BaseExceptionFilter_catch ::
  "(exception_class \<Rightarrow> string) \<Rightarrow> exception_class \<Rightarrow> string \<Rightarrow> string \<Rightarrow> filter_outcome" where
  "BaseExceptionFilter_catch name e message type =
     (let status = BaseExceptionFilter_resolveStatus e
      in if type = ''http'' then JsonResponse status message (name e)
         else ThrownGraphQLError message (name e) status)"

section \<open>Properties\<close>

text \<open>No exception is recognised by two resolvers.\<close>

lemma resolvers_exclusive:
  assumes "r \<in> set EXCEPTION_STATUS_RESOLVERS" "r' \<in> set EXCEPTION_STATUS_RESOLVERS"
    and "r e = Some s" "r' e = Some s'"
  shows "s = s'"
  using assms by (cases e) (auto simp: EXCEPTION_STATUS_RESOLVERS_def)

lemma resolve_with_Some:
  assumes "\<forall>r \<in> set rs. \<forall>t. r e = Some t \<longrightarrow> t = s" and "\<exists>r \<in> set rs. r e = Some s"
  shows "resolve_with rs e = s"
  using assms by (induction rs) (auto split: option.split)

lemma resolve_with_None: "\<forall>r \<in> set rs. r e = None \<Longrightarrow> resolve_with rs e = 400"
  by (induction rs) auto

lemma resolve_with_set:
  assumes rs: "set rs = set EXCEPTION_STATUS_RESOLVERS"
  shows "resolve_with rs e = BaseExceptionFilter_resolveStatus e"
proof (cases "\<exists>r \<in> set EXCEPTION_STATUS_RESOLVERS. \<exists>s. r e = Some s")
  case True
  then obtain r s where r: "r \<in> set EXCEPTION_STATUS_RESOLVERS" "r e = Some s" by blast
  have only: "\<forall>r \<in> set EXCEPTION_STATUS_RESOLVERS. \<forall>t. r e = Some t \<longrightarrow> t = s"
    using resolvers_exclusive [OF _ r(1) _ r(2)] by blast
  with r rs show ?thesis
    unfolding BaseExceptionFilter_resolveStatus_def
    by (metis resolve_with_Some)
next
  case False
  with rs show ?thesis
    unfolding BaseExceptionFilter_resolveStatus_def
    by (metis resolve_with_None option.exhaust)
qed

text \<open>The kind of failure an exception class stands for: what is taken, missing, not allowed, and so on.\<close>

datatype failure = Missing | Taken | Unauthenticated | Forbidden | Invalid

primrec failure_status :: "failure \<Rightarrow> nat" where
  "failure_status Missing = 404"
| "failure_status Taken = 409"
| "failure_status Unauthenticated = 401"
| "failure_status Forbidden = 403"
| "failure_status Invalid = 400"

definition class_kind :: "exception_class \<Rightarrow> failure" where
  "class_kind e = (case e of
       UserNotFoundException \<Rightarrow> Missing | AppNotFoundException \<Rightarrow> Missing
     | TenantNotFoundException \<Rightarrow> Missing | MemberUserNotFoundException \<Rightarrow> Missing
     | UserEmailAlreadyRegisteredException \<Rightarrow> Taken | EmailAlreadyRegisteredException \<Rightarrow> Taken
     | AppSlugAlreadyExistsException \<Rightarrow> Taken | TenantSlugAlreadyExistsException \<Rightarrow> Taken
     | TenantMembershipAlreadyExistsException \<Rightarrow> Taken
     | InvalidCredentialsException \<Rightarrow> Unauthenticated | InvalidRefreshTokenException \<Rightarrow> Unauthenticated
     | RefreshTokenReuseDetectedException \<Rightarrow> Unauthenticated
     | NotTenantOwnerException \<Rightarrow> Forbidden
     | KitException _ \<Rightarrow> Invalid)"

text \<open>C24: every exception has one status, whatever the order in which the contexts' resolvers are
  registered: 404 for what is missing, 409 for what is taken, 401 for refused credentials and
  tokens, 403 for a caller who is not an owner, and 400 only for the exceptions of the kit. Over
  HTTP and over GraphQL the client gets the same status, name and message.\<close>

theorem exception_status:
  assumes "set rs = set EXCEPTION_STATUS_RESOLVERS"
  shows "resolve_with rs e = BaseExceptionFilter_resolveStatus e \<and>
    BaseExceptionFilter_resolveStatus e = failure_status (class_kind e) \<and>
    (class_kind e = Invalid) = (\<exists>n. e = KitException n) \<and>
    (\<exists>s. BaseExceptionFilter_catch name e m ''http'' = JsonResponse s m (name e) \<and>
       BaseExceptionFilter_catch name e m ''graphql'' = ThrownGraphQLError m (name e) s \<and>
       s = resolve_with rs e)"
  using resolve_with_set [OF assms, of e]
  by (cases e) (simp_all add: BaseExceptionFilter_catch_def class_kind_def
      BaseExceptionFilter_resolveStatus_def EXCEPTION_STATUS_RESOLVERS_def)

lemma exception_status_witness:
  "resolve_with (rev EXCEPTION_STATUS_RESOLVERS) NotTenantOwnerException = 403"
  using exception_status [of "rev EXCEPTION_STATUS_RESOLVERS" NotTenantOwnerException]
  by (simp add: class_kind_def)

end
