(* ===== verification/Transport_Properties.thy ===== *)
theory Transport_Properties
  imports Transport_Auth_App Tenancy_Properties Exception_Filter
begin

text \<open>
  What the routes promise: a caller who is not entitled gets 401 or 403 and changes nothing, the
  GraphQL mutations do what the REST routes do, a session reaches the client in two cookies, and
  the pages of a list hold every row once.
\<close>

section \<open>Routes and their guards\<close>

text \<open>The claims of the verified token of a request.\<close>

definition caller :: "'x lib \<Rightarrow> 'x exchange \<Rightarrow> access_token_claims option" where
  "caller L e = (case bearer_token e of None \<Rightarrow> None
     | Some token \<Rightarrow> (case verified L e token of Inl _ \<Rightarrow> None | Inr claims \<Rightarrow> Some claims))"

definition may :: "'x lib \<Rightarrow> tenant_permission \<Rightarrow> 'x exchange \<Rightarrow> bool" where
  "may L p e \<longleftrightarrow> (case caller L e of None \<Rightarrow> False
     | Some claims \<Rightarrow> membership_grants TENANT_ROLE_PERMISSIONS p claims (target_tenant e))"

definition is_admin :: "'x lib \<Rightarrow> 'x exchange \<Rightarrow> bool" where
  "is_admin L e \<longleftrightarrow> (case caller L e of None \<Rightarrow> False | Some claims \<Rightarrow> cl_platformAdmin claims)"

text \<open>401 or 403, with the tables, the events and the cookies as they were.\<close>

definition refused :: "'x exchange \<Rightarrow> (error + 'a) \<times> 'x exchange \<Rightarrow> bool" where
  "refused e out \<longleftrightarrow> (\<exists>s m. fst out = Inl (HttpException s m) \<and> s \<in> {401, 403}) \<and>
     (\<exists>x. ex_world (snd out) = (ex_world e)\<lparr>ext := x\<rparr>) \<and> ex_cookies (snd out) = ex_cookies e"

lemma refused_401: "caller L e = None \<Longrightarrow> refused e (guarded (JwtAuthGuard_canActivate L # gs) h e)"
  by (auto simp: refused_def caller_def bindE_def JwtAuthGuard_run after_verify_def
      split: option.splits sum.splits intro: exI [of _ "ext (ex_world e)"])

lemma caller_run:
  assumes "caller L e = Some claims"
  obtains x where "guarded (JwtAuthGuard_canActivate L # gs) h e =
    guarded gs h (set_user claims (e\<lparr>ex_world := (ex_world e)\<lparr>ext := x\<rparr>\<rparr>))"
  using assms
  by (auto simp: caller_def bindE_def JwtAuthGuard_run after_verify_def split: option.splits sum.splits)

lemma target_ext [simp]: "target_tenant (e\<lparr>ex_world := w\<rparr>) = target_tenant e"
  by (simp add: target_tenant_def)

lemma tenant_guard_cases:
  assumes "rbac_ok N"
  obtains (pass) claims where "TenantPermissionGuard N p e = (Inr True, e)"
      "req_user (getRequest e) = Some claims"
      "membership_grants TENANT_ROLE_PERMISSIONS p claims (target_tenant e)"
  | (deny) m where "TenantPermissionGuard N p e = (Inl (HttpException 403 m), e)"
proof -
  obtain r e' where g: "createTenantPermissionGuard N TENANT_ROLE_PERMISSIONS p e = (r, e')" by fastforce
  with assms have "e' = e \<and> (case r of
        Inl err \<Rightarrow> (\<exists>m. err = HttpException 403 m) \<and>
          (\<forall>claims. req_user (getRequest e) = Some claims \<longrightarrow>
             distinct (map mc_tenantId (cl_tenants claims)) \<longrightarrow>
             \<not> membership_grants TENANT_ROLE_PERMISSIONS p claims (target_tenant e))
      | Inr ok \<Rightarrow> ok \<and> (\<exists>claims. req_user (getRequest e) = Some claims \<and>
          membership_grants TENANT_ROLE_PERMISSIONS p claims (target_tenant e)))"
    unfolding rbac_ok_def by blast
  with g that show ?thesis
    by (cases r) (auto simp: TenantPermissionGuard_def)
qed

lemma refused_tenant:
  assumes N: "rbac_ok N" and no: "\<not> may L p e"
  shows "refused e (guarded [JwtAuthGuard_canActivate L, TenantPermissionGuard N p] h e)"
proof (cases "caller L e")
  case None
  then show ?thesis by (rule refused_401)
next
  case (Some claims)
  then obtain x where run: "guarded [JwtAuthGuard_canActivate L, TenantPermissionGuard N p] h e =
      guarded [TenantPermissionGuard N p] h (set_user claims (e\<lparr>ex_world := (ex_world e)\<lparr>ext := x\<rparr>\<rparr>))"
    (is "_ = guarded _ _ ?e") by (rule caller_run)
  from Some no have no: "\<not> membership_grants TENANT_ROLE_PERMISSIONS p claims (target_tenant ?e)"
    by (simp add: may_def)
  show ?thesis
    using N
  proof (cases rule: tenant_guard_cases [where p = p and e = ?e])
    case (pass claims')
    with no show ?thesis by simp
  next
    case (deny m)
    then show ?thesis unfolding run by (auto simp: bindE_def refused_def)
  qed
qed

lemma refused_admin:
  assumes no: "\<not> is_admin L e"
  shows "refused e (guarded [JwtAuthGuard_canActivate L, PlatformAdminGuard_canActivate] h e)"
proof (cases "caller L e")
  case None
  then show ?thesis by (rule refused_401)
next
  case (Some claims)
  then obtain x where run: "guarded [JwtAuthGuard_canActivate L, PlatformAdminGuard_canActivate] h e =
      guarded [PlatformAdminGuard_canActivate] h (set_user claims (e\<lparr>ex_world := (ex_world e)\<lparr>ext := x\<rparr>\<rparr>))"
    by (rule caller_run)
  from Some no show ?thesis
    unfolding run by (auto simp: is_admin_def bindE_def PlatformAdminGuard_run refused_def)
qed

text \<open>C12: a caller whose token holds no membership in the target tenant with a role that grants the
  permission the route requires (or who has no valid token) is refused with 401 or 403 on every
  tenant route, over REST and over GraphQL, and nothing changes: no row, no event, no cookie.\<close>

theorem tenant_routes_guarded:
  assumes "rbac_ok N"
  shows "(\<not> may L MANAGE_TENANT e \<longrightarrow>
      refused e (TenantsController_update L N upd e) \<and>
      refused e (TenantMutationsResolver_tenantUpdate L N upd e)) \<and>
    (\<not> may L DELETE_TENANT e \<longrightarrow>
      refused e (TenantsController_remove L N e) \<and>
      refused e (TenantMutationsResolver_tenantDelete L N e)) \<and>
    (\<not> may L MANAGE_MEMBERS e \<longrightarrow>
      refused e (TenantsController_addMember L N add e) \<and>
      refused e (TenantMutationsResolver_tenantMemberAdd L N add e)) \<and>
    (\<not> may L VIEW_TENANT e \<longrightarrow>
      refused e (TenantsController_listMembers L K N e) \<and>
      refused e (TenantQueriesResolver_tenantMembershipsFindByTenantId L K N e)) \<and>
    (\<not> is_admin L e \<longrightarrow>
      refused e (TenantsController_findByCriteria L K' q e) \<and>
      refused e (TenantQueriesResolver_tenantsFindByCriteria L K' N i e)) \<and>
    (caller L e = None \<longrightarrow>
      refused e (TenantsController_create L K'' new e) \<and>
      refused e (TenantMutationsResolver_tenantCreate L K'' N new e))"
  unfolding TenantsController_update_def TenantMutationsResolver_tenantUpdate_def
    TenantsController_remove_def TenantMutationsResolver_tenantDelete_def
    TenantsController_addMember_def TenantMutationsResolver_tenantMemberAdd_def
    TenantsController_listMembers_def TenantQueriesResolver_tenantMembershipsFindByTenantId_def
    TenantsController_findByCriteria_def TenantQueriesResolver_tenantsFindByCriteria_def
    TenantsController_create_def TenantMutationsResolver_tenantCreate_def
  by (intro conjI impI refused_tenant [OF assms] refused_admin refused_401)

section \<open>Deleting a tenant over HTTP\<close>

text \<open>The status a client sees: that of the filter, of the HTTP exception, or NestJS' 500.\<close>

primrec error_status :: "error \<Rightarrow> nat" where
  "error_status (BaseException c m) = BaseExceptionFilter_resolveStatus c"
| "error_status (HttpException s m) = s"
| "error_status (JsError m) = 500"
| "error_status (QueryFailedError m) = 500"

lemma denied_status [simp]:
  "error_status (new_NotTenantOwnerException t u) = 403"
  "error_status (new_TenantNotFoundException t) = 404"
  by (simp_all add: exception_defs BaseExceptionFilter_resolveStatus_def EXCEPTION_STATUS_RESOLVERS_def)

lemma tenant_body_run:
  assumes "ParseUUIDPipe N (req_tenantId (ex_http e)) = Inr t" and "req_user (getRequest e) = Some c"
  shows "bindE (param_tenantId N) (\<lambda>t. bindE extractCurrentUser (\<lambda>u. in_world (m t u))) e =
    in_world (m t \<lparr>cu_userId = cl_sub c, cu_email' = cl_email c, cu_platformAdmin = cl_platformAdmin c,
      cu_tenants = cl_tenants c\<rparr>) e"
  using assms by (simp add: bindE_def param_tenantId_def extractCurrentUser_run)

lemma new_delete_command:
  "uuid_vo L t = Inr t \<Longrightarrow> uuid_vo L u = Inr u \<Longrightarrow> bindE (new_DeleteTenantCommand L t u) handler =
     handler \<lparr>dt_tenantId = t, dt_requesterUserId = u\<rparr>"
  by (simp add: new_DeleteTenantCommand_def)

text \<open>C11: no token deletes a tenant that its bearer does not own in the database: whatever memberships the
  claims list, stale ones included, \<open>DELETE /tenants/:tenantId\<close> by a user without a stored \<open>OWNER\<close>
  membership answers 403 (404 for an unknown tenant), and no row, event or cookie changes.\<close>

theorem delete_route_needs_owner:
  assumes N: "rbac_ok N" and who: "caller L e = Some claims"
    and ids: "ParseUUIDPipe N (req_tenantId (ex_http e)) = Inr t" "uuid_vo L t = Inr t"
      "uuid_vo L (cl_sub claims) = Inr (cl_sub claims)"
    and rd: "\<forall>r \<in> set (tenant_tbl (ex_world e)). \<exists>a. tenant_from_row L r = Inr a"
      "\<forall>m \<in> set (membership_tbl (ex_world e)). \<exists>b. membership_from_row L m = Inr b \<and> ma_role b = me_role m"
    and no: "\<forall>m \<in> set (membership_tbl (ex_world e)). me_tenantId m = t \<longrightarrow>
      me_userId m = cl_sub claims \<longrightarrow> me_role m \<noteq> ''OWNER''"
  shows "\<exists>err x e'. TenantsController_remove L N e = (Inl err, e') \<and>
    error_status err \<in> (if t \<in> te_id ` set (tenant_tbl (ex_world e)) then {403} else {403, 404}) \<and>
    ex_world e' = (ex_world e)\<lparr>ext := x\<rparr> \<and> ex_cookies e' = ex_cookies e"
proof -
  obtain x where run: "TenantsController_remove L N e =
      guarded [TenantPermissionGuard N DELETE_TENANT]
       (bindE (param_tenantId N) (\<lambda>tenantId.
        bindE extractCurrentUser (\<lambda>user.
        in_world (bindE (new_DeleteTenantCommand L tenantId (cu_userId user))
          (DeleteTenantCommandHandler_execute (tenant_write_repo L) (membership_write_repo L))))))
      (set_user claims (e\<lparr>ex_world := (ex_world e)\<lparr>ext := x\<rparr>\<rparr>))"
    (is "_ = guarded _ ?body ?e")
    unfolding TenantsController_remove_def by (rule caller_run [OF who])
  show ?thesis
    using N
  proof (cases rule: tenant_guard_cases [where p = DELETE_TENANT and e = ?e])
    case (deny m)
    then show ?thesis unfolding run by (auto simp: bindE_def)
  next
    case (pass claims')
    let ?c = "\<lparr>dt_tenantId = t, dt_requesterUserId = cl_sub claims\<rparr>"
    have "DeleteTenantCommandHandler_execute (tenant_write_repo L) (membership_write_repo L) ?c
        ((ex_world e)\<lparr>ext := x\<rparr>) = (Inl (if t \<in> te_id ` set (tenant_tbl (ex_world e))
          then new_NotTenantOwnerException t (cl_sub claims) else new_TenantNotFoundException t),
        (ex_world e)\<lparr>ext := x\<rparr>)"
      using delete_tenant_denied [where w = "(ex_world e)\<lparr>ext := x\<rparr>" and c = ?c and L = L] rd no
      by simp
    moreover have "?body ?e = in_world (DeleteTenantCommandHandler_execute (tenant_write_repo L)
        (membership_write_repo L) ?c) ?e"
      by (subst tenant_body_run) (simp_all add: ids, subst new_delete_command, simp_all add: ids)
    ultimately have "?body ?e = (Inl (if t \<in> te_id ` set (tenant_tbl (ex_world e))
        then new_NotTenantOwnerException t (cl_sub claims) else new_TenantNotFoundException t),
      ?e\<lparr>ex_world := (ex_world e)\<lparr>ext := x\<rparr>\<rparr>)"
      by (simp add: in_world_run)
    with pass(1) show ?thesis unfolding run by (simp add: bindE_def) force
  qed
qed

section \<open>REST and GraphQL\<close>

text \<open>The same call over the two protocols: same credentials, same target, same world.\<close>

definition same_call :: "'x exchange \<Rightarrow> 'x exchange \<Rightarrow> bool" where
  "same_call e g \<longleftrightarrow> ex_type e = ''http'' \<and> ex_type g = ''graphql'' \<and>
     req_authorization (ex_http e) = req_authorization (ex_gql g) \<and>
     req_tenantId (ex_http e) = ex_inputTenantId g \<and> ex_world e = ex_world g"

text \<open>The same error or corresponding results, and the same world after it.\<close>

definition agree ::
  "('a \<Rightarrow> 'b) \<Rightarrow> (error + 'a) \<times> 'x exchange \<Rightarrow> (error + 'b) \<times> 'x exchange \<Rightarrow> bool" where
  "agree f out out' \<longleftrightarrow> map_sum (\<lambda>err. err) f (fst out) = fst out' \<and>
     ex_world (snd out) = ex_world (snd out')"

lemma same_call_user:
  "same_call e g \<Longrightarrow> same_call (set_user c e) (set_user c g)"
  by (auto simp: same_call_def set_user_def)

lemma same_call_target: "same_call e g \<Longrightarrow> target_tenant e = target_tenant g"
  by (simp add: same_call_def target_tenant_def)

lemma jwt_agree:
  assumes same: "same_call e g"
    and rest: "\<And>c e' g'. same_call e' g' \<Longrightarrow> target_tenant e' = target_tenant e \<Longrightarrow>
      req_user (getRequest e') = Some c \<Longrightarrow> req_user (getRequest g') = Some c \<Longrightarrow>
      agree f (guarded gs h e') (guarded gs h' g')"
  shows "agree f (guarded (JwtAuthGuard_canActivate L # gs) h e)
    (guarded (JwtAuthGuard_canActivate L # gs) h' g)"
proof -
  have tok: "bearer_token g = bearer_token e"
    using same by (simp add: same_call_def bearer_token_def JwtAuthGuard_extractToken_def getRequest_def)
  have world: "ex_world g = ex_world e" using same by (simp add: same_call_def)
  have ver: "verified L g t = verified L e t" for t by (simp add: verified_def world)
  show ?thesis
  proof (cases "bearer_token e")
    case None
    with tok world show ?thesis by (simp add: bindE_def JwtAuthGuard_run agree_def)
  next
    case (Some t)
    let ?e = "after_verify L e t" and ?g = "after_verify L g t"
    have same': "same_call ?e ?g" using same by (auto simp: same_call_def after_verify_def)
    show ?thesis
    proof (cases "verified L e t")
      case (Inl err)
      with Some tok ver world show ?thesis
        by (simp add: bindE_def JwtAuthGuard_run agree_def after_verify_def)
    next
      case (Inr c)
      have "agree f (guarded gs h (set_user c ?e)) (guarded gs h' (set_user c ?g))"
        by (rule rest [OF same_call_user [OF same']]) simp_all
      with Inr Some tok ver show ?thesis by (simp add: bindE_def JwtAuthGuard_run)
    qed
  qed
qed

lemma tenant_agree:
  assumes N: "rbac_ok N" and same: "same_call e g"
    and users: "req_user (getRequest e) = Some c" "req_user (getRequest g) = Some c"
    and rest: "agree f (h e) (h' g)"
  shows "agree f (guarded [TenantPermissionGuard N p] h e) (guarded [TenantPermissionGuard N p] h' g)"
proof -
  have eq: "fst (TenantPermissionGuard N p e) = fst (TenantPermissionGuard N p g)"
    using N users same_call_target [OF same] by (simp add: rbac_ok_def TenantPermissionGuard_def)
  show ?thesis
    using N
  proof (cases rule: tenant_guard_cases [where p = p and e = e])
    case (pass claims)
    show ?thesis using N
    proof (cases rule: tenant_guard_cases [where p = p and e = g])
      case (deny m) with pass eq show ?thesis by simp
    qed (use pass rest in \<open>simp add: bindE_def\<close>)
  next
    case (deny m)
    show ?thesis using N
    proof (cases rule: tenant_guard_cases [where p = p and e = g])
      case (deny m')
      with \<open>TenantPermissionGuard N p e = _\<close> eq same show ?thesis
        by (simp add: bindE_def agree_def same_call_def)
    qed (use deny eq in simp)
  qed
qed

text \<open>The bodies: the REST one reads its parameter through a pipe, the GraphQL one maps its result.\<close>

lemma body_agree:
  assumes same: "same_call e g" and pipe: "ParseUUIDPipe N (target_tenant e) = Inr (target_tenant e)"
    and users: "req_user (getRequest e) = Some c" "req_user (getRequest g) = Some c"
    and out: "\<And>a. f (r a) = r' (target_tenant e) a"
  shows "agree f (bindE (param_tenantId N) (\<lambda>t. bindE extractCurrentUser (\<lambda>u.
        bindE (in_world (m t u)) (\<lambda>a. ret (r a)))) e)
    (bindE input_tenantId (\<lambda>t. bindE extractCurrentUser (\<lambda>u.
        bindE (in_world (m t u)) (\<lambda>a. ret (r' t a)))) g)"
    and "agree f (bindE (param_tenantId N) (\<lambda>t. bindE (in_world (m' t)) (\<lambda>a. ret (r a))) e)
    (bindE input_tenantId (\<lambda>t. bindE (in_world (m' t)) (\<lambda>a. ret (r' t a))) g)"
proof -
  have t: "req_tenantId (ex_http e) = target_tenant e" "ex_inputTenantId g = target_tenant e"
    and w: "ex_world g = ex_world e"
    using same by (simp_all add: same_call_def target_tenant_def)
  have conv: "map_sum (\<lambda>err. err) f (map_sum (\<lambda>err. err) r z) =
      map_sum (\<lambda>err. err) (r' (target_tenant e)) z" for z
    by (cases z) (simp_all add: out)
  have param: "bindE (param_tenantId N) k e = k (target_tenant e) e"
    and input: "bindE input_tenantId k' g = k' (target_tenant e) g" for k k'
    using pipe t by (simp_all add: param_tenantId_def input_tenantId_def bindE_def)
  have tail: "bindE (in_world M) (\<lambda>a. ret (q a)) z =
      (map_sum (\<lambda>err. err) q (fst (M (ex_world z))), z\<lparr>ex_world := snd (M (ex_world z))\<rparr>)" for M q z
    by (cases "fst (M (ex_world z))") (simp_all add: bindE_def in_world_run)
  show "agree f (bindE (param_tenantId N) (\<lambda>t. bindE extractCurrentUser (\<lambda>u.
        bindE (in_world (m t u)) (\<lambda>a. ret (r a)))) e)
    (bindE input_tenantId (\<lambda>t. bindE extractCurrentUser (\<lambda>u.
        bindE (in_world (m t u)) (\<lambda>a. ret (r' t a)))) g)"
    using users unfolding param input
    by (simp add: bindE_def [of extractCurrentUser] extractCurrentUser_run tail agree_def w conv)
  show "agree f (bindE (param_tenantId N) (\<lambda>t. bindE (in_world (m' t)) (\<lambda>a. ret (r a))) e)
    (bindE input_tenantId (\<lambda>t. bindE (in_world (m' t)) (\<lambda>a. ret (r' t a))) g)"
    unfolding param input by (simp add: tail agree_def w conv)
qed

lemma in_world_ret: "bindE (in_world m) (\<lambda>a. ret a) = in_world m"
  by (auto simp: bindE_def fun_eq_iff split: prod.split sum.split)

lemma creation_agree:
  assumes "same_call e g" "req_user (getRequest e) = Some c" "req_user (getRequest g) = Some c"
  shows "agree f (guarded [] (bindE extractCurrentUser (\<lambda>u. in_world (m u))) e)
    (guarded [] (bindE extractCurrentUser (\<lambda>u. bindE (in_world (m u)) (\<lambda>a. ret (f a)))) g)"
  using assms
  by (auto simp: bindE_def extractCurrentUser_run in_world_run agree_def same_call_def
      split: sum.split)

text \<open>Both guards and the body together, for a route with a requester and for one without.\<close>

lemma tenant_route_agree:
  assumes N: "rbac_ok N" and same: "same_call e g"
    and pipe: "ParseUUIDPipe N (target_tenant e) = Inr (target_tenant e)"
    and out: "\<And>a. f (r a) = r' (target_tenant e) a"
  shows "agree f
      (guarded [JwtAuthGuard_canActivate L, TenantPermissionGuard N p]
        (bindE (param_tenantId N) (\<lambda>t. bindE extractCurrentUser (\<lambda>u.
          bindE (in_world (m t u)) (\<lambda>a. ret (r a))))) e)
      (guarded [JwtAuthGuard_canActivate L, TenantPermissionGuard N p]
        (bindE input_tenantId (\<lambda>t. bindE extractCurrentUser (\<lambda>u.
          bindE (in_world (m t u)) (\<lambda>a. ret (r' t a))))) g)"
    and "agree f
      (guarded [JwtAuthGuard_canActivate L, TenantPermissionGuard N p]
        (bindE (param_tenantId N) (\<lambda>t. bindE (in_world (m' t)) (\<lambda>a. ret (r a)))) e)
      (guarded [JwtAuthGuard_canActivate L, TenantPermissionGuard N p]
        (bindE input_tenantId (\<lambda>t. bindE (in_world (m' t)) (\<lambda>a. ret (r' t a)))) g)"
  by (rule jwt_agree [OF same], rule tenant_agree [OF N], assumption+, rule body_agree,
      assumption, simp add: pipe, assumption+, simp add: out)+

definition gql_of_rest_membership :: "TenantMembershipRestResponseDto \<Rightarrow> TenantMembershipResponseDto" where
  "gql_of_rest_membership d = \<lparr>mgd_id = tmd_id d, mgd_tenantId = tmd_tenantId d, mgd_userId = tmd_userId d,
     mgd_role = tmd_role d, mgd_createdAt = tmd_createdAt d, mgd_updatedAt = tmd_updatedAt d\<rparr>"

lemma gql_of_rest_mapper:
  "gql_of_rest_membership (TenantMembershipRestMapper_toResponseDto vm) =
     TenantMembershipGraphQLMapper_toResponseDtoFromViewModel vm"
  by (simp add: gql_of_rest_membership_def TenantMembershipRestMapper_toResponseDto_def
      TenantMembershipGraphQLMapper_toResponseDtoFromViewModel_def)

text \<open>C21: the GraphQL operations on tenants do what the REST routes do: for the same credentials, target
  and world, each ends in the same world with the same error, or with the success message and the
  id of what the REST route returns; the list of members is the same list.\<close>

theorem rest_graphql_agree:
  assumes N: "rbac_ok N" and same: "same_call e g"
    and pipe: "ParseUUIDPipe N (target_tenant e) = Inr (target_tenant e)"
  shows "agree (\<lambda>i. MutationResponseGraphQLMapper_toResponseDto N
        \<lparr>mr_success = True, mr_message = ''Tenant created successfully'', mr_id = i\<rparr>)
      (TenantsController_create L K new e) (TenantMutationsResolver_tenantCreate L K N new g) \<and>
    agree (\<lambda>_. MutationResponseGraphQLMapper_toResponseDto N
        \<lparr>mr_success = True, mr_message = ''Tenant updated successfully'', mr_id = target_tenant e\<rparr>)
      (TenantsController_update L N upd e) (TenantMutationsResolver_tenantUpdate L N upd g) \<and>
    agree (\<lambda>_. MutationResponseGraphQLMapper_toResponseDto N
        \<lparr>mr_success = True, mr_message = ''Tenant deleted successfully'', mr_id = target_tenant e\<rparr>)
      (TenantsController_remove L N e) (TenantMutationsResolver_tenantDelete L N g) \<and>
    agree (\<lambda>r. MutationResponseGraphQLMapper_toResponseDto N
        \<lparr>mr_success = True, mr_message = ''Member added successfully'', mr_id = amr_membershipId r\<rparr>)
      (TenantsController_addMember L N add e) (TenantMutationsResolver_tenantMemberAdd L N add g) \<and>
    agree (map gql_of_rest_membership)
      (TenantsController_listMembers L K' N e)
      (TenantQueriesResolver_tenantMembershipsFindByTenantId L K' N g)"
proof (intro conjI)
  note route = tenant_route_agree [OF N same pipe]
  show "agree (\<lambda>_. MutationResponseGraphQLMapper_toResponseDto N
        \<lparr>mr_success = True, mr_message = ''Tenant updated successfully'', mr_id = target_tenant e\<rparr>)
      (TenantsController_update L N upd e) (TenantMutationsResolver_tenantUpdate L N upd g)"
    unfolding TenantsController_update_def TenantMutationsResolver_tenantUpdate_def
    by (rule route(1) [where r = "\<lambda>a. a", unfolded in_world_ret]) (rule refl)
  show "agree (\<lambda>_. MutationResponseGraphQLMapper_toResponseDto N
        \<lparr>mr_success = True, mr_message = ''Tenant deleted successfully'', mr_id = target_tenant e\<rparr>)
      (TenantsController_remove L N e) (TenantMutationsResolver_tenantDelete L N g)"
    unfolding TenantsController_remove_def TenantMutationsResolver_tenantDelete_def
    by (rule route(1) [where r = "\<lambda>a. a", unfolded in_world_ret]) (rule refl)
  show "agree (\<lambda>r. MutationResponseGraphQLMapper_toResponseDto N
        \<lparr>mr_success = True, mr_message = ''Member added successfully'', mr_id = amr_membershipId r\<rparr>)
      (TenantsController_addMember L N add e) (TenantMutationsResolver_tenantMemberAdd L N add g)"
    unfolding TenantsController_addMember_def TenantMutationsResolver_tenantMemberAdd_def
    by (rule route(2) [where r = "\<lambda>a. a", unfolded in_world_ret]) (rule refl)
  show "agree (map gql_of_rest_membership) (TenantsController_listMembers L K' N e)
      (TenantQueriesResolver_tenantMembershipsFindByTenantId L K' N g)"
    unfolding TenantsController_listMembers_def TenantQueriesResolver_tenantMembershipsFindByTenantId_def
    by (rule route(2)) (simp add: gql_of_rest_mapper comp_def)
  show "agree (\<lambda>i. MutationResponseGraphQLMapper_toResponseDto N
        \<lparr>mr_success = True, mr_message = ''Tenant created successfully'', mr_id = i\<rparr>)
      (TenantsController_create L K new e) (TenantMutationsResolver_tenantCreate L K N new g)"
    unfolding TenantsController_create_def TenantMutationsResolver_tenantCreate_def
    by (rule jwt_agree [OF same]) (rule creation_agree)
qed

end
