(* ===== verification/Transport_Lists.thy ===== *)
theory Transport_Lists
  imports Transport_Properties
begin

text \<open>
  Lists and sessions over HTTP: the pages of the app catalogue hold every matching app once, and a
  login or refresh hands its tokens to the client in two cookies.
\<close>

section \<open>Pages\<close>

lemma concat_pages: "concat (map (\<lambda>k. take l (drop (k * l) xs)) [0..<n]) = take (n * l) xs"
proof (induction n)
  case (Suc n)
  then show ?case by (simp add: take_add [symmetric] add.commute)
qed simp

lemma concat_pages_from_1:
  "length xs \<le> n * l \<Longrightarrow> concat (map (\<lambda>p. take l (drop ((p - 1) * l) xs)) [1..<Suc n]) = xs"
  using concat_pages [of l xs n] by (simp add: map_Suc_upt [symmetric] comp_def del: upt_Suc)

text \<open>
  The documented behaviour of the kit's paging, for pages of \<open>l\<close> rows: page \<open>p\<close> skips the rows of the
  pages before it, what matches does not depend on the page asked for, and only stored rows match.
\<close>

definition paging_ok :: "'row criteria_kit \<Rightarrow> int \<Rightarrow> bool" where
  "paging_ok K l \<longleftrightarrow>
     (\<forall>c p. 1 \<le> p \<longrightarrow> calculatePagination K (c\<lparr>cr_pagination := Some (Some p, Some l)\<rparr>) =
        (nat p, nat l, (nat p - 1) * nat l)) \<and>
     (\<forall>c pg alias ds rows. applyCriteria K (c\<lparr>cr_pagination := pg\<rparr>) alias ds rows =
        applyCriteria K c alias ds rows) \<and>
     (\<forall>c alias ds rows. set (applyCriteria K c alias ds rows) \<subseteq> set rows)"

definition app_dto :: "'x lib \<Rightarrow> app_entity \<Rightarrow> AppRestResponseDto" where
  "app_dto L r = AppRestMapper_toResponseDto (projr (app_view_from_row L r))"

lemma app_criteria_page:
  "app_criteria (q\<lparr>aq_page := Some p, aq_limit := Some l\<rparr>) =
     (app_criteria q)\<lparr>cr_pagination := (if p = 0 \<and> l = 0 then None else Some (Some p, Some l))\<rparr>"
  by (simp add: app_criteria_def rest_pagination_def)

lemma app_find_by_criteria_run:
  assumes rd: "\<forall>r \<in> set (app_tbl w). \<exists>v. app_view_from_row L r = Inr v"
    and page: "calculatePagination K c = (pg, limit, skip)"
    and sub: "set (applyCriteria K c ''app'' (''slug'', ASC) (app_tbl w)) \<subseteq> set (app_tbl w)"
  shows "AppFindByCriteriaQueryHandler_execute (app_read_repo L K) c w =
    (let m = applyCriteria K c ''app'' (''slug'', ASC) (app_tbl w)
     in (Inr \<lparr>pr_items = map (\<lambda>r. projr (app_view_from_row L r)) (take limit (drop skip m)),
          pr_total = length m, pr_page = pg, pr_limit = limit\<rparr>, w))"
proof -
  let ?m = "applyCriteria K c ''app'' (''slug'', ASC) (app_tbl w)"
  have "map_sums (app_view_from_row L) (take limit (drop skip ?m)) =
      Inr (map (\<lambda>r. projr (app_view_from_row L r)) (take limit (drop skip ?m)))"
  proof (rule map_sums_all)
    fix r assume "r \<in> set (take limit (drop skip ?m))"
    then have "r \<in> set (app_tbl w)" using sub by (auto dest: in_set_takeD in_set_dropD)
    with rd show "app_view_from_row L r = Inr (projr (app_view_from_row L r))" by force
  qed
  then show ?thesis
    by (simp add: AppFindByCriteriaQueryHandler_execute_def AppTypeOrmReadRepository_def app_repo_def
        find_by_criteria_def page Let_def bindE_find app_toViewModel_run mapE_liftE)
qed

lemma app_list_run:
  assumes who: "caller L e = Some claims"
    and rd: "\<forall>r \<in> set (app_tbl (ex_world e)). \<exists>v. app_view_from_row L r = Inr v"
    and K: "paging_ok K l" and p: "1 \<le> p" and l: "1 \<le> l"
    and m: "m = applyCriteria K (app_criteria q) ''app'' (''slug'', ASC) (app_tbl (ex_world e))"
  shows "fst (AppsController_findByCriteria L K (q\<lparr>aq_page := Some p, aq_limit := Some l\<rparr>) e) =
    Inr \<lparr>pr_items = map (app_dto L) (take (nat l) (drop ((nat p - 1) * nat l) m)),
      pr_total = length m, pr_page = nat p, pr_limit = nat l\<rparr>"
proof -
  let ?c = "(app_criteria q)\<lparr>cr_pagination := Some (Some p, Some l)\<rparr>"
  have c: "app_criteria (q\<lparr>aq_page := Some p, aq_limit := Some l\<rparr>) = ?c"
    using p by (simp add: app_criteria_page)
  have page: "calculatePagination K ?c = (nat p, nat l, (nat p - 1) * nat l)"
    and same: "applyCriteria K ?c ''app'' (''slug'', ASC) rows =
      applyCriteria K (app_criteria q) ''app'' (''slug'', ASC) rows"
    and sub: "set (applyCriteria K ?c ''app'' (''slug'', ASC) rows) \<subseteq> set rows" for rows
    using K p unfolding paging_ok_def by blast+
  obtain x where route: "AppsController_findByCriteria L K (q\<lparr>aq_page := Some p, aq_limit := Some l\<rparr>) e =
      guarded [] (bindE (in_world (AppFindByCriteriaQueryHandler_execute (app_read_repo L K) ?c)) (\<lambda>result.
        ret \<lparr>pr_items = map AppRestMapper_toResponseDto (pr_items result), pr_total = pr_total result,
          pr_page = pr_page result, pr_limit = pr_limit result\<rparr>))
      (set_user claims (e\<lparr>ex_world := (ex_world e)\<lparr>ext := x\<rparr>\<rparr>))"
    unfolding AppsController_findByCriteria_def c by (rule caller_run [OF who])
  have "AppFindByCriteriaQueryHandler_execute (app_read_repo L K) ?c ((ex_world e)\<lparr>ext := x\<rparr>) =
    (Inr \<lparr>pr_items = map (\<lambda>r. projr (app_view_from_row L r)) (take (nat l) (drop ((nat p - 1) * nat l) m)),
          pr_total = length m, pr_page = nat p, pr_limit = nat l\<rparr>, (ex_world e)\<lparr>ext := x\<rparr>)"
    using app_find_by_criteria_run [where w = "(ex_world e)\<lparr>ext := x\<rparr>", OF _ page] rd sub
    by (simp add: Let_def same m)
  then show ?thesis
    unfolding route by (simp add: bindE_def in_world_run app_dto_def comp_def)
qed

text \<open>C25: for any positive page size, the pages of \<open>GET /apps\<close> never hold more rows than the size asked
  for, every page reports the number of all matching apps, and the pages from the first one on,
  put together, are the matching apps in order, each exactly once.\<close>

theorem app_pages_cover:
  assumes who: "caller L e = Some claims"
    and rd: "\<forall>r \<in> set (app_tbl (ex_world e)). \<exists>v. app_view_from_row L r = Inr v"
    and K: "paging_ok K l" and l: "1 \<le> l"
    and m: "m = applyCriteria K (app_criteria q) ''app'' (''slug'', ASC) (app_tbl (ex_world e))"
    and page: "page = (\<lambda>p. fst (AppsController_findByCriteria L K
        (q\<lparr>aq_page := Some (int p), aq_limit := Some l\<rparr>) e))"
    and n: "length m \<le> n * nat l"
  shows "concat (map (\<lambda>p. pr_items (projr (page p))) [1..<Suc n]) = map (app_dto L) m \<and>
    (\<forall>p \<ge> 1. \<exists>r. page p = Inr r \<and> length (pr_items r) \<le> nat l \<and> pr_total r = length m)"
proof -
  have run: "page p = Inr \<lparr>pr_items = map (app_dto L) (take (nat l) (drop ((p - 1) * nat l) m)),
      pr_total = length m, pr_page = p, pr_limit = nat l\<rparr>" if "1 \<le> p" for p
    using app_list_run [OF who rd K _ l m, of "int p"] that by (simp add: page)
  have "map (\<lambda>p. pr_items (projr (page p))) [1..<Suc n] =
      map (\<lambda>p. map (app_dto L) (take (nat l) (drop ((p - 1) * nat l) m))) [1..<Suc n]"
    by (rule map_cong) (simp_all add: run del: upt_Suc One_nat_def)
  then have "concat (map (\<lambda>p. pr_items (projr (page p))) [1..<Suc n]) =
      map (app_dto L) (concat (map (\<lambda>p. take (nat l) (drop ((p - 1) * nat l) m)) [1..<Suc n]))"
    by (simp only: map_concat map_map comp_def)
  with run show ?thesis using concat_pages_from_1 [OF n] by auto
qed

section \<open>Session cookies\<close>

definition issued_cookies :: "cookie_config \<Rightarrow> error + ILoginSessionResult \<Rightarrow> cookie list" where
  "issued_cookies cc out = (case out of
       Inl err \<Rightarrow> []
     | Inr r \<Rightarrow>
         [\<lparr>ck_name = ''access_token'', ck_value = lr_accessToken r, ck_httpOnly = True,
            ck_secure = (cc_nodeEnv cc = ''production''), ck_sameSite = ''lax'',
            ck_domain = cc_cookieDomain cc, ck_maxAge = 900000\<rparr>,
          \<lparr>ck_name = ''refresh_token'', ck_value = lr_refreshToken r, ck_httpOnly = True,
            ck_secure = (cc_nodeEnv cc = ''production''), ck_sameSite = ''lax'',
            ck_domain = cc_cookieDomain cc, ck_maxAge = 2592000000\<rparr>])"

text \<open>C26: a login or a refresh that succeeds sets exactly two cookies, the two tokens it returned, out of
  reach of scripts, and sent only over TLS exactly in production; one that fails sets none. The
  refresh cookie lives 30 days whatever the configured life of a session is: it expires with the
  session only if \<open>REFRESH_TOKEN_TTL_DAYS\<close> is 30.\<close>

theorem session_cookies:
  "ex_cookies (snd (AuthController_login L K cfg cc email password e)) =
      ex_cookies e @ issued_cookies cc (fst (AuthController_login L K cfg cc email password e)) \<and>
    ex_cookies (snd (AuthController_refresh L K cfg cc token e)) =
      ex_cookies e @ issued_cookies cc (fst (AuthController_refresh L K cfg cc token e)) \<and>
    (2592000000 = expiry cfg t - t) = (ac_refreshTokenTtlDays cfg = 30)"
  unfolding AuthController_login_def AuthController_refresh_def
  by (intro conjI; auto simp: bindE_def in_world_run setSessionCookies_def session_cookie_def
      issued_cookies_def expiry_def split: sum.split)

end
