(* ===== verification/Transport_Witnesses.thy ===== *)
theory Transport_Witnesses
  imports Transport_Lists Sample_World
begin

text \<open>
  The properties of the transport layer at a concrete exchange: a permission guard that behaves as
  documented, requests with a bearer token of the sample JWT service, and the sample worlds.
\<close>

definition sample_guard ::
  "(tenant_role \<Rightarrow> tenant_permission list) \<Rightarrow> tenant_permission \<Rightarrow> (nat exchange, error, bool) comp" where
  "sample_guard permissions p e = ((case req_user (getRequest e) of
       None \<Rightarrow> Inl (HttpException 403 ''Forbidden'')
     | Some claims \<Rightarrow> if membership_grants permissions p claims (target_tenant e) then Inr True
         else Inl (HttpException 403 ''Forbidden'')), e)"

definition sample_nest :: "nat nest" where
  "sample_nest = \<lparr>createTenantPermissionGuard = sample_guard, ParseUUIDPipe = Inr,
     FilterValidationPipe = (\<lambda>fields input. Inr input),
     MutationResponseGraphQLMapper_toResponseDto = (\<lambda>r. r),
     totalPages = (\<lambda>total perPage. (total + perPage - 1) div perPage)\<rparr>"

lemma sample_rbac: "rbac_ok sample_nest"
  by (auto simp: rbac_ok_def sample_nest_def sample_guard_def split: option.splits if_splits)

definition sample_request :: "string \<Rightarrow> express_request" where
  "sample_request t = \<lparr>req_authorization = Some ''Bearer jwt:u1'', req_user = None, req_tenantId = t\<rparr>"

definition sample_exchange :: "string \<Rightarrow> nat world \<Rightarrow> nat exchange" where
  "sample_exchange type w = \<lparr>ex_type = type, ex_http = sample_request ''t1'',
     ex_gql = sample_request [], ex_inputTenantId = ''t1'', ex_cookies = [], ex_world = w\<rparr>"

definition sample_claims :: access_token_claims where
  "sample_claims = \<lparr>cl_sub = ''u1'', cl_email = [], cl_platformAdmin = False, cl_tenants = []\<rparr>"

lemma sample_caller: "caller sample_lib (sample_exchange type w) = Some sample_claims"
  by (simp add: caller_def bearer_token_def JwtAuthGuard_extractToken_def getRequest_def
      sample_exchange_def sample_request_def starts_with_def truthy_def verified_def sample_lib_def
      sample_claims_def)

lemma tenant_routes_guarded_witness:
  "refused (sample_exchange ''http'' tenancy_world)
     (TenantsController_remove sample_lib sample_nest (sample_exchange ''http'' tenancy_world))"
proof -
  have "\<not> may sample_lib DELETE_TENANT (sample_exchange ''http'' tenancy_world)"
    by (simp add: may_def sample_caller membership_grants_def sample_claims_def)
  with tenant_routes_guarded [OF sample_rbac, where L = sample_lib
      and e = "sample_exchange ''http'' tenancy_world" and K = sample_kit and K' = sample_kit and K'' = sample_kit]
  show ?thesis by blast
qed

text \<open>A token whose claims say that its bearer owns the tenant \<open>t1\<close>.\<close>

definition owner_claims :: "string \<Rightarrow> access_token_claims" where
  "owner_claims user = \<lparr>cl_sub = user, cl_email = [], cl_platformAdmin = False,
     cl_tenants = [\<lparr>mc_tenantId = ''t1'', mc_role = ''OWNER''\<rparr>]\<rparr>"

definition owner_lib :: "string \<Rightarrow> nat lib" where
  "owner_lib user = sample_lib\<lparr>jwt_verify := \<lambda>t x. (Inr (owner_claims user), x)\<rparr>"

lemma owner_caller: "caller (owner_lib user) (sample_exchange type w) = Some (owner_claims user)"
  by (simp add: caller_def bearer_token_def JwtAuthGuard_extractToken_def getRequest_def
      sample_exchange_def sample_request_def starts_with_def truthy_def verified_def owner_lib_def)

lemma rest_graphql_agree_witness:
  "agree (\<lambda>_. \<lparr>mr_success = True, mr_message = ''Tenant deleted successfully'', mr_id = ''t1''\<rparr>)
     (TenantsController_remove (owner_lib ''u1'') sample_nest (sample_exchange ''http'' tenancy_world))
     (TenantMutationsResolver_tenantDelete (owner_lib ''u1'') sample_nest
       (sample_exchange ''graphql'' tenancy_world))"
proof -
  have same: "same_call (sample_exchange ''http'' tenancy_world) (sample_exchange ''graphql'' tenancy_world)"
    by (simp add: same_call_def sample_exchange_def sample_request_def)
  have target: "target_tenant (sample_exchange ''http'' tenancy_world) = ''t1''"
    by (simp add: target_tenant_def sample_exchange_def sample_request_def)
  have nest: "ParseUUIDPipe sample_nest t = Inr t" "MutationResponseGraphQLMapper_toResponseDto sample_nest r = r"
    for t r by (simp_all add: sample_nest_def)
  note agreed = rest_graphql_agree [OF sample_rbac same nest(1), where L = "owner_lib ''u1''"
      and K = sample_kit and K' = sample_kit and new = "\<lparr>ctd_appId = ''a1'', ctd_name = ''N'', ctd_slug = None\<rparr>"
      and upd = "\<lparr>utd_name = None, utd_slug = None\<rparr>"
      and add = "\<lparr>atd_email = ''b@x'', atd_role = MEMBER\<rparr>"]
  show ?thesis
    by (rule agreed [unfolded nest(2) target, THEN conjunct2, THEN conjunct2, THEN conjunct1])
qed

lemma delete_route_needs_owner_witness:
  "\<exists>err e'. TenantsController_remove (owner_lib ''u2'') sample_nest (sample_exchange ''http'' tenancy_world) =
     (Inl err, e') \<and> error_status err = 403 \<and> tenant_tbl (ex_world e') = tenant_tbl tenancy_world"
proof -
  have world: "ex_world (sample_exchange ''http'' tenancy_world) = tenancy_world"
    "req_tenantId (ex_http (sample_exchange ''http'' tenancy_world)) = ''t1''"
    by (simp_all add: sample_exchange_def sample_request_def)
  have "\<exists>err x e'. TenantsController_remove (owner_lib ''u2'') sample_nest (sample_exchange ''http'' tenancy_world) =
      (Inl err, e') \<and>
    error_status err \<in> (if ''t1'' \<in> te_id ` set (tenant_tbl (ex_world (sample_exchange ''http'' tenancy_world)))
      then {403} else {403, 404}) \<and>
    ex_world e' = (ex_world (sample_exchange ''http'' tenancy_world))\<lparr>ext := x\<rparr> \<and>
    ex_cookies e' = ex_cookies (sample_exchange ''http'' tenancy_world)"
    by (rule delete_route_needs_owner [OF sample_rbac owner_caller])
      (unfold world, simp_all add: tenancy_sample_defs sample_nest_def owner_lib_def owner_claims_def)
  moreover have "''t1'' \<in> te_id ` set (tenant_tbl tenancy_world)"
    by (simp add: tenancy_world_def sample_tenant_def)
  ultimately show ?thesis by (auto simp: world)
qed

definition sample_query :: app_criteria_dto where
  "sample_query = \<lparr>aq_id = None, aq_slug = None, aq_name = None, aq_page = None, aq_limit = None\<rparr>"

lemma sample_paging: "paging_ok sample_kit l"
  by (auto simp: paging_ok_def sample_kit_def)

lemma app_pages_cover_witness:
  "concat (map (\<lambda>p. pr_items (projr (fst (AppsController_findByCriteria sample_lib sample_kit
      (sample_query\<lparr>aq_page := Some (int p), aq_limit := Some 1\<rparr>) (sample_exchange ''http'' sample_world)))))
     [1..<Suc 1]) =
   [\<lparr>ard_id = ''a1'', ard_slug = ''garden'', ard_name = ''Garden'', ard_createdAt = 0, ard_updatedAt = 0\<rparr>]"
proof -
  let ?e = "sample_exchange ''http'' sample_world"
  have world: "ex_world ?e = sample_world" by (simp add: sample_exchange_def)
  have view: "app_view_from_row sample_lib sample_app = Inr \<lparr>av_id = ''a1'', av_createdAt = 0,
      av_updatedAt = 0, av_slug = ''garden'', av_name = ''Garden''\<rparr>"
    by (simp add: tenancy_sample_defs)
  have rows: "applyCriteria sample_kit c a d rows = rows" for c a d and rows :: "app_entity list"
    by (simp add: sample_kit_def)
  have tbl: "app_tbl sample_world = [sample_app]" by (simp add: sample_world_def empty_world_def)
  have dto: "app_dto sample_lib sample_app = \<lparr>ard_id = ''a1'', ard_slug = ''garden'', ard_name = ''Garden'',
      ard_createdAt = 0, ard_updatedAt = 0\<rparr>"
    by (simp add: app_dto_def view AppRestMapper_toResponseDto_def)
  have rd: "\<forall>r \<in> set (app_tbl (ex_world ?e)). \<exists>v. app_view_from_row sample_lib r = Inr v"
    by (simp add: world tbl view)
  have n: "length (applyCriteria sample_kit (app_criteria sample_query) ''app'' (''slug'', ASC)
      (app_tbl (ex_world ?e))) \<le> 1 * nat 1"
    by (simp add: world tbl rows)
  show ?thesis
    using app_pages_cover [OF sample_caller rd sample_paging _ refl refl n, THEN conjunct1]
    by (simp add: world tbl rows dto)
qed

end
