(* ===== verification/Input_Validation.thy ===== *)
theory Input_Validation
  imports Transport_Auth_App
begin

text \<open>
  Request inputs: the classes under \<open>transport/rest/dtos\<close> and \<open>transport/graphql/dtos/requests\<close> as lists
  of properties with their decorators, and the global \<open>ValidationPipe\<close> of \<open>main.ts\<close> that checks a
  body or query string against its class and hands the controller a typed object.

  \<open>isEmail\<close>, \<open>isUUID\<close> and the number that a text denotes are parameters (\<open>validators\<close>), as is what a
  value object of the kit makes of a null in place of a string. Nested lists of filters and sorts
  are in \<open>Criteria_Inputs\<close>.
\<close>

section \<open>Values and decorators\<close>

text \<open>
  A parsed value. A number is a text that \<open>Number()\<close> reads as it; the fields of an object have
  distinct names. A property that is not there at all (\<open>undefined\<close>) is \<open>None\<close>.
\<close>

datatype json =
    JNull
  | JBool bool
  | JNum string
  | JStr string
  | JArr "json list"
  | JObj "(string \<times> json) list"

datatype design_type = TypeString | TypeNumber

datatype decorator =
    IsOptional
  | IsString
  | IsEmail
  | IsUUID
  | IsNotEmpty
  | IsEnum "string list"
  | MinLength nat
  | Matches "string \<Rightarrow> bool"
  | IsInt
  | Min int

record property =
  pt_name :: string
  pt_type :: design_type
  pt_decorators :: "decorator list"

text \<open>A property of a GraphQL input class also has the type that its \<open>@Field\<close> declares in the schema.\<close>

datatype field_type = FieldString | FieldEnum "string list"

record field_property = property +
  pt_field :: field_type
  pt_nullable :: bool

record validators =
  isEmail :: "string \<Rightarrow> bool"
  isUUID :: "string \<Rightarrow> bool"
  integer_of :: "string \<Rightarrow> int option"
  null_text :: "error + string"

section \<open>The classes\<close>

definition CreateTenantDto :: "property list" where
  "CreateTenantDto =
     [\<lparr>pt_name = ''appId'', pt_type = TypeString, pt_decorators = [IsUUID]\<rparr>,
      \<lparr>pt_name = ''name'', pt_type = TypeString, pt_decorators = [IsString, MinLength 1]\<rparr>,
      \<lparr>pt_name = ''slug'', pt_type = TypeString, pt_decorators = [IsOptional, IsString]\<rparr>]"

definition UpdateTenantDto :: "property list" where
  "UpdateTenantDto =
     [\<lparr>pt_name = ''name'', pt_type = TypeString, pt_decorators = [IsOptional, IsString, MinLength 1]\<rparr>,
      \<lparr>pt_name = ''slug'', pt_type = TypeString, pt_decorators = [IsOptional, IsString, MinLength 1]\<rparr>]"

definition AddTenantMemberDto :: "property list" where
  "AddTenantMemberDto =
     [\<lparr>pt_name = ''email'', pt_type = TypeString, pt_decorators = [IsEmail]\<rparr>,
      \<lparr>pt_name = ''role'', pt_type = TypeString,
        pt_decorators = [IsEnum (map tenant_role_value [OWNER, MEMBER, ADMIN])]\<rparr>]"

definition TenantCriteriaDto :: "property list" where
  "TenantCriteriaDto =
     [\<lparr>pt_name = ''id'', pt_type = TypeString, pt_decorators = [IsOptional, IsUUID]\<rparr>,
      \<lparr>pt_name = ''appId'', pt_type = TypeString, pt_decorators = [IsOptional, IsUUID]\<rparr>,
      \<lparr>pt_name = ''slug'', pt_type = TypeString, pt_decorators = [IsOptional, IsString]\<rparr>,
      \<lparr>pt_name = ''name'', pt_type = TypeString, pt_decorators = [IsOptional, IsString]\<rparr>,
      \<lparr>pt_name = ''page'', pt_type = TypeNumber, pt_decorators = [IsOptional, IsInt, Min 1]\<rparr>,
      \<lparr>pt_name = ''limit'', pt_type = TypeNumber, pt_decorators = [IsOptional, IsInt, Min 1]\<rparr>]"

definition AppCriteriaDto :: "property list" where
  "AppCriteriaDto =
     [\<lparr>pt_name = ''id'', pt_type = TypeString, pt_decorators = [IsOptional, IsUUID]\<rparr>,
      \<lparr>pt_name = ''slug'', pt_type = TypeString, pt_decorators = [IsOptional, IsString]\<rparr>,
      \<lparr>pt_name = ''name'', pt_type = TypeString, pt_decorators = [IsOptional, IsString]\<rparr>,
      \<lparr>pt_name = ''page'', pt_type = TypeNumber, pt_decorators = [IsOptional, IsInt, Min 1]\<rparr>,
      \<lparr>pt_name = ''limit'', pt_type = TypeNumber, pt_decorators = [IsOptional, IsInt, Min 1]\<rparr>]"

text \<open>The regular expression \<open>^[a-z0-9]+(-[a-z0-9]+)*$\<close>: words of lower case letters and digits, joined by hyphens.\<close>

definition slug_char :: "char \<Rightarrow> bool" where
  "slug_char c \<longleftrightarrow> (let n = of_char c :: nat in 97 \<le> n \<and> n \<le> 122 \<or> 48 \<le> n \<and> n \<le> 57)"

fun slug_words :: "string \<Rightarrow> bool" where
  "slug_words [] = False"
| "slug_words [c] = slug_char c"
| "slug_words (c # d # cs) =
     (slug_char c \<and> (if d = CHR ''-'' then slug_words cs else slug_words (d # cs)))"

definition CreateAppDto :: "property list" where
  "CreateAppDto =
     [\<lparr>pt_name = ''slug'', pt_type = TypeString, pt_decorators = [IsOptional, IsString, Matches slug_words]\<rparr>,
      \<lparr>pt_name = ''name'', pt_type = TypeString, pt_decorators = [IsString, MinLength 1]\<rparr>]"

definition RegisterUserDto :: "property list" where
  "RegisterUserDto =
     [\<lparr>pt_name = ''email'', pt_type = TypeString, pt_decorators = [IsEmail]\<rparr>,
      \<lparr>pt_name = ''password'', pt_type = TypeString, pt_decorators = [IsString, MinLength 8]\<rparr>,
      \<lparr>pt_name = ''displayName'', pt_type = TypeString,
        pt_decorators = [IsOptional, IsString, MinLength 1]\<rparr>]"

definition LoginUserDto :: "property list" where
  "LoginUserDto =
     [\<lparr>pt_name = ''email'', pt_type = TypeString, pt_decorators = [IsEmail]\<rparr>,
      \<lparr>pt_name = ''password'', pt_type = TypeString, pt_decorators = [IsString, MinLength 1]\<rparr>]"

definition RefreshTokenDto :: "property list" where
  "RefreshTokenDto =
     [\<lparr>pt_name = ''refreshToken'', pt_type = TypeString, pt_decorators = [IsString, MinLength 1]\<rparr>]"

text \<open>The inputs of the GraphQL operations.\<close>

definition TenantDeleteRequestDto :: "field_property list" where
  "TenantDeleteRequestDto =
     [\<lparr>pt_name = ''tenantId'', pt_type = TypeString, pt_decorators = [IsUUID, IsNotEmpty],
        pt_field = FieldString, pt_nullable = False\<rparr>]"

definition TenantMembershipFindByTenantIdRequestDto :: "field_property list" where
  "TenantMembershipFindByTenantIdRequestDto =
     [\<lparr>pt_name = ''tenantId'', pt_type = TypeString, pt_decorators = [IsUUID, IsNotEmpty],
        pt_field = FieldString, pt_nullable = False\<rparr>]"

definition TenantAddMemberRequestDto :: "field_property list" where
  "TenantAddMemberRequestDto =
     [\<lparr>pt_name = ''tenantId'', pt_type = TypeString, pt_decorators = [IsUUID, IsNotEmpty],
        pt_field = FieldString, pt_nullable = False\<rparr>,
      \<lparr>pt_name = ''email'', pt_type = TypeString, pt_decorators = [IsEmail],
        pt_field = FieldString, pt_nullable = False\<rparr>,
      \<lparr>pt_name = ''role'', pt_type = TypeString,
        pt_decorators = [IsEnum (map tenant_role_value [OWNER, MEMBER, ADMIN])],
        pt_field = FieldEnum (map tenant_role_value [OWNER, MEMBER, ADMIN]), pt_nullable = False\<rparr>]"

definition TenantCreateRequestDto :: "field_property list" where
  "TenantCreateRequestDto =
     [\<lparr>pt_name = ''appId'', pt_type = TypeString, pt_decorators = [IsUUID, IsNotEmpty],
        pt_field = FieldString, pt_nullable = False\<rparr>,
      \<lparr>pt_name = ''name'', pt_type = TypeString, pt_decorators = [IsString, MinLength 1],
        pt_field = FieldString, pt_nullable = False\<rparr>,
      \<lparr>pt_name = ''slug'', pt_type = TypeString, pt_decorators = [IsOptional, IsString],
        pt_field = FieldString, pt_nullable = True\<rparr>]"

definition TenantUpdateRequestDto :: "field_property list" where
  "TenantUpdateRequestDto =
     [\<lparr>pt_name = ''tenantId'', pt_type = TypeString, pt_decorators = [IsUUID, IsNotEmpty],
        pt_field = FieldString, pt_nullable = False\<rparr>,
      \<lparr>pt_name = ''name'', pt_type = TypeString, pt_decorators = [IsOptional, IsString, MinLength 1],
        pt_field = FieldString, pt_nullable = True\<rparr>,
      \<lparr>pt_name = ''slug'', pt_type = TypeString, pt_decorators = [IsOptional, IsString, MinLength 1],
        pt_field = FieldString, pt_nullable = True\<rparr>]"

definition AppFindByIdRequestDto :: "field_property list" where
  "AppFindByIdRequestDto =
     [\<lparr>pt_name = ''id'', pt_type = TypeString, pt_decorators = [IsUUID, IsNotEmpty],
        pt_field = FieldString, pt_nullable = False\<rparr>]"

definition AppCreateRequestDto :: "field_property list" where
  "AppCreateRequestDto =
     [\<lparr>pt_name = ''name'', pt_type = TypeString, pt_decorators = [IsString, MinLength 1],
        pt_field = FieldString, pt_nullable = False\<rparr>,
      \<lparr>pt_name = ''slug'', pt_type = TypeString, pt_decorators = [IsOptional, IsString, Matches slug_words],
        pt_field = FieldString, pt_nullable = True\<rparr>]"

section \<open>The pipe\<close>

text \<open>
  \<open>transform\<close> with \<open>enableImplicitConversion\<close>, and \<open>@Type(() => Number)\<close>: a scalar or an object in place
  of a string becomes its \<open>String()\<close>, one in place of a number its \<open>Number()\<close>; null and lists stay.
\<close>

definition json_text :: "json \<Rightarrow> string" where
  "json_text v = (case v of
       JBool b \<Rightarrow> if b then ''true'' else ''false''
     | JNum t \<Rightarrow> t
     | JStr s \<Rightarrow> s
     | JObj fs \<Rightarrow> ''[object Object]''
     | _ \<Rightarrow> [])"

definition convert :: "design_type \<Rightarrow> json \<Rightarrow> json" where
  "convert ty v = (case v of
       JNull \<Rightarrow> JNull
     | JArr vs \<Rightarrow> JArr vs
     | _ \<Rightarrow> (case ty of
         TypeString \<Rightarrow> JStr (json_text v)
       | TypeNumber \<Rightarrow> JNum (case v of JBool b \<Rightarrow> if b then ''1'' else ''0'' | _ \<Rightarrow> json_text v)))"

definition satisfies :: "validators \<Rightarrow> json option \<Rightarrow> decorator \<Rightarrow> bool" where
  "satisfies V v d = (case d of
       IsOptional \<Rightarrow> True
     | IsNotEmpty \<Rightarrow> v \<noteq> None \<and> v \<noteq> Some JNull \<and> v \<noteq> Some (JStr [])
     | IsString \<Rightarrow> (case v of Some (JStr s) \<Rightarrow> True | _ \<Rightarrow> False)
     | IsEmail \<Rightarrow> (case v of Some (JStr s) \<Rightarrow> isEmail V s | _ \<Rightarrow> False)
     | IsUUID \<Rightarrow> (case v of Some (JStr s) \<Rightarrow> isUUID V s | _ \<Rightarrow> False)
     | IsEnum vs \<Rightarrow> (case v of Some (JStr s) \<Rightarrow> s \<in> set vs | _ \<Rightarrow> False)
     | MinLength n \<Rightarrow> (case v of Some (JStr s) \<Rightarrow> n \<le> length s | _ \<Rightarrow> False)
     | Matches p \<Rightarrow> (case v of Some (JStr s) \<Rightarrow> p s | _ \<Rightarrow> False)
     | IsInt \<Rightarrow> (case v of Some (JNum t) \<Rightarrow> integer_of V t \<noteq> None | _ \<Rightarrow> False)
     | Min n \<Rightarrow> (case v of Some (JNum t) \<Rightarrow> (case integer_of V t of None \<Rightarrow> False | Some i \<Rightarrow> n \<le> i)
               | _ \<Rightarrow> False))"

text \<open>\<open>IsOptional\<close> skips the other decorators of a property that is missing or null.\<close>

definition property_ok :: "validators \<Rightarrow> 'p property_scheme \<Rightarrow> json option \<Rightarrow> bool" where
  "property_ok V p v \<longleftrightarrow>
     (IsOptional \<in> set (pt_decorators p) \<and> (v = None \<or> v = Some JNull)) \<or>
     list_all (satisfies V v) (pt_decorators p)"

definition converted :: "'p property_scheme list \<Rightarrow> (string \<times> json) list \<Rightarrow> string \<Rightarrow> json option" where
  "converted dto body name = (case find (\<lambda>p. pt_name p = name) dto of
       None \<Rightarrow> None
     | Some p \<Rightarrow> map_option (convert (pt_type p)) (map_of body name))"

text \<open>\<open>whitelist\<close> and \<open>forbidNonWhitelisted\<close>: a field that the class does not declare is an error.\<close>

definition ValidationPipe ::
  "validators \<Rightarrow> 'p property_scheme list \<Rightarrow> (string \<times> json) list \<Rightarrow> error + (string \<Rightarrow> json option)" where
  "ValidationPipe V dto body =
     (if list_all (\<lambda>(k, v). k \<in> pt_name ` set dto) body \<and>
         list_all (\<lambda>p. property_ok V p (converted dto body (pt_name p))) dto
      then Inr (converted dto body)
      else Inl (HttpException 400 ''Bad Request''))"

text \<open>
  Before a resolver, its guards or the pipe run, GraphQL checks the input against the schema: no field
  that the type does not have, a value for every field that is not nullable, a string for a
  \<open>String\<close>, the name of a value for an enumeration. Nothing is converted.
\<close>

definition field_accepts :: "field_property \<Rightarrow> json option \<Rightarrow> bool" where
  "field_accepts p v = (case v of
       None \<Rightarrow> pt_nullable p
     | Some JNull \<Rightarrow> pt_nullable p
     | Some (JStr s) \<Rightarrow> (case pt_field p of FieldString \<Rightarrow> True | FieldEnum vs \<Rightarrow> s \<in> set vs)
     | Some _ \<Rightarrow> False)"

definition schema_accepts :: "field_property list \<Rightarrow> (string \<times> json) list \<Rightarrow> bool" where
  "schema_accepts dto body \<longleftrightarrow> list_all (\<lambda>(k, v). k \<in> pt_name ` set dto) body \<and>
     list_all (\<lambda>p. field_accepts p (map_of body (pt_name p))) dto"

definition bad_user_input :: error where
  "bad_user_input = JsError ''BAD_USER_INPUT''"

text \<open>An input over GraphQL: the schema, and then the same pipe as over REST.\<close>

definition over_graphql ::
  "field_property list \<Rightarrow> (field_property list \<Rightarrow> (string \<times> json) list \<Rightarrow> error + 'a) \<Rightarrow>
   (string \<times> json) list \<Rightarrow> error + 'a" where
  "over_graphql dto input body = (if schema_accepts dto body then input dto body else Inl bad_user_input)"

section \<open>Typed inputs\<close>

definition text_of :: "json option \<Rightarrow> string" where
  "text_of v = (case v of Some (JStr s) \<Rightarrow> s | _ \<Rightarrow> [])"

definition optional_text :: "json option \<Rightarrow> string option" where
  "optional_text v = (case v of Some (JStr s) \<Rightarrow> Some s | _ \<Rightarrow> None)"

definition optional_int :: "validators \<Rightarrow> json option \<Rightarrow> int option" where
  "optional_int V v = (case v of Some (JNum t) \<Rightarrow> integer_of V t | _ \<Rightarrow> None)"

text \<open>
  A property that the command tests with \<open>!== undefined\<close>: a null passes the pipe and reaches the
  constructor of the value object.
\<close>

definition text_or_null :: "validators \<Rightarrow> json option \<Rightarrow> error + string option" where
  "text_or_null V v = (case v of
       Some JNull \<Rightarrow> map_sum (\<lambda>e. e) Some (null_text V)
     | _ \<Rightarrow> Inr (optional_text v))"

definition create_tenant_input ::
  "validators \<Rightarrow> 'p property_scheme list \<Rightarrow> (string \<times> json) list \<Rightarrow> error + create_tenant_dto" where
  "create_tenant_input V dto body = map_sum (\<lambda>e. e)
     (\<lambda>f. \<lparr>ctd_appId = text_of (f ''appId''), ctd_name = text_of (f ''name''),
        ctd_slug = optional_text (f ''slug'')\<rparr>) (ValidationPipe V dto body)"

definition update_tenant_input ::
  "validators \<Rightarrow> 'p property_scheme list \<Rightarrow> (string \<times> json) list \<Rightarrow> error + update_tenant_dto" where
  "update_tenant_input V dto body = (case ValidationPipe V dto body of
       Inl e \<Rightarrow> Inl e
     | Inr f \<Rightarrow> (case text_or_null V (f ''name'') of
         Inl e \<Rightarrow> Inl e
       | Inr n \<Rightarrow> (case text_or_null V (f ''slug'') of
           Inl e \<Rightarrow> Inl e
         | Inr s \<Rightarrow> Inr \<lparr>utd_name = n, utd_slug = s\<rparr>)))"

definition role_of :: "string \<Rightarrow> tenant_role" where
  "role_of s = (if s = ''OWNER'' then OWNER else if s = ''ADMIN'' then ADMIN else MEMBER)"

definition add_member_input ::
  "validators \<Rightarrow> 'p property_scheme list \<Rightarrow> (string \<times> json) list \<Rightarrow> error + add_tenant_member_dto" where
  "add_member_input V dto body = map_sum (\<lambda>e. e)
     (\<lambda>f. \<lparr>atd_email = text_of (f ''email''), atd_role = role_of (text_of (f ''role''))\<rparr>)
     (ValidationPipe V dto body)"

definition create_app_input ::
  "validators \<Rightarrow> 'p property_scheme list \<Rightarrow> (string \<times> json) list \<Rightarrow> error + (string option \<times> string)" where
  "create_app_input V dto body = map_sum (\<lambda>e. e)
     (\<lambda>f. (optional_text (f ''slug''), text_of (f ''name''))) (ValidationPipe V dto body)"

definition register_input :: "validators \<Rightarrow> (string \<times> json) list \<Rightarrow> error + register_user_dto" where
  "register_input V body = (case ValidationPipe V RegisterUserDto body of
       Inl e \<Rightarrow> Inl e
     | Inr f \<Rightarrow> (case text_or_null V (f ''displayName'') of
         Inl e \<Rightarrow> Inl e
       | Inr d \<Rightarrow> Inr \<lparr>rd_email = text_of (f ''email''), rd_password = text_of (f ''password''),
           rd_displayName = d\<rparr>))"

definition login_input :: "validators \<Rightarrow> (string \<times> json) list \<Rightarrow> error + (string \<times> string)" where
  "login_input V body = map_sum (\<lambda>e. e)
     (\<lambda>f. (text_of (f ''email''), text_of (f ''password''))) (ValidationPipe V LoginUserDto body)"

definition refresh_input :: "validators \<Rightarrow> (string \<times> json) list \<Rightarrow> error + string" where
  "refresh_input V body = map_sum (\<lambda>e. e) (\<lambda>f. text_of (f ''refreshToken''))
     (ValidationPipe V RefreshTokenDto body)"

definition tenant_query :: "validators \<Rightarrow> (string \<times> json) list \<Rightarrow> error + tenant_criteria_dto" where
  "tenant_query V query = map_sum (\<lambda>e. e)
     (\<lambda>f. \<lparr>tq_id = optional_text (f ''id''), tq_appId = optional_text (f ''appId''),
        tq_slug = optional_text (f ''slug''), tq_name = optional_text (f ''name''),
        tq_page = optional_int V (f ''page''), tq_limit = optional_int V (f ''limit'')\<rparr>)
     (ValidationPipe V TenantCriteriaDto query)"

definition app_query :: "validators \<Rightarrow> (string \<times> json) list \<Rightarrow> error + app_criteria_dto" where
  "app_query V query = map_sum (\<lambda>e. e)
     (\<lambda>f. \<lparr>aq_id = optional_text (f ''id''), aq_slug = optional_text (f ''slug''),
        aq_name = optional_text (f ''name''), aq_page = optional_int V (f ''page''),
        aq_limit = optional_int V (f ''limit'')\<rparr>)
     (ValidationPipe V AppCriteriaDto query)"

section \<open>What the pipe lets through\<close>

lemmas dto_defs = CreateTenantDto_def UpdateTenantDto_def AddTenantMemberDto_def TenantCriteriaDto_def
  AppCriteriaDto_def CreateAppDto_def RegisterUserDto_def LoginUserDto_def RefreshTokenDto_def
  TenantDeleteRequestDto_def TenantMembershipFindByTenantIdRequestDto_def
  TenantAddMemberRequestDto_def TenantCreateRequestDto_def TenantUpdateRequestDto_def
  AppFindByIdRequestDto_def AppCreateRequestDto_def

lemma pipe_Inr_iff: "ValidationPipe V dto body = Inr f \<longleftrightarrow>
    list_all (\<lambda>(k, v). k \<in> pt_name ` set dto) body \<and>
    list_all (\<lambda>p. property_ok V p (converted dto body (pt_name p))) dto \<and> f = converted dto body"
  by (auto simp: ValidationPipe_def)

lemma pipe_Inl_iff: "ValidationPipe V dto body = Inl e \<longleftrightarrow> e = HttpException 400 ''Bad Request'' \<and>
    \<not> (list_all (\<lambda>(k, v). k \<in> pt_name ` set dto) body \<and>
       list_all (\<lambda>p. property_ok V p (converted dto body (pt_name p))) dto)"
  by (auto simp: ValidationPipe_def)

lemma int_property:
  "property_ok V \<lparr>pt_name = n, pt_type = ty, pt_decorators = [IsOptional, IsInt, Min 1]\<rparr> v \<Longrightarrow>
     optional_int V v = Some i \<Longrightarrow> 1 \<le> i"
  by (auto simp: property_ok_def satisfies_def optional_int_def split: option.splits json.splits)

lemma positive_pages:
  assumes "\<And>i. page = Some i \<Longrightarrow> 1 \<le> i" and "\<And>i. limit = Some i \<Longrightarrow> 1 \<le> i"
  shows "rest_pagination page limit = (if page = None \<and> limit = None then None
      else Some (Some (case page of None \<Rightarrow> 1 | Some p \<Rightarrow> p), Some (case limit of None \<Rightarrow> 20 | Some l \<Rightarrow> l)))"
    and "rest_pagination page limit = Some (p, l) \<Longrightarrow> (\<exists>i \<ge> 1. p = Some i) \<and> (\<exists>i \<ge> 1. l = Some i)"
  using assms by (auto simp: rest_pagination_def split: option.splits)

lemma tenant_query_ints:
  assumes "tenant_query V query = Inr q"
  shows "tq_page q = Some i \<Longrightarrow> 1 \<le> i" and "tq_limit q = Some i \<Longrightarrow> 1 \<le> i"
proof -
  from assms obtain f where f: "ValidationPipe V TenantCriteriaDto query = Inr f"
    and q: "tq_page q = optional_int V (f ''page'')" "tq_limit q = optional_int V (f ''limit'')"
    by (cases "ValidationPipe V TenantCriteriaDto query") (auto simp: tenant_query_def)
  have "property_ok V \<lparr>pt_name = ''page'', pt_type = TypeNumber, pt_decorators = [IsOptional, IsInt, Min 1]\<rparr> (f ''page'')"
    "property_ok V \<lparr>pt_name = ''limit'', pt_type = TypeNumber, pt_decorators = [IsOptional, IsInt, Min 1]\<rparr> (f ''limit'')"
    using f by (simp_all add: pipe_Inr_iff TenantCriteriaDto_def)
  with q show "tq_page q = Some i \<Longrightarrow> 1 \<le> i" and "tq_limit q = Some i \<Longrightarrow> 1 \<le> i"
    using int_property by metis+
qed

lemma app_query_ints:
  assumes "app_query V query = Inr q"
  shows "aq_page q = Some i \<Longrightarrow> 1 \<le> i" and "aq_limit q = Some i \<Longrightarrow> 1 \<le> i"
proof -
  from assms obtain f where f: "ValidationPipe V AppCriteriaDto query = Inr f"
    and q: "aq_page q = optional_int V (f ''page'')" "aq_limit q = optional_int V (f ''limit'')"
    by (cases "ValidationPipe V AppCriteriaDto query") (auto simp: app_query_def)
  have "property_ok V \<lparr>pt_name = ''page'', pt_type = TypeNumber, pt_decorators = [IsOptional, IsInt, Min 1]\<rparr> (f ''page'')"
    "property_ok V \<lparr>pt_name = ''limit'', pt_type = TypeNumber, pt_decorators = [IsOptional, IsInt, Min 1]\<rparr> (f ''limit'')"
    using f by (simp_all add: pipe_Inr_iff AppCriteriaDto_def)
  with q show "aq_page q = Some i \<Longrightarrow> 1 \<le> i" and "aq_limit q = Some i \<Longrightarrow> 1 \<le> i"
    using int_property by metis+
qed

text \<open>C23: a query string that the pipe accepts asks for a page and a page size of at least 1, so that the
  criteria it becomes never skip a negative number of rows and never divide by zero; a list is
  paged exactly when the client gave one of the two, with page 1 and size 20 as defaults.\<close>

theorem accepted_pages_positive:
  "(tenant_query V query = Inr q \<longrightarrow>
      cr_pagination (tenant_criteria q) = (if tq_page q = None \<and> tq_limit q = None then None
        else Some (Some (case tq_page q of None \<Rightarrow> 1 | Some p \<Rightarrow> p),
          Some (case tq_limit q of None \<Rightarrow> 20 | Some l \<Rightarrow> l))) \<and>
      (\<forall>p l. cr_pagination (tenant_criteria q) = Some (p, l) \<longrightarrow>
        (\<exists>i \<ge> 1. p = Some i) \<and> (\<exists>i \<ge> 1. l = Some i))) \<and>
    (app_query V query = Inr q' \<longrightarrow>
      cr_pagination (app_criteria q') = (if aq_page q' = None \<and> aq_limit q' = None then None
        else Some (Some (case aq_page q' of None \<Rightarrow> 1 | Some p \<Rightarrow> p),
          Some (case aq_limit q' of None \<Rightarrow> 20 | Some l \<Rightarrow> l))) \<and>
      (\<forall>p l. cr_pagination (app_criteria q') = Some (p, l) \<longrightarrow>
        (\<exists>i \<ge> 1. p = Some i) \<and> (\<exists>i \<ge> 1. l = Some i)))"
proof (intro conjI impI allI)
  assume q: "tenant_query V query = Inr q"
  note ints = tenant_query_ints [OF q]
  show "cr_pagination (tenant_criteria q) = (if tq_page q = None \<and> tq_limit q = None then None
        else Some (Some (case tq_page q of None \<Rightarrow> 1 | Some p \<Rightarrow> p),
          Some (case tq_limit q of None \<Rightarrow> 20 | Some l \<Rightarrow> l)))"
    using positive_pages(1) [OF ints] by (simp add: tenant_criteria_def)
  fix p l assume "cr_pagination (tenant_criteria q) = Some (p, l)"
  then show "\<exists>i \<ge> 1. p = Some i" "\<exists>i \<ge> 1. l = Some i"
    using positive_pages(2) [OF ints] by (auto simp: tenant_criteria_def)
next
  assume q: "app_query V query = Inr q'"
  note ints = app_query_ints [OF q]
  show "cr_pagination (app_criteria q') = (if aq_page q' = None \<and> aq_limit q' = None then None
        else Some (Some (case aq_page q' of None \<Rightarrow> 1 | Some p \<Rightarrow> p),
          Some (case aq_limit q' of None \<Rightarrow> 20 | Some l \<Rightarrow> l)))"
    using positive_pages(1) [OF ints] by (simp add: app_criteria_def)
  fix p l assume "cr_pagination (app_criteria q') = Some (p, l)"
  then show "\<exists>i \<ge> 1. p = Some i" "\<exists>i \<ge> 1. l = Some i"
    using positive_pages(2) [OF ints] by (auto simp: app_criteria_def)
qed

section \<open>The same input over both protocols\<close>

text \<open>The pipe does not look at the schema.\<close>

lemma pipe_truncate: "ValidationPipe V (map property.truncate dto) body = ValidationPipe V dto body"
proof -
  have find: "find (\<lambda>p. pt_name p = n) (map property.truncate dto) =
      map_option property.truncate (find (\<lambda>p. pt_name p = n) dto)" for n
    by (induction dto) (auto simp: property.defs)
  have sel: "pt_name (property.truncate p) = pt_name p" "property_ok V (property.truncate p) v = property_ok V p v"
    "pt_type (property.truncate p) = pt_type p" for p :: "'a property_scheme" and v
    by (simp_all add: property.defs property_ok_def)
  have conv: "converted (map property.truncate dto) body = converted dto body"
    by (auto simp: converted_def find sel fun_eq_iff option.map_comp comp_def split: option.split)
  show ?thesis unfolding ValidationPipe_def conv by (simp add: sel list.pred_map comp_def image_image)
qed

lemma create_app_same: "ValidationPipe V AppCreateRequestDto body = ValidationPipe V CreateAppDto body"
proof -
  let ?dto = "map property.truncate AppCreateRequestDto"
  have conv: "converted ?dto body = converted CreateAppDto body"
    by (auto simp: converted_def dto_defs property.defs fun_eq_iff)
  have names: "pt_name ` set ?dto = pt_name ` set CreateAppDto"
    by (simp add: dto_defs property.defs insert_commute)
  have "list_all P ?dto = list_all P CreateAppDto" for P
    by (simp add: dto_defs property.defs conj_commute)
  then have "ValidationPipe V ?dto body = ValidationPipe V CreateAppDto body"
    unfolding ValidationPipe_def conv names by simp
  then show ?thesis by (simp add: pipe_truncate)
qed

lemma create_tenant_same:
  assumes "\<not> isUUID V []"
  shows "ValidationPipe V TenantCreateRequestDto body = ValidationPipe V CreateTenantDto body"
proof -
  let ?dto = "map property.truncate TenantCreateRequestDto"
  have conv: "converted ?dto body = converted CreateTenantDto body"
    by (auto simp: converted_def dto_defs property.defs fun_eq_iff)
  have names: "pt_name ` set ?dto = pt_name ` set CreateTenantDto"
    by (simp add: dto_defs property.defs)
  have "property_ok V \<lparr>pt_name = ''appId'', pt_type = TypeString, pt_decorators = [IsUUID, IsNotEmpty]\<rparr> v =
      property_ok V \<lparr>pt_name = ''appId'', pt_type = TypeString, pt_decorators = [IsUUID]\<rparr> v" for v
    using assms by (auto simp: property_ok_def satisfies_def split: option.splits json.splits)
  then have "ValidationPipe V ?dto body = ValidationPipe V CreateTenantDto body"
    unfolding ValidationPipe_def conv names by (simp add: dto_defs property.defs)
  then show ?thesis by (simp add: pipe_truncate)
qed

lemma pipe_with_id:
  assumes "''tenantId'' \<notin> pt_name ` set dto" and "''tenantId'' \<notin> fst ` set body"
  shows "ValidationPipe V (\<lparr>pt_name = ''tenantId'', pt_type = TypeString, pt_decorators = [IsUUID, IsNotEmpty]\<rparr> # dto)
      ((''tenantId'', JStr t) # body) =
    (if isUUID V t \<and> t \<noteq> [] then
       map_sum (\<lambda>e. e) (\<lambda>f. f(''tenantId'' := Some (JStr t))) (ValidationPipe V dto body)
     else Inl (HttpException 400 ''Bad Request''))"
proof -
  let ?p = "\<lparr>pt_name = ''tenantId'', pt_type = TypeString, pt_decorators = [IsUUID, IsNotEmpty]\<rparr>"
  let ?body = "(''tenantId'', JStr t) # body"
  have conv: "converted (?p # dto) ?body = (converted dto body)(''tenantId'' := Some (JStr t))"
    using assms by (auto simp: converted_def fun_eq_iff convert_def json_text_def split: option.split)
  have "property_ok V p (converted (?p # dto) ?body (pt_name p)) =
      property_ok V p (converted dto body (pt_name p))" if "p \<in> set dto" for p
  proof -
    have "pt_name p \<noteq> ''tenantId''" using that assms(1) by (metis imageI)
    then show ?thesis by (simp add: conv)
  qed
  then have props: "list_all (\<lambda>p. property_ok V p (converted (?p # dto) ?body (pt_name p))) dto =
      list_all (\<lambda>p. property_ok V p (converted dto body (pt_name p))) dto"
    by (auto simp: list_all_iff)
  have own: "property_ok V ?p (converted (?p # dto) ?body ''tenantId'') = (isUUID V t \<and> t \<noteq> [])"
    by (auto simp: conv property_ok_def satisfies_def)
  have names: "list_all (\<lambda>(k, v). k \<in> pt_name ` set (?p # dto)) ?body =
      list_all (\<lambda>(k, v). k \<in> pt_name ` set dto) body"
  proof -
    have "list_all (\<lambda>(k, v). k \<in> insert ''tenantId'' A) body = list_all (\<lambda>(k, v). k \<in> A) body" for A
      using assms(2) by (intro list.pred_cong) (auto simp: image_iff)
    then show ?thesis by simp
  qed
  have all: "list_all (\<lambda>p. property_ok V p (converted (?p # dto) ?body (pt_name p))) (?p # dto) =
      ((isUUID V t \<and> t \<noteq> []) \<and> list_all (\<lambda>p. property_ok V p (converted dto body (pt_name p))) dto)"
    by (simp only: list.pred_inject property.select_convs own props)
  show ?thesis
    unfolding ValidationPipe_def names all unfolding conv
    by (cases "list_all (\<lambda>(k, v). k \<in> pt_name ` set dto) body";
        cases "list_all (\<lambda>p. property_ok V p (converted dto body (pt_name p))) dto"; simp)
qed

lemma with_id_dtos:
  "map property.truncate TenantUpdateRequestDto =
     \<lparr>pt_name = ''tenantId'', pt_type = TypeString, pt_decorators = [IsUUID, IsNotEmpty]\<rparr> # UpdateTenantDto"
  "map property.truncate TenantAddMemberRequestDto =
     \<lparr>pt_name = ''tenantId'', pt_type = TypeString, pt_decorators = [IsUUID, IsNotEmpty]\<rparr> # AddTenantMemberDto"
  "''tenantId'' \<notin> pt_name ` set UpdateTenantDto" "''tenantId'' \<notin> pt_name ` set AddTenantMemberDto"
  by (simp_all add: dto_defs property.defs)

text \<open>A class whose decorators ask for what the schema asks for: a value that is not nullable must be a
  text, and an enumeration is checked by both.\<close>

definition decorated_as_typed :: "field_property \<Rightarrow> bool" where
  "decorated_as_typed p \<longleftrightarrow> pt_type p = TypeString \<and>
     (pt_nullable p \<or> IsOptional \<notin> set (pt_decorators p) \<and>
        list_ex (\<lambda>d. d \<in> {IsString, IsUUID, IsEmail} \<or> (\<exists>vs. d = IsEnum vs)) (pt_decorators p)) \<and>
     (case pt_field p of FieldString \<Rightarrow> True | FieldEnum vs \<Rightarrow> IsEnum vs \<in> set (pt_decorators p))"

definition texts :: "(string \<times> json) list \<Rightarrow> bool" where
  "texts body \<longleftrightarrow> list_all (\<lambda>(k, v). case v of JNull \<Rightarrow> True | JStr s \<Rightarrow> True | _ \<Rightarrow> False) body"

lemma requests_decorated_as_typed:
  "list_all decorated_as_typed AppCreateRequestDto" "list_all decorated_as_typed TenantCreateRequestDto"
  "list_all decorated_as_typed TenantUpdateRequestDto" "list_all decorated_as_typed TenantAddMemberRequestDto"
  "distinct (map pt_name AppCreateRequestDto)" "distinct (map pt_name TenantCreateRequestDto)"
  "distinct (map pt_name TenantUpdateRequestDto)" "distinct (map pt_name TenantAddMemberRequestDto)"
  by (simp_all add: dto_defs decorated_as_typed_def)

lemma typed_property:
  assumes "decorated_as_typed p" and "property_ok V p (map_option (convert (pt_type p)) v)"
    and "\<And>x. v = Some x \<Longrightarrow> x = JNull \<or> (\<exists>s. x = JStr s)"
  shows "field_accepts p v"
proof (cases v)
  case None
  with assms(1,2) show ?thesis
    by (auto simp: decorated_as_typed_def property_ok_def field_accepts_def list_ex_iff list_all_iff satisfies_def
        split: option.splits field_type.splits)
next
  case (Some x)
  with assms(3) consider "x = JNull" | s where "x = JStr s" by blast
  then show ?thesis
  proof cases
    case 1
    with assms(1,2) Some show ?thesis
      by (auto simp: decorated_as_typed_def property_ok_def field_accepts_def list_ex_iff list_all_iff
          satisfies_def convert_def split: option.splits field_type.splits)
  next
    case (2 s)
    with assms(1,2) Some show ?thesis
      by (auto simp: decorated_as_typed_def property_ok_def field_accepts_def list_all_iff satisfies_def
          convert_def json_text_def split: option.splits field_type.splits)
  qed
qed

text \<open>Of texts and nulls the pipe accepts nothing that the schema refuses.\<close>

lemma pipe_within_schema:
  assumes dto: "list_all decorated_as_typed dto" "distinct (map pt_name dto)" and body: "texts body"
    and pipe: "ValidationPipe V dto body = Inr f"
  shows "schema_accepts dto body"
proof -
  have "field_accepts p (map_of body (pt_name p))" if p: "p \<in> set dto" for p
  proof (rule typed_property)
    show "decorated_as_typed p" using dto(1) p by (simp add: list_all_iff)
    have "find (\<lambda>q. pt_name q = pt_name p) dto = Some p" by (rule find_unique) (use p dto(2) in \<open>auto dest: key_unique\<close>)
    then have "converted dto body (pt_name p) = map_option (convert (pt_type p)) (map_of body (pt_name p))"
      by (simp add: converted_def)
    then show "property_ok V p (map_option (convert (pt_type p)) (map_of body (pt_name p)))"
      using pipe p by (auto simp: pipe_Inr_iff list_all_iff)
    fix x assume "map_of body (pt_name p) = Some x"
    then have "(pt_name p, x) \<in> set body" by (rule map_of_SomeD)
    with body show "x = JNull \<or> (\<exists>s. x = JStr s)" by (auto simp: texts_def list_all_iff split: json.splits)
  qed
  with pipe show ?thesis by (simp add: schema_accepts_def pipe_Inr_iff list_all_iff)
qed

lemma schema_refuses_others:
  assumes "distinct (map fst body)" and "\<not> texts body"
  shows "\<not> schema_accepts dto body"
proof
  assume ok: "schema_accepts dto body"
  from assms(2) obtain k v where v: "(k, v) \<in> set body" and bad: "\<not> (case v of JNull \<Rightarrow> True | JStr s \<Rightarrow> True | _ \<Rightarrow> False)"
    by (auto simp: texts_def list_all_iff)
  with ok obtain p where p: "p \<in> set dto" "pt_name p = k" by (auto simp: schema_accepts_def list_all_iff)
  moreover have "map_of body k = Some v" using v assms(1) by simp
  ultimately have "field_accepts p (Some v)" using ok by (auto simp: schema_accepts_def list_all_iff)
  with bad show False by (cases v) (simp_all add: field_accepts_def)
qed

text \<open>Two verdicts on an input agree when both refuse it, or both hand over the same object.\<close>

definition agree :: "error + 'a \<Rightarrow> error + 'a \<Rightarrow> bool" where
  "agree a b \<longleftrightarrow> (case (a, b) of (Inl _, Inl _) \<Rightarrow> True | (Inr x, Inr y) \<Rightarrow> x = y | _ \<Rightarrow> False)"

lemma agree_refl [simp]: "agree a a"
  by (cases a) (simp_all add: agree_def)

lemma over_graphql_agrees:
  assumes "list_all decorated_as_typed dto" and "distinct (map pt_name dto)" and "texts body"
    and "\<And>err. ValidationPipe V dto body = Inl err \<Longrightarrow> isl (input dto body)"
  shows "agree (over_graphql dto input body) (input dto body)"
proof (cases "ValidationPipe V dto body")
  case (Inl err)
  from assms(4) [OF this] show ?thesis by (cases "input dto body") (auto simp: over_graphql_def agree_def)
next
  case (Inr f)
  then show ?thesis using pipe_within_schema [OF assms(1-3)] by (simp add: over_graphql_def)
qed


section \<open>At concrete inputs\<close>

definition sample_validators :: validators where
  "sample_validators = \<lparr>isEmail = (\<lambda>s. CHR ''@'' \<in> set s), isUUID = (\<lambda>s. s \<noteq> []),
     integer_of = (\<lambda>s. if s = ''2'' then Some 2 else None), null_text = Inl (JsError ''TypeError'')\<rparr>"

lemma accepted_pages_positive_witness:
  "\<exists>q. tenant_query sample_validators [(''page'', JStr ''2'')] = Inr q \<and>
     cr_pagination (tenant_criteria q) = Some (Some 2, Some 20)"
proof -
  have "\<exists>q. tenant_query sample_validators [(''page'', JStr ''2'')] = Inr q \<and> tq_page q = Some 2 \<and> tq_limit q = None"
    by (simp add: tenant_query_def ValidationPipe_def dto_defs converted_def convert_def property_ok_def
        satisfies_def sample_validators_def json_text_def optional_int_def optional_text_def)
  then obtain q where q: "tenant_query sample_validators [(''page'', JStr ''2'')] = Inr q"
    and "tq_page q = Some 2" "tq_limit q = None" by blast
  with accepted_pages_positive [THEN conjunct1, rule_format, OF q] show ?thesis by auto
qed


end
