(* ===== verification/Http_Server.thy ===== *)
theory Http_Server
  imports Input_Validation Transport_Properties
begin

text \<open>
  The service as its clients see it: \<open>main.ts\<close> (global prefix, versions, the validation pipe and the
  exception filter) around the controllers. A request is matched against the route table, passes the
  guards of its route, then the pipes, and reaches the controller; an exception becomes a status.

  Not in the table: \<open>/docs\<close> (Swagger) and \<open>/graphql\<close>, whose operations are the resolvers; the probe
  that Terminus runs for \<open>/health/ready\<close> is a parameter.
\<close>

section \<open>Requests and responses\<close>

datatype http_method = GET | POST | PATCH | DELETE

text \<open>The path is split at its slashes and decoded; a query string is the object that Express parses it to.\<close>

record incoming =
  in_method :: http_method
  in_path :: "string list"
  in_authorization :: "string option"
  in_query :: "(string \<times> json) list"
  in_body :: "(string \<times> json) list"

text \<open>The timestamp is the \<open>Date\<close> whose ISO text is sent.\<close>

record HealthResponseDto =
  hrd_status :: string
  hrd_timestamp :: int

datatype payload =
    NoBody
  | IdBody string
  | TokensBody ILoginSessionResult
  | AppsBody "AppRestResponseDto paginated_result"
  | TenantsBody "TenantRestResponseDto paginated_result"
  | MemberBody IAddTenantMemberResult
  | MembersBody "TenantMembershipRestResponseDto list"
  | KeysBody "JsonWebKeyDto list"
  | HealthBody HealthResponseDto
  | ReadyBody string
  | ErrorBody nat string

record response =
  rs_status :: nat
  rs_body :: payload
  rs_cookies :: "cookie list"

section \<open>The running service\<close>

record 'x service =
  sv_lib :: "'x lib"
  sv_nest :: "'x nest"
  sv_validators :: validators
  sv_apps :: "app_entity criteria_kit"
  sv_tenants :: "tenant_entity criteria_kit"
  sv_memberships :: "membership_entity criteria_kit"
  sv_auth :: auth_config
  sv_cookies :: cookie_config
  sv_crypto :: "'x crypto"
  sv_section :: auth_section
  sv_ping :: "'x \<Rightarrow> (error + string) \<times> 'x"

definition HealthController_live :: "'x service \<Rightarrow> ('x exchange, error, HealthResponseDto) comp" where
  "HealthController_live S = bindE (in_world (outside (now (sv_lib S)))) (\<lambda>t.
     ret \<lparr>hrd_status = ''ok'', hrd_timestamp = t\<rparr>)"

definition HealthController_check :: "'x service \<Rightarrow> ('x exchange, error, HealthResponseDto) comp" where
  "HealthController_check S = HealthController_live S"

definition HealthController_ready :: "'x service \<Rightarrow> ('x exchange, error, string) comp" where
  "HealthController_ready S = in_world (outside (sv_ping S))"

section \<open>The route table\<close>

datatype segment = Lit string | Param

datatype handler =
    AuthRegister | AuthLogin | AuthRefresh
  | AppsCreate | AppsFindByCriteria
  | TenantsFindByCriteria | TenantsCreate | TenantsUpdate | TenantsRemove
  | TenantsAddMember | TenantsListMembers
  | JwksGet | HealthCheck | HealthLive | HealthReady

text \<open>
  \<open>@Controller({ path, version })\<close>, the decorator of the method with its path, and \<open>@HttpCode\<close>
  (200 where a \<open>GET\<close> has none). \<open>VERSION_NEUTRAL\<close> is \<open>None\<close>.
\<close>

record route =
  rt_method :: http_method
  rt_controller :: string
  rt_version :: "string option"
  rt_sub :: "segment list"
  rt_status :: nat
  rt_handler :: handler

definition AuthController_routes :: "route list" where
  "AuthController_routes =
     [\<lparr>rt_method = POST, rt_controller = ''auth'', rt_version = Some ''1'', rt_sub = [Lit ''register''],
       rt_status = 201, rt_handler = AuthRegister\<rparr>,
      \<lparr>rt_method = POST, rt_controller = ''auth'', rt_version = Some ''1'', rt_sub = [Lit ''login''],
       rt_status = 200, rt_handler = AuthLogin\<rparr>,
      \<lparr>rt_method = POST, rt_controller = ''auth'', rt_version = Some ''1'', rt_sub = [Lit ''refresh''],
       rt_status = 200, rt_handler = AuthRefresh\<rparr>]"

definition AppsController_routes :: "route list" where
  "AppsController_routes =
     [\<lparr>rt_method = POST, rt_controller = ''apps'', rt_version = Some ''1'', rt_sub = [],
       rt_status = 201, rt_handler = AppsCreate\<rparr>,
      \<lparr>rt_method = GET, rt_controller = ''apps'', rt_version = Some ''1'', rt_sub = [],
       rt_status = 200, rt_handler = AppsFindByCriteria\<rparr>]"

definition TenantsController_routes :: "route list" where
  "TenantsController_routes =
     [\<lparr>rt_method = GET, rt_controller = ''tenants'', rt_version = Some ''1'', rt_sub = [],
       rt_status = 200, rt_handler = TenantsFindByCriteria\<rparr>,
      \<lparr>rt_method = POST, rt_controller = ''tenants'', rt_version = Some ''1'', rt_sub = [],
       rt_status = 201, rt_handler = TenantsCreate\<rparr>,
      \<lparr>rt_method = PATCH, rt_controller = ''tenants'', rt_version = Some ''1'', rt_sub = [Param],
       rt_status = 200, rt_handler = TenantsUpdate\<rparr>,
      \<lparr>rt_method = DELETE, rt_controller = ''tenants'', rt_version = Some ''1'', rt_sub = [Param],
       rt_status = 204, rt_handler = TenantsRemove\<rparr>,
      \<lparr>rt_method = POST, rt_controller = ''tenants'', rt_version = Some ''1'',
       rt_sub = [Param, Lit ''members''], rt_status = 201, rt_handler = TenantsAddMember\<rparr>,
      \<lparr>rt_method = GET, rt_controller = ''tenants'', rt_version = Some ''1'',
       rt_sub = [Param, Lit ''members''], rt_status = 200, rt_handler = TenantsListMembers\<rparr>]"

definition JwksController_routes :: "route list" where
  "JwksController_routes =
     [\<lparr>rt_method = GET, rt_controller = ''.well-known'', rt_version = None, rt_sub = [Lit ''jwks.json''],
       rt_status = 200, rt_handler = JwksGet\<rparr>]"

definition HealthController_routes :: "route list" where
  "HealthController_routes =
     [\<lparr>rt_method = GET, rt_controller = ''health'', rt_version = None, rt_sub = [],
       rt_status = 200, rt_handler = HealthCheck\<rparr>,
      \<lparr>rt_method = GET, rt_controller = ''health'', rt_version = None, rt_sub = [Lit ''live''],
       rt_status = 200, rt_handler = HealthLive\<rparr>,
      \<lparr>rt_method = GET, rt_controller = ''health'', rt_version = None, rt_sub = [Lit ''ready''],
       rt_status = 200, rt_handler = HealthReady\<rparr>]"

definition ROUTES :: "route list" where
  "ROUTES = HealthController_routes @ JwksController_routes @ AuthController_routes @
     AppsController_routes @ TenantsController_routes"

text \<open>
  \<open>setGlobalPrefix('api', { exclude: ['.well-known/jwks.json'] })\<close> and URI versioning: the prefix,
  then \<open>v\<close> and the version unless the controller is neutral, then the paths of controller and method.
\<close>

definition bootstrap_path :: "route \<Rightarrow> segment list" where
  "bootstrap_path rt =
     (let path = Lit (rt_controller rt) # rt_sub rt
      in (if path = [Lit ''.well-known'', Lit ''jwks.json''] then [] else [Lit ''api'']) @
         (case rt_version rt of None \<Rightarrow> [] | Some v \<Rightarrow> [Lit (CHR ''v'' # v)]) @ path)"

text \<open>Express compares paths without regard to case; a parameter takes a non-empty segment.\<close>

fun segment_matches :: "segment \<Rightarrow> string \<Rightarrow> bool" where
  "segment_matches (Lit l) s = (js_lower s = js_lower l)"
| "segment_matches Param s = (s \<noteq> [])"

definition route_matches :: "incoming \<Rightarrow> route \<Rightarrow> bool" where
  "route_matches r rt \<longleftrightarrow> rt_method rt = in_method r \<and>
     list_all2 segment_matches (bootstrap_path rt) (in_path r)"

definition find_route :: "incoming \<Rightarrow> route option" where
  "find_route r = find (route_matches r) ROUTES"

definition path_param :: "route \<Rightarrow> incoming \<Rightarrow> string" where
  "path_param rt r = (case find (\<lambda>(g, s). g = Param) (zip (bootstrap_path rt) (in_path r)) of
       None \<Rightarrow> [] | Some (g, s) \<Rightarrow> s)"

definition exchange_of :: "route \<Rightarrow> incoming \<Rightarrow> 'x world \<Rightarrow> 'x exchange" where
  "exchange_of rt r w =
     (let request = \<lparr>req_authorization = in_authorization r, req_user = None, req_tenantId = path_param rt r\<rparr>
      in \<lparr>ex_type = ''http'', ex_http = request, ex_gql = request, ex_inputTenantId = [],
          ex_cookies = [], ex_world = w\<rparr>)"

section \<open>Handling a request\<close>

text \<open>
  NestJS runs the guards of a route before the pipes of its parameters: an input that the pipe
  rejects is reported only to a caller who has passed the guards.
\<close>

definition handler_guards :: "'x service \<Rightarrow> handler \<Rightarrow> ('x exchange, error, bool) comp list" where
  "handler_guards S h = (let L = sv_lib S; N = sv_nest S in case h of
       AppsCreate \<Rightarrow> [JwtAuthGuard_canActivate L]
     | AppsFindByCriteria \<Rightarrow> [JwtAuthGuard_canActivate L]
     | TenantsFindByCriteria \<Rightarrow> [JwtAuthGuard_canActivate L, PlatformAdminGuard_canActivate]
     | TenantsCreate \<Rightarrow> [JwtAuthGuard_canActivate L]
     | TenantsUpdate \<Rightarrow> [JwtAuthGuard_canActivate L, TenantPermissionGuard N MANAGE_TENANT]
     | TenantsRemove \<Rightarrow> [JwtAuthGuard_canActivate L, TenantPermissionGuard N DELETE_TENANT]
     | TenantsAddMember \<Rightarrow> [JwtAuthGuard_canActivate L, TenantPermissionGuard N MANAGE_MEMBERS]
     | TenantsListMembers \<Rightarrow> [JwtAuthGuard_canActivate L, TenantPermissionGuard N VIEW_TENANT]
     | _ \<Rightarrow> [])"

definition piped ::
  "('x exchange, error, bool) comp list \<Rightarrow> error + 'i \<Rightarrow> ('i \<Rightarrow> ('x exchange, error, 'a) comp) \<Rightarrow>
   ('x exchange, error, 'a) comp" where
  "piped guards input controller = (case input of
       Inl err \<Rightarrow> guarded guards (throw err)
     | Inr dto \<Rightarrow> controller dto)"

definition answer :: "('a \<Rightarrow> payload) \<Rightarrow> ('x exchange, error, 'a) comp \<Rightarrow> ('x exchange, error, payload) comp" where
  "answer f m = bindE m (\<lambda>a. ret (f a))"

definition handle :: "'x service \<Rightarrow> handler \<Rightarrow> incoming \<Rightarrow> ('x exchange, error, payload) comp" where
  "handle S h r = (let L = sv_lib S; N = sv_nest S; V = sv_validators S; gs = handler_guards S h in case h of
       AuthRegister \<Rightarrow> piped gs (register_input V (in_body r)) (\<lambda>dto.
         answer IdBody (AuthController_register L (sv_auth S) dto))
     | AuthLogin \<Rightarrow> piped gs (login_input V (in_body r)) (\<lambda>(email, password).
         answer TokensBody (AuthController_login L (sv_memberships S) (sv_auth S) (sv_cookies S) email password))
     | AuthRefresh \<Rightarrow> piped gs (refresh_input V (in_body r)) (\<lambda>token.
         answer TokensBody (AuthController_refresh L (sv_memberships S) (sv_auth S) (sv_cookies S) token))
     | AppsCreate \<Rightarrow> piped gs (create_app_input V CreateAppDto (in_body r)) (\<lambda>(slug, name).
         answer IdBody (AppsController_create L slug name))
     | AppsFindByCriteria \<Rightarrow> piped gs (app_query V (in_query r)) (\<lambda>q.
         answer AppsBody (AppsController_findByCriteria L (sv_apps S) q))
     | TenantsFindByCriteria \<Rightarrow> piped gs (tenant_query V (in_query r)) (\<lambda>q.
         answer TenantsBody (TenantsController_findByCriteria L (sv_tenants S) q))
     | TenantsCreate \<Rightarrow> piped gs (create_tenant_input V CreateTenantDto (in_body r)) (\<lambda>dto.
         answer IdBody (TenantsController_create L (sv_apps S) dto))
     | TenantsUpdate \<Rightarrow> piped gs (update_tenant_input V UpdateTenantDto (in_body r)) (\<lambda>dto.
         answer IdBody (TenantsController_update L N dto))
     | TenantsRemove \<Rightarrow> answer (\<lambda>_. NoBody) (TenantsController_remove L N)
     | TenantsAddMember \<Rightarrow> piped gs (add_member_input V AddTenantMemberDto (in_body r)) (\<lambda>dto.
         answer MemberBody (TenantsController_addMember L N dto))
     | TenantsListMembers \<Rightarrow> answer MembersBody (TenantsController_listMembers L (sv_memberships S) N)
     | JwksGet \<Rightarrow> answer KeysBody (liftE (JwksController_jwks (sv_crypto S) (sv_section S)))
     | HealthCheck \<Rightarrow> answer HealthBody (HealthController_check S)
     | HealthLive \<Rightarrow> answer HealthBody (HealthController_live S)
     | HealthReady \<Rightarrow> answer ReadyBody (HealthController_ready S))"

text \<open>
  \<open>BaseExceptionFilter\<close> answers the exceptions of the service, NestJS' own filter the others: an
  \<open>HttpException\<close> with its status and message, anything else with 500 and a fixed message.
\<close>

primrec error_message :: "error \<Rightarrow> string" where
  "error_message (BaseException c m) = m"
| "error_message (HttpException s m) = m"
| "error_message (JsError m) = ''Internal server error''"
| "error_message (QueryFailedError m) = ''Internal server error''"

definition error_response :: "error \<Rightarrow> response" where
  "error_response err = \<lparr>rs_status = error_status err,
     rs_body = ErrorBody (error_status err) (error_message err), rs_cookies = []\<rparr>"

definition serve :: "'x service \<Rightarrow> incoming \<Rightarrow> 'x world \<Rightarrow> response \<times> 'x world" where
  "serve S r w = (case find_route r of
       None \<Rightarrow> (error_response (HttpException 404 ''Not Found''), w)
     | Some rt \<Rightarrow> (case handle S (rt_handler rt) r (exchange_of rt r w) of
         (Inl err, e) \<Rightarrow> ((error_response err)\<lparr>rs_cookies := ex_cookies e\<rparr>, ex_world e)
       | (Inr body, e) \<Rightarrow> (\<lparr>rs_status = rt_status rt, rs_body = body, rs_cookies = ex_cookies e\<rparr>, ex_world e)))"

section \<open>One route for a request\<close>

text \<open>Two patterns overlap if some path matches both.\<close>

fun overlap :: "segment list \<Rightarrow> segment list \<Rightarrow> bool" where
  "overlap [] [] = True"
| "overlap (Lit a # p) (Lit b # q) = (js_lower a = js_lower b \<and> overlap p q)"
| "overlap (g # p) (h # q) = overlap p q"
| "overlap _ _ = False"

lemma matches_overlap:
  "list_all2 segment_matches p s \<Longrightarrow> list_all2 segment_matches q s \<Longrightarrow> overlap p q"
proof (induction p q arbitrary: s rule: overlap.induct)
  case (2 a p b q)
  then show ?case by (cases s) auto
qed (auto simp: list_all2_Cons1)

lemma routes_apart:
  "list_all (\<lambda>rt. list_all (\<lambda>rt'. rt_method rt = rt_method rt' \<and>
     overlap (bootstrap_path rt) (bootstrap_path rt') \<longrightarrow> rt = rt') ROUTES) ROUTES"
  by code_simp

lemma route_unique:
  "rt \<in> set ROUTES \<Longrightarrow> rt' \<in> set ROUTES \<Longrightarrow> route_matches r rt \<Longrightarrow> route_matches r rt' \<Longrightarrow> rt = rt'"
  using routes_apart by (auto simp: list_all_iff route_matches_def dest: matches_overlap)

text \<open>A request has at most one route, so the order in which NestJS registers controllers and methods
  does not matter; and every handler has exactly one route, under \<open>/api/v1\<close> but for the health probes
  (\<open>/api/health\<close>) and the published keys (\<open>/.well-known/jwks.json\<close>).\<close>

lemma routes_unambiguous:
  assumes "set rs = set ROUTES"
  shows "find (route_matches r) rs = find_route r \<and>
    (\<forall>rt \<in> set ROUTES. route_matches r rt \<longrightarrow> find_route r = Some rt) \<and>
    distinct (map rt_handler ROUTES) \<and> (\<forall>h. h \<in> rt_handler ` set ROUTES) \<and>
    (\<forall>rt \<in> set ROUTES. take 2 (bootstrap_path rt) =
      (if rt_handler rt = JwksGet then [Lit ''.well-known'', Lit ''jwks.json'']
       else if rt_handler rt \<in> {HealthCheck, HealthLive, HealthReady} then [Lit ''api'', Lit ''health'']
       else [Lit ''api'', Lit ''v1'']))"
proof (intro conjI)
  show all: "\<forall>rt \<in> set ROUTES. route_matches r rt \<longrightarrow> find_route r = Some rt"
    unfolding find_route_def by (blast intro: find_unique route_unique)
  show "find (route_matches r) rs = find_route r"
  proof (cases "\<exists>rt \<in> set ROUTES. route_matches r rt")
    case True
    then obtain rt where rt: "rt \<in> set ROUTES" "route_matches r rt" by blast
    then have "find (route_matches r) rs = Some rt"
      by (intro find_unique) (use assms route_unique in auto)
    with all rt show ?thesis by simp
  next
    case False
    with assms have "find (route_matches r) rs = None" "find_route r = None"
      by (simp_all add: find_route_def find_None_iff)
    then show ?thesis by simp
  qed
  show "distinct (map rt_handler ROUTES)" by code_simp
  show "\<forall>h. h \<in> rt_handler ` set ROUTES"
  proof
    fix h show "h \<in> rt_handler ` set ROUTES"
      by (cases h) (simp_all add: ROUTES_def HealthController_routes_def JwksController_routes_def
        AuthController_routes_def AppsController_routes_def TenantsController_routes_def)
  qed
  show "\<forall>rt \<in> set ROUTES. take 2 (bootstrap_path rt) =
      (if rt_handler rt = JwksGet then [Lit ''.well-known'', Lit ''jwks.json'']
       else if rt_handler rt \<in> {HealthCheck, HealthLive, HealthReady} then [Lit ''api'', Lit ''health'']
       else [Lit ''api'', Lit ''v1''])"
    by code_simp
qed

section \<open>Who is refused\<close>

definition entitled :: "'x service \<Rightarrow> handler \<Rightarrow> 'x exchange \<Rightarrow> bool" where
  "entitled S h e \<longleftrightarrow> (let L = sv_lib S in case h of
       AppsCreate \<Rightarrow> caller L e \<noteq> None
     | AppsFindByCriteria \<Rightarrow> caller L e \<noteq> None
     | TenantsFindByCriteria \<Rightarrow> is_admin L e
     | TenantsCreate \<Rightarrow> caller L e \<noteq> None
     | TenantsUpdate \<Rightarrow> may L MANAGE_TENANT e
     | TenantsRemove \<Rightarrow> may L DELETE_TENANT e
     | TenantsAddMember \<Rightarrow> may L MANAGE_MEMBERS e
     | TenantsListMembers \<Rightarrow> may L VIEW_TENANT e
     | _ \<Rightarrow> True)"

lemma guards_refuse:
  "rbac_ok (sv_nest S) \<Longrightarrow> \<not> entitled S h e \<Longrightarrow> refused e (guarded (handler_guards S h) k e)"
  by (cases h) (auto simp: entitled_def handler_guards_def Let_def simp del: guarded.simps
      intro: refused_401 refused_admin refused_tenant)

lemma refused_answer: "refused e (m e) \<Longrightarrow> refused e (answer f m e)"
  by (auto simp: refused_def answer_def bindE_def split: sum.splits prod.splits)

lemma piped_refused:
  fixes controller :: "'i \<Rightarrow> ('x exchange, error, 'a) comp"
  assumes "\<And>k :: ('x exchange, error, 'a) comp. refused e (guarded gs k e)"
    and "\<And>dto. refused e (controller dto e)"
  shows "refused e (piped gs input controller e)"
  using assms by (simp add: piped_def split: sum.split)

lemmas route_bodies = AppsController_create_def AppsController_findByCriteria_def
  TenantsController_findByCriteria_def TenantsController_create_def TenantsController_update_def
  TenantsController_remove_def TenantsController_addMember_def TenantsController_listMembers_def

text \<open>The body of a protected route starts with its guards.\<close>

lemma handle_refused:
  assumes N: "rbac_ok (sv_nest S)" and no: "\<not> entitled S h e"
  shows "refused e (handle S h r e)"
proof -
  from no show ?thesis
    by (cases h) (auto simp: handle_def handler_guards_def Let_def route_bodies entitled_def
        simp del: guarded.simps split: prod.split
        intro!: piped_refused refused_answer refused_401 refused_admin refused_tenant [OF N])
qed

text \<open>The class of a route's body or query string, and what the request sends for it.\<close>

definition input_class :: "handler \<Rightarrow> property list option" where
  "input_class h = (case h of
       AuthRegister \<Rightarrow> Some RegisterUserDto | AuthLogin \<Rightarrow> Some LoginUserDto
     | AuthRefresh \<Rightarrow> Some RefreshTokenDto | AppsCreate \<Rightarrow> Some CreateAppDto
     | AppsFindByCriteria \<Rightarrow> Some AppCriteriaDto | TenantsFindByCriteria \<Rightarrow> Some TenantCriteriaDto
     | TenantsCreate \<Rightarrow> Some CreateTenantDto | TenantsUpdate \<Rightarrow> Some UpdateTenantDto
     | TenantsAddMember \<Rightarrow> Some AddTenantMemberDto | _ \<Rightarrow> None)"

definition input_fields :: "handler \<Rightarrow> incoming \<Rightarrow> (string \<times> json) list" where
  "input_fields h r = (if h \<in> {AppsFindByCriteria, TenantsFindByCriteria} then in_query r else in_body r)"

definition malformed :: "'x service \<Rightarrow> handler \<Rightarrow> incoming \<Rightarrow> bool" where
  "malformed S h r \<longleftrightarrow> (case input_class h of None \<Rightarrow> False
     | Some dto \<Rightarrow> isl (ValidationPipe (sv_validators S) dto (input_fields h r)))"

text \<open>What a guard may do to an exchange: note the caller. It lets through, or refuses with 401 or 403.\<close>

definition only_refuses :: "('x exchange, error, bool) comp \<Rightarrow> bool" where
  "only_refuses g \<longleftrightarrow> (\<forall>e. (\<exists>x. ex_world (snd (g e)) = (ex_world e)\<lparr>ext := x\<rparr>) \<and>
     ex_cookies (snd (g e)) = ex_cookies e \<and>
     (\<forall>err. fst (g e) = Inl err \<longrightarrow> (\<exists>s m. err = HttpException s m \<and> s \<in> {401, 403})))"

lemma ext_same [simp]: "\<exists>x. w = w\<lparr>ext := x\<rparr>"
  by (rule exI [of _ "ext w"]) simp

lemma guards_only_refuse:
  assumes "rbac_ok (sv_nest S)"
  shows "list_all only_refuses (handler_guards S h)"
proof -
  have jwt: "only_refuses (JwtAuthGuard_canActivate L)" for L :: "'a lib"
    unfolding only_refuses_def
    by (auto simp: JwtAuthGuard_run after_verify_def split: option.splits sum.splits)
  have admin: "only_refuses (PlatformAdminGuard_canActivate :: ('a exchange, error, bool) comp)"
    unfolding only_refuses_def by (auto simp: PlatformAdminGuard_run)
  have tenant: "only_refuses (TenantPermissionGuard (sv_nest S) p)" for p
    unfolding only_refuses_def
  proof
    fix e
    show "(\<exists>x. ex_world (snd (TenantPermissionGuard (sv_nest S) p e)) = (ex_world e)\<lparr>ext := x\<rparr>) \<and>
       ex_cookies (snd (TenantPermissionGuard (sv_nest S) p e)) = ex_cookies e \<and>
       (\<forall>err. fst (TenantPermissionGuard (sv_nest S) p e) = Inl err \<longrightarrow>
          (\<exists>s m. err = HttpException s m \<and> s \<in> {401, 403}))"
      using assms
      by (cases rule: tenant_guard_cases [where p = p and e = e]) auto
  qed
  show ?thesis
    by (cases h) (simp_all add: handler_guards_def Let_def jwt admin tenant)
qed

lemma guarded_throw:
  assumes "list_all only_refuses gs" and k: "\<And>e. k e = (Inl (HttpException s m), e)"
  shows "(\<exists>s' m'. fst (guarded gs k e) = Inl (HttpException s' m') \<and> s' \<in> {s, 401, 403}) \<and>
    (\<exists>x. ex_world (snd (guarded gs k e)) = (ex_world e)\<lparr>ext := x\<rparr>) \<and>
    ex_cookies (snd (guarded gs k e)) = ex_cookies e"
  using assms(1)
proof (induction gs arbitrary: e)
  case Nil
  then show ?case by (simp add: k)
next
  case (Cons g gs)
  obtain z e1 where g: "g e = (z, e1)" by fastforce
  from Cons.prems obtain x where x: "ex_world e1 = (ex_world e)\<lparr>ext := x\<rparr>" and c: "ex_cookies e1 = ex_cookies e"
    and err: "\<And>err. z = Inl err \<Longrightarrow> \<exists>s m. err = HttpException s m \<and> s \<in> {401, 403}"
    using g by (auto simp: only_refuses_def dest!: spec [of _ e])
  show ?case
  proof (cases z)
    case (Inl a)
    with err g x c show ?thesis by (fastforce simp: bindE_def)
  next
    case (Inr ok)
    have run: "guarded (g # gs) k e =
        (if ok then guarded gs k e1
         else (Inl (HttpException 403 ''Forbidden resource''), e1))"
      using g Inr by (simp add: bindE_def)
    show ?thesis unfolding run using Cons.IH [of e1] Cons.prems x c by (cases ok) auto
  qed
qed

lemma pipe_isl:
  "isl (ValidationPipe V dto body) \<Longrightarrow> ValidationPipe V dto body = Inl (HttpException 400 ''Bad Request'')"
  by (simp add: ValidationPipe_def split: if_splits)

lemma malformed_input:
  assumes "malformed S h r"
  shows "handle S h r = guarded (handler_guards S h) (throw (HttpException 400 ''Bad Request''))"
  using assms
  by (cases h) (auto simp: malformed_def input_class_def input_fields_def handle_def Let_def piped_def
      register_input_def login_input_def refresh_input_def create_app_input_def app_query_def tenant_query_def
      create_tenant_input_def update_tenant_input_def add_member_input_def
      simp del: guarded.simps dest!: pipe_isl)

definition answered_unchanged :: "nat set \<Rightarrow> 'x world \<Rightarrow> response \<times> 'x world \<Rightarrow> bool" where
  "answered_unchanged statuses w out \<longleftrightarrow> rs_status (fst out) \<in> statuses \<and> rs_cookies (fst out) = [] \<and>
     (\<exists>x. snd out = w\<lparr>ext := x\<rparr>)"

lemma exchange_of_sel [simp]:
  "ex_world (exchange_of rt r w) = w" "ex_cookies (exchange_of rt r w) = []"
  by (simp_all add: exchange_of_def Let_def)

definition refused_with :: "nat set \<Rightarrow> 'x exchange \<Rightarrow> (error + 'a) \<times> 'x exchange \<Rightarrow> bool" where
  "refused_with statuses e out \<longleftrightarrow> (\<exists>s m x. fst out = Inl (HttpException s m) \<and> s \<in> statuses \<and>
     ex_world (snd out) = (ex_world e)\<lparr>ext := x\<rparr> \<and> ex_cookies (snd out) = ex_cookies e)"

lemma serve_refused:
  "find_route r = Some rt \<Longrightarrow>
     refused_with A (exchange_of rt r w) (handle S (rt_handler rt) r (exchange_of rt r w)) \<Longrightarrow>
     answered_unchanged A w (serve S r w)"
  by (cases "handle S (rt_handler rt) r (exchange_of rt r w)")
    (auto simp: serve_def error_response_def answered_unchanged_def refused_with_def)

lemma not_entitled_refused:
  "rbac_ok (sv_nest S) \<Longrightarrow> \<not> entitled S h e \<Longrightarrow> refused_with {401, 403} e (handle S h r e)"
  using handle_refused [of S h e r] by (auto simp: refused_def refused_with_def)

lemma malformed_refused:
  fixes S :: "'x service"
  assumes "rbac_ok (sv_nest S)" and "malformed S h r"
  shows "refused_with {400, 401, 403} e (handle S h r e)"
proof -
  have "\<And>e :: 'x exchange. throw (HttpException 400 ''Bad Request'') e = (Inl (HttpException 400 ''Bad Request''), e)"
    by simp
  from guarded_throw [OF guards_only_refuse [OF assms(1)] this, of h e] show ?thesis
    unfolding malformed_input [OF assms(2)] refused_with_def by blast
qed

lemma open_routes:
  fixes S :: "'x service"
  shows "(\<forall>e :: 'x exchange. entitled S h e) \<longleftrightarrow>
    h \<in> {AuthRegister, AuthLogin, AuthRefresh, JwksGet, HealthCheck, HealthLive, HealthReady}"
proof
  define nobody :: "'x exchange" where "nobody = \<lparr>ex_type = ''http'',
    ex_http = \<lparr>req_authorization = None, req_user = None, req_tenantId = []\<rparr>,
    ex_gql = \<lparr>req_authorization = None, req_user = None, req_tenantId = []\<rparr>, ex_inputTenantId = [],
    ex_cookies = [], ex_world = undefined\<rparr>"
  have "caller (sv_lib S) nobody = None"
    by (simp add: caller_def bearer_token_def JwtAuthGuard_extractToken_def getRequest_def truthy_def nobody_def)
  moreover assume "\<forall>e :: 'x exchange. entitled S h e"
  then have "entitled S h nobody" by blast
  ultimately show "h \<in> {AuthRegister, AuthLogin, AuthRefresh, JwksGet, HealthCheck, HealthLive, HealthReady}"
    by (cases h) (simp_all add: entitled_def may_def is_admin_def)
next
  assume "h \<in> {AuthRegister, AuthLogin, AuthRefresh, JwksGet, HealthCheck, HealthLive, HealthReady}"
  then show "\<forall>e :: 'x exchange. entitled S h e" by (auto simp: entitled_def)
qed

text \<open>C14: over HTTP, an unknown path is answered with 404; a caller without a valid token, or whose token
  does not grant what the route asks for, with 401 or 403, whatever else the request contains; and
  a body or query string that its class rejects with 400 (or 401 or 403). None of these changes a
  row, publishes an event or sets a cookie. Only the six routes of \<open>auth\<close> and \<open>health\<close> and the
  published keys are open to everyone.\<close>

theorem http_refusals:
  fixes S :: "'x service"
  assumes "rbac_ok (sv_nest S)"
  shows "(find_route r = None \<longrightarrow> answered_unchanged {404} w (serve S r w)) \<and>
    (\<forall>rt. find_route r = Some rt \<longrightarrow>
      (\<not> entitled S (rt_handler rt) (exchange_of rt r w) \<longrightarrow> answered_unchanged {401, 403} w (serve S r w)) \<and>
      (malformed S (rt_handler rt) r \<longrightarrow> answered_unchanged {400, 401, 403} w (serve S r w))) \<and>
    (\<forall>h. (\<forall>e :: 'x exchange. entitled S h e) \<longleftrightarrow>
      h \<in> {AuthRegister, AuthLogin, AuthRefresh, JwksGet, HealthCheck, HealthLive, HealthReady})"
proof (intro conjI impI allI)
  show "find_route r = None \<Longrightarrow> answered_unchanged {404} w (serve S r w)"
    by (simp add: serve_def error_response_def answered_unchanged_def)
qed (intro open_routes serve_refused not_entitled_refused malformed_refused assms; assumption)+

end
