(* ===== verification/Http_Runs.thy ===== *)
theory Http_Runs
  imports Http_Server Service_Invariants
begin

text \<open>
  The service under any sequence of client calls, over REST and over GraphQL, one at a time. What
  every command keeps, every call keeps: the guards, pipes and queries around the commands change
  nothing that matters. The locale \<open>served_invariant\<close> is that argument, interpreted for the
  constraints of the schema and for the stored sessions; with it the single use of refresh tokens
  holds of the calls clients make.
\<close>

section \<open>GraphQL calls\<close>

text \<open>An operation with its \<open>input\<close>; the authorization header is that of the HTTP request that carries it.\<close>

datatype gql_call =
    AppCreate "(string \<times> json) list"
  | AppFindById "(string \<times> json) list"
  | AppsFindByCriteria "find_by_criteria_input option"
  | TenantCreate "(string \<times> json) list"
  | TenantUpdate "(string \<times> json) list"
  | TenantDelete "(string \<times> json) list"
  | TenantMemberAdd "(string \<times> json) list"
  | TenantsFindByCriteria "find_by_criteria_input option"
  | TenantMembershipsFindByTenantId "(string \<times> json) list"

datatype gql_payload =
    GqlMutation mutation_response
  | GqlApp "AppResponseDto option"
  | GqlApps "AppResponseDto gql_page"
  | GqlTenants "TenantResponseDto gql_page"
  | GqlMembers "TenantMembershipResponseDto list"

definition gql_input :: "gql_call \<Rightarrow> (string \<times> json) list" where
  "gql_input c = (case c of
       AppCreate fs \<Rightarrow> fs | AppFindById fs \<Rightarrow> fs | TenantCreate fs \<Rightarrow> fs | TenantUpdate fs \<Rightarrow> fs
     | TenantDelete fs \<Rightarrow> fs | TenantMemberAdd fs \<Rightarrow> fs | TenantMembershipsFindByTenantId fs \<Rightarrow> fs
     | _ \<Rightarrow> [])"

definition gql_exchange :: "string option \<Rightarrow> gql_call \<Rightarrow> 'x world \<Rightarrow> 'x exchange" where
  "gql_exchange authorization c w =
     (let request = \<lparr>req_authorization = authorization, req_user = None, req_tenantId = []\<rparr>
      in \<lparr>ex_type = ''graphql'', ex_http = request, ex_gql = request,
          ex_inputTenantId = text_of (map_of (gql_input c) ''tenantId''), ex_cookies = [], ex_world = w\<rparr>)"

definition gql_guards :: "'x service \<Rightarrow> gql_call \<Rightarrow> ('x exchange, error, bool) comp list" where
  "gql_guards S c = (let L = sv_lib S; N = sv_nest S in case c of
       AppCreate fs \<Rightarrow> [JwtAuthGuard_canActivate L]
     | TenantCreate fs \<Rightarrow> [JwtAuthGuard_canActivate L]
     | TenantUpdate fs \<Rightarrow> [JwtAuthGuard_canActivate L, TenantPermissionGuard N MANAGE_TENANT]
     | TenantDelete fs \<Rightarrow> [JwtAuthGuard_canActivate L, TenantPermissionGuard N DELETE_TENANT]
     | TenantMemberAdd fs \<Rightarrow> [JwtAuthGuard_canActivate L, TenantPermissionGuard N MANAGE_MEMBERS]
     | TenantsFindByCriteria i \<Rightarrow> [JwtAuthGuard_canActivate L, PlatformAdminGuard_canActivate]
     | TenantMembershipsFindByTenantId fs \<Rightarrow> [JwtAuthGuard_canActivate L, TenantPermissionGuard N VIEW_TENANT]
     | _ \<Rightarrow> [])"

definition resolve :: "'x service \<Rightarrow> gql_call \<Rightarrow> ('x exchange, error, gql_payload) comp" where
  "resolve S c = (let L = sv_lib S; N = sv_nest S; V = sv_validators S; gs = gql_guards S c in case c of
       AppCreate fs \<Rightarrow> piped gs (create_app_input V AppCreateRequestDto fs) (\<lambda>(slug, name).
         bindE (AppMutationsResolver_appCreate L N slug name) (\<lambda>m. ret (GqlMutation m)))
     | AppFindById fs \<Rightarrow> piped gs (ValidationPipe V AppFindByIdRequestDto fs) (\<lambda>f.
         bindE (AppQueriesResolver_appFindById L (sv_apps S) (text_of (f ''id''))) (\<lambda>a. ret (GqlApp a)))
     | AppsFindByCriteria i \<Rightarrow>
         bindE (AppQueriesResolver_appsFindByCriteria L (sv_apps S) N i) (\<lambda>p. ret (GqlApps p))
     | TenantCreate fs \<Rightarrow> piped gs (create_tenant_input V TenantCreateRequestDto fs) (\<lambda>dto.
         bindE (TenantMutationsResolver_tenantCreate L (sv_apps S) N dto) (\<lambda>m. ret (GqlMutation m)))
     | TenantUpdate fs \<Rightarrow> piped gs (update_tenant_input V TenantUpdateRequestDto fs) (\<lambda>dto.
         bindE (TenantMutationsResolver_tenantUpdate L N dto) (\<lambda>m. ret (GqlMutation m)))
     | TenantDelete fs \<Rightarrow> piped gs (ValidationPipe V TenantDeleteRequestDto fs) (\<lambda>_.
         bindE (TenantMutationsResolver_tenantDelete L N) (\<lambda>m. ret (GqlMutation m)))
     | TenantMemberAdd fs \<Rightarrow> piped gs (add_member_input V TenantAddMemberRequestDto fs) (\<lambda>dto.
         bindE (TenantMutationsResolver_tenantMemberAdd L N dto) (\<lambda>m. ret (GqlMutation m)))
     | TenantsFindByCriteria i \<Rightarrow>
         bindE (TenantQueriesResolver_tenantsFindByCriteria L (sv_tenants S) N i) (\<lambda>p. ret (GqlTenants p))
     | TenantMembershipsFindByTenantId fs \<Rightarrow>
         piped gs (ValidationPipe V TenantMembershipFindByTenantIdRequestDto fs) (\<lambda>_.
         bindE (TenantQueriesResolver_tenantMembershipsFindByTenantId L (sv_memberships S) N)
           (\<lambda>ms. ret (GqlMembers ms))))"

section \<open>Sequences of calls\<close>

datatype client_call = Rest incoming | Graphql "string option" gql_call

datatype client_answer = RestAnswer response | GraphqlAnswer "error + gql_payload"

text \<open>The schema check that comes before the guards and the pipe; the criteria inputs are typed by construction.\<close>

definition gql_accepts :: "gql_call \<Rightarrow> bool" where
  "gql_accepts c = (case c of
       AppCreate fs \<Rightarrow> schema_accepts AppCreateRequestDto fs
     | AppFindById fs \<Rightarrow> schema_accepts AppFindByIdRequestDto fs
     | TenantCreate fs \<Rightarrow> schema_accepts TenantCreateRequestDto fs
     | TenantUpdate fs \<Rightarrow> schema_accepts TenantUpdateRequestDto fs
     | TenantDelete fs \<Rightarrow> schema_accepts TenantDeleteRequestDto fs
     | TenantMemberAdd fs \<Rightarrow> schema_accepts TenantAddMemberRequestDto fs
     | TenantMembershipsFindByTenantId fs \<Rightarrow> schema_accepts TenantMembershipFindByTenantIdRequestDto fs
     | _ \<Rightarrow> True)"

definition client_step :: "'x service \<Rightarrow> client_call \<Rightarrow> 'x world \<Rightarrow> client_answer \<times> 'x world" where
  "client_step S c w = (case c of
       Rest r \<Rightarrow> (case serve S r w of (a, w') \<Rightarrow> (RestAnswer a, w'))
     | Graphql authorization g \<Rightarrow>
         (if gql_accepts g then
            (case resolve S g (gql_exchange authorization g w) of (a, e) \<Rightarrow> (GraphqlAnswer a, ex_world e))
          else (GraphqlAnswer (Inl bad_user_input), w)))"

fun client_run :: "'x service \<Rightarrow> client_call list \<Rightarrow> 'x world \<Rightarrow> client_answer list \<times> 'x world" where
  "client_run S [] w = ([], w)"
| "client_run S (c # cs) w = (case client_step S c w of (a, w1) \<Rightarrow>
     (case client_run S cs w1 of (as, w') \<Rightarrow> (a # as, w')))"

section \<open>What a call keeps\<close>

text \<open>A predicate on the world, as one on exchanges.\<close>

definition at_world :: "('x world \<Rightarrow> bool) \<Rightarrow> 'x exchange \<Rightarrow> bool" where
  "at_world I e \<longleftrightarrow> I (ex_world e)"

lemma in_world_keeps: "preserves I m \<Longrightarrow> preserves (at_world I) (in_world m)"
  by (auto simp: preserves_def at_world_def in_world_run) (metis prod.collapse)

lemma modify_keeps: "(\<And>e. ex_world (f e) = ex_world e) \<Longrightarrow> preserves (at_world I) (modifyS f)"
  by (auto simp: preserves_def at_world_def)

lemma guarded_keeps:
  "list_all (preserves J) gs \<Longrightarrow> preserves J h \<Longrightarrow> preserves J (guarded gs h)"
  by (induction gs) (auto intro!: preserving)

lemma piped_keeps:
  "list_all (preserves J) gs \<Longrightarrow> (\<And>dto. preserves J (controller dto)) \<Longrightarrow>
     preserves J (piped gs input controller)"
  by (auto simp: piped_def intro!: guarded_keeps preserving split: sum.split)

lemma answer_keeps: "preserves J m \<Longrightarrow> preserves J (answer f m)"
  unfolding answer_def by (intro preserving)

lemma readers_keep:
  "preserves I (arr_findById (app_read_repo L K) i)"
  "preserves I (arr_findByCriteria (app_read_repo L K) c)"
  "preserves I (trr_findByCriteria (tenant_read_repo L K') c)"
  "preserves I (mrr_findAllByTenantId (membership_read_repo L K'') t)"
  "preserves I (twr_findById (tenant_write_repo L) t)"
proof -
  have find: "preserves I (repo_find (sql_repository get put key check del) p)" for get put key check del p
    by (auto simp: preserves_def sql_repository_sel)
  show "preserves I (arr_findById (app_read_repo L K) i)"
    by (auto simp: preserves_def app_read_repo_run)
  show "preserves I (arr_findByCriteria (app_read_repo L K) c)"
    unfolding AppTypeOrmReadRepository_def IAppReadRepository.simps app_repo_def
    by (intro find_by_criteria_keeps find) (simp add: app_toViewModel_run preserving)
  show "preserves I (trr_findByCriteria (tenant_read_repo L K') c)"
    unfolding TenantTypeOrmReadRepository_def ITenantReadRepository.simps tenant_repo_def
    by (intro find_by_criteria_keeps find) (simp add: tenant_toViewModel_run preserving)
  show "preserves I (mrr_findAllByTenantId (membership_read_repo L K'') t)"
    by (auto simp: preserves_def membership_read_repo_run)
  show "preserves I (twr_findById (tenant_write_repo L) t)"
    by (auto simp: preserves_def tenant_write_repo_run)
qed

lemmas new_command_defs = new_RegisterUserCommand_def new_LoginUserCommand_def new_RefreshSessionCommand_def
  new_CreateAppCommand_def new_CreateTenantCommand_def new_UpdateTenantCommand_def
  new_DeleteTenantCommand_def new_AddTenantMemberCommand_def new_TenantMembershipFindByTenantIdQuery_def
  new_AppFindByIdQuery_def

lemma new_commands_keep:
  "preserves I (new_RegisterUserCommand L a b c)" "preserves I (new_LoginUserCommand L a b)"
  "preserves I (new_RefreshSessionCommand L a)" "preserves I (new_CreateAppCommand L a c)"
  "preserves I (new_CreateTenantCommand L a b c d)" "preserves I (new_UpdateTenantCommand L a b c c')"
  "preserves I (new_DeleteTenantCommand L a b)" "preserves I (new_AddTenantMemberCommand L a b d)"
  "preserves I (new_TenantMembershipFindByTenantIdQuery L a)" "preserves I (new_AppFindByIdQuery L a)"
  unfolding new_command_defs by (intro preserving)+

text \<open>A call keeps what its handler or its resolver keeps.\<close>

lemma client_step_by:
  assumes "\<And>r rt. c = Rest r \<Longrightarrow> find_route r = Some rt \<Longrightarrow> preserves (at_world I) (handle S (rt_handler rt) r)"
    and "\<And>authorization g. c = Graphql authorization g \<Longrightarrow> preserves (at_world I) (resolve S g)"
    and "I w" and "client_step S c w = (a, w')"
  shows "I w'"
proof (cases c)
  case (Rest r)
  show ?thesis
  proof (cases "find_route r")
    case None
    with assms Rest show ?thesis by (simp add: client_step_def serve_def)
  next
    case (Some rt)
    obtain out e where h: "handle S (rt_handler rt) r (exchange_of rt r w) = (out, e)" by fastforce
    from preservesD [OF assms(1) [OF Rest Some] _ h] assms(3)
    have "I (ex_world e)" by (simp add: at_world_def)
    moreover have "w' = ex_world e"
      using assms(4) Rest Some h by (cases out) (auto simp: client_step_def serve_def)
    ultimately show ?thesis by simp
  qed
next
  case (Graphql authorization g)
  obtain out e where h: "resolve S g (gql_exchange authorization g w) = (out, e)" by fastforce
  from preservesD [OF assms(2) [OF Graphql] _ h] assms(3) have "I (ex_world e)"
    by (simp add: at_world_def gql_exchange_def Let_def)
  then show ?thesis using assms(3,4) Graphql h by (auto simp: client_step_def split: if_splits)
qed

text \<open>
  \<open>I\<close> is kept by the calls to the outside world that guards and probes make, and by the commands
  that create and update, if the code outside the repository behaves as documented (\<open>doc\<close>).
\<close>

locale served_base =
  fixes S :: "'x service" and doc :: bool and I :: "'x world \<Rightarrow> bool"
  assumes rbac: "doc \<Longrightarrow> rbac_ok (sv_nest S)"
    and verify: "doc \<Longrightarrow> preserves I (outside (jwt_verify (sv_lib S) t))"
    and clock: "doc \<Longrightarrow> preserves I (outside (now (sv_lib S) :: ('x, error, int) comp))"
    and ping: "doc \<Longrightarrow> preserves I (outside (sv_ping S))"
    and register: "doc \<Longrightarrow> preserves I (RegisterUserCommandHandler_execute (user_lookup (sv_lib S))
      (KeycloakIdentityProviderAdapter (sv_lib S) (ac_keycloak (sv_auth S))) (user_provisioning (sv_lib S)) ru)"
    and create_app: "doc \<Longrightarrow> preserves I (CreateAppCommandHandler_execute (sv_lib S) (app_write_repo (sv_lib S)) ca)"
    and create_tenant: "doc \<Longrightarrow> preserves I (CreateTenantCommandHandler_execute (sv_lib S) (tenant_write_repo (sv_lib S))
      (membership_write_repo (sv_lib S)) (app_lookup_adapter (sv_lib S) (sv_apps S)) ct)"
    and update_tenant: "doc \<Longrightarrow> preserves I (UpdateTenantCommandHandler_execute (sv_lib S) (tenant_write_repo (sv_lib S)) ut)"
    and add_member: "doc \<Longrightarrow> preserves I (AddTenantMemberCommandHandler_execute (sv_lib S) (tenant_write_repo (sv_lib S))
      (membership_write_repo (sv_lib S)) (tenancy_user_lookup (sv_lib S)) am)"
begin

lemma jwt_guard_keeps:
  assumes doc
  shows "preserves (at_world I) (JwtAuthGuard_canActivate (sv_lib S))"
  unfolding JwtAuthGuard_canActivate_def
  by (intro preserving in_world_keeps verify [OF assms] modify_keeps) simp_all

lemma admin_guard_keeps: "preserves (at_world I) PlatformAdminGuard_canActivate"
  by (auto simp: preserves_def at_world_def PlatformAdminGuard_run)

lemma tenant_guard_keeps:
  assumes doc
  shows "preserves (at_world I) (TenantPermissionGuard (sv_nest S) p)"
proof (rule preservesI)
  fix e r e' assume "at_world I e" "TenantPermissionGuard (sv_nest S) p e = (r, e')"
  then show "at_world I e'"
    by (cases rule: tenant_guard_cases [OF rbac [OF assms], where p = p and e = e]) auto
qed

lemmas guards_keep = jwt_guard_keeps admin_guard_keeps tenant_guard_keeps

lemma readers_of_exchange_keep:
  "preserves (at_world I) (param_tenantId (sv_nest S))" "preserves (at_world I) extractCurrentUser"
  "preserves (at_world I) input_tenantId"
  unfolding param_tenantId_def extractCurrentUser_def input_tenantId_def by (intro preserving)+

lemma handler_guards_keep: "doc \<Longrightarrow> list_all (preserves (at_world I)) (handler_guards S h)"
  by (cases h) (simp_all add: handler_guards_def Let_def guards_keep)

lemma gql_guards_keep: "doc \<Longrightarrow> list_all (preserves (at_world I)) (gql_guards S c)"
  by (cases c) (simp_all add: gql_guards_def Let_def guards_keep)

lemma queries_keep:
  "preserves I (AppFindByCriteriaQueryHandler_execute (app_read_repo L K) c)"
  "preserves I (AppFindByIdQueryHandler_execute (app_read_repo L K) i)"
  "preserves I (TenantFindByCriteriaQueryHandler_execute (tenant_read_repo L K') c)"
  "preserves I (TenantMembershipFindByTenantIdQueryHandler_execute (tenant_write_repo L)
     (membership_read_repo L K'') t)"
  unfolding AppFindByCriteriaQueryHandler_execute_def AppFindByIdQueryHandler_execute_def
    TenantFindByCriteriaQueryHandler_execute_def TenantMembershipFindByTenantIdQueryHandler_execute_def
    AssertTenantExistsService_execute_def
  by (intro preserving readers_keep)+

lemmas keeps = register create_app create_tenant update_tenant add_member
  preserving in_world_keeps modify_keeps readers_of_exchange_keep new_commands_keep queries_keep guards_keep

lemma guard_lists_keep:
  assumes doc
  shows "list_all (preserves (at_world I)) [JwtAuthGuard_canActivate (sv_lib S)]"
  "list_all (preserves (at_world I)) [JwtAuthGuard_canActivate (sv_lib S), PlatformAdminGuard_canActivate]"
  "list_all (preserves (at_world I)) [JwtAuthGuard_canActivate (sv_lib S), TenantPermissionGuard (sv_nest S) p]"
  using assms by (simp_all add: guards_keep)

lemma controllers_keep:
  assumes doc
  shows "preserves (at_world I) (AuthController_register (sv_lib S) (sv_auth S) dto)"
  "preserves (at_world I) (AppsController_create (sv_lib S) slug name)"
  "preserves (at_world I) (AppsController_findByCriteria (sv_lib S) (sv_apps S) aq)"
  "preserves (at_world I) (TenantsController_findByCriteria (sv_lib S) (sv_tenants S) tq)"
  "preserves (at_world I) (TenantsController_create (sv_lib S) (sv_apps S) new)"
  "preserves (at_world I) (TenantsController_update (sv_lib S) (sv_nest S) upd)"
  "preserves (at_world I) (TenantsController_addMember (sv_lib S) (sv_nest S) add)"
  "preserves (at_world I) (TenantsController_listMembers (sv_lib S) (sv_memberships S) (sv_nest S))"
  unfolding route_bodies AuthController_register_def
  by (intro guarded_keeps guard_lists_keep keeps assms)+

lemma probes_keep:
  assumes doc
  shows "preserves (at_world I) (HealthController_live S)" "preserves (at_world I) (HealthController_check S)"
  "preserves (at_world I) (HealthController_ready S)"
  unfolding HealthController_check_def HealthController_live_def HealthController_ready_def
  by (intro preserves_bindE preserves_ret in_world_keeps clock ping assms)+

lemma resolvers_keep:
  assumes doc
  shows "preserves (at_world I) (AppMutationsResolver_appCreate (sv_lib S) (sv_nest S) slug name)"
  "preserves (at_world I) (AppQueriesResolver_appFindById (sv_lib S) (sv_apps S) i)"
  "preserves (at_world I) (AppQueriesResolver_appsFindByCriteria (sv_lib S) (sv_apps S) (sv_nest S) q)"
  "preserves (at_world I) (TenantMutationsResolver_tenantCreate (sv_lib S) (sv_apps S) (sv_nest S) new)"
  "preserves (at_world I) (TenantMutationsResolver_tenantUpdate (sv_lib S) (sv_nest S) upd)"
  "preserves (at_world I) (TenantMutationsResolver_tenantMemberAdd (sv_lib S) (sv_nest S) add)"
  "preserves (at_world I) (TenantQueriesResolver_tenantsFindByCriteria (sv_lib S) (sv_tenants S) (sv_nest S) q)"
  "preserves (at_world I)
     (TenantQueriesResolver_tenantMembershipsFindByTenantId (sv_lib S) (sv_memberships S) (sv_nest S))"
  unfolding AppMutationsResolver_appCreate_def AppQueriesResolver_appFindById_def
    AppQueriesResolver_appsFindByCriteria_def TenantMutationsResolver_tenantCreate_def
    TenantMutationsResolver_tenantUpdate_def
    TenantMutationsResolver_tenantMemberAdd_def TenantQueriesResolver_tenantsFindByCriteria_def
    TenantQueriesResolver_tenantMembershipsFindByTenantId_def
  by (intro guarded_keeps guard_lists_keep keeps assms)+

text \<open>Every handler but login, refresh and the deletion of a tenant.\<close>

lemma handle_base:
  assumes doc and "h \<notin> {AuthLogin, AuthRefresh, TenantsRemove}"
  shows "preserves (at_world I) (handle S h r)"
  using assms
  by (cases h) (auto simp: handle_def Let_def
      intro!: piped_keeps handler_guards_keep answer_keeps controllers_keep probes_keep preserving)

lemma resolve_base:
  assumes doc and "\<And>fs. c \<noteq> TenantDelete fs"
  shows "preserves (at_world I) (resolve S c)"
  using assms by (cases c) (auto simp: resolve_def Let_def intro!: piped_keeps gql_guards_keep resolvers_keep preserving)

end

text \<open>The deletion of a tenant keeps \<open>I\<close> as well.\<close>

locale served_invariant = served_base S doc I
  for S :: "'x service" and doc :: bool and I :: "'x world \<Rightarrow> bool" +
  assumes delete_tenant: "doc \<Longrightarrow> preserves I (DeleteTenantCommandHandler_execute (tenant_write_repo (sv_lib S))
      (membership_write_repo (sv_lib S)) dt)"
begin

lemma deletions_keep:
  assumes doc
  shows "preserves (at_world I) (TenantsController_remove (sv_lib S) (sv_nest S))"
  "preserves (at_world I) (TenantMutationsResolver_tenantDelete (sv_lib S) (sv_nest S))"
  unfolding TenantsController_remove_def TenantMutationsResolver_tenantDelete_def
  by (intro guarded_keeps guard_lists_keep delete_tenant keeps assms)+

lemma handle_keeps:
  assumes doc and "h \<notin> {AuthLogin, AuthRefresh}"
  shows "preserves (at_world I) (handle S h r)"
proof (cases "h = TenantsRemove")
  case True
  then show ?thesis
    by (auto simp: handle_def Let_def intro!: answer_keeps deletions_keep assms(1))
next
  case False
  with assms show ?thesis by (intro handle_base) auto
qed

lemma resolve_keeps:
  assumes doc
  shows "preserves (at_world I) (resolve S c)"
proof (cases "\<exists>fs. c = TenantDelete fs")
  case True
  then show ?thesis
    by (auto simp: resolve_def Let_def intro!: piped_keeps gql_guards_keep deletions_keep preserving assms)
next
  case False
  with assms show ?thesis by (intro resolve_base) auto
qed

text \<open>A call that is not a login or a refresh.\<close>

lemma client_step_keeps:
  assumes doc and "\<And>r rt. c = Rest r \<Longrightarrow> find_route r = Some rt \<Longrightarrow> rt_handler rt \<notin> {AuthLogin, AuthRefresh}"
    and "I w" and "client_step S c w = (a, w')"
  shows "I w'"
  by (rule client_step_by [OF handle_keeps [OF assms(1) assms(2)] resolve_keeps [OF assms(1)] assms(3,4)])

end

section \<open>The constraints of the database\<close>

interpretation schema_served: served_invariant S "rbac_ok (sv_nest S)" schema_ok for S :: "'x service"
  by unfold_locales (assumption | intro register_schema preserving | simp)+

lemma session_routes_schema:
  "preserves (at_world schema_ok) (AuthController_login L K cfg cookies email password)"
  "preserves (at_world schema_ok) (AuthController_refresh L K cfg cookies token)"
  unfolding AuthController_login_def AuthController_refresh_def setSessionCookies_def
  by (intro preserves_bindE preserves_ret in_world_keeps modify_keeps new_commands_keep login_schema
      refresh_schema; simp)+

lemma serve_schema:
  assumes "rbac_ok (sv_nest S)" and "schema_ok w"
  shows "schema_ok (snd (client_step S c w))"
proof -
  obtain a w' where step: "client_step S c w = (a, w')" by fastforce
  have "schema_ok w'"
  proof (cases "\<exists>r rt. c = Rest r \<and> find_route r = Some rt \<and> rt_handler rt \<in> {AuthLogin, AuthRefresh}")
    case False
    with assms step show ?thesis by (intro schema_served.client_step_keeps [of S c w a w']) auto
  next
    case True
    then obtain r rt where c: "c = Rest r" and rt: "find_route r = Some rt"
      and h: "rt_handler rt \<in> {AuthLogin, AuthRefresh}" by blast
    have keep: "preserves (at_world schema_ok) (handle S (rt_handler rt) r)"
      using h by (auto simp: handle_def handler_guards_def Let_def
          intro!: piped_keeps answer_keeps session_routes_schema preserving)
    obtain out e where run: "handle S (rt_handler rt) r (exchange_of rt r w) = (out, e)" by fastforce
    from preservesD [OF keep _ run] assms(2) have "schema_ok (ex_world e)" by (simp add: at_world_def)
    then show ?thesis using step c rt run by (cases out) (auto simp: client_step_def serve_def)
  qed
  with step show ?thesis by simp
qed

text \<open>C13: whatever clients send, over REST and GraphQL and in any order, the database keeps its
  constraints: after any sequence of calls the keys are unique and no reference dangles.\<close>

theorem client_calls_keep_schema:
  assumes "rbac_ok (sv_nest S)" and "schema_ok w"
  shows "schema_ok (snd (client_run S calls w))"
  using assms(2)
proof (induction calls arbitrary: w)
  case (Cons c cs)
  obtain a w1 where step: "client_step S c w = (a, w1)" by fastforce
  with serve_schema [OF assms(1) Cons.prems, of c] have "schema_ok w1" by simp
  from Cons.IH [OF this] step show ?case by (cases "client_run S cs w1") simp
qed simp

section \<open>Refresh tokens\<close>

text \<open>The identifiers come from a supply, which a probe of the database does not add to.\<close>

definition documented :: "'x service \<Rightarrow> ('x \<Rightarrow> string set) \<Rightarrow> bool" where
  "documented S F \<longleftrightarrow> rbac_ok (sv_nest S) \<and> id_supply (sv_lib S) F \<and> (\<forall>x. F (snd (sv_ping S x)) \<subseteq> F x)"

interpretation sessions_served: served_invariant S "documented S F" "sessions_are (sv_lib S) F T"
  for S :: "'x service" and F T
proof
  assume doc: "documented S F"
  then have rbac: "rbac_ok (sv_nest S)" and ids: "id_supply (sv_lib S) F" and ping: "\<And>x. F (snd (sv_ping S x)) \<subseteq> F x"
    by (auto simp: documented_def)
  show "rbac_ok (sv_nest S)" by (rule rbac)
  show "preserves (sessions_are (sv_lib S) F T) (outside (jwt_verify (sv_lib S) t))" for t
    using ids by (intro outside_keeps) (auto simp: id_supply_def id_decreasing_def)
  show "preserves (sessions_are (sv_lib S) F T) (outside (now (sv_lib S) :: ('x, error, int) comp))"
    by (intro outside_keeps id_supply_calls ids)
  show "preserves (sessions_are (sv_lib S) F T) (outside (sv_ping S))"
    using ping by (intro outside_keeps) (auto simp: id_decreasing_def)
qed (simp_all add: documented_def register_keeps create_app_keeps tenant_commands_keep)

abbreviation runs_as :: "'x service \<Rightarrow> ('x \<Rightarrow> string set) \<Rightarrow> 'x world \<Rightarrow> request list \<Rightarrow> 'x world \<Rightarrow> bool" where
  "runs_as S F \<equiv> service_run (sv_lib S) F (sv_auth S) (session_write_repo (sv_lib S)) (user_lookup (sv_lib S))
     (KeycloakIdentityProviderAdapter (sv_lib S) (ac_keycloak (sv_auth S)))
     (membership_lookup (sv_lib S) (sv_memberships S)) (platform_admin (sv_lib S))"

text \<open>A call that exchanged the refresh token \<open>t\<close> for new tokens.\<close>

definition redeems :: "'x service \<Rightarrow> client_call \<Rightarrow> client_answer \<Rightarrow> string \<Rightarrow> bool" where
  "redeems S c a t \<longleftrightarrow> (\<exists>r rt response tokens. c = Rest r \<and> find_route r = Some rt \<and> rt_handler rt = AuthRefresh \<and>
     refresh_input (sv_validators S) (in_body r) = Inr t \<and> a = RestAnswer response \<and>
     rs_body response = TokensBody tokens)"

text \<open>The request of the abstract run that a call is.\<close>

definition is_request :: "'x service \<Rightarrow> client_call \<Rightarrow> client_answer \<Rightarrow> request \<Rightarrow> bool" where
  "is_request S c a q \<longleftrightarrow> (\<forall>t. redeems S c a t \<longrightarrow>
     (\<exists>command tokens. q = Refresh command (Inr tokens) \<and>
        RefreshTokenValueObject (sv_lib S) t = Inr (rf_refreshToken command)))"

lemma run_one_other: "session_inv (sv_lib S) F w' \<Longrightarrow> session_tbl w' = session_tbl w \<Longrightarrow> runs_as S F w [Other] w'"
  by (rule run_other [OF _ _ run_nil])

lemma same_run: "session_inv (sv_lib S) F w \<Longrightarrow> runs_as S F w [Other] w"
  by (rule run_one_other) simp_all

text \<open>Login and refresh over HTTP: the pipe, the command, the handler, the cookies.\<close>

lemma login_step:
  assumes inv: "session_inv (sv_lib S) F w" and rt: "find_route r = Some rt" "rt_handler rt = AuthLogin"
    and step: "client_step S (Rest r) w = (a, w')"
  shows "\<exists>q. runs_as S F w [q] w'"
proof (cases "login_input (sv_validators S) (in_body r)")
  case (Inl err)
  with step rt have "w' = w"
    by (auto simp: client_step_def serve_def handle_def handler_guards_def Let_def piped_def)
  with same_run [OF inv] show ?thesis by blast
next
  case (Inr input)
  obtain email password where input: "input = (email, password)" by fastforce
  let ?m = "bindE (new_LoginUserCommand (sv_lib S) email password)
       (LoginUserCommandHandler_execute (sv_lib S) (sv_auth S) (user_lookup (sv_lib S))
         (KeycloakIdentityProviderAdapter (sv_lib S) (ac_keycloak (sv_auth S)))
         (membership_lookup (sv_lib S) (sv_memberships S)) (session_write_repo (sv_lib S)) (platform_admin (sv_lib S)))"
  have w': "w' = snd (?m w)"
    using step rt Inr input
    by (cases "fst (?m w)") (auto simp: client_step_def serve_def handle_def handler_guards_def Let_def piped_def
        answer_def AuthController_login_def setSessionCookies_def bindE_def in_world_run split: sum.splits prod.splits)
  show ?thesis
  proof (cases "new_LoginUserCommand (sv_lib S) email password w")
    case (Pair z w1)
    have "w1 = w" using Pair by (auto simp: new_LoginUserCommand_def bindE_def split: sum.splits)
    show ?thesis
    proof (cases z)
      case (Inl err)
      with Pair \<open>w1 = w\<close> w' have "w' = w" by (simp add: bindE_def)
      with same_run [OF inv] show ?thesis by blast
    next
      case (Inr command)
      obtain res w2 where run: "LoginUserCommandHandler_execute (sv_lib S) (sv_auth S) (user_lookup (sv_lib S))
         (KeycloakIdentityProviderAdapter (sv_lib S) (ac_keycloak (sv_auth S)))
         (membership_lookup (sv_lib S) (sv_memberships S)) (session_write_repo (sv_lib S)) (platform_admin (sv_lib S))
         command w = (res, w2)" by fastforce
      with Inr Pair \<open>w1 = w\<close> w' have "w' = w2" by (simp add: bindE_def)
      with run have "runs_as S F w [Login command res] w'" by (auto intro: service_run.intros)
      then show ?thesis by blast
    qed
  qed
qed

lemma refresh_step:
  assumes inv: "session_inv (sv_lib S) F w" and rt: "find_route r = Some rt" "rt_handler rt = AuthRefresh"
    and step: "client_step S (Rest r) w = (a, w')"
  shows "\<exists>q. runs_as S F w [q] w' \<and> is_request S (Rest r) a q"
proof (cases "refresh_input (sv_validators S) (in_body r)")
  case (Inl err)
  with step rt have "w' = w" "is_request S (Rest r) a Other"
    by (auto simp: client_step_def serve_def handle_def handler_guards_def Let_def piped_def is_request_def
        redeems_def)
  with same_run [OF inv] show ?thesis by blast
next
  case (Inr t)
  let ?L = "sv_lib S"
  let ?h = "RefreshSessionCommandHandler_execute ?L (sv_auth S) (session_write_repo ?L) (user_lookup ?L)
    (membership_lookup ?L (sv_memberships S))"
  let ?m = "bindE (new_RefreshSessionCommand ?L t) ?h"
  have w': "w' = snd (?m w)" and body: "\<And>response tokens. a = RestAnswer response \<Longrightarrow>
      rs_body response = TokensBody tokens \<Longrightarrow> fst (?m w) = Inr tokens"
    using step rt Inr
    by (cases "?m w"; auto simp: client_step_def serve_def handle_def handler_guards_def Let_def piped_def
        answer_def AuthController_refresh_def setSessionCookies_def bindE_def in_world_run error_response_def
        split: sum.splits prod.splits)+
  show ?thesis
  proof (cases "RefreshTokenValueObject ?L t")
    case (Inl err)
    then have m: "?m w = (Inl err, w)" by (simp add: bindE_def new_RefreshSessionCommand_def)
    with w' body have "w' = w" "is_request S (Rest r) a Other"
      by (auto simp: is_request_def redeems_def)
    with same_run [OF inv] show ?thesis by blast
  next
    case vo: (Inr v)
    obtain res w2 where run: "?h \<lparr>rf_refreshToken = v\<rparr> w = (res, w2)" by fastforce
    with vo have m: "?m w = (res, w2)" by (simp add: bindE_def new_RefreshSessionCommand_def)
    with w' run have "runs_as S F w [Refresh \<lparr>rf_refreshToken = v\<rparr> res] w'" by (auto intro: service_run.intros)
    moreover have "is_request S (Rest r) a (Refresh \<lparr>rf_refreshToken = v\<rparr> res)"
      using body m rt Inr vo by (auto simp: is_request_def redeems_def)
    ultimately show ?thesis by blast
  qed
qed

lemma step_is_request:
  assumes doc: "documented S F" and inv: "session_inv (sv_lib S) F w" and step: "client_step S c w = (a, w')"
  shows "\<exists>q. runs_as S F w [q] w' \<and> is_request S c a q"
proof (cases "\<exists>r rt. c = Rest r \<and> find_route r = Some rt \<and> rt_handler rt \<in> {AuthLogin, AuthRefresh}")
  case False
  then have "sessions_are (sv_lib S) F (session_tbl w) w'"
    using doc inv step by (intro sessions_served.client_step_keeps [of S F c w "session_tbl w" a w']) auto
  then have "runs_as S F w [Other] w'" by (intro run_one_other) simp_all
  moreover have "is_request S c a Other" using False by (auto simp: is_request_def redeems_def)
  ultimately show ?thesis by blast
next
  case True
  then obtain r rt where c: "c = Rest r" and rt: "find_route r = Some rt" and
    h: "rt_handler rt = AuthLogin \<or> rt_handler rt = AuthRefresh" by blast
  from h show ?thesis
  proof
    assume h: "rt_handler rt = AuthLogin"
    with login_step [OF inv rt h] step c rt show ?thesis by (fastforce simp: is_request_def redeems_def)
  next
    assume "rt_handler rt = AuthRefresh"
    with refresh_step [OF inv rt] step c show ?thesis by blast
  qed
qed

lemma calls_are_requests:
  assumes doc: "documented S F" and ok: "hash_ok (sv_lib S)" "uuid_ok (sv_lib S)"
  shows "session_inv (sv_lib S) F w \<Longrightarrow> client_run S cs w = (as, w') \<Longrightarrow>
    \<exists>qs. runs_as S F w qs w' \<and> length as = length cs \<and> length qs = length cs \<and>
      (\<forall>i < length cs. is_request S (cs ! i) (as ! i) (qs ! i))"
proof (induction cs arbitrary: w as)
  case Nil
  then show ?case by (auto intro: service_run.intros)
next
  case (Cons c cs)
  obtain a w1 as' where step: "client_step S c w = (a, w1)" and rest: "client_run S cs w1 = (as', w')"
    and as: "as = a # as'" using Cons.prems(2) by (auto split: prod.splits)
  obtain q where q: "runs_as S F w [q] w1" "is_request S c a q"
    using step_is_request [OF doc Cons.prems(1) step] by blast
  have "id_supply (sv_lib S) F" using doc by (simp add: documented_def)
  then have "session_inv (sv_lib S) F w1"
    using wired.run_keeps_spent [OF _ ok q(1) Cons.prems(1)] by simp
  from Cons.IH [OF this rest] obtain qs where qs: "runs_as S F w1 qs w'" "length as' = length cs"
    "length qs = length cs" "\<forall>i < length cs. is_request S (cs ! i) (as' ! i) (qs ! i)" by blast
  have "runs_as S F w (q # qs) w'" using q(1) qs(1) service_run_append [where rs = "[q]"] by fastforce
  with qs q(2) as show ?case
    by (intro exI [of _ "q # qs"]) (auto simp: nth_Cons split: nat.split)
qed

lemma split_at_two:
  assumes "i < j" and "j < length xs"
  obtains us vs ws where "xs = us @ xs ! i # vs @ xs ! j # ws"
proof -
  have "xs = take i xs @ xs ! i # drop (Suc i) xs" using assms by (simp add: id_take_nth_drop)
  moreover have "drop (Suc i) xs = take (j - Suc i) (drop (Suc i) xs) @ xs ! j # drop (Suc j) xs"
    using assms id_take_nth_drop [of "j - Suc i" "drop (Suc i) xs"] by simp
  ultimately show thesis using that by metis
qed

text \<open>C3: no refresh token is exchanged twice, whatever clients send in between: of any sequence of REST
  and GraphQL calls, two that were answered with new tokens had presented different refresh tokens.\<close>

theorem client_refresh_single_use:
  assumes "documented S F" and "hash_ok (sv_lib S)" and "uuid_ok (sv_lib S)" and "session_inv (sv_lib S) F w"
    and "client_run S calls w = (answers, w')" and "i < j" and "j < length calls"
    and "redeems S (calls ! i) (answers ! i) t" and "redeems S (calls ! j) (answers ! j) t'"
  shows "t \<noteq> t'"
proof
  assume same: "t = t'"
  obtain qs where qs: "runs_as S F w qs w'" "length qs = length calls"
    and req: "\<And>k. k < length calls \<Longrightarrow> is_request S (calls ! k) (answers ! k) (qs ! k)"
    using calls_are_requests [OF assms(1-5)] by blast
  from req [of i] req [of j] assms(6-9) obtain c1 r1 c2 r2 where
    "qs ! i = Refresh c1 (Inr r1)" "qs ! j = Refresh c2 (Inr r2)"
    and t: "RefreshTokenValueObject (sv_lib S) t = Inr (rf_refreshToken c1)"
      "RefreshTokenValueObject (sv_lib S) t' = Inr (rf_refreshToken c2)"
    unfolding is_request_def by fastforce
  moreover obtain us vs ws where "qs = us @ qs ! i # vs @ qs ! j # ws"
    using assms(6,7) qs(2) by (metis split_at_two)
  ultimately have "runs_as S F w (us @ Refresh c1 (Inr r1) # vs @ Refresh c2 (Inr r2) # ws) w'"
    using qs(1) by metis
  moreover have "id_supply (sv_lib S) F" using assms(1) by (simp add: documented_def)
  ultimately have "rf_refreshToken c1 \<noteq> rf_refreshToken c2"
    using wired.no_second_redemption assms(2-4) by blast
  with t same show False by simp
qed

end
