(* ===== verification/Deletion_Safety.thy ===== *)
theory Deletion_Safety
  imports Http_Runs Row_Validity
begin

text \<open>
  What clients can make disappear. Nothing but the deletion of a tenant removes a row that a client
  may come back to: apps and users stay for good, and a tenant goes, with its memberships and
  nothing else, only at the call of a stored owner whose token says so too.
\<close>

section \<open>Rows that stay\<close>

text \<open>The ids of apps, users, tenants and memberships that are at least there.\<close>

definition kept :: "string set \<Rightarrow> string set \<Rightarrow> string set \<Rightarrow> string set \<Rightarrow> 'x world \<Rightarrow> bool" where
  "kept A U T M w \<longleftrightarrow> A \<subseteq> ae_id ` set (app_tbl w) \<and> U \<subseteq> ue_id ` set (user_tbl w) \<and>
     T \<subseteq> te_id ` set (tenant_tbl w) \<and> M \<subseteq> me_id ` set (membership_tbl w)"

definition lost_nothing :: "'x world \<Rightarrow> 'x world \<Rightarrow> bool" where
  "lost_nothing w w' \<longleftrightarrow> kept (ae_id ` set (app_tbl w)) (ue_id ` set (user_tbl w)) (te_id ` set (tenant_tbl w))
     (me_id ` set (membership_tbl w)) w'"

text \<open>Only the tenant \<open>t\<close> is gone, and memberships of no other stored tenant.\<close>

definition lost_tenant :: "string \<Rightarrow> 'x world \<Rightarrow> 'x world \<Rightarrow> bool" where
  "lost_tenant t w w' \<longleftrightarrow> kept (ae_id ` set (app_tbl w)) (ue_id ` set (user_tbl w))
     (te_id ` set (tenant_tbl w) - {t})
     (me_id ` {m \<in> set (membership_tbl w). me_tenantId m \<in> te_id ` set (tenant_tbl w) - {t}}) w'"

lemma kept_frame [simp]:
  "kept A U T M (w\<lparr>ext := x\<rparr>) = kept A U T M w" "kept A U T M (w\<lparr>published := es\<rparr>) = kept A U T M w"
  "kept A U T M (w\<lparr>session_tbl := ss\<rparr>) = kept A U T M w" "kept A U T M (w\<lparr>tx_pending := ps\<rparr>) = kept A U T M w"
  by (simp_all add: kept_def)

lemma subset_upsert: "A \<subseteq> key ` set rs \<Longrightarrow> A \<subseteq> key ` set (upsert key r rs)"
  using upsert_keys [of key r rs] by auto

lemma saves_keep:
  "preserves (kept A U T M) (awr_save (app_write_repo L) a)"
  "preserves (kept A U T M) (uwr_save (user_write_repo L) u)"
  "preserves (kept A U T M) (twr_save (tenant_write_repo L) t)"
  "preserves (kept A U T M) (mwr_save (membership_write_repo L) m)"
  by (auto simp: preserves_def kept_def app_write_repo_run user_write_repo_run tenant_write_repo_run
      membership_write_repo_run split: option.splits intro: subset_upsert [THEN subsetD])

lemma session_store_keeps:
  "preserves (kept A U T M) (swr_save (session_write_repo L) s)"
  "preserves (kept A U T M) (swr_revokeAllByUserId (session_write_repo L) u)"
  "preserves (kept A U T M) (sm_save (session_sql L) e)"
  by (auto simp: preserves_def SessionTypeOrmWriteRepository_def session_repo_def session_sql_def tx_save_def
      SessionTypeOrmWriteRepository_revokeAllByUserId_def bindE_def sql_repository_sel outside_run
      split: option.splits sum.splits prod.splits)

lemma outside_kept: "preserves (kept A U T M) (outside m)"
  by (rule preserves_outside) simp

lemma publish_kept: "preserves (kept A U T M) (publish es)"
  by (rule preserves_publish) simp

lemma transaction_kept:
  assumes "preserves (kept A U T M) body"
  shows "preserves (kept A U T M) (transaction body)"
proof (rule preservesI)
  fix w r w' assume ok: "kept A U T M w" and run: "transaction body w = (r, w')"
  obtain r1 w1 where b: "body (w\<lparr>tx_pending := Some []\<rparr>) = (r1, w1)" by fastforce
  from preservesD [OF assms _ b] ok have "kept A U T M w1" by simp
  with run b show "kept A U T M w'" by (cases r1) (auto simp: transaction_def)
qed

lemma callback_kept: "preserves (kept A U T M) (refresh_callback L (session_write_repo L) h expires current lk)"
  unfolding refresh_callback_def by (intro preserving outside_kept session_store_keeps)

lemma rotate_by_callback_kept:
  assumes cb: "\<And>current lk. preserves (kept A U T M) (cb current lk)"
  shows "preserves (kept A U T M) (swr_rotate (session_write_repo L) h cb)"
proof -
  have find: "preserves (kept A U T M) (\<lambda>w. (Inr (find p (visible_sessions w)), w))" for p
    by (simp add: preserves_def)
  show ?thesis
    unfolding SessionTypeOrmWriteRepository_def ISessionWriteRepository.simps
      SessionTypeOrmWriteRepository_rotate_def lockByRefreshTokenHash_def session_sql_sel Let_def
    by (intro transaction_kept preserves_bindE preserves_ret find cb preserves_case_option outside_kept
        session_store_keeps(3) [unfolded session_sql_sel])
qed

lemmas rotate_kept = rotate_by_callback_kept [OF callback_kept]

lemmas kept_rules = preserving outside_kept publish_kept saves_keep session_store_keeps reads_keep
  user_read_keeps lookups_keep app_lookup_keeps user_lookup_keeps

lemma user_commands_kept:
  "preserves (kept A U T M) (CreateUserCommandHandler_execute L (user_write_repo L) cu)"
  "preserves (kept A U T M) (SetUserPlatformAdminCommandHandler_execute L (user_write_repo L) su)"
  unfolding CreateUserCommandHandler_execute_def AssertUserEmailAvailableService_execute_def
    SetUserPlatformAdminCommandHandler_execute_def AssertUserExistsService_execute_def Let_def
  by (intro kept_rules)+

lemma auth_ports_kept:
  "preserves (kept A U T M) (pap_setPlatformAdmin (platform_admin L) i b)"
  "preserves (kept A U T M) (upp_createUser (user_provisioning L) n)"
  "preserves (kept A U T M) (idp_verifyCredentials (KeycloakIdentityProviderAdapter L kc) m p)"
  "preserves (kept A U T M) (idp_registerIdentity (KeycloakIdentityProviderAdapter L kc) ri)"
  unfolding UserPlatformAdminAdapter_def IUserPlatformAdminPort.simps new_SetUserPlatformAdminCommand_def
    UserProvisioningAdapter_def IUserProvisioningPort.simps new_CreateUserCommand_def
    KeycloakIdentityProviderAdapter_def IIdentityProviderPort.simps
  by (intro user_commands_kept kept_rules)+

lemma auth_commands_kept:
  "preserves (kept A U T M) (RegisterUserCommandHandler_execute (user_lookup L)
     (KeycloakIdentityProviderAdapter L kc) (user_provisioning L) ru)"
  "preserves (kept A U T M) (LoginUserCommandHandler_execute L cfg (user_lookup L)
     (KeycloakIdentityProviderAdapter L kc) (membership_lookup L K) (session_write_repo L) (platform_admin L) lu)"
  "preserves (kept A U T M) (RefreshSessionCommandHandler_execute L cfg (session_write_repo L) (user_lookup L)
     (membership_lookup L K) rf)"
  unfolding RegisterUserCommandHandler_execute_def LoginUserCommandHandler_execute_def
    RefreshSessionCommandHandler_execute_def refresh_access_token_def Let_def
  by (intro auth_ports_kept rotate_kept kept_rules)+

lemma other_commands_kept:
  "preserves (kept A U T M) (CreateAppCommandHandler_execute L (app_write_repo L) ca)"
  "preserves (kept A U T M) (CreateTenantCommandHandler_execute L (tenant_write_repo L) (membership_write_repo L)
     (app_lookup_adapter L K) ct)"
  "preserves (kept A U T M) (UpdateTenantCommandHandler_execute L (tenant_write_repo L) ut)"
  "preserves (kept A U T M) (AddTenantMemberCommandHandler_execute L (tenant_write_repo L) (membership_write_repo L)
     (tenancy_user_lookup L) am)"
  unfolding CreateAppCommandHandler_execute_def AssertAppSlugAvailableService_execute_def
    CreateTenantCommandHandler_execute_def UpdateTenantCommandHandler_execute_def
    AddTenantMemberCommandHandler_execute_def tenancy_service_defs Let_def
  by (intro kept_rules)+

interpretation rows_served: served_base S "rbac_ok (sv_nest S)" "kept A U T M" for S :: "'x service" and A U T M
  by unfold_locales (assumption | intro auth_commands_kept other_commands_kept outside_kept)+


section \<open>The command that deletes a tenant\<close>

lemma lost_nothing_refl: "lost_nothing w w"
  by (simp add: lost_nothing_def kept_def)

lemma lost_nothing_kept: "kept (ae_id ` set (app_tbl w)) (ue_id ` set (user_tbl w)) (te_id ` set (tenant_tbl w))
    (me_id ` set (membership_tbl w)) w' \<Longrightarrow> lost_nothing w w'"
  by (simp add: lost_nothing_def)

lemma lost_frame [simp]:
  "lost_nothing (w\<lparr>ext := x\<rparr>) w' = lost_nothing w w'" "lost_nothing w (w'\<lparr>ext := x\<rparr>) = lost_nothing w w'"
  "lost_tenant t (w\<lparr>ext := x\<rparr>) w' = lost_tenant t w w'"
  "lost_nothing w (w'\<lparr>published := es\<rparr>) = lost_nothing w w'" "lost_tenant t w (w'\<lparr>published := es\<rparr>) = lost_tenant t w w'"
  by (simp_all add: lost_nothing_def lost_tenant_def)

definition owns :: "string \<Rightarrow> string \<Rightarrow> 'x world \<Rightarrow> bool" where
  "owns u t w \<longleftrightarrow> (\<exists>m \<in> set (membership_tbl w). me_tenantId m = t \<and> me_userId m = u \<and> me_role m = ''OWNER'')"

lemma deleted_rows:
  "lost_tenant t w (delete_tenants (\<lambda>e. te_id e = t) (delete_memberships (\<lambda>m. me_tenantId m = t) w))"
  by (auto simp: lost_tenant_def kept_def delete_tenants_def delete_memberships_def Let_def)

lemma table_rows_read:
  "rows_ok L w \<Longrightarrow> m \<in> set (membership_tbl w) \<Longrightarrow>
     \<exists>a. membership_from_row L m = Inr a \<and> TenantMembershipTypeOrmMapper_toEntity a = m"
  "rows_ok L w \<Longrightarrow> t \<in> set (tenant_tbl w) \<Longrightarrow>
     \<exists>b. tenant_from_row L t = Inr b \<and> TenantTypeOrmMapper_toEntity b = t"
  by (cases "membership_from_row L m"; cases "tenant_from_row L t";
      fastforce simp: rows_ok_def membership_row_ok_def tenant_row_ok_def list_all_iff)+

lemma owner_service:
  assumes ok: "rows_ok L w" and run: "AssertTenantOwnerService_execute (membership_write_repo L) t u w = (Inr z, w')"
  shows "w' = w \<and> owns u t w"
proof (cases "find (\<lambda>m. me_tenantId m = t \<and> me_userId m = u) (membership_tbl w)")
  case None
  with run show ?thesis by (simp add: tenancy_service_defs bindE_def membership_write_repo_run)
next
  case (Some m)
  then have m: "m \<in> set (membership_tbl w)" "me_tenantId m = t" "me_userId m = u"
    using find_Some_iff_ex [OF Some] by auto
  with ok obtain a where a: "membership_from_row L m = Inr a" "TenantMembershipTypeOrmMapper_toEntity a = m"
    by (blast dest: table_rows_read)
  then have "ma_role a = me_role m"
    by (auto simp: TenantMembershipTypeOrmMapper_toEntity_def TenantMembershipAggregate_toPrimitives_def Let_def)
  with run Some a m show ?thesis
    by (auto simp: tenancy_service_defs bindE_def membership_write_repo_run role_isOwner_def owns_def
        split: if_splits)
qed

lemma found_tenant:
  assumes ok: "rows_ok L w" and run: "AssertTenantExistsService_execute (tenant_write_repo L) t w = (r, w')"
  shows "w' = w \<and> (\<forall>a. r = Inr a \<longrightarrow> ta_id a = t)"
proof (cases "find (\<lambda>e. te_id e = t) (tenant_tbl w)")
  case None
  with run show ?thesis by (auto simp: AssertTenantExistsService_execute_def bindE_def tenant_write_repo_run)
next
  case (Some e)
  then have e: "e \<in> set (tenant_tbl w)" "te_id e = t" using find_Some_iff_ex [OF Some] by auto
  with ok obtain a where a: "tenant_from_row L e = Inr a" "TenantTypeOrmMapper_toEntity a = e"
    by (blast dest: table_rows_read)
  then have "ta_id a = t"
    using e by (auto simp: TenantTypeOrmMapper_toEntity_def TenantAggregate_toPrimitives_def Let_def)
  with run Some a show ?thesis
    by (auto simp: AssertTenantExistsService_execute_def bindE_def tenant_write_repo_run)
qed

lemma delete_command_cases:
  assumes ok: "rows_ok L w"
    and run: "DeleteTenantCommandHandler_execute (tenant_write_repo L) (membership_write_repo L) c w = (r, w')"
  shows "w' = w \<or> lost_tenant (dt_tenantId c) w w' \<and> owns (dt_requesterUserId c) (dt_tenantId c) w"
  using run unfolding DeleteTenantCommandHandler_execute_def
proof (rule bindE_run_cases)
  fix e assume "AssertTenantExistsService_execute (tenant_write_repo L) (dt_tenantId c) w = (Inl e, w')"
  with found_tenant [OF ok] show ?thesis by blast
next
  fix a w1 assume found: "AssertTenantExistsService_execute (tenant_write_repo L) (dt_tenantId c) w = (Inr a, w1)"
    and rest: "bindE (AssertTenantOwnerService_execute (membership_write_repo L) (dt_tenantId c)
       (dt_requesterUserId c)) (\<lambda>_. let tenant = TenantAggregate_delete a in
         bindE (mwr_deleteAllByTenantId (membership_write_repo L) (dt_tenantId c)) (\<lambda>_.
         bindE (twr_delete (tenant_write_repo L) (ta_id tenant)) (\<lambda>_.
         publish (map Tenant_Event (ta_events tenant))))) w1 = (r, w')"
  from found_tenant [OF ok found] have "w1 = w" "ta_id a = dt_tenantId c" by auto
  from rest [unfolded this(1)] show ?thesis
  proof (rule bindE_run_cases)
    fix e assume "AssertTenantOwnerService_execute (membership_write_repo L) (dt_tenantId c)
       (dt_requesterUserId c) w = (Inl e, w')"
    then have "w' = w" by (auto simp: tenancy_service_defs bindE_def membership_write_repo_run split: sum.splits if_splits)
    then show ?thesis ..
  next
    fix z w2 assume own: "AssertTenantOwnerService_execute (membership_write_repo L) (dt_tenantId c)
       (dt_requesterUserId c) w = (Inr z, w2)" and "(let tenant = TenantAggregate_delete a in
         bindE (mwr_deleteAllByTenantId (membership_write_repo L) (dt_tenantId c)) (\<lambda>_.
         bindE (twr_delete (tenant_write_repo L) (ta_id tenant)) (\<lambda>_.
         publish (map Tenant_Event (ta_events tenant))))) w2 = (r, w')"
    with owner_service [OF ok own] \<open>ta_id a = dt_tenantId c\<close> deleted_rows [of "dt_tenantId c" w] show ?thesis
      by (auto simp: bindE_def tenant_write_repo_run membership_write_repo_run TenantAggregate_delete_def
          tenant_apply_def Let_def publish_run)
  qed
qed


section \<open>The calls that delete a tenant\<close>

text \<open>The deletion of the tenant \<open>t\<close>, as a client may ask for it: the verified token grants the permission
  on the tenant the call names, which is \<open>t\<close> once parsed, and the subject of the token owns \<open>t\<close> in
  the database.\<close>

definition deletion_by :: "'x service \<Rightarrow> (string \<Rightarrow> error + string) \<Rightarrow> 'x exchange \<Rightarrow> string \<Rightarrow> bool" where
  "deletion_by S parse e t \<longleftrightarrow> may (sv_lib S) DELETE_TENANT e \<and>
     (\<exists>claims u i. caller (sv_lib S) e = Some claims \<and> uuid_vo (sv_lib S) (cl_sub claims) = Inr u \<and>
        parse (target_tenant e) = Inr i \<and> uuid_vo (sv_lib S) i = Inr t \<and> owns u t (ex_world e))"

definition deletion_allowed :: "'x service \<Rightarrow> client_call \<Rightarrow> 'x world \<Rightarrow> string \<Rightarrow> bool" where
  "deletion_allowed S c w t = (case c of
       Rest r \<Rightarrow> (case find_route r of
           None \<Rightarrow> False
         | Some rt \<Rightarrow> rt_handler rt = TenantsRemove \<and> deletion_by S (ParseUUIDPipe (sv_nest S)) (exchange_of rt r w) t)
     | Graphql authorization (TenantDelete fs) \<Rightarrow> deletion_by S Inr (gql_exchange authorization (TenantDelete fs) w) t
     | _ \<Rightarrow> False)"

text \<open>Behind the guards of a deletion, the caller is known and the tables are those of the call.\<close>

lemma guarded_deletion:
  assumes N: "rbac_ok N"
    and run: "guarded [JwtAuthGuard_canActivate L, TenantPermissionGuard N DELETE_TENANT] body e = (r, e')"
  obtains (refused) x where "ex_world e' = (ex_world e)\<lparr>ext := x\<rparr>"
  | (passed) claims x where "caller L e = Some claims" and "may L DELETE_TENANT e"
      and "body (set_user claims (e\<lparr>ex_world := (ex_world e)\<lparr>ext := x\<rparr>\<rparr>)) = (r, e')"
proof (cases "caller L e")
  case None
  from refused_401 [OF this, of "[TenantPermissionGuard N DELETE_TENANT]" body] run refused show ?thesis
    by (auto simp: refused_def simp del: guarded.simps)
next
  case (Some claims)
  obtain x where jwt: "guarded [JwtAuthGuard_canActivate L, TenantPermissionGuard N DELETE_TENANT] body e =
      guarded [TenantPermissionGuard N DELETE_TENANT] body (set_user claims (e\<lparr>ex_world := (ex_world e)\<lparr>ext := x\<rparr>\<rparr>))"
    (is "_ = guarded _ _ ?e") using Some by (rule caller_run)
  show ?thesis
    using N
  proof (cases rule: tenant_guard_cases [where p = DELETE_TENANT and e = ?e])
    case (pass claims')
    moreover have "claims' = claims" using pass(2) by simp
    ultimately show ?thesis
      using passed [OF Some, of x] Some run jwt by (simp add: may_def bindE_def)
  next
    case (deny m)
    with run jwt refused [of x] show ?thesis by (auto simp: bindE_def)
  qed
qed


lemma delete_call_cases:
  assumes ok: "rows_ok L w"
    and run: "bindE (new_DeleteTenantCommand L i s)
      (DeleteTenantCommandHandler_execute (tenant_write_repo L) (membership_write_repo L)) w = (r, w')"
  shows "w' = w \<or> (\<exists>t u. uuid_vo L i = Inr t \<and> uuid_vo L s = Inr u \<and> lost_tenant t w w' \<and> owns u t w)"
proof (cases "\<exists>t u. uuid_vo L i = Inr t \<and> uuid_vo L s = Inr u")
  case True
  then obtain t u where vo: "uuid_vo L i = Inr t" "uuid_vo L s = Inr u" by blast
  with run have "DeleteTenantCommandHandler_execute (tenant_write_repo L) (membership_write_repo L)
      \<lparr>dt_tenantId = t, dt_requesterUserId = u\<rparr> w = (r, w')"
    by (simp add: bindE_def new_DeleteTenantCommand_def)
  from delete_command_cases [OF ok this] vo show ?thesis by auto
next
  case False
  with run show ?thesis
    by (cases "uuid_vo L i"; cases "uuid_vo L s") (auto simp: bindE_def new_DeleteTenantCommand_def)
qed

text \<open>A call loses nothing, or just the tenant it may delete.\<close>

definition deletes_only :: "'x service \<Rightarrow> (string \<Rightarrow> error + string) \<Rightarrow> 'x exchange \<Rightarrow> 'x exchange \<Rightarrow> bool" where
  "deletes_only S parse e e' \<longleftrightarrow> lost_nothing (ex_world e) (ex_world e') \<or>
     (\<exists>t. deletion_by S parse e t \<and> lost_tenant t (ex_world e) (ex_world e'))"

lemma delete_call_only:
  assumes ok: "rows_ok (sv_lib S) (ex_world e)" and claims: "caller (sv_lib S) e = Some claims"
    and may: "may (sv_lib S) DELETE_TENANT e" and i: "parse (target_tenant e) = Inr i"
    and run: "bindE (new_DeleteTenantCommand (sv_lib S) i (cl_sub claims))
      (DeleteTenantCommandHandler_execute (tenant_write_repo (sv_lib S)) (membership_write_repo (sv_lib S)))
      ((ex_world e)\<lparr>ext := x\<rparr>) = (r, ex_world e')"
  shows "deletes_only S parse e e'"
proof -
  from ok have ok': "rows_ok (sv_lib S) ((ex_world e)\<lparr>ext := x\<rparr>)" by simp
  from delete_call_cases [OF ok' run] show ?thesis
  proof
    assume "ex_world e' = (ex_world e)\<lparr>ext := x\<rparr>"
    then show ?thesis by (simp add: deletes_only_def lost_nothing_refl)
  next
    assume "\<exists>t u. uuid_vo (sv_lib S) i = Inr t \<and> uuid_vo (sv_lib S) (cl_sub claims) = Inr u \<and>
      lost_tenant t ((ex_world e)\<lparr>ext := x\<rparr>) (ex_world e') \<and> owns u t ((ex_world e)\<lparr>ext := x\<rparr>)"
    then obtain t u where t: "uuid_vo (sv_lib S) i = Inr t" "uuid_vo (sv_lib S) (cl_sub claims) = Inr u"
      "lost_tenant t (ex_world e) (ex_world e')" "owns u t (ex_world e)" by (auto simp: owns_def)
    with claims may i have "deletion_by S parse e t" by (auto simp: deletion_by_def)
    with t show ?thesis by (auto simp: deletes_only_def)
  qed
qed

lemma then_run:
  "bindE (param_tenantId N) k e = (case ParseUUIDPipe N (req_tenantId (ex_http e)) of
     Inl err \<Rightarrow> (Inl err, e) | Inr i \<Rightarrow> k i e)"
  "bindE input_tenantId k' e = k' (ex_inputTenantId e) e"
  "bindE extractCurrentUser k'' (set_user claims e) =
     k'' \<lparr>cu_userId = cl_sub claims, cu_email' = cl_email claims,
       cu_platformAdmin = cl_platformAdmin claims, cu_tenants = cl_tenants claims\<rparr> (set_user claims e)"
  by (simp_all add: bindE_def param_tenantId_def input_tenantId_def extractCurrentUser_def split: sum.split)

lemma refused_only: "ex_world e' = (ex_world e)\<lparr>ext := x\<rparr> \<Longrightarrow> deletes_only S parse e e'"
  by (simp add: deletes_only_def lost_nothing_refl)

lemma remove_only:
  assumes ok: "rbac_ok (sv_nest S)" "rows_ok (sv_lib S) (ex_world e)" and http: "ex_type e \<noteq> ''graphql''"
    and run: "TenantsController_remove (sv_lib S) (sv_nest S) e = (r, e')"
  shows "deletes_only S (ParseUUIDPipe (sv_nest S)) e e'"
  using ok(1) run [unfolded TenantsController_remove_def]
proof (cases rule: guarded_deletion)
  case (refused x)
  then show ?thesis by (rule refused_only)
next
  case (passed claims x)
  show ?thesis
  proof (cases "ParseUUIDPipe (sv_nest S) (req_tenantId (ex_http e))")
    case (Inl err)
    with passed(3) show ?thesis by (intro refused_only [where x = x]) (auto simp: then_run)
  next
    case (Inr i)
    let ?m = "bindE (new_DeleteTenantCommand (sv_lib S) i (cl_sub claims)) (DeleteTenantCommandHandler_execute
      (tenant_write_repo (sv_lib S)) (membership_write_repo (sv_lib S))) ((ex_world e)\<lparr>ext := x\<rparr>)"
    from passed(3) Inr have "?m = (fst ?m, ex_world e')"
      by (auto simp: then_run in_world_run)
    from delete_call_only [where parse = "ParseUUIDPipe (sv_nest S)", OF ok(2) passed(1,2) _ this] Inr http
    show ?thesis by (simp add: target_tenant_def)
  qed
qed

lemma resolver_only:
  assumes ok: "rbac_ok (sv_nest S)" "rows_ok (sv_lib S) (ex_world e)" and gql: "ex_type e = ''graphql''"
    and run: "TenantMutationsResolver_tenantDelete (sv_lib S) (sv_nest S) e = (r, e')"
  shows "deletes_only S Inr e e'"
  using ok(1) run [unfolded TenantMutationsResolver_tenantDelete_def]
proof (cases rule: guarded_deletion)
  case (refused x)
  then show ?thesis by (rule refused_only)
next
  case (passed claims x)
  let ?m = "bindE (new_DeleteTenantCommand (sv_lib S) (target_tenant e) (cl_sub claims)) (DeleteTenantCommandHandler_execute
    (tenant_write_repo (sv_lib S)) (membership_write_repo (sv_lib S))) ((ex_world e)\<lparr>ext := x\<rparr>)"
  let ?d = "bindE (new_DeleteTenantCommand (sv_lib S) (target_tenant e) (cl_sub claims)) (DeleteTenantCommandHandler_execute
    (tenant_write_repo (sv_lib S)) (membership_write_repo (sv_lib S)))"
  from passed(3) gql have "bindE (in_world ?d) (\<lambda>_. ret (MutationResponseGraphQLMapper_toResponseDto (sv_nest S)
      \<lparr>mr_success = True, mr_message = ''Tenant deleted successfully'', mr_id = target_tenant e\<rparr>))
      (set_user claims (e\<lparr>ex_world := (ex_world e)\<lparr>ext := x\<rparr>\<rparr>)) = (r, e')"
    by (simp add: then_run target_tenant_def)
  then have "?m = (fst ?m, ex_world e')"
    by (rule bindE_run_cases) (auto simp: in_world_run prod_eq_iff)
  from delete_call_only [where parse = Inr, OF ok(2) passed(1,2) _ this] show ?thesis by simp
qed


section \<open>Every call\<close>

lemma route_ex_type: "ex_type (exchange_of rt r w) = ''http''" "ex_world (exchange_of rt r w) = w"
  by (simp_all add: exchange_of_def Let_def)

text \<open>The routes and resolvers that do not delete lose nothing.\<close>

lemma handle_loses_nothing:
  assumes "rbac_ok (sv_nest S)" and "h \<noteq> TenantsRemove" and "handle S h r e = (a, e')"
  shows "lost_nothing (ex_world e) (ex_world e')"
proof -
  let ?I = "kept (ae_id ` set (app_tbl (ex_world e))) (ue_id ` set (user_tbl (ex_world e)))
    (te_id ` set (tenant_tbl (ex_world e))) (me_id ` set (membership_tbl (ex_world e)))"
  have keep: "preserves (at_world ?I) (handle S h r)"
  proof (cases "h \<in> {AuthLogin, AuthRefresh}")
    case False
    with assms(1,2) show ?thesis by (intro rows_served.handle_base) auto
  next
    case True
    have session_routes: "preserves (at_world ?I) (AuthController_login L K cfg cookies email password)"
      "preserves (at_world ?I) (AuthController_refresh L K cfg cookies token)" for L K cfg cookies email password token
      unfolding AuthController_login_def AuthController_refresh_def setSessionCookies_def
      by (intro preserves_bindE preserves_ret in_world_keeps modify_keeps new_commands_keep auth_commands_kept; simp)+
    from True show ?thesis
      by (auto simp: handle_def handler_guards_def Let_def intro!: piped_keeps answer_keeps session_routes preserving)
  qed
  have "at_world ?I e" by (simp add: at_world_def kept_def)
  from preservesD [OF keep this assms(3)] show ?thesis by (simp add: at_world_def lost_nothing_def)
qed

lemma resolve_loses_nothing:
  assumes "rbac_ok (sv_nest S)" and "\<And>fs. g \<noteq> TenantDelete fs" and "resolve S g e = (a, e')"
  shows "lost_nothing (ex_world e) (ex_world e')"
proof -
  let ?I = "kept (ae_id ` set (app_tbl (ex_world e))) (ue_id ` set (user_tbl (ex_world e)))
    (te_id ` set (tenant_tbl (ex_world e))) (me_id ` set (membership_tbl (ex_world e)))"
  have "at_world ?I e" by (simp add: at_world_def kept_def)
  from preservesD [OF rows_served.resolve_base [OF assms(1,2)] this assms(3)] show ?thesis
    by (simp add: at_world_def lost_nothing_def)
qed

lemma deletion_resolved:
  assumes ok: "rbac_ok (sv_nest S)" "rows_ok (sv_lib S) (ex_world e)" and gql: "ex_type e = ''graphql''"
    and run: "resolve S (TenantDelete fs) e = (r, e')"
  shows "deletes_only S Inr e e'"
proof (cases "ValidationPipe (sv_validators S) TenantDeleteRequestDto fs")
  case (Inl err)
  with run have "guarded [JwtAuthGuard_canActivate (sv_lib S), TenantPermissionGuard (sv_nest S) DELETE_TENANT]
      (throw err) e = (r, e')" by (simp add: resolve_def gql_guards_def Let_def piped_def del: guarded.simps)
  with ok(1) show ?thesis
    by (cases rule: guarded_deletion) (auto intro: refused_only)
next
  case (Inr dto)
  with run obtain r' where "TenantMutationsResolver_tenantDelete (sv_lib S) (sv_nest S) e = (r', e')"
    by (auto simp: resolve_def Let_def piped_def elim: bindE_run_cases)
  then show ?thesis by (rule resolver_only [OF ok gql])
qed

text \<open>C10: nothing disappears at a client's call but a tenant that one of its owners deletes. Whatever
  call is made, over REST or GraphQL, with whatever token and input, and whether it succeeds: every
  app, user, tenant and membership is still stored afterwards, or the call is the deletion of a
  tenant by a caller whose verified token grants the permission on it and who is stored as its
  owner, and then every app, every user, every other tenant and all their memberships are.\<close>

theorem only_owners_delete:
  assumes "rbac_ok (sv_nest S)" and "rows_ok (sv_lib S) w" and "client_step S c w = (a, w')"
  shows "lost_nothing w w' \<or> (\<exists>t. deletion_allowed S c w t \<and> lost_tenant t w w')"
proof (cases c)
  case (Rest r)
  show ?thesis
  proof (cases "find_route r")
    case None
    with Rest assms(3) show ?thesis by (simp add: client_step_def serve_def lost_nothing_refl)
  next
    case (Some rt)
    obtain out e' where h: "handle S (rt_handler rt) r (exchange_of rt r w) = (out, e')" by fastforce
    with assms(3) Rest Some have w': "w' = ex_world e'"
      by (cases out) (auto simp: client_step_def serve_def)
    show ?thesis
    proof (cases "rt_handler rt = TenantsRemove")
      case False
      from handle_loses_nothing [OF assms(1) False h] w' show ?thesis by (simp add: route_ex_type)
    next
      case True
      with h have "handle S TenantsRemove r (exchange_of rt r w) = (out, e')" by simp
      then obtain r' where run: "TenantsController_remove (sv_lib S) (sv_nest S) (exchange_of rt r w) = (r', e')"
        by (auto simp: handle_def Let_def answer_def elim: bindE_run_cases)
      have "deletes_only S (ParseUUIDPipe (sv_nest S)) (exchange_of rt r w) e'"
        using assms(1,2) by (intro remove_only [OF _ _ _ run]) (simp_all add: route_ex_type)
      with True Some Rest w' show ?thesis by (auto simp: deletes_only_def deletion_allowed_def route_ex_type)
    qed
  qed
next
  case (Graphql authorization g)
  show ?thesis
  proof (cases "gql_accepts g")
    case False
    with Graphql assms(3) show ?thesis by (simp add: client_step_def lost_nothing_refl)
  next
    case accepted: True
    obtain out e' where h: "resolve S g (gql_exchange authorization g w) = (out, e')" by fastforce
    with assms(3) Graphql accepted have w': "w' = ex_world e'" by (simp add: client_step_def)
    have e: "ex_world (gql_exchange authorization g w) = w" "ex_type (gql_exchange authorization g w) = ''graphql''"
      by (simp_all add: gql_exchange_def Let_def)
    show ?thesis
    proof (cases "\<exists>fs. g = TenantDelete fs")
      case False
      from resolve_loses_nothing [OF assms(1) _ h] False w' e show ?thesis by auto
    next
      case True
      then obtain fs where g: "g = TenantDelete fs" ..
      have "deletes_only S Inr (gql_exchange authorization g w) e'"
        using deletion_resolved [OF assms(1) _ _ h [unfolded g]] assms(2) e g by simp
      with g Graphql w' e show ?thesis by (auto simp: deletes_only_def deletion_allowed_def)
    qed
  qed
qed

end
