(* ===== verification/Http_Witnesses.thy ===== *)
theory Http_Witnesses
  imports Http_Runs Deletion_Safety Auth_Witnesses Transport_Witnesses
begin

text \<open>
  The properties of the running service at concrete calls: a service made of the sample library,
  guard and validators, and a client that uses two refresh tokens over HTTP.
\<close>

definition sample_service :: "nat service" where
  "sample_service = \<lparr>sv_lib = sample_lib, sv_nest = sample_nest, sv_validators = sample_validators,
     sv_apps = sample_kit, sv_tenants = sample_kit, sv_memberships = sample_kit, sv_auth = sample_cfg,
     sv_cookies = \<lparr>cc_cookieDomain = None, cc_nodeEnv = ''test''\<rparr>, sv_crypto = sample_crypto,
     sv_section = \<lparr>as_jwtPrivateKey = ''PRIVATE'', as_jwtPublicKey = ''PUBLIC'', as_jwtKeyId = ''k'',
       as_jwtExpiresIn = ''15m'', as_refreshTokenTtlDays = Some 1, as_cookieDomain = None,
       as_platformAdminEmails = None, as_keycloak = ac_keycloak sample_cfg\<rparr>,
     sv_ping = (\<lambda>x. (Inr ''up'', x))\<rparr>"

lemma sample_service_sel:
  "sv_lib sample_service = sample_lib" "sv_nest sample_service = sample_nest"
  "sv_validators sample_service = sample_validators" "sv_memberships sample_service = sample_kit"
  "sv_auth sample_service = sample_cfg" "sv_ping sample_service = (\<lambda>x. (Inr ''up'', x))"
  by (simp_all add: sample_service_def)

lemma sample_service_rbac: "rbac_ok (sv_nest sample_service)"
  by (simp add: sample_service_sel sample_rbac)

lemma sample_documented: "documented sample_service sample_ids"
  using sample_rbac sample_id_supply by (simp add: documented_def sample_service_sel)

section \<open>Routes and refusals\<close>

definition remove_request :: incoming where
  "remove_request = \<lparr>in_method = DELETE, in_path = [''API'', ''v1'', ''tenants'', ''t1''],
     in_authorization = None, in_query = [], in_body = []\<rparr>"

definition remove_route :: route where
  "remove_route = \<lparr>rt_method = DELETE, rt_controller = ''tenants'', rt_version = Some ''1'',
     rt_sub = [Param], rt_status = 204, rt_handler = TenantsRemove\<rparr>"

lemma remove_route_found: "find_route remove_request = Some remove_route"
  unfolding remove_request_def remove_route_def by code_simp

lemma remove_not_entitled:
  "\<not> entitled sample_service TenantsRemove (exchange_of remove_route remove_request sample_world)"
  by (simp add: entitled_def may_def caller_def bearer_token_def JwtAuthGuard_extractToken_def getRequest_def
      truthy_def exchange_of_def remove_request_def Let_def)

lemma http_refusals_witness:
  "answered_unchanged {401, 403} sample_world (serve sample_service remove_request sample_world)"
proof -
  have "rt_handler remove_route = TenantsRemove" by (simp add: remove_route_def)
  with http_refusals [OF sample_service_rbac, THEN conjunct2, THEN conjunct1, rule_format,
      OF remove_route_found, THEN conjunct1] remove_not_entitled
  show ?thesis by simp
qed

section \<open>Two refreshes over HTTP\<close>

definition refresh_request :: "string \<Rightarrow> incoming" where
  "refresh_request t = \<lparr>in_method = POST, in_path = [''api'', ''v1'', ''auth'', ''refresh''],
     in_authorization = None, in_query = [], in_body = [(''refreshToken'', JStr t)]\<rparr>"

definition refresh_route :: route where
  "refresh_route = \<lparr>rt_method = POST, rt_controller = ''auth'', rt_version = Some ''1'',
     rt_sub = [Lit ''refresh''], rt_status = 200, rt_handler = AuthRefresh\<rparr>"

lemma refresh_route_found: "find_route (refresh_request t) = Some refresh_route"
proof -
  have "route_matches (refresh_request t) = route_matches (refresh_request [])"
    by (simp add: fun_eq_iff route_matches_def refresh_request_def)
  moreover have "find (route_matches (refresh_request [])) ROUTES = Some refresh_route"
    unfolding refresh_request_def refresh_route_def by code_simp
  ultimately show ?thesis by (simp add: find_route_def)
qed

lemma refresh_body: "t \<noteq> [] \<Longrightarrow> refresh_input sample_validators (in_body (refresh_request t)) = Inr t"
  by (simp add: refresh_input_def ValidationPipe_def RefreshTokenDto_def converted_def convert_def json_text_def
      property_ok_def satisfies_def text_of_def refresh_request_def Suc_le_eq)

lemma refresh_value: "t \<noteq> [] \<Longrightarrow> RefreshTokenValueObject sample_lib t = Inr t"
  by (simp add: RefreshTokenValueObject_def sample_lib_def sample_string_vo_def no_options_def Suc_le_eq)

definition refreshed :: "ILoginSessionResult \<Rightarrow> client_answer" where
  "refreshed pair = RestAnswer \<lparr>rs_status = 200, rs_body = TokensBody pair,
     rs_cookies = [session_cookie (sv_cookies sample_service) ''access_token'' (lr_accessToken pair) 900000,
       session_cookie (sv_cookies sample_service) ''refresh_token'' (lr_refreshToken pair) 2592000000]\<rparr>"

lemma refresh_over_http:
  assumes "t \<noteq> []" and "sample_refresh t w = (Inr pair, w')"
  shows "client_step sample_service (Rest (refresh_request t)) w = (refreshed pair, w')"
proof -
  have "handle sample_service (rt_handler refresh_route) (refresh_request t) =
      answer TokensBody (AuthController_refresh sample_lib sample_kit sample_cfg (sv_cookies sample_service) t)"
    using refresh_body [OF assms(1)]
    by (simp add: handle_def refresh_route_def handler_guards_def Let_def piped_def sample_service_sel)
  with assms(2) refresh_value [OF assms(1)] refresh_route_found show ?thesis
    by (simp add: client_step_def serve_def answer_def AuthController_refresh_def bindE_def in_world_run
        new_RefreshSessionCommand_def setSessionCookies_def refreshed_def)
      (simp add: refresh_route_def exchange_of_def)
qed

lemma client_calls_keep_schema_witness:
  "schema_ok (snd (client_run sample_service [Rest (refresh_request ''a''), Rest remove_request] session_world))"
  by (rule client_calls_keep_schema [OF sample_service_rbac session_world_parts(1)])

lemma client_refresh_single_use_witness:
  "fst (client_run sample_service [Rest (refresh_request ''a''), Rest (refresh_request ''c'')] session_world) =
     [refreshed \<lparr>lr_accessToken = ''jwt:u1'', lr_refreshToken = ''tiiiii''\<rparr>,
      refreshed \<lparr>lr_accessToken = ''jwt:u2'', lr_refreshToken = ''tiiiiiiiiiiii''\<rparr>] \<and>
   ''a'' \<noteq> ''c''"
proof -
  let ?calls = "[Rest (refresh_request ''a''), Rest (refresh_request ''c'')]"
  let ?r1 = "\<lparr>lr_accessToken = ''jwt:u1'', lr_refreshToken = ''tiiiii''\<rparr>"
  let ?r2 = "\<lparr>lr_accessToken = ''jwt:u2'', lr_refreshToken = ''tiiiiiiiiiiii''\<rparr>"
  obtain w' where "sample_refresh ''c'' second_world = (Inr ?r2, w')"
    using second_refresh by (cases "sample_refresh ''c'' second_world") simp
  then have run: "client_run sample_service ?calls session_world = ([refreshed ?r1, refreshed ?r2], w')"
    using refresh_over_http [OF _ first_refresh] refresh_over_http [of "''c''" second_world ?r2 w'] by simp
  have redeemed: "redeems sample_service (Rest (refresh_request t)) (refreshed r) t" if "t \<noteq> []" for t r
    using refresh_body [OF that] refresh_route_found [of t]
    by (auto simp: redeems_def sample_service_sel refreshed_def refresh_route_def)
  have "''a'' \<noteq> ''c''"
    using client_refresh_single_use [OF sample_documented, unfolded sample_service_sel,
        OF sample_hash_ok sample_uuid_ok session_world_ok run, of 0 1 "''a''" "''c''"] redeemed by simp
  with run show ?thesis by simp
qed

section \<open>An owner deletes a tenant\<close>

definition owner_service :: "nat service" where
  "owner_service = sample_service\<lparr>sv_lib := owner_lib ''u1''\<rparr>"

definition owner_remove :: incoming where
  "owner_remove = remove_request\<lparr>in_authorization := Some ''Bearer jwt:u1''\<rparr>"

lemma owner_remove_found: "find_route owner_remove = Some remove_route"
  unfolding owner_remove_def remove_request_def remove_route_def by code_simp

lemma owner_rows_ok: "rows_ok (sv_lib owner_service) tenancy_world"
  by (simp add: owner_service_def owner_lib_def rows_ok_def app_row_ok_def user_row_ok_def app_from_row_def
      app_build_defs AppTypeOrmMapper_toEntity_def AppAggregate_toPrimitives_def user_sample_defs tenant_row_ok_def membership_row_ok_def tenancy_sample_defs
      TenantTypeOrmMapper_toEntity_def TenantAggregate_toPrimitives_def TenantMembershipTypeOrmMapper_toEntity_def
      TenantMembershipAggregate_toPrimitives_def)

lemma owner_deletion:
  "map te_id (tenant_tbl (snd (client_step owner_service (Rest owner_remove) tenancy_world))) = [''t2'']"
proof -
  let ?e = "exchange_of remove_route owner_remove tenancy_world"
  have param: "path_param remove_route owner_remove = ''t1''"
    unfolding remove_route_def owner_remove_def remove_request_def by code_simp
  let ?body = "bindE (param_tenantId sample_nest) (\<lambda>tenantId. bindE extractCurrentUser (\<lambda>user.
     in_world (bindE (new_DeleteTenantCommand (owner_lib ''u1'') tenantId (cu_userId user))
       (DeleteTenantCommandHandler_execute (tenant_write_repo (owner_lib ''u1''))
         (membership_write_repo (owner_lib ''u1''))))))"
  have e: "ex_type ?e = ''http''" "ex_world ?e = tenancy_world" "target_tenant ?e = ''t1''"
    "req_tenantId (ex_http ?e) = ''t1''"
    by (simp_all add: exchange_of_def Let_def target_tenant_def param)
  have claims: "caller (owner_lib ''u1'') ?e = Some (owner_claims ''u1'')"
    by (simp add: caller_def bearer_token_def JwtAuthGuard_extractToken_def getRequest_def exchange_of_def Let_def
        owner_remove_def remove_request_def starts_with_def truthy_def verified_def owner_lib_def)
  obtain x where run: "guarded [JwtAuthGuard_canActivate (owner_lib ''u1''), TenantPermissionGuard sample_nest
      DELETE_TENANT] ?body ?e = guarded [TenantPermissionGuard sample_nest DELETE_TENANT] ?body
      (set_user (owner_claims ''u1'') (?e\<lparr>ex_world := tenancy_world\<lparr>ext := x\<rparr>\<rparr>))"
    using caller_run [OF claims, of "[TenantPermissionGuard sample_nest DELETE_TENANT]" ?body] unfolding e(2) by blast
  have grants: "membership_grants TENANT_ROLE_PERMISSIONS DELETE_TENANT (owner_claims ''u1'') ''t1''"
    by (simp add: membership_grants_def owner_claims_def role_grants_def)
  have deleted: "map te_id (tenant_tbl (snd (DeleteTenantCommandHandler_execute (tenant_write_repo (owner_lib ''u1''))
      (membership_write_repo (owner_lib ''u1'')) \<lparr>dt_tenantId = ''t1'', dt_requesterUserId = ''u1''\<rparr>
      (tenancy_world\<lparr>ext := x\<rparr>)))) = [''t2'']"
    by (simp add: DeleteTenantCommandHandler_execute_def tenancy_service_defs bindE_def tenant_write_repo_run
        membership_write_repo_run publish_run TenantAggregate_delete_def tenant_apply_def role_isOwner_def delete_tenants_def
        delete_memberships_def owner_lib_def tenancy_sample_defs Let_def)
  let ?e' = "set_user (owner_claims ''u1'') (?e\<lparr>ex_world := tenancy_world\<lparr>ext := x\<rparr>\<rparr>)"
  have passed: "TenantPermissionGuard sample_nest DELETE_TENANT ?e' = (Inr True, ?e')"
    using grants e(3) by (simp add: TenantPermissionGuard_def sample_nest_def sample_guard_def)
  have "ex_world (snd (?body ?e')) = snd (DeleteTenantCommandHandler_execute (tenant_write_repo (owner_lib ''u1''))
      (membership_write_repo (owner_lib ''u1'')) \<lparr>dt_tenantId = ''t1'', dt_requesterUserId = ''u1''\<rparr>
      (tenancy_world\<lparr>ext := x\<rparr>))"
    using e(4) by (simp add: then_run in_world_run sample_nest_def bindE_def [of "new_DeleteTenantCommand L i u" for L i u]
        new_DeleteTenantCommand_def) (simp add: owner_lib_def owner_claims_def sample_lib_def sample_nonempty_vo_def bindE_def)
  with passed have "ex_world (snd (TenantsController_remove (owner_lib ''u1'') sample_nest ?e)) =
      snd (DeleteTenantCommandHandler_execute (tenant_write_repo (owner_lib ''u1''))
      (membership_write_repo (owner_lib ''u1'')) \<lparr>dt_tenantId = ''t1'', dt_requesterUserId = ''u1''\<rparr>
      (tenancy_world\<lparr>ext := x\<rparr>))"
    unfolding TenantsController_remove_def run by (simp add: bindE_def [of "TenantPermissionGuard N p" for N p])
  moreover have "ex_world (snd (handle owner_service TenantsRemove owner_remove ?e)) =
      ex_world (snd (TenantsController_remove (owner_lib ''u1'') sample_nest ?e))"
    by (simp add: handle_def Let_def answer_def bindE_def [of "TenantsController_remove L N" for L N] owner_service_def
        sample_service_sel split: prod.split sum.split)
  moreover have "snd (client_step owner_service (Rest owner_remove) tenancy_world) =
      ex_world (snd (handle owner_service TenantsRemove owner_remove ?e))"
    using owner_remove_found
    by (simp add: client_step_def serve_def remove_route_def split: prod.split sum.split)
  ultimately show ?thesis using deleted by simp
qed

lemma only_owners_delete_witness:
  "map te_id (tenant_tbl (snd (client_step owner_service (Rest owner_remove) tenancy_world))) = [''t2''] \<and>
   (\<exists>t. deletion_allowed owner_service (Rest owner_remove) tenancy_world t)"
proof -
  have rbac: "rbac_ok (sv_nest owner_service)" by (simp add: owner_service_def sample_service_rbac)
  obtain a w' where step: "client_step owner_service (Rest owner_remove) tenancy_world = (a, w')" by fastforce
  with owner_deletion have "map te_id (tenant_tbl w') = [''t2'']" by simp
  then have "te_id ` set (tenant_tbl w') = {''t2''}" by (metis list.set(1,2) set_map)
  then have "\<not> lost_nothing tenancy_world w'"
    by (simp add: lost_nothing_def kept_def tenancy_world_def sample_tenant_def)
  with only_owners_delete [OF rbac owner_rows_ok step] show ?thesis using owner_deletion by blast
qed

end
