(* ===== verification/Interleaving.thy ===== *)
theory Interleaving
  imports Auth_Witnesses Transport_Properties
begin

text \<open>
  Requests that overlap. The handlers of the other theories run alone; here another request commits
  in the middle of one: between the check and the write of \<open>CreateUser\<close>, and while the revocation of
  a user's sessions is running. Every write of the service is a single statement or a transaction
  on a locked row, so these are the interleavings that the code leaves open.
\<close>

section \<open>A user created between the check and the write\<close>

text \<open>
  A write repository whose \<open>save\<close> is preceded by what other requests have committed since the
  handler's last statement.
\<close>

definition overtaken ::
  "('x world \<Rightarrow> 'x world) \<Rightarrow> 'x world IUserWriteRepository \<Rightarrow> 'x world IUserWriteRepository" where
  "overtaken others repo = repo\<lparr>uwr_save := (\<lambda>a. bindE (modifyS others) (\<lambda>_. uwr_save repo a))\<rparr>"

lemma overtaken_sel [simp]:
  "uwr_findByEmail (overtaken others repo) = uwr_findByEmail repo"
  "uwr_save (overtaken others repo) a = bindE (modifyS others) (\<lambda>_. uwr_save repo a)"
  by (simp_all add: overtaken_def)

definition insert_user :: "user_entity \<Rightarrow> 'x world \<Rightarrow> 'x world" where
  "insert_user r w = w\<lparr>user_tbl := upsert ue_id r (user_tbl w)\<rparr>"

text \<open>C29: an address that is taken refuses the creation of a user before anything changes, with the
  domain's exception (409). When the address is taken only after the check, by a request that
  commits before the write, the unique key of the database refuses the write: still no second
  user of the address is stored and nothing is published, but the answer is a bare database
  error (500).\<close>

theorem create_user_race:
  assumes t: "new_date L (ext w) = (t, x1)" and i: "uuid_generate L x1 = (i, x2)"
    and a: "a = \<lparr>ua_id = i, ua_createdAt = t, ua_updatedAt = t, ua_externalId = cu_externalId c,
       ua_email = cu_email c, ua_displayName = cu_displayName c, ua_platformAdmin = False,
       ua_events = []\<rparr>"
    and wf: "user_wf L a" and chk: "check_user w (UserTypeOrmMapper_toEntity a) = None"
    and other: "ue_email r = cu_email c" "ue_externalId r \<noteq> cu_externalId c" "ue_id r \<noteq> i"
    and taken: "find (\<lambda>e. ue_email e = cu_email c) (user_tbl w0) = Some e0" "user_from_row L e0 = Inr a0"
    and free: "\<forall>e \<in> set (user_tbl w). ue_email e \<noteq> cu_email c"
  shows "CreateUserCommandHandler_execute L (user_write_repo L) c w0 =
      (Inl (new_UserEmailAlreadyRegisteredException (cu_email c)), w0) \<and>
    error_status (new_UserEmailAlreadyRegisteredException (cu_email c)) = 409 \<and>
    CreateUserCommandHandler_execute L (overtaken (insert_user r) (user_write_repo L)) c w =
      (Inl (QueryFailedError ''UQ_user_email''), insert_user r (w\<lparr>ext := x2\<rparr>)) \<and>
    error_status (QueryFailedError ''UQ_user_email'') = 500"
proof (intro conjI)
  show "CreateUserCommandHandler_execute L (user_write_repo L) c w0 =
      (Inl (new_UserEmailAlreadyRegisteredException (cu_email c)), w0)"
    using taken by (simp add: CreateUserCommandHandler_execute_def AssertUserEmailAvailableService_execute_def
        bindE_def user_write_repo_run)
  show "error_status (new_UserEmailAlreadyRegisteredException (cu_email c)) = 409"
    by (simp add: new_UserEmailAlreadyRegisteredException_def BaseExceptionFilter_resolveStatus_def
        EXCEPTION_STATUS_RESOLVERS_def)
  show "error_status (QueryFailedError ''UQ_user_email'') = 500" by simp
  have none: "find (\<lambda>e. ue_email e = cu_email c) (user_tbl w) = None" using free by (auto simp: find_None_iff)
  have build: "UserBuilder_build L (UserBuilder_new\<lparr>ub_id := i, ub_externalId := cu_externalId c,
      ub_email := cu_email c, ub_displayName := cu_displayName c, ub_platformAdmin := False,
      ub_createdAt := Some t, ub_updatedAt := Some t\<rparr>) = ret a"
    using user_wf_build [OF wf] a by simp
  have row: "UserTypeOrmMapper_toEntity (UserAggregate_create a) = UserTypeOrmMapper_toEntity a"
    by (simp add: UserTypeOrmMapper_toEntity_def UserAggregate_toPrimitives_def
        UserAggregate_create_def user_apply_def)
  have "check_user (insert_user r w') (UserTypeOrmMapper_toEntity a) = Some ''UQ_user_email''"
    if "user_tbl w' = user_tbl w" for w' :: "'a world"
    using chk other that
    by (auto simp: check_user_def insert_user_def set_upsert UserTypeOrmMapper_toEntity_def
        UserAggregate_toPrimitives_def a split: if_splits option.splits)
  then show "CreateUserCommandHandler_execute L (overtaken (insert_user r) (user_write_repo L)) c w =
      (Inl (QueryFailedError ''UQ_user_email''), insert_user r (w\<lparr>ext := x2\<rparr>))"
    using none build row
    by (simp add: CreateUserCommandHandler_execute_def AssertUserEmailAvailableService_execute_def
        bindE_def user_write_repo_run outside_run now_run t generate_uuid_run i Let_def)
qed

section \<open>A rotation that commits while the sessions of its user are being revoked\<close>

text \<open>
  A method that issues one \<open>UPDATE\<close> on the session table, at the default isolation level of
  PostgreSQL, with transactions that commit while it runs: \<open>w0\<close> is the state when the statement
  starts, which fixes its snapshot and its \<open>NOW()\<close>, and \<open>w\<close> the state when it ends. The statement
  finds the rows that its condition selects in the snapshot; a row that another transaction has
  written since is tested again, and changed, as that transaction committed it; rows that are not
  in the snapshot are not seen. With no other transaction the method runs as everywhere else.
\<close>

definition rows_changed :: "session_entity list \<Rightarrow> session_entity list \<Rightarrow> string set" where
  "rows_changed before after = se_id ` fst ` set (filter (\<lambda>(e, e'). e \<noteq> e') (zip before after))"

definition read_committed ::
  "('x world, error, 'a) comp \<Rightarrow> 'x world \<Rightarrow> 'x world \<Rightarrow> (error + 'a) \<times> 'x world" where
  "read_committed m w0 w =
     (let found = rows_changed (session_tbl w0) (session_tbl (snd (m w0)))
      in case m (w\<lparr>ext := ext w0\<rparr>) of (r, w') \<Rightarrow>
        (r, w\<lparr>session_tbl := map (\<lambda>(e, e'). if se_id e \<in> found then e' else e)
           (zip (session_tbl w) (session_tbl w'))\<rparr>))"

lemma zip_map_self: "zip xs (map f xs) = map (\<lambda>x. (x, f x)) xs"
  by (induction xs) simp_all

lemma rows_changed_by_update:
  "rows_changed rows (set_revoked_at t p rows) = se_id ` {e \<in> set rows. p e \<and> se_revokedAt e \<noteq> Some t}"
proof -
  have "e \<noteq> e\<lparr>se_revokedAt := Some t\<rparr> \<longleftrightarrow> se_revokedAt e \<noteq> Some t" for e :: session_entity
    by (cases e) simp
  then have "{e \<in> set rows. e \<noteq> (if p e then e\<lparr>se_revokedAt := Some t\<rparr> else e)} =
      {e \<in> set rows. p e \<and> se_revokedAt e \<noteq> Some t}" by auto
  then show ?thesis
    by (simp add: rows_changed_def set_revoked_at_def zip_map_self filter_map image_image comp_def)
qed

text \<open>The revocation of a user's sessions as such a statement.\<close>

lemma revocation_run:
  assumes "sql_now L (ext w) = (t, x)"
  shows "swr_revokeAllByUserId (session_write_repo L) u w = (Inr (), w\<lparr>session_tbl :=
    set_revoked_at (driver_date t) (\<lambda>e. se_userId e = u \<and> se_revokedAt e = None) (session_tbl w), ext := x\<rparr>)"
  unfolding session_db.revoke_all_law assms by simp

lemma revocation_read_committed:
  assumes "sql_now L (ext w0) = (t, x)"
  shows "read_committed (swr_revokeAllByUserId (session_write_repo L) u) w0 w =
    (Inr (), w\<lparr>session_tbl := map (\<lambda>e. if se_id e \<in> se_id ` {s \<in> set (session_tbl w0).
         se_userId s = u \<and> se_revokedAt s = None} \<and> se_userId e = u \<and> se_revokedAt e = None
       then e\<lparr>se_revokedAt := Some (driver_date t)\<rparr> else e) (session_tbl w)\<rparr>)"
proof -
  have found: "rows_changed (session_tbl w0) (set_revoked_at (driver_date t)
      (\<lambda>e. se_userId e = u \<and> se_revokedAt e = None) (session_tbl w0)) =
    se_id ` {s \<in> set (session_tbl w0). se_userId s = u \<and> se_revokedAt s = None}"
    unfolding rows_changed_by_update by (rule arg_cong [where f = "image se_id"]) auto
  have at_end: "swr_revokeAllByUserId (session_write_repo L) u (w\<lparr>ext := ext w0\<rparr>) = (Inr (), w\<lparr>session_tbl :=
      set_revoked_at (driver_date t) (\<lambda>e. se_userId e = u \<and> se_revokedAt e = None) (session_tbl w), ext := x\<rparr>)"
    by (subst revocation_run) (simp_all add: assms)
  show ?thesis
    unfolding read_committed_def Let_def revocation_run [OF assms] at_end
    by (simp add: found) (simp add: set_revoked_at_def zip_map_self)
qed

lemma revoked_token:
  assumes "find (\<lambda>x. se_refreshTokenHash x = h) (session_tbl w) = Some e"
  shows "tokens (session_tbl (snd (swr_revokeAllByUserId (session_write_repo L) (se_userId e) w))) h =
    Some ((token_of e)\<lparr>tk_live := False\<rparr>)"
proof -
  obtain t x where "sql_now L (ext w) = (t, x)" by fastforce
  from revocation_run [OF this] assms show ?thesis
    unfolding revocation_run [OF \<open>sql_now L (ext w) = (t, x)\<close>]
    by (simp add: tokens_revoke_user) (simp add: tokens_def revoke_user_def token_of_def)
qed

text \<open>C30: a revocation of all sessions of a user that starts before a rotation of one of them commits,
  and ends after it, misses the successor. It revokes every other session of the user that is live,
  and no session of another user; but the session that the rotation created is left live, so the
  token it hands out can still be exchanged, although every session of the user was to be revoked.
  The method called again, once the rotation has committed, ends that session too.\<close>

theorem revocation_misses_rotation:
  assumes "random_base64url L 32 (ext w) = (raw, x1)" and "new_date L x1 = (t, x2)"
    and "tx_pending w = None" and ok: "schema_ok w" and st: "sessions_stored L w"
    and e: "find (\<lambda>e. se_refreshTokenHash e = sha256_hex L (rf_refreshToken c)) (session_tbl w) = Some e"
    and "se_revokedAt e = None"
    and "new_date L x2 = (t1, x3)" and "t1 < se_refreshTokenExpiresAt e"
    and "new_date L x3 = (t2, x4)" and "uuid_generate L x4 = (i, x5)"
    and "new_date L x5 = (t3, x6)" and "touch L (se_updatedAt e) x6 = (u, x7)"
    and created: "created = \<lparr>sg_id = i, sg_createdAt = t2, sg_updatedAt = t2, sg_userId = se_userId e,
      sg_refreshTokenHash = sha256_hex L raw, sg_expiresAt = expiry cfg t, sg_revokedAt = None,
      sg_replacedBySessionId = None\<rparr>"
    and consumed: "consumed = (session_of_row e)\<lparr>sg_revokedAt := Some t3,
      sg_replacedBySessionId := Some i, sg_updatedAt := u\<rparr>"
    and "session_wf L created" and "session_wf L consumed"
    and new: "i \<notin> se_id ` set (session_tbl w)"
    and fresh: "sha256_hex L raw \<notin> se_refreshTokenHash ` set (session_tbl w)"
    and "hash_ok L"
    and "find (\<lambda>r. ue_id r = se_userId e) (user_tbl w) = Some r" and "user_view_from_row L r = Inr v"
    and "has_memberships L w (se_userId e) ms"
    and "jwt_sign L (token_claims v (uv_platformAdmin v) ms) x7 = (Inr token, x8)"
    and y: "sql_now L y = (t', ext w)"
  shows "\<exists>w1. RefreshSessionCommandHandler_execute L cfg (session_write_repo L) (user_lookup L)
        (membership_lookup L K) c w = (Inr \<lparr>lr_accessToken = token, lr_refreshToken = raw\<rparr>, w1) \<and>
      read_committed (swr_revokeAllByUserId (session_write_repo L) (se_userId e)) (w\<lparr>ext := y\<rparr>) w1 =
        (Inr (), w1\<lparr>session_tbl := map (\<lambda>s. if se_userId s = se_userId e \<and> se_revokedAt s = None \<and>
             se_refreshTokenHash s \<noteq> sha256_hex L raw
           then s\<lparr>se_revokedAt := Some (driver_date t')\<rparr> else s) (session_tbl w1)\<rparr>) \<and>
      tokens (session_tbl w1) (sha256_hex L raw) =
        Some \<lparr>tk_user = se_userId e, tk_expires = expiry cfg t, tk_live = True\<rparr> \<and>
      tokens (session_tbl (snd (swr_revokeAllByUserId (session_write_repo L) (se_userId e) w1))) (sha256_hex L raw) =
        Some \<lparr>tk_user = se_userId e, tk_expires = expiry cfg t, tk_live = False\<rparr>"
proof -
  let ?c = "SessionTypeOrmMapper_toEntity created"
  let ?w1 = "w\<lparr>session_tbl := upsert se_id (SessionTypeOrmMapper_toEntity consumed)
         (upsert se_id ?c (session_tbl w)), ext := x8\<rparr>"
  have run: "RefreshSessionCommandHandler_execute L cfg (session_write_repo L) (user_lookup L)
      (membership_lookup L K) c w = (Inr \<lparr>lr_accessToken = token, lr_refreshToken = raw\<rparr>, ?w1)"
    by (rule refresh_success_run [OF assms(1-24)])
  have "e \<in> set (session_tbl w)" using find_Some_iff_ex [OF e] by simp
  then have "i \<noteq> se_id e" using new by auto
  then have "?c \<in> set (session_tbl ?w1)"
    by (simp add: set_upsert created consumed session_of_row_def)
  moreover have "schema_ok ?w1" by (rule preservesD [OF refresh_schema ok run])
  ultimately have found: "find (\<lambda>x. se_refreshTokenHash x = sha256_hex L raw) (session_tbl ?w1) = Some ?c"
    using find_session [of ?w1 ?c] by (simp add: created)
  have successor: "token_of ?c = \<lparr>tk_user = se_userId e, tk_expires = expiry cfg t, tk_live = True\<rparr>"
    by (simp add: token_of_def created)
  have sel: "se_userId ?c = se_userId e" "se_id ?c = i" "se_refreshTokenHash ?c = sha256_hex L raw"
    by (simp_all add: created)
  have rows: "s \<in> set (session_tbl w) \<or> s = ?c" if "s \<in> set (session_tbl ?w1)" "se_revokedAt s = None" for s
    using that by (auto simp: set_upsert consumed)
  have same: "(if se_id s \<in> se_id ` {s \<in> set (session_tbl (w\<lparr>ext := y\<rparr>)). se_userId s = se_userId e \<and> se_revokedAt s = None} \<and>
        se_userId s = se_userId e \<and> se_revokedAt s = None then s\<lparr>se_revokedAt := Some (driver_date t')\<rparr> else s) =
      (if se_userId s = se_userId e \<and> se_revokedAt s = None \<and> se_refreshTokenHash s \<noteq> sha256_hex L raw
       then s\<lparr>se_revokedAt := Some (driver_date t')\<rparr> else s)" if s: "s \<in> set (session_tbl ?w1)" for s
  proof (cases "s = ?c")
    case True
    have "i \<notin> se_id ` {s \<in> set (session_tbl (w\<lparr>ext := y\<rparr>)). se_userId s = se_userId e \<and> se_revokedAt s = None}"
      using new by auto
    with True sel show ?thesis by simp
  next
    case False
    with rows [OF s] have "s \<in> set (session_tbl w)" if "se_revokedAt s = None" using that by blast
    moreover have "se_refreshTokenHash s \<noteq> sha256_hex L raw" if "s \<in> set (session_tbl w)" for s
      using that fresh by (auto simp: image_iff)
    ultimately show ?thesis by auto
  qed
  have "read_committed (swr_revokeAllByUserId (session_write_repo L) (se_userId e)) (w\<lparr>ext := y\<rparr>) ?w1 =
      (Inr (), ?w1\<lparr>session_tbl := map (\<lambda>s. if se_userId s = se_userId e \<and> se_revokedAt s = None \<and>
           se_refreshTokenHash s \<noteq> sha256_hex L raw
         then s\<lparr>se_revokedAt := Some (driver_date t')\<rparr> else s) (session_tbl ?w1)\<rparr>)"
    by (subst revocation_read_committed [where t = t' and x = "ext w"]) (simp add: y, simp only: map_cong [OF refl same])
  moreover have "tokens (session_tbl ?w1) (sha256_hex L raw) =
      Some \<lparr>tk_user = se_userId e, tk_expires = expiry cfg t, tk_live = True\<rparr>"
    unfolding tokens_def found by (simp add: successor)
  moreover have "tokens (session_tbl (snd (swr_revokeAllByUserId (session_write_repo L) (se_userId e) ?w1)))
      (sha256_hex L raw) = Some \<lparr>tk_user = se_userId e, tk_expires = expiry cfg t, tk_live = False\<rparr>"
    using revoked_token [OF found, of L] unfolding sel successor by simp
  ultimately show ?thesis using run by blast
qed

section \<open>Witnesses\<close>

lemma create_user_race_witness:
  "fst (CreateUserCommandHandler_execute sample_lib
     (overtaken (insert_user (sample_user\<lparr>ue_id := ''u9'', ue_externalId := ''k8'', ue_email := ''n@x''\<rparr>))
       (user_write_repo sample_lib)) sample_create_user sample_world) = Inl (QueryFailedError ''UQ_user_email'')"
  using create_user_race [of sample_lib sample_world 5 6 "''uiiiiii''" 7 _ sample_create_user
      "sample_user\<lparr>ue_id := ''u9'', ue_externalId := ''k8'', ue_email := ''n@x''\<rparr>"
      "sample_world\<lparr>user_tbl := [sample_user\<lparr>ue_email := ''n@x''\<rparr>]\<rparr>" "sample_user\<lparr>ue_email := ''n@x''\<rparr>"
      "sample_user_aggregate (sample_user\<lparr>ue_email := ''n@x''\<rparr>)", OF _ _ refl]
  by (simp add: user_sample_defs sample_create_user_def sample_user_aggregate_def insert_user_def)

lemma revocation_misses_rotation_witness:
  "\<exists>w1. sample_refresh ''a'' session_world = (Inr \<lparr>lr_accessToken = ''jwt:u1'', lr_refreshToken = ''tiiiii''\<rparr>, w1) \<and>
     (\<exists>rows. read_committed (swr_revokeAllByUserId (session_write_repo sample_lib) ''u1'')
       (session_world\<lparr>ext := 4\<rparr>) w1 = (Inr (), w1\<lparr>session_tbl := rows\<rparr>)) \<and>
     tokens (session_tbl w1) (sha256_hex sample_lib ''tiiiii'') =
       Some \<lparr>tk_user = ''u1'', tk_expires = expiry sample_cfg 6, tk_live = True\<rparr>"
proof -
  let ?u = "se_userId (sample_session ''s1'' ''u1'' ''a'' 1000 None)"
  have "\<exists>w1. sample_refresh ''a'' session_world =
        (Inr \<lparr>lr_accessToken = ''jwt:u1'', lr_refreshToken = ''tiiiii''\<rparr>, w1) \<and>
      read_committed (swr_revokeAllByUserId (session_write_repo sample_lib) ?u) (session_world\<lparr>ext := 4\<rparr>) w1 =
        (Inr (), w1\<lparr>session_tbl := map (\<lambda>s. if se_userId s = ?u \<and> se_revokedAt s = None \<and>
             se_refreshTokenHash s \<noteq> sha256_hex sample_lib ''tiiiii''
           then s\<lparr>se_revokedAt := Some (driver_date 4000)\<rparr> else s) (session_tbl w1)\<rparr>) \<and>
      tokens (session_tbl w1) (sha256_hex sample_lib ''tiiiii'') =
        Some \<lparr>tk_user = ?u, tk_expires = expiry sample_cfg 6, tk_live = True\<rparr> \<and>
      tokens (session_tbl (snd (swr_revokeAllByUserId (session_write_repo sample_lib) ?u w1)))
        (sha256_hex sample_lib ''tiiiii'') =
        Some \<lparr>tk_user = ?u, tk_expires = expiry sample_cfg 6, tk_live = False\<rparr>"
    by (rule revocation_misses_rotation [where raw = "''tiiiii''" and ?x1.0 = 6 and t = 6 and ?x2.0 = 7 and
        e = "sample_session ''s1'' ''u1'' ''a'' 1000 None" and ?t1.0 = 7 and ?x3.0 = 8 and ?t2.0 = 8 and
        ?x4.0 = 9 and i = "''uiiiiiiiii''" and ?x5.0 = 10 and ?t3.0 = 10 and ?x6.0 = 11 and u = 11 and
        ?x7.0 = 12 and r = sample_user and v = "sample_view sample_user" and ms = "[]" and ?x8.0 = 12
        and created = sample_created and consumed = sample_consumed])
      (simp_all add: find_sample_hash session_world_parts sample_hash_ok sample_views
         session_world_memberships,
       simp_all add: sample_created_def sample_consumed_def session_sample_defs
         sample_sha_neq sample_user_def sample_view_def token_claims_def replicate_numeral_unfold)
  then have found: "\<exists>w1. sample_refresh ''a'' session_world =
        (Inr \<lparr>lr_accessToken = ''jwt:u1'', lr_refreshToken = ''tiiiii''\<rparr>, w1) \<and>
      (\<exists>rows. read_committed (swr_revokeAllByUserId (session_write_repo sample_lib) ?u) (session_world\<lparr>ext := 4\<rparr>) w1 =
        (Inr (), w1\<lparr>session_tbl := rows\<rparr>)) \<and>
      tokens (session_tbl w1) (sha256_hex sample_lib ''tiiiii'') =
        Some \<lparr>tk_user = ?u, tk_expires = expiry sample_cfg 6, tk_live = True\<rparr>" by blast
  have "?u = ''u1''" by (simp add: sample_session_def)
  from found [unfolded this] show ?thesis .
qed

end
