(* ===== verification/Migrations.thy ===== *)
theory Migrations
  imports Schema_Invariant Auth_Adapters
begin

text \<open>
  The migrations (\<open>src/database/migrations\<close>), as the data-definition statements they run, and what
  those statements do to a PostgreSQL database: its tables with their columns and constraints, its
  indexes, and its rows. A statement fails when PostgreSQL refuses it: a table, column, constraint
  or index that exists already or does not exist, a table that others still reference, a constraint
  that the stored rows violate.

  The constraint checks of \<open>Database\<close> are then shown to be those that the migrated schema declares.
\<close>

section \<open>Schemas and statements\<close>

datatype sql_type = Uuid | Varchar nat | Bool | Timestamp

datatype sql_value = SqlNull | SqlText string | SqlBool bool | SqlTime int

record column =
  co_name :: string
  co_type :: sql_type
  co_notNull :: bool
  co_default :: "string option"

datatype on_delete = Cascade | SetNull

datatype table_constraint =
    PrimaryKey string "string list"
  | Unique string "string list"
  | ForeignKey string string string string on_delete

primrec constraint_name :: "table_constraint \<Rightarrow> string" where
  "constraint_name (PrimaryKey n cs) = n"
| "constraint_name (Unique n cs) = n"
| "constraint_name (ForeignKey n c t rc a) = n"

primrec constraint_columns :: "table_constraint \<Rightarrow> string list" where
  "constraint_columns (PrimaryKey n cs) = cs"
| "constraint_columns (Unique n cs) = cs"
| "constraint_columns (ForeignKey n c t rc a) = [c]"

definition references :: "string \<Rightarrow> table_constraint \<Rightarrow> bool" where
  "references t k = (case k of ForeignKey n c t' rc a \<Rightarrow> t' = t | _ \<Rightarrow> False)"

record table_schema =
  ts_columns :: "column list"
  ts_constraints :: "table_constraint list"

type_synonym sql_row = "string \<Rightarrow> sql_value"

record sql_index =
  ix_name :: string
  ix_table :: string
  ix_column :: string

record database =
  db_tables :: "(string \<times> table_schema) list"
  db_indexes :: "sql_index list"
  db_rows :: "string \<Rightarrow> sql_row list"

datatype alter_action =
    DropConstraint string
  | DropColumn string
  | AddColumn column
  | AddConstraint table_constraint

datatype statement =
    CreateTable string "column list" "table_constraint list"
  | DropTable string
  | AlterTable string "alter_action list"
  | CreateIndex string string string
  | DropIndex string
  | DeleteFrom string

section \<open>Running a statement\<close>

definition set_table :: "string \<Rightarrow> table_schema \<Rightarrow> database \<Rightarrow> database" where
  "set_table t s db = db\<lparr>db_tables := map (\<lambda>(n, s'). if n = t then (n, s) else (n, s')) (db_tables db)\<rparr>"

text \<open>Do the stored rows satisfy a constraint? A null is equal to nothing.\<close>

definition holds_on :: "database \<Rightarrow> string \<Rightarrow> table_constraint \<Rightarrow> bool" where
  "holds_on db t k = (case k of
       PrimaryKey n cs \<Rightarrow> True
     | Unique n cs \<Rightarrow> distinct (filter (\<lambda>vs. SqlNull \<notin> set vs) (map (\<lambda>r. map r cs) (db_rows db t)))
     | ForeignKey n c t' rc a \<Rightarrow>
         (\<forall>r \<in> set (db_rows db t). r c \<noteq> SqlNull \<longrightarrow> r c \<in> (\<lambda>r'. r' rc) ` set (db_rows db t')))"

definition alter :: "string \<Rightarrow> alter_action \<Rightarrow> database \<Rightarrow> string + database" where
  "alter t action db = (case map_of (db_tables db) t of
       None \<Rightarrow> Inl (''relation does not exist: '' @ t)
     | Some s \<Rightarrow> (case action of
         DropConstraint n \<Rightarrow>
           if n \<in> constraint_name ` set (ts_constraints s)
           then Inr (set_table t (s\<lparr>ts_constraints :=
             filter (\<lambda>k. constraint_name k \<noteq> n) (ts_constraints s)\<rparr>) db)
           else Inl (''constraint does not exist: '' @ n)
       | DropColumn c \<Rightarrow>
           if c \<in> co_name ` set (ts_columns s)
           then Inr ((set_table t (s\<lparr>ts_columns := filter (\<lambda>col. co_name col \<noteq> c) (ts_columns s),
               ts_constraints := filter (\<lambda>k. c \<notin> set (constraint_columns k)) (ts_constraints s)\<rparr>) db)
             \<lparr>db_indexes := filter (\<lambda>i. \<not> (ix_table i = t \<and> ix_column i = c)) (db_indexes db),
              db_rows := (db_rows db)(t := map (\<lambda>r. r(c := SqlNull)) (db_rows db t))\<rparr>)
           else Inl (''column does not exist: '' @ c)
       | AddColumn col \<Rightarrow>
           if co_name col \<in> co_name ` set (ts_columns s) then Inl (''column already exists: '' @ co_name col)
           else if co_default col \<noteq> None then Inl ''not modelled''
           else if co_notNull col \<and> db_rows db t \<noteq> []
           then Inl (''column contains null values: '' @ co_name col)
           else Inr ((set_table t (s\<lparr>ts_columns := ts_columns s @ [col]\<rparr>) db)
             \<lparr>db_rows := (db_rows db)(t := map (\<lambda>r. r(co_name col := SqlNull)) (db_rows db t))\<rparr>)
       | AddConstraint k \<Rightarrow>
           if constraint_name k \<in> constraint_name ` set (ts_constraints s)
           then Inl (''constraint already exists: '' @ constraint_name k)
           else if \<not> holds_on db t k then Inl (''constraint is violated: '' @ constraint_name k)
           else Inr (set_table t (s\<lparr>ts_constraints := ts_constraints s @ [k]\<rparr>) db)))"

fun alter_all :: "string \<Rightarrow> alter_action list \<Rightarrow> database \<Rightarrow> string + database" where
  "alter_all t [] db = Inr db"
| "alter_all t (a # as) db = (case alter t a db of Inl e \<Rightarrow> Inl e | Inr db' \<Rightarrow> alter_all t as db')"

text \<open>
  \<open>DELETE FROM\<close> is modelled for a table that no other table references, \<open>ADD COLUMN\<close> for a column
  without a default: the only ones the migrations use.
\<close>

definition referenced_by_other :: "string \<Rightarrow> database \<Rightarrow> bool" where
  "referenced_by_other t db \<longleftrightarrow>
     (\<exists>(n, s) \<in> set (db_tables db). n \<noteq> t \<and> (\<exists>k \<in> set (ts_constraints s). references t k))"

definition run_statement :: "statement \<Rightarrow> database \<Rightarrow> string + database" where
  "run_statement st db = (case st of
       CreateTable t cols ks \<Rightarrow>
         if t \<in> fst ` set (db_tables db) then Inl (''relation already exists: '' @ t)
         else if \<exists>k \<in> set ks. case k of ForeignKey n c t' rc a \<Rightarrow> t' \<noteq> t \<and> t' \<notin> fst ` set (db_tables db) | _ \<Rightarrow> False
         then Inl (''relation does not exist'')
         else Inr (db\<lparr>db_tables := db_tables db @ [(t, \<lparr>ts_columns = cols, ts_constraints = ks\<rparr>)],
           db_rows := (db_rows db)(t := [])\<rparr>)
     | DropTable t \<Rightarrow>
         if t \<notin> fst ` set (db_tables db) then Inl (''relation does not exist: '' @ t)
         else if referenced_by_other t db then Inl (''other objects depend on it: '' @ t)
         else Inr (db\<lparr>db_tables := filter (\<lambda>(n, s). n \<noteq> t) (db_tables db),
           db_indexes := filter (\<lambda>i. ix_table i \<noteq> t) (db_indexes db),
           db_rows := (db_rows db)(t := [])\<rparr>)
     | AlterTable t as \<Rightarrow> alter_all t as db
     | CreateIndex i t c \<Rightarrow>
         if i \<in> ix_name ` set (db_indexes db) then Inl (''relation already exists: '' @ i)
         else if (case map_of (db_tables db) t of None \<Rightarrow> True | Some s \<Rightarrow> c \<notin> co_name ` set (ts_columns s))
         then Inl (''column does not exist: '' @ c)
         else Inr (db\<lparr>db_indexes := db_indexes db @ [\<lparr>ix_name = i, ix_table = t, ix_column = c\<rparr>]\<rparr>)
     | DropIndex i \<Rightarrow>
         if i \<in> ix_name ` set (db_indexes db)
         then Inr (db\<lparr>db_indexes := filter (\<lambda>x. ix_name x \<noteq> i) (db_indexes db)\<rparr>)
         else Inl (''index does not exist: '' @ i)
     | DeleteFrom t \<Rightarrow>
         if t \<notin> fst ` set (db_tables db) then Inl (''relation does not exist: '' @ t)
         else if referenced_by_other t db then Inl (''not modelled'')
         else Inr (db\<lparr>db_rows := (db_rows db)(t := [])\<rparr>))"

text \<open>TypeORM runs a migration in a transaction: the first statement that fails undoes all.\<close>

fun run_migration :: "statement list \<Rightarrow> database \<Rightarrow> string + database" where
  "run_migration [] db = Inr db"
| "run_migration (s # ss) db = (case run_statement s db of Inl e \<Rightarrow> Inl e | Inr db' \<Rightarrow> run_migration ss db')"

section \<open>The migrations\<close>

definition uuid_id :: column where
  "uuid_id = \<lparr>co_name = ''id'', co_type = Uuid, co_notNull = True, co_default = Some ''gen_random_uuid()''\<rparr>"

definition required :: "string \<Rightarrow> sql_type \<Rightarrow> column" where
  "required n ty = \<lparr>co_name = n, co_type = ty, co_notNull = True, co_default = None\<rparr>"

definition nullable :: "string \<Rightarrow> sql_type \<Rightarrow> column" where
  "nullable n ty = \<lparr>co_name = n, co_type = ty, co_notNull = False, co_default = None\<rparr>"

definition dated :: "string \<Rightarrow> column" where
  "dated n = \<lparr>co_name = n, co_type = Timestamp, co_notNull = True, co_default = Some ''now()''\<rparr>"

definition CreateIdentityAndTenancy_up :: "statement list" where
  "CreateIdentityAndTenancy_up =
     [CreateTable ''app''
        [uuid_id, required ''slug'' (Varchar 100), required ''name'' (Varchar 150), dated ''created_at'',
         dated ''updated_at'']
        [PrimaryKey ''PK_app_id'' [''id''], Unique ''UQ_app_slug'' [''slug'']],
      CreateTable ''user''
        [uuid_id, required ''external_id'' (Varchar 255), required ''email'' (Varchar 320),
         nullable ''display_name'' (Varchar 120),
         \<lparr>co_name = ''platform_admin'', co_type = Bool, co_notNull = True, co_default = Some ''false''\<rparr>,
         nullable ''refresh_token_hash'' (Varchar 255), nullable ''refresh_token_expires_at'' Timestamp,
         dated ''created_at'', dated ''updated_at'']
        [PrimaryKey ''PK_user_id'' [''id''], Unique ''UQ_user_external_id'' [''external_id''],
         Unique ''UQ_user_email'' [''email''], Unique ''UQ_user_refresh_token_hash'' [''refresh_token_hash'']],
      CreateTable ''tenant''
        [uuid_id, required ''app_id'' Uuid, required ''name'' (Varchar 150), required ''slug'' (Varchar 100),
         dated ''created_at'', dated ''updated_at'']
        [PrimaryKey ''PK_tenant_id'' [''id''], Unique ''UQ_tenant_app_id_slug'' [''app_id'', ''slug''],
         ForeignKey ''FK_tenant_app_id'' ''app_id'' ''app'' ''id'' Cascade],
      CreateIndex ''IDX_tenant_app_id'' ''tenant'' ''app_id'',
      CreateTable ''tenant_membership''
        [uuid_id, required ''tenant_id'' Uuid, required ''user_id'' Uuid, required ''role'' (Varchar 50),
         dated ''created_at'', dated ''updated_at'']
        [PrimaryKey ''PK_tenant_membership_id'' [''id''],
         Unique ''UQ_tenant_membership_tenant_id_user_id'' [''tenant_id'', ''user_id''],
         ForeignKey ''FK_tenant_membership_tenant_id'' ''tenant_id'' ''tenant'' ''id'' Cascade,
         ForeignKey ''FK_tenant_membership_user_id'' ''user_id'' ''user'' ''id'' Cascade],
      CreateIndex ''IDX_tenant_membership_tenant_id'' ''tenant_membership'' ''tenant_id'',
      CreateIndex ''IDX_tenant_membership_user_id'' ''tenant_membership'' ''user_id'']"

definition CreateIdentityAndTenancy_down :: "statement list" where
  "CreateIdentityAndTenancy_down =
     [DropTable ''tenant_membership'', DropTable ''tenant'', DropTable ''user'', DropTable ''app'']"

definition SplitUserAndAuthSession_up :: "statement list" where
  "SplitUserAndAuthSession_up =
     [AlterTable ''user''
        [DropConstraint ''UQ_user_refresh_token_hash'', DropColumn ''refresh_token_hash'',
         DropColumn ''refresh_token_expires_at''],
      CreateTable ''session''
        [uuid_id, required ''user_id'' Uuid, required ''refresh_token_hash'' (Varchar 255),
         required ''refresh_token_expires_at'' Timestamp, dated ''created_at'', dated ''updated_at'']
        [PrimaryKey ''PK_session_id'' [''id''], Unique ''UQ_session_user_id'' [''user_id''],
         Unique ''UQ_session_refresh_token_hash'' [''refresh_token_hash''],
         ForeignKey ''FK_session_user_id'' ''user_id'' ''user'' ''id'' Cascade]]"

definition SplitUserAndAuthSession_down :: "statement list" where
  "SplitUserAndAuthSession_down =
     [DropTable ''session'',
      AlterTable ''user''
        [AddColumn (nullable ''refresh_token_hash'' (Varchar 255)),
         AddColumn (nullable ''refresh_token_expires_at'' Timestamp),
         AddConstraint (Unique ''UQ_user_refresh_token_hash'' [''refresh_token_hash''])]]"

definition SessionChainRotation_up :: "statement list" where
  "SessionChainRotation_up =
     [DeleteFrom ''session'',
      AlterTable ''session'' [DropConstraint ''UQ_session_user_id''],
      AlterTable ''session''
        [AddColumn (nullable ''revoked_at'' Timestamp), AddColumn (nullable ''replaced_by_session_id'' Uuid)],
      AlterTable ''session''
        [AddConstraint (ForeignKey ''FK_session_replaced_by_session_id'' ''replaced_by_session_id''
           ''session'' ''id'' SetNull)],
      CreateIndex ''IDX_session_user_id'' ''session'' ''user_id'']"

definition SessionChainRotation_down :: "statement list" where
  "SessionChainRotation_down =
     [DeleteFrom ''session'',
      DropIndex ''IDX_session_user_id'',
      AlterTable ''session'' [DropConstraint ''FK_session_replaced_by_session_id''],
      AlterTable ''session'' [DropColumn ''revoked_at'', DropColumn ''replaced_by_session_id''],
      AlterTable ''session'' [AddConstraint (Unique ''UQ_session_user_id'' [''user_id''])]]"

definition empty_database :: database where
  "empty_database = \<lparr>db_tables = [], db_indexes = [], db_rows = (\<lambda>_. [])\<rparr>"

definition all_up :: "statement list" where
  "all_up = CreateIdentityAndTenancy_up @ SplitUserAndAuthSession_up @ SessionChainRotation_up"

section \<open>What a written row must satisfy\<close>

text \<open>
  The first declaration of its table that a written row violates: lengths and nulls column by
  column, then the unique keys against the rows with another \<open>id\<close> (the written row replaces the
  one with its own), then the foreign keys, which also see the written row itself.
\<close>

primrec first_Some :: "'a option list \<Rightarrow> 'a option" where
  "first_Some [] = None"
| "first_Some (z # zs) = (case z of None \<Rightarrow> first_Some zs | Some a \<Rightarrow> Some a)"

definition column_violation :: "sql_row \<Rightarrow> column \<Rightarrow> string option" where
  "column_violation row col = (case row (co_name col) of
       SqlNull \<Rightarrow> if co_notNull col then Some (''null value in column '' @ co_name col) else None
     | SqlText v \<Rightarrow> (case co_type col of
           Varchar n \<Rightarrow> if n < length v then Some (''varchar('' @ decimal n @ '')'') else None
         | _ \<Rightarrow> None)
     | _ \<Rightarrow> None)"

definition unique_violation :: "sql_row list \<Rightarrow> sql_row \<Rightarrow> table_constraint \<Rightarrow> string option" where
  "unique_violation rows row k = (case k of
       Unique n cs \<Rightarrow>
         if \<exists>r \<in> set rows. r ''id'' \<noteq> row ''id'' \<and> (\<forall>c \<in> set cs. row c \<noteq> SqlNull \<and> r c = row c)
         then Some n else None
     | _ \<Rightarrow> None)"

definition reference_violation ::
  "database \<Rightarrow> string \<Rightarrow> sql_row \<Rightarrow> table_constraint \<Rightarrow> string option" where
  "reference_violation db t row k = (case k of
       ForeignKey n c t' rc a \<Rightarrow>
         if row c = SqlNull \<or> t' = t \<and> row c = row rc \<or> row c \<in> (\<lambda>r. r rc) ` set (db_rows db t')
         then None else Some n
     | _ \<Rightarrow> None)"

definition check_row :: "database \<Rightarrow> string \<Rightarrow> sql_row \<Rightarrow> string option" where
  "check_row db t row = (case map_of (db_tables db) t of
       None \<Rightarrow> Some (''relation does not exist: '' @ t)
     | Some s \<Rightarrow> first_Some
         (map (column_violation row) (ts_columns s) @
          map (unique_violation (db_rows db t) row) (ts_constraints s) @
          map (reference_violation db t row) (ts_constraints s)))"

text \<open>The entities as rows: the columns their classes declare.\<close>

definition sql_text_option :: "string option \<Rightarrow> sql_value" where
  "sql_text_option z = (case z of None \<Rightarrow> SqlNull | Some v \<Rightarrow> SqlText v)"

definition sql_time_option :: "int option \<Rightarrow> sql_value" where
  "sql_time_option z = (case z of None \<Rightarrow> SqlNull | Some t \<Rightarrow> SqlTime t)"

definition sql_row :: "(string \<times> sql_value) list \<Rightarrow> sql_row" where
  "sql_row vs c = (case map_of vs c of None \<Rightarrow> SqlNull | Some v \<Rightarrow> v)"

definition app_row :: "app_entity \<Rightarrow> sql_row" where
  "app_row e = sql_row [(''id'', SqlText (ae_id e)), (''slug'', SqlText (ae_slug e)),
     (''name'', SqlText (ae_name e)), (''created_at'', SqlTime (ae_createdAt e)),
     (''updated_at'', SqlTime (ae_updatedAt e))]"

definition user_row :: "user_entity \<Rightarrow> sql_row" where
  "user_row e = sql_row [(''id'', SqlText (ue_id e)), (''external_id'', SqlText (ue_externalId e)),
     (''email'', SqlText (ue_email e)), (''display_name'', sql_text_option (ue_displayName e)),
     (''platform_admin'', SqlBool (ue_platformAdmin e)), (''created_at'', SqlTime (ue_createdAt e)),
     (''updated_at'', SqlTime (ue_updatedAt e))]"

definition tenant_row :: "tenant_entity \<Rightarrow> sql_row" where
  "tenant_row e = sql_row [(''id'', SqlText (te_id e)), (''app_id'', SqlText (te_appId e)),
     (''name'', SqlText (te_name e)), (''slug'', SqlText (te_slug e)),
     (''created_at'', SqlTime (te_createdAt e)), (''updated_at'', SqlTime (te_updatedAt e))]"

definition membership_row :: "membership_entity \<Rightarrow> sql_row" where
  "membership_row e = sql_row [(''id'', SqlText (me_id e)), (''tenant_id'', SqlText (me_tenantId e)),
     (''user_id'', SqlText (me_userId e)), (''role'', SqlText (me_role e)),
     (''created_at'', SqlTime (me_createdAt e)), (''updated_at'', SqlTime (me_updatedAt e))]"

definition session_row :: "session_entity \<Rightarrow> sql_row" where
  "session_row e = sql_row [(''id'', SqlText (se_id e)), (''user_id'', SqlText (se_userId e)),
     (''refresh_token_hash'', SqlText (se_refreshTokenHash e)),
     (''refresh_token_expires_at'', SqlTime (se_refreshTokenExpiresAt e)),
     (''revoked_at'', sql_time_option (se_revokedAt e)),
     (''replaced_by_session_id'', sql_text_option (se_replacedBySessionId e)),
     (''created_at'', SqlTime (se_createdAt e)), (''updated_at'', SqlTime (se_updatedAt e))]"

text \<open>The rows of the model's tables, with the sessions a statement sees.\<close>

definition stored_rows :: "'x world \<Rightarrow> session_entity list \<Rightarrow> string \<Rightarrow> sql_row list" where
  "stored_rows w visible t =
     (if t = ''app'' then map app_row (app_tbl w)
      else if t = ''user'' then map user_row (user_tbl w)
      else if t = ''tenant'' then map tenant_row (tenant_tbl w)
      else if t = ''tenant_membership'' then map membership_row (membership_tbl w)
      else if t = ''session'' then map session_row visible
      else [])"

section \<open>The schema the migrations reach\<close>

definition same_schema :: "database \<Rightarrow> database \<Rightarrow> bool" where
  "same_schema a b \<longleftrightarrow>
     map fst (db_tables a) = map fst (db_tables b) \<and> set (db_indexes a) = set (db_indexes b) \<and>
     list_all2 (\<lambda>(n, s) (n', s'). set (ts_columns s) = set (ts_columns s') \<and>
       set (ts_constraints s) = set (ts_constraints s')) (db_tables a) (db_tables b)"

lemmas statement_simps = run_statement_def alter_def set_table_def holds_on_def references_def
  referenced_by_other_def uuid_id_def required_def nullable_def dated_def

lemmas migration_defs = CreateIdentityAndTenancy_up_def CreateIdentityAndTenancy_down_def
  SplitUserAndAuthSession_up_def SplitUserAndAuthSession_down_def SessionChainRotation_up_def
  SessionChainRotation_down_def all_up_def empty_database_def

text \<open>
  Applied to the schema that \<open>before\<close> reaches and to the rows \<open>rows\<close>, the migration succeeds and
  leaves the rows \<open>rows_up\<close>; undoing it, when the table rows have become \<open>later\<close>, then succeeds,
  restores the schema and leaves \<open>rows_down\<close>.
\<close>

definition undone :: "statement list \<Rightarrow> statement list \<Rightarrow> statement list \<Rightarrow>
    (string \<Rightarrow> sql_row list) \<Rightarrow> (string \<Rightarrow> sql_row list) \<Rightarrow>
    (string \<Rightarrow> sql_row list) \<Rightarrow> (string \<Rightarrow> sql_row list) \<Rightarrow> bool" where
  "undone before up down rows rows_up later rows_down = (case run_migration before empty_database of
       Inl e \<Rightarrow> False
     | Inr db \<Rightarrow> (case run_migration up (db\<lparr>db_rows := rows\<rparr>) of
         Inl e \<Rightarrow> False
       | Inr db' \<Rightarrow> db_rows db' = rows_up \<and> (case run_migration down (db'\<lparr>db_rows := later\<rparr>) of
           Inl e \<Rightarrow> False
         | Inr db'' \<Rightarrow> same_schema db'' db \<and> db_rows db'' = rows_down)))"

text \<open>The columns that leave the user table lose what they held.\<close>

definition without_token :: "sql_row \<Rightarrow> sql_row" where
  "without_token r = r(''refresh_token_hash'' := SqlNull, ''refresh_token_expires_at'' := SqlNull)"

lemma undo_first:
  "undone [] CreateIdentityAndTenancy_up CreateIdentityAndTenancy_down (\<lambda>_. []) (\<lambda>_. [])
     later (later(''app'' := [], ''user'' := [], ''tenant'' := [], ''tenant_membership'' := []))"
  by (simp add: undone_def migration_defs statement_simps same_schema_def fun_eq_iff)

lemma undo_second:
  "undone CreateIdentityAndTenancy_up SplitUserAndAuthSession_up SplitUserAndAuthSession_down
     rows (rows(''user'' := map without_token (rows ''user''), ''session'' := []))
     later (later(''user'' := map without_token (later ''user''), ''session'' := []))"
  by (simp add: undone_def migration_defs statement_simps same_schema_def fun_eq_iff without_token_def
      comp_def) (auto simp: filter_map comp_def)

lemma undo_third:
  "undone (CreateIdentityAndTenancy_up @ SplitUserAndAuthSession_up)
     SessionChainRotation_up SessionChainRotation_down
     rows (rows(''session'' := [])) later (later(''session'' := []))"
  by (simp add: undone_def migration_defs statement_simps same_schema_def fun_eq_iff) auto

text \<open>The tables as they stand after every migration.\<close>

definition app_table :: table_schema where
  "app_table =
       \<lparr>ts_columns = [uuid_id, required ''slug'' (Varchar 100), required ''name'' (Varchar 150),
          dated ''created_at'', dated ''updated_at''],
        ts_constraints = [PrimaryKey ''PK_app_id'' [''id''], Unique ''UQ_app_slug'' [''slug'']]\<rparr>"

definition user_table :: table_schema where
  "user_table =
       \<lparr>ts_columns = [uuid_id, required ''external_id'' (Varchar 255), required ''email'' (Varchar 320),
          nullable ''display_name'' (Varchar 120),
          \<lparr>co_name = ''platform_admin'', co_type = Bool, co_notNull = True, co_default = Some ''false''\<rparr>,
          dated ''created_at'', dated ''updated_at''],
        ts_constraints = [PrimaryKey ''PK_user_id'' [''id''],
          Unique ''UQ_user_external_id'' [''external_id''], Unique ''UQ_user_email'' [''email'']]\<rparr>"

definition tenant_table :: table_schema where
  "tenant_table =
       \<lparr>ts_columns = [uuid_id, required ''app_id'' Uuid, required ''name'' (Varchar 150),
          required ''slug'' (Varchar 100), dated ''created_at'', dated ''updated_at''],
        ts_constraints = [PrimaryKey ''PK_tenant_id'' [''id''],
          Unique ''UQ_tenant_app_id_slug'' [''app_id'', ''slug''],
          ForeignKey ''FK_tenant_app_id'' ''app_id'' ''app'' ''id'' Cascade]\<rparr>"

definition membership_table :: table_schema where
  "membership_table =
       \<lparr>ts_columns = [uuid_id, required ''tenant_id'' Uuid, required ''user_id'' Uuid,
          required ''role'' (Varchar 50), dated ''created_at'', dated ''updated_at''],
        ts_constraints = [PrimaryKey ''PK_tenant_membership_id'' [''id''],
          Unique ''UQ_tenant_membership_tenant_id_user_id'' [''tenant_id'', ''user_id''],
          ForeignKey ''FK_tenant_membership_tenant_id'' ''tenant_id'' ''tenant'' ''id'' Cascade,
          ForeignKey ''FK_tenant_membership_user_id'' ''user_id'' ''user'' ''id'' Cascade]\<rparr>"

definition session_table :: table_schema where
  "session_table =
       \<lparr>ts_columns = [uuid_id, required ''user_id'' Uuid, required ''refresh_token_hash'' (Varchar 255),
          required ''refresh_token_expires_at'' Timestamp, dated ''created_at'', dated ''updated_at'',
          nullable ''revoked_at'' Timestamp, nullable ''replaced_by_session_id'' Uuid],
        ts_constraints = [PrimaryKey ''PK_session_id'' [''id''],
          Unique ''UQ_session_refresh_token_hash'' [''refresh_token_hash''],
          ForeignKey ''FK_session_user_id'' ''user_id'' ''user'' ''id'' Cascade,
          ForeignKey ''FK_session_replaced_by_session_id'' ''replaced_by_session_id''
            ''session'' ''id'' SetNull]\<rparr>"

lemmas table_defs = app_table_def user_table_def tenant_table_def membership_table_def session_table_def

lemma migrated_tables:
  "\<exists>db. run_migration all_up empty_database = Inr db \<and>
     map_of (db_tables db) ''app'' = Some app_table \<and>
     map_of (db_tables db) ''user'' = Some user_table \<and>
     map_of (db_tables db) ''tenant'' = Some tenant_table \<and>
     map_of (db_tables db) ''tenant_membership'' = Some membership_table \<and>
     map_of (db_tables db) ''session'' = Some session_table"
  by (simp add: migration_defs statement_simps table_defs)

lemma decimal_lengths [simp]: "decimal 50 = ''50''" "decimal 100 = ''100''" "decimal 120 = ''120''"
  "decimal 150 = ''150''" "decimal 255 = ''255''" "decimal 320 = ''320''"
  by code_simp+

lemmas check_row_simps = check_row_def column_violation_def unique_violation_def reference_violation_def
  uuid_id_def required_def nullable_def dated_def sql_row_def sql_text_option_def sql_time_option_def
  stored_rows_def table_defs

lemma image_row: "v \<in> (\<lambda>r. r c) ` f ` A \<longleftrightarrow> (\<exists>e \<in> A. v = f e c)"
  by auto

lemmas row_simps = image_row image_iff app_row_def user_row_def tenant_row_def membership_row_def
  session_row_def

lemma check_app_declared:
  "map_of (db_tables db) ''app'' = Some app_table \<Longrightarrow>
     check_app w a = check_row (db\<lparr>db_rows := stored_rows w visible\<rparr>) ''app'' (app_row a)"
  by (simp add: check_app_def check_row_simps row_simps split: option.split)

lemma check_user_declared:
  "map_of (db_tables db) ''user'' = Some user_table \<Longrightarrow>
     check_user w u = check_row (db\<lparr>db_rows := stored_rows w visible\<rparr>) ''user'' (user_row u)"
  by (simp add: check_user_def check_row_simps row_simps split: option.split) blast

lemma check_tenant_declared:
  "map_of (db_tables db) ''tenant'' = Some tenant_table \<Longrightarrow>
     check_tenant w t = check_row (db\<lparr>db_rows := stored_rows w visible\<rparr>) ''tenant'' (tenant_row t)"
  by (simp add: check_tenant_def check_row_simps row_simps split: option.split) blast

lemma check_membership_declared:
  "map_of (db_tables db) ''tenant_membership'' = Some membership_table \<Longrightarrow>
     check_membership w m = check_row (db\<lparr>db_rows := stored_rows w visible\<rparr>) ''tenant_membership'' (membership_row m)"
  by (simp add: check_membership_def check_row_simps row_simps split: option.split) blast

lemma check_session_declared:
  "map_of (db_tables db) ''session'' = Some session_table \<Longrightarrow>
     check_session w visible s = check_row (db\<lparr>db_rows := stored_rows w visible\<rparr>) ''session'' (session_row s)"
  by (simp add: check_session_def check_row_simps row_simps split: option.split) blast

text \<open>C27: the hand-written constraint checks of the tables are those of the schema that the migrations
  reach from an empty database: for every row, the same verdict and the same first violation.\<close>

theorem checks_are_the_migrations:
  "case run_migration all_up empty_database of
     Inl e \<Rightarrow> False
   | Inr db \<Rightarrow>
       (let stored = db\<lparr>db_rows := stored_rows w visible\<rparr> in
        check_app w a = check_row stored ''app'' (app_row a) \<and>
        check_user w u = check_row stored ''user'' (user_row u) \<and>
        check_tenant w t = check_row stored ''tenant'' (tenant_row t) \<and>
        check_membership w m = check_row stored ''tenant_membership'' (membership_row m) \<and>
        check_session w visible s = check_row stored ''session'' (session_row s))"
proof -
  obtain db where db: "run_migration all_up empty_database = Inr db"
    and tables: "map_of (db_tables db) ''app'' = Some app_table \<and>
     map_of (db_tables db) ''user'' = Some user_table \<and>
     map_of (db_tables db) ''tenant'' = Some tenant_table \<and>
     map_of (db_tables db) ''tenant_membership'' = Some membership_table \<and>
     map_of (db_tables db) ''session'' = Some session_table"
    using migrated_tables by blast
  show ?thesis
    by (simp add: db check_app_declared check_user_declared check_tenant_declared
        check_membership_declared check_session_declared tables)
qed

text \<open>C28: each migration applies to the schema before it, and undoing it later restores that schema,
  whatever rows there were and are by then. The first leaves nothing; the second drops the refresh
  tokens of the users, in both directions; the third empties the session table in both directions.
  No other table loses a row.\<close>

theorem migrations_undone:
  "undone [] CreateIdentityAndTenancy_up CreateIdentityAndTenancy_down (\<lambda>_. []) (\<lambda>_. [])
     later (later(''app'' := [], ''user'' := [], ''tenant'' := [], ''tenant_membership'' := [])) \<and>
   undone CreateIdentityAndTenancy_up SplitUserAndAuthSession_up SplitUserAndAuthSession_down
     rows (rows(''user'' := map without_token (rows ''user''), ''session'' := []))
     later (later(''user'' := map without_token (later ''user''), ''session'' := [])) \<and>
   undone (CreateIdentityAndTenancy_up @ SplitUserAndAuthSession_up)
     SessionChainRotation_up SessionChainRotation_down
     rows (rows(''session'' := [])) later (later(''session'' := []))"
  by (intro conjI undo_first undo_second undo_third)

end
