(* ===== verification/Topic_Map.thy ===== *)
theory Topic_Map
  imports Account_Prelude "HOL-Library.List_Lexorder" "HOL-Library.Char_ord"
begin

text \<open>
  The generator of the topic map (\<open>scripts/generate-aggregate-module-map.ts\<close>): it scans the
  aggregate files of every bounded context and maps each exported aggregate class to the folder of
  its context, the suffix of the Kafka topic its events go to. The map it has written is
  \<open>AGGREGATE_MODULE_MAP\<close> (\<open>src/core/messaging\<close>).

  The file system is a tree of directory entries, in the order \<open>readdirSync\<close> gives them; a file or
  directory that cannot be read has no contents, and reading it throws. A \<open>Map\<close> of JavaScript is the
  list of its entries in order of insertion. The order of strings is that of their code units.
\<close>

section \<open>The file system\<close>

datatype dirent =
    FileEntry string "string option"
  | DirEntry string "dirent list option"
  | OtherEntry string

datatype generator_error =
    AmbiguousAggregate string string string
  | ReadError string

definition join_path :: "string \<Rightarrow> string \<Rightarrow> string" where
  "join_path dir name = dir @ ''/'' @ name"

text \<open>\<open>readdirSync\<close> of a subdirectory, named by the entries from here to there.\<close>

fun readdir :: "dirent list option \<Rightarrow> string list \<Rightarrow> dirent list option" where
  "readdir es [] = es"
| "readdir None (n # ns) = None"
| "readdir (Some es) (n # ns) =
     (case find (\<lambda>e. case e of DirEntry name _ \<Rightarrow> name = n | _ \<Rightarrow> False) es of Some (DirEntry _ sub) \<Rightarrow> readdir sub ns | _ \<Rightarrow> None)"

definition ends_with :: "string \<Rightarrow> string \<Rightarrow> bool" where
  "ends_with suf s \<longleftrightarrow> length suf \<le> length s \<and> drop (length s - length suf) s = suf"

section \<open>Scanning a source file\<close>

text \<open>\<open>\w\<close>, and the regular expression \<open>export\s+class\s+(\w+Aggregate)\b\<close> at the start of a string:
  the class name and what follows the match. The greedy parts leave no choice, since no
  white space is a word character: the name is the longest word, which has to end in \<open>Aggregate\<close>.\<close>

definition word_char :: "char \<Rightarrow> bool" where
  "word_char c \<longleftrightarrow> (let n = (of_char c :: nat) in
     48 \<le> n \<and> n \<le> 57 \<or> 65 \<le> n \<and> n \<le> 90 \<or> n = 95 \<or> 97 \<le> n \<and> n \<le> 122)"

definition match_aggregate :: "string \<Rightarrow> (string \<times> string) option" where
  "match_aggregate s =
     (let r1 = drop 6 s; r2 = dropWhile js_space r1; r3 = drop 5 r2; r4 = dropWhile js_space r3;
          w = takeWhile word_char r4
      in if starts_with ''export'' s \<and> r1 \<noteq> [] \<and> js_space (hd r1) \<and> starts_with ''class'' r2 \<and>
            r3 \<noteq> [] \<and> js_space (hd r3) \<and> ends_with ''Aggregate'' w \<and> 9 < length w
         then Some (w, dropWhile word_char r4) else None)"

lemma match_aggregate_shorter: "match_aggregate s = Some (w, rest) \<Longrightarrow> length rest < length s"
proof -
  assume m: "match_aggregate s = Some (w, rest)"
  then have "drop 6 s \<noteq> []" "rest = dropWhile word_char (dropWhile js_space (drop 5 (dropWhile js_space (drop 6 s))))"
    by (auto simp: match_aggregate_def Let_def split: if_splits)
  then show ?thesis
    using length_dropWhile_le [of word_char "dropWhile js_space (drop 5 (dropWhile js_space (drop 6 s)))"]
      length_dropWhile_le [of js_space "drop 5 (dropWhile js_space (drop 6 s))"]
      length_dropWhile_le [of js_space "drop 6 s"]
    by auto
qed

text \<open>\<open>source.matchAll(EXPORTED_AGGREGATE)\<close>: the class names, from left to right.\<close>

function scan_aggregates :: "string \<Rightarrow> string list" where
  "scan_aggregates s = (case match_aggregate s of
       Some (w, rest) \<Rightarrow> w # scan_aggregates rest
     | None \<Rightarrow> (case s of [] \<Rightarrow> [] | _ # cs \<Rightarrow> scan_aggregates cs))"
  by pat_completeness auto
termination by (relation "measure length") (auto dest: match_aggregate_shorter)

declare scan_aggregates.simps [simp del]

section \<open>The generator\<close>

fun collectAggregateFiles :: "string \<Rightarrow> dirent list \<Rightarrow> (string \<times> string option) list" where
  "collectAggregateFiles dir [] = []"
| "collectAggregateFiles dir (DirEntry name None # es) = collectAggregateFiles dir es"
| "collectAggregateFiles dir (DirEntry name (Some sub) # es) =
     collectAggregateFiles (join_path dir name) sub @ collectAggregateFiles dir es"
| "collectAggregateFiles dir (FileEntry name contents # es) =
     (if ends_with ''.aggregate.ts'' name \<and> \<not> ends_with ''.spec.ts'' name
      then [(join_path dir name, contents)] else []) @ collectAggregateFiles dir es"
| "collectAggregateFiles dir (OtherEntry name # es) = collectAggregateFiles dir es"

type_synonym class_map = "(string \<times> string) list"

text \<open>\<open>Map.set\<close>: an entry that exists keeps its place.\<close>

definition map_set :: "string \<Rightarrow> string \<Rightarrow> class_map \<Rightarrow> class_map" where
  "map_set k v m = (if k \<in> fst ` set m then map (\<lambda>(k', v'). if k' = k then (k, v) else (k', v')) m
     else m @ [(k, v)])"

fun register_classes :: "string \<Rightarrow> string list \<Rightarrow> class_map \<Rightarrow> generator_error + class_map" where
  "register_classes moduleName [] m = Inr m"
| "register_classes moduleName (className # cs) m =
     (case map_of m className of
        Some existing \<Rightarrow>
          if existing \<noteq> [] \<and> existing \<noteq> moduleName
          then Inl (AmbiguousAggregate className existing moduleName)
          else register_classes moduleName cs (map_set className moduleName m)
      | None \<Rightarrow> register_classes moduleName cs (map_set className moduleName m))"

definition registerAggregateFile ::
  "string \<Rightarrow> string \<times> string option \<Rightarrow> class_map \<Rightarrow> generator_error + class_map" where
  "registerAggregateFile moduleName file m = (case snd file of
       None \<Rightarrow> Inl (ReadError (fst file))
     | Some source \<Rightarrow> register_classes moduleName (scan_aggregates source) m)"

fun register_files ::
  "string \<Rightarrow> (string \<times> string option) list \<Rightarrow> class_map \<Rightarrow> generator_error + class_map" where
  "register_files moduleName [] m = Inr m"
| "register_files moduleName (f # fs) m = (case registerAggregateFile moduleName f m of
       Inl e \<Rightarrow> Inl e | Inr m' \<Rightarrow> register_files moduleName fs m')"

definition aggregate_files :: "string \<Rightarrow> dirent list option \<Rightarrow> (string \<times> string option) list" where
  "aggregate_files name sub = (case readdir sub [''domain'', ''aggregates''] of
       None \<Rightarrow> []
     | Some es \<Rightarrow> collectAggregateFiles
         (join_path (join_path (join_path ''src/contexts'' name) ''domain'') ''aggregates'') es)"

fun register_modules :: "dirent list \<Rightarrow> class_map \<Rightarrow> generator_error + class_map" where
  "register_modules [] m = Inr m"
| "register_modules (DirEntry name sub # es) m =
     (case register_files name (aggregate_files name sub) m of
        Inl e \<Rightarrow> Inl e | Inr m' \<Rightarrow> register_modules es m')"
| "register_modules (FileEntry name c # es) m = register_modules es m"
| "register_modules (OtherEntry name # es) m = register_modules es m"

definition collectMappings :: "dirent list option \<Rightarrow> generator_error + class_map" where
  "collectMappings contexts = (case contexts of
       None \<Rightarrow> Inr []
     | Some es \<Rightarrow> (case register_modules es [] of
         Inl e \<Rightarrow> Inl e | Inr m \<Rightarrow> Inr (sort_key fst m)))"

section \<open>What a source file declares\<close>

text \<open>The matches found from left to right are all the matches there are: no two overlap.\<close>

definition declares :: "string \<Rightarrow> string \<Rightarrow> bool" where
  "declares source className \<longleftrightarrow>
     (\<exists>pre suf rest. source = pre @ suf \<and> match_aggregate suf = Some (className, rest))"

lemma word_not_space: "word_char c \<Longrightarrow> \<not> js_space c"
  by (auto simp: word_char_def js_space_def Let_def)

lemma starts_with_drop: "starts_with pre s \<Longrightarrow> length pre = n \<Longrightarrow> s = pre @ drop n s"
  unfolding starts_with_def by (metis append_take_drop_id)

lemma match_aggregate_word:
  assumes "match_aggregate s = Some (w, rest)"
  shows "takeWhile word_char s = ''export''"
proof -
  have "starts_with ''export'' s" and r: "drop 6 s \<noteq> []" "js_space (hd (drop 6 s))"
    using assms by (simp_all add: match_aggregate_def Let_def split: if_splits)
  then have s: "s = ''export'' @ drop 6 s" by (intro starts_with_drop) simp_all
  from r
  obtain c cs where c: "drop 6 s = c # cs" "js_space c" by (cases "drop 6 s") auto
  then have "\<not> word_char c" using word_not_space by blast
  then have "takeWhile word_char (''export'' @ c # cs) = ''export''"
    by (simp add: word_char_def)
  with s c(1) show ?thesis by simp
qed

lemma match_aggregate_parts:
  assumes "match_aggregate s = Some (w, rest)"
  obtains ws ws' where "s = ''export'' @ ws @ ''class'' @ ws' @ w @ rest"
    "\<forall>c \<in> set ws. js_space c" "\<forall>c \<in> set ws'. js_space c" "ws \<noteq> []" "ws' \<noteq> []"
    "\<forall>c \<in> set w. word_char c" "ends_with ''Aggregate'' w" "rest = [] \<or> \<not> word_char (hd rest)"
proof -
  define r1 where "r1 = drop 6 s"
  define r2 where "r2 = dropWhile js_space r1"
  define r3 where "r3 = drop 5 r2"
  define r4 where "r4 = dropWhile js_space r3"
  have m: "starts_with ''export'' s" "r1 \<noteq> []" "js_space (hd r1)" "starts_with ''class'' r2" "r3 \<noteq> []"
    "js_space (hd r3)" "ends_with ''Aggregate'' w" "w = takeWhile word_char r4" "rest = dropWhile word_char r4"
    using assms unfolding match_aggregate_def Let_def r4_def r3_def r2_def r1_def
    by (simp_all split: if_splits)
  have "s = ''export'' @ r1" unfolding r1_def by (rule starts_with_drop [OF m(1)]) simp
  moreover have "r2 = ''class'' @ r3" unfolding r3_def by (rule starts_with_drop [OF m(4)]) simp
  moreover have "r1 = takeWhile js_space r1 @ r2" "r3 = takeWhile js_space r3 @ r4" "r4 = w @ rest"
    by (simp_all add: r2_def r4_def m(8,9))
  ultimately have "s = ''export'' @ takeWhile js_space r1 @ ''class'' @ takeWhile js_space r3 @ w @ rest"
    by metis
  moreover have "takeWhile js_space r1 \<noteq> []" "takeWhile js_space r3 \<noteq> []"
    using m(2,3,5,6) by (cases r1; simp) (use m(5,6) in \<open>cases r3; simp\<close>)
  ultimately show thesis
    using that m(7) hd_dropWhile [of word_char r4]
    by (metis m(8,9) set_takeWhileD)
qed

lemma no_match_inside:
  assumes m: "match_aggregate s = Some (w, rest)" and k: "0 < k" "k + length rest < length s"
  shows "match_aggregate (drop k s) = None"
proof (rule ccontr)
  assume "match_aggregate (drop k s) \<noteq> None"
  then have word: "takeWhile word_char (drop k s) = ''export''"
    using match_aggregate_word by (cases "match_aggregate (drop k s)") auto
  obtain ws ws' where s: "s = ''export'' @ ws @ ''class'' @ ws' @ w @ rest"
    and ws: "\<forall>c \<in> set ws. js_space c" "\<forall>c \<in> set ws'. js_space c" "ws \<noteq> []" "ws' \<noteq> []"
    and w: "\<forall>c \<in> set w. word_char c" "ends_with ''Aggregate'' w" "rest = [] \<or> \<not> word_char (hd rest)"
    using m by (rule match_aggregate_parts)
  define X where "X = ''export'' @ ws @ ''class'' @ ws'"
  have sX: "s = X @ w @ rest" using s by (simp add: X_def)
  show False
  proof (cases "k < length X")
    case True
    have "CHR ''e'' \<notin> set (tl X)"
      using ws(1,2) by (auto simp: X_def js_space_def)
    moreover have "X ! k \<in> set (tl X)" using k(1) True by (cases X; cases k) auto
    moreover have "drop k s \<noteq> []" "hd (drop k s) = X ! k"
      using True by (simp_all add: sX hd_drop_conv_nth nth_append)
    moreover have "hd (drop k s) = CHR ''e''"
      using word calculation(3) by (cases "drop k s") (auto split: if_splits)
    ultimately show False by simp
  next
    case False
    define v where "v = drop (k - length X) w"
    have v: "v \<noteq> []" using False k(2) by (simp add: sX v_def)
    have "drop k s = v @ rest" using False k(2) by (simp add: sX v_def)
    moreover have "\<forall>c \<in> set v. word_char c" using w(1) by (auto simp: v_def dest: in_set_dropD)
    moreover from this have "takeWhile word_char (v @ rest) = v @ takeWhile word_char rest"
      by (intro takeWhile_append2) blast
    moreover have "takeWhile word_char rest = []" using w(3) by (cases rest) auto
    ultimately have "v = ''export''" using word by simp
    moreover have "last v = last w" using v by (simp add: v_def)
    moreover have "last w = CHR ''e''"
    proof -
      have "w = take (length w - length ''Aggregate'') w @ ''Aggregate''"
        using w(2) unfolding ends_with_def by (metis append_take_drop_id)
      then show ?thesis by (rule ssubst) simp
    qed
    ultimately show False by simp
  qed
qed

lemma declares_skip:
  assumes "\<And>k. k < length x \<Longrightarrow> match_aggregate (drop k x @ t) = None"
  shows "declares (x @ t) c \<longleftrightarrow> declares t c"
proof
  assume "declares (x @ t) c"
  then obtain pre suf rest where d: "x @ t = pre @ suf" "match_aggregate suf = Some (c, rest)"
    by (auto simp: declares_def)
  have "length x \<le> length pre"
  proof (rule ccontr)
    assume "\<not> length x \<le> length pre"
    then have "suf = drop (length pre) x @ t" using d(1) by (auto simp: append_eq_append_conv2)
    with assms d(2) \<open>\<not> length x \<le> length pre\<close> show False by simp
  qed
  then obtain u where "pre = x @ u" "t = u @ suf" using d(1) by (auto simp: append_eq_append_conv2)
  with d(2) show "declares t c" by (auto simp: declares_def)
next
  assume "declares t c"
  then show "declares (x @ t) c" unfolding declares_def by (metis append_assoc)
qed

lemma match_aggregate_suffix:
  assumes "match_aggregate s = Some (w, rest)"
  obtains x where "s = x @ rest" "x \<noteq> []"
proof -
  obtain ws ws' where "s = (''export'' @ ws @ ''class'' @ ws' @ w) @ rest"
    using assms by (elim match_aggregate_parts) simp
  then show thesis by (rule that) simp
qed

lemma scan_declares: "c \<in> set (scan_aggregates s) \<longleftrightarrow> declares s c"
proof (induction s rule: scan_aggregates.induct)
  case (1 s)
  show ?case
  proof (cases "match_aggregate s")
    case (Some z)
    obtain w rest where z: "z = (w, rest)" by fastforce
    with Some have m: "match_aggregate s = Some (w, rest)" by simp
    then obtain x where x: "s = x @ rest" "x \<noteq> []" by (rule match_aggregate_suffix)
    then obtain a x' where x': "x = a # x'" by (cases x) auto
    have "declares (x' @ rest) c \<longleftrightarrow> declares rest c"
    proof (rule declares_skip)
      fix k assume "k < length x'"
      then show "match_aggregate (drop k x' @ rest) = None"
        using no_match_inside [OF m, of "Suc k"] by (simp add: x x')
    qed
    moreover have "declares s c \<longleftrightarrow> c = w \<or> declares (x' @ rest) c"
    proof
      assume "declares s c"
      then obtain pre suf r where "s = pre @ suf" "match_aggregate suf = Some (c, r)" by (auto simp: declares_def)
      then show "c = w \<or> declares (x' @ rest) c"
        using m by (cases pre) (auto simp: x x' declares_def)
    next
      assume "c = w \<or> declares (x' @ rest) c"
      then show "declares s c"
      proof
        assume "c = w"
        with m show ?thesis unfolding declares_def by (metis append_Nil)
      next
        assume "declares (x' @ rest) c"
        then show ?thesis unfolding declares_def x x' by (metis append_Cons)
      qed
    qed
    ultimately show ?thesis
      using 1(2) [OF Some, of w rest] by (subst scan_aggregates.simps) (simp add: Some z)
  next
    case None
    show ?thesis
    proof (cases s)
      case Nil
      with None show ?thesis
        by (subst scan_aggregates.simps) (simp add: declares_def)
    next
      case (Cons a cs)
      have "declares (a # cs) c \<longleftrightarrow> declares cs c"
        using declares_skip [of "[a]" cs c] None Cons by simp
      with Cons None 1(1) [OF None Cons] show ?thesis
        by (subst scan_aggregates.simps) simp
    qed
  qed
qed

section \<open>What the map holds\<close>

text \<open>
  The outcome of registering: \<open>D\<close> are the pairs of class and module that were to be registered, \<open>U\<close>
  the files that cannot be read.
\<close>

definition registered ::
  "(string \<times> string) set \<Rightarrow> string set \<Rightarrow> class_map \<Rightarrow> generator_error + class_map \<Rightarrow> bool" where
  "registered D U m r \<longleftrightarrow> (case r of
       Inr m' \<Rightarrow> distinct (map fst m') \<and> set m' = set m \<union> D
     | Inl (AmbiguousAggregate c n n') \<Rightarrow> n \<noteq> n' \<and> (c, n) \<in> set m \<union> D \<and> (c, n') \<in> D
     | Inl (ReadError p) \<Rightarrow> p \<in> U)"

definition map_ok :: "class_map \<Rightarrow> bool" where
  "map_ok m \<longleftrightarrow> distinct (map fst m) \<and> (\<forall>(c, n) \<in> set m. n \<noteq> [])"

lemma registered_ok: "registered D U m (Inr m') \<Longrightarrow> map_ok m \<Longrightarrow> \<forall>(c, n) \<in> D. n \<noteq> [] \<Longrightarrow> map_ok m'"
  by (auto simp: registered_def map_ok_def)

lemma registered_then:
  "registered D U m (Inr m1) \<Longrightarrow> registered D' U' m1 r \<Longrightarrow> registered (D \<union> D') (U \<union> U') m r"
  by (auto simp: registered_def split: sum.splits generator_error.splits)

lemma registered_error: "registered D U m (Inl e) \<Longrightarrow> registered (D \<union> D') (U \<union> U') m (Inl e)"
  by (auto simp: registered_def split: generator_error.splits)

lemma map_set_new: "c \<notin> fst ` set m \<Longrightarrow> map_set c n m = m @ [(c, n)]"
  by (simp add: map_set_def)

lemma map_set_same:
  assumes "distinct (map fst m)" and "(c, n) \<in> set m"
  shows "map_set c n m = m"
proof -
  have "(case p of (k', v') \<Rightarrow> if k' = c then (c, n) else (k', v')) = p" if "p \<in> set m" for p
    using key_unique [OF assms(1) that assms(2)] by (cases p) auto
  then have "map (\<lambda>(k', v'). if k' = c then (c, n) else (k', v')) m = m" by (simp add: map_idI)
  moreover have "c \<in> fst ` set m" using assms(2) by force
  ultimately show ?thesis by (simp add: map_set_def)
qed

lemma register_classes_spec:
  assumes "n \<noteq> []"
  shows "map_ok m \<Longrightarrow> registered ((\<lambda>c. (c, n)) ` set cs) {} m (register_classes n cs m)"
proof (induction cs arbitrary: m)
  case Nil
  then show ?case by (simp add: registered_def map_ok_def)
next
  case (Cons c cs)
  have step: "registered ((\<lambda>c. (c, n)) ` set (c # cs)) {} m (register_classes n cs m1)"
    if "registered {(c, n)} {} m (Inr m1)" for m1
  proof -
    have "map_ok m1" using that Cons.prems assms by (rule_tac registered_ok) auto
    from registered_then [OF that Cons.IH [OF this]] show ?thesis by simp
  qed
  show ?case
  proof (cases "map_of m c")
    case None
    then have "c \<notin> fst ` set m" by (simp add: map_of_eq_None_iff)
    then have "registered {(c, n)} {} m (Inr (map_set c n m))"
      using Cons.prems by (auto simp: registered_def map_ok_def map_set_new)
    with None step show ?thesis by simp
  next
    case (Some existing)
    then have e: "(c, existing) \<in> set m" by (rule map_of_SomeD)
    with Cons.prems have "existing \<noteq> []" by (auto simp: map_ok_def)
    show ?thesis
    proof (cases "existing = n")
      case True
      then have "registered {(c, n)} {} m (Inr (map_set c n m))"
        using Cons.prems e map_set_same [of m c n] by (auto simp: registered_def map_ok_def)
      with Some True step show ?thesis by simp
    next
      case False
      with Some e \<open>existing \<noteq> []\<close> show ?thesis by (auto simp: registered_def)
    qed
  qed
qed

text \<open>The pairs that a list of files of a module declares.\<close>

definition file_pairs :: "string \<Rightarrow> (string \<times> string option) list \<Rightarrow> (string \<times> string) set" where
  "file_pairs n fs = {(c, n') | c n'. n' = n \<and> (\<exists>p src. (p, Some src) \<in> set fs \<and> declares src c)}"

definition unreadable :: "(string \<times> string option) list \<Rightarrow> string set" where
  "unreadable fs = {p. (p, None) \<in> set fs}"

lemma file_pairs_Cons:
  "file_pairs n ((p, Some src) # fs) = (\<lambda>c. (c, n)) ` set (scan_aggregates src) \<union> file_pairs n fs"
  "file_pairs n ((p, None) # fs) = file_pairs n fs"
proof -
  show "file_pairs n ((p, Some src) # fs) = (\<lambda>c. (c, n)) ` set (scan_aggregates src) \<union> file_pairs n fs"
    unfolding file_pairs_def by (auto simp: scan_declares image_iff) blast+
  show "file_pairs n ((p, None) # fs) = file_pairs n fs" by (auto simp: file_pairs_def)
qed

lemma register_files_spec:
  assumes n: "n \<noteq> []"
  shows "map_ok m \<Longrightarrow> registered (file_pairs n fs) (unreadable fs) m (register_files n fs m)"
proof (induction fs arbitrary: m)
  case Nil
  then show ?case by (simp add: registered_def map_ok_def file_pairs_def)
next
  case (Cons f fs)
  obtain p z where f: "f = (p, z)" by fastforce
  show ?case
  proof (cases z)
    case None
    then show ?thesis by (simp add: f registerAggregateFile_def registered_def unreadable_def)
  next
    case (Some src)
    have U: "unreadable (f # fs) = unreadable fs" by (auto simp: f Some unreadable_def)
    have one: "registered ((\<lambda>c. (c, n)) ` set (scan_aggregates src)) {} m (registerAggregateFile n f m)"
      using register_classes_spec [OF n Cons.prems] by (simp add: f Some registerAggregateFile_def)
    show ?thesis
    proof (cases "registerAggregateFile n f m")
      case (Inl e)
      with one registered_error [of "(\<lambda>c. (c, n)) ` set (scan_aggregates src)" "{}" m e "file_pairs n fs"
          "unreadable fs"] show ?thesis
        by (simp add: f Some file_pairs_Cons U [unfolded f Some])
    next
      case (Inr m1)
      have "map_ok m1" using one Cons.prems n unfolding Inr by (rule_tac registered_ok) auto
      from registered_then [OF one [unfolded Inr] Cons.IH [OF this]] Inr show ?thesis
        by (simp add: f Some file_pairs_Cons U [unfolded f Some])
    qed
  qed
qed

text \<open>Class \<open>c\<close> is declared in module \<open>n\<close>: some aggregate file of the module's folder declares it.\<close>

definition in_module :: "dirent list \<Rightarrow> string \<Rightarrow> string \<Rightarrow> bool" where
  "in_module es c n \<longleftrightarrow> (\<exists>sub p src. DirEntry n sub \<in> set es \<and>
     (p, Some src) \<in> set (aggregate_files n sub) \<and> declares src c)"

definition unreadable_files :: "dirent list \<Rightarrow> string set" where
  "unreadable_files es = {p. \<exists>n sub. DirEntry n sub \<in> set es \<and> (p, None) \<in> set (aggregate_files n sub)}"

definition named :: "dirent list \<Rightarrow> bool" where
  "named es \<longleftrightarrow> (\<forall>sub. DirEntry [] sub \<notin> set es)"

lemma register_modules_spec:
  "map_ok m \<Longrightarrow> named es \<Longrightarrow>
     registered {(c, n). in_module es c n} (unreadable_files es) m (register_modules es m)"
proof (induction es m rule: register_modules.induct)
  case (1 m)
  then show ?case by (simp add: registered_def map_ok_def in_module_def)
next
  case (2 n sub es m)
  let ?fs = "aggregate_files n sub"
  have n: "n \<noteq> []" and es: "named es" using 2(3) by (auto simp: named_def)
  have D: "{(c, m). in_module (DirEntry n sub # es) c m} = file_pairs n ?fs \<union> {(c, n). in_module es c n}"
  proof -
    have iff: "in_module (DirEntry n sub # es) c n' \<longleftrightarrow> (c, n') \<in> file_pairs n ?fs \<or> in_module es c n'" for c n'
      unfolding in_module_def file_pairs_def by auto
    show ?thesis by (simp add: set_eq_iff iff)
  qed
  have U: "unreadable_files (DirEntry n sub # es) = unreadable ?fs \<union> unreadable_files es"
    by (auto simp: unreadable_files_def unreadable_def)
  note one = register_files_spec [OF n 2(2), of ?fs]
  show ?case
  proof (cases "register_files n ?fs m")
    case (Inl e)
    with one show ?thesis by (simp add: D U registered_error)
  next
    case (Inr m1)
    have "map_ok m1" using one 2(2) n unfolding Inr by (rule_tac registered_ok) (auto simp: file_pairs_def)
    from registered_then [OF one [unfolded Inr] 2(1) [OF Inr this es]] Inr show ?thesis by (simp add: D U)
  qed
next
  case (3 name c es m)
  then show ?case by (simp add: in_module_def unreadable_files_def named_def)
next
  case (4 name es m)
  then show ?case by (simp add: in_module_def unreadable_files_def named_def)
qed

lemma sorted_strictly:
  "distinct (map fst m) \<Longrightarrow> sorted_wrt (\<lambda>p q. fst p < fst q) (sort_key fst m)"
  for m :: "(('k :: linorder) \<times> 'v) list"
proof -
  assume "distinct (map fst m)"
  moreover have "set (map fst (sort_key fst m)) = set (map fst m)" by simp
  ultimately have "distinct (map fst (sort_key fst m))"
    by (metis card_distinct distinct_card length_map length_sort)
  then have "sorted_wrt (<) (map fst (sort_key fst m))"
    by (simp add: strict_sorted_iff)
  then show ?thesis by (simp add: sorted_wrt_map)
qed

text \<open>C37: the generated map is sorted by class name, each class once, and holds exactly the aggregate
  classes that the files of the contexts' aggregate folders declare, each with its context. The
  generator fails only for a class declared in two contexts, naming both, or a file it cannot
  read; in particular it does fail for a class declared twice.\<close>

theorem collected_mappings:
  assumes "named es"
  shows "case collectMappings (Some es) of
      Inr ms \<Rightarrow> sorted_wrt (\<lambda>p q. fst p < fst q) ms \<and> (\<forall>c n. (c, n) \<in> set ms \<longleftrightarrow> in_module es c n)
    | Inl (AmbiguousAggregate c n n') \<Rightarrow> n \<noteq> n' \<and> in_module es c n \<and> in_module es c n'
    | Inl (ReadError p) \<Rightarrow> p \<in> unreadable_files es"
proof -
  have "map_ok []" by (simp add: map_ok_def)
  from register_modules_spec [OF this assms] show ?thesis
    by (auto simp: registered_def collectMappings_def sorted_strictly
        split: sum.splits generator_error.splits)
qed

section \<open>The generated file\<close>

text \<open>\<open>banner\<close> is the comment at the head of the generated file, whose text is not modelled.\<close>

definition render_entry :: "string \<times> string \<Rightarrow> string" where
  "render_entry p = ''  '' @ fst p @ '': '' @ CHR 0x27 # snd p @ [CHR 0x27] @ '',''"

fun join_lines :: "string list \<Rightarrow> string" where
  "join_lines [] = []"
| "join_lines [l] = l"
| "join_lines (l # ls) = l @ CHR 0x0A # join_lines ls"

definition render :: "string \<Rightarrow> class_map \<Rightarrow> string" where
  "render banner mappings = (let entries = join_lines (map render_entry mappings) in
     banner @ ''export const AGGREGATE_MODULE_MAP: Readonly<Record<string, string>> = {'' @
     (if entries \<noteq> [] then CHR 0x0A # entries @ [CHR 0x0A] else []) @ ''};'' @ [CHR 0x0A])"

text \<open>\<open>main\<close>: the exit code of the process and the generated file after it; an uncaught error exits
  with 1. \<open>current\<close> is the file before, \<open>None\<close> when it cannot be read.\<close>

definition generator_main ::
  "string \<Rightarrow> bool \<Rightarrow> dirent list option \<Rightarrow> string option \<Rightarrow> nat \<times> string option" where
  "generator_main banner check contexts current = (case collectMappings contexts of
       Inl e \<Rightarrow> (1, current)
     | Inr mappings \<Rightarrow>
         (let content = render banner mappings in
          if check then (if (case current of None \<Rightarrow> [] | Some c \<Rightarrow> c) \<noteq> content then (1, current) else (0, current))
          else (0, Some content)))"

definition AGGREGATE_MODULE_MAP :: class_map where
  "AGGREGATE_MODULE_MAP = [(''AppAggregate'', ''app''), (''SessionAggregate'', ''auth''),
     (''TenantAggregate'', ''tenancy''), (''TenantMembershipAggregate'', ''tenancy''),
     (''UserAggregate'', ''user'')]"

section \<open>The map of the repository\<close>

text \<open>The aggregate files of the repository, each cut down to the declaration of its class.\<close>

definition source_of :: "string \<Rightarrow> string option" where
  "source_of c = Some (''export class '' @ c @ '' extends BaseAggregate {'')"

definition aggregates_dir :: "dirent list \<Rightarrow> dirent list option" where
  "aggregates_dir es = Some [DirEntry ''application'' (Some []),
     DirEntry ''domain'' (Some [DirEntry ''aggregates'' (Some es)])]"

definition repository_tree :: "dirent list" where
  "repository_tree =
     [DirEntry ''app'' (aggregates_dir [DirEntry ''app'' (Some
        [FileEntry ''app.aggregate.spec.ts'' (Some ''describe''),
         FileEntry ''app.aggregate.ts'' (source_of ''AppAggregate'')])]),
      DirEntry ''auth'' (aggregates_dir [FileEntry ''session.aggregate.ts'' (source_of ''SessionAggregate'')]),
      FileEntry ''contexts.module.ts'' (Some ''export class ContextsModule {}''),
      DirEntry ''tenancy'' (aggregates_dir
        [DirEntry ''tenant'' (Some [FileEntry ''tenant.aggregate.ts'' (source_of ''TenantAggregate'')]),
         DirEntry ''tenant-membership'' (Some
           [FileEntry ''tenant-membership.aggregate.ts'' (source_of ''TenantMembershipAggregate'')])]),
      DirEntry ''user'' (aggregates_dir [FileEntry ''user.aggregate.ts'' (source_of ''UserAggregate'')])]"

lemma repository_mappings: "collectMappings (Some repository_tree) = Inr AGGREGATE_MODULE_MAP"
  by code_simp

lemma collected_mappings_witness:
  "\<forall>c n. (c, n) \<in> set AGGREGATE_MODULE_MAP \<longleftrightarrow> in_module repository_tree c n"
proof -
  have "named repository_tree" by (simp add: named_def repository_tree_def)
  from collected_mappings [OF this] show ?thesis by (simp add: repository_mappings)
qed

end
