(* ===== verification/Observability.thy ===== *)
theory Observability
  imports User_Context
begin

text \<open>
  \<open>CqrsObservabilityService\<close> (\<open>src/core/observability\<close>): at start-up it replaces \<open>execute\<close> of the
  command bus and of the query bus by a wrapper that opens a span around the dispatch, records its
  duration and counts it. The model keeps the calls the wrapper makes to OpenTelemetry, in their
  order, beside the state of the service.

  A dispatch either throws before it returns a promise (no handler is registered for the message)
  or returns a promise that resolves or rejects. A thrown value need not be an \<open>Error\<close>.
\<close>

section \<open>The bus and the telemetry\<close>

datatype 'e thrown = IsError 'e | NotError string

datatype ('e, 'a) dispatch =
    Throws "'e thrown"
  | Rejects "'e thrown"
  | Resolves 'a

text \<open>A call to the span, the histogram or the counter; a duration is its milliseconds.\<close>

datatype otel_call =
    StartSpan string
  | SetStatusOk
  | SetStatusError string
  | RecordException string
  | EndSpan
  | RecordDuration int string string string
  | AddCount nat string string string

record ('c, 's) traced =
  tr_calls :: "otel_call list"
  tr_clock :: 'c
  tr_state :: 's

type_synonym ('m, 's, 'e, 'a) bus = "'m \<Rightarrow> 's \<Rightarrow> ('e, 'a) dispatch \<times> 's"

section \<open>The wrapper\<close>

text \<open>\<open>error instanceof Error ? error : new Error(String(error))\<close>; \<open>msg\<close> is the message of an error.\<close>

definition thrown_message :: "('e \<Rightarrow> string) \<Rightarrow> 'e thrown \<Rightarrow> string" where
  "thrown_message msg error = (case error of IsError e \<Rightarrow> msg e | NotError s \<Rightarrow> s)"

definition otel :: "otel_call list \<Rightarrow> ('c, 's) traced \<Rightarrow> ('c, 's) traced" where
  "otel cs t = t\<lparr>tr_calls := tr_calls t @ cs\<rparr>"

definition recordMetrics ::
  "('c \<Rightarrow> int \<times> 'c) \<Rightarrow> string \<Rightarrow> string \<Rightarrow> string \<Rightarrow> int \<Rightarrow> ('c, 's) traced \<Rightarrow> ('c, 's) traced" where
  "recordMetrics clock kind name status startedAt t =
     (case clock (tr_clock t) of (time, c) \<Rightarrow>
        otel [RecordDuration (time - startedAt) name kind status, AddCount 1 name kind status]
          (t\<lparr>tr_clock := c\<rparr>))"

text \<open>\<open>name_of message\<close> is \<open>message?.constructor?.name\<close>.\<close>

definition instrument ::
  "('c \<Rightarrow> int \<times> 'c) \<Rightarrow> ('e \<Rightarrow> string) \<Rightarrow> ('m \<Rightarrow> string option) \<Rightarrow> string \<Rightarrow> ('m, 's, 'e, 'a) bus \<Rightarrow>
   ('m, ('c, 's) traced, 'e, 'a) bus" where
  "instrument clock msg name_of kind original message t0 =
     (let name = (case name_of message of None \<Rightarrow> ''unknown'' | Some n \<Rightarrow> n) in
      case clock (tr_clock t0) of (startedAt, c) \<Rightarrow>
        let t1 = otel [StartSpan (kind @ ''.'' @ name)] (t0\<lparr>tr_clock := c\<rparr>) in
        case original message (tr_state t1) of (d, s) \<Rightarrow>
          let t2 = t1\<lparr>tr_state := s\<rparr> in
          (case d of
             Throws e \<Rightarrow> (Throws e, t2)
           | Resolves result \<Rightarrow>
               (Resolves result, otel [EndSpan]
                 (recordMetrics clock kind name ''success'' startedAt (otel [SetStatusOk] t2)))
           | Rejects e \<Rightarrow>
               (Rejects e, otel [EndSpan]
                 (recordMetrics clock kind name ''error'' startedAt
                   (otel [RecordException (thrown_message msg e), SetStatusError (thrown_message msg e)] t2)))))"

text \<open>What start-up leaves in place of the two buses.\<close>

definition onModuleInit ::
  "('c \<Rightarrow> int \<times> 'c) \<Rightarrow> ('e \<Rightarrow> string) \<Rightarrow> ('m \<Rightarrow> string option) \<Rightarrow> ('q \<Rightarrow> string option) \<Rightarrow>
   ('m, 's, 'e, 'a) bus \<Rightarrow> ('q, 's, 'e, 'b) bus \<Rightarrow>
   ('m, ('c, 's) traced, 'e, 'a) bus \<times> ('q, ('c, 's) traced, 'e, 'b) bus" where
  "onModuleInit clock msg name_of name_of' commandBus queryBus =
     (instrument clock msg name_of ''command'' commandBus, instrument clock msg name_of' ''query'' queryBus)"

text \<open>A run of dispatches, one after the other; a caller catches what it throws.\<close>

fun dispatch_all :: "('m, 's, 'e, 'a) bus \<Rightarrow> 'm list \<Rightarrow> 's \<Rightarrow> ('e, 'a) dispatch list \<times> 's" where
  "dispatch_all bus [] s = ([], s)"
| "dispatch_all bus (m # ms) s = (case bus m s of (d, s1) \<Rightarrow>
     (case dispatch_all bus ms s1 of (ds, s2) \<Rightarrow> (d # ds, s2)))"

section \<open>What the wrapper changes\<close>

fun is_count :: "string \<Rightarrow> otel_call \<Rightarrow> bool" where
  "is_count status (AddCount n name kind st) = (n = 1 \<and> st = status)"
| "is_count status _ = False"

fun is_start :: "otel_call \<Rightarrow> bool" where
  "is_start (StartSpan n) = True"
| "is_start _ = False"

fun resolved :: "('e, 'a) dispatch \<Rightarrow> bool" where
  "resolved (Resolves a) = True"
| "resolved _ = False"

fun rejected :: "('e, 'a) dispatch \<Rightarrow> bool" where
  "rejected (Rejects e) = True"
| "rejected _ = False"

text \<open>The calls of one dispatch.\<close>

lemma instrument_calls:
  assumes "instrument clock msg name_of kind original m t = (d, t')"
  obtains name startedAt time where "name = (case name_of m of None \<Rightarrow> ''unknown'' | Some n \<Rightarrow> n)"
    and "original m (tr_state t) = (d, tr_state t')"
    and "tr_calls t' = tr_calls t @ StartSpan (kind @ ''.'' @ name) # (case d of
       Throws e \<Rightarrow> []
     | Resolves r \<Rightarrow> [SetStatusOk, RecordDuration (time - startedAt) name kind ''success'',
         AddCount 1 name kind ''success'', EndSpan]
     | Rejects e \<Rightarrow> [RecordException (thrown_message msg e), SetStatusError (thrown_message msg e),
         RecordDuration (time - startedAt) name kind ''error'', AddCount 1 name kind ''error'', EndSpan])"
proof -
  obtain startedAt c where c: "clock (tr_clock t) = (startedAt, c)" by fastforce
  obtain time c' where c': "clock c = (time, c')" by fastforce
  obtain d0 s where o: "original m (tr_state t) = (d0, s)" by fastforce
  show thesis
    by (rule that [OF refl, of time startedAt])
      (use assms c c' o in \<open>auto simp: instrument_def Let_def otel_def recordMetrics_def split: dispatch.splits\<close>)
qed

lemma dispatch_all_instrumented:
  "dispatch_all (instrument clock msg name_of kind original) ms t = (ds, t') \<Longrightarrow>
     dispatch_all original ms (tr_state t) = (ds, tr_state t') \<and>
     (\<exists>cs. tr_calls t' = tr_calls t @ cs \<and>
        length (filter is_start cs) = length ms \<and>
        length (filter (\<lambda>c. c = EndSpan) cs) = length (filter resolved ds) + length (filter rejected ds) \<and>
        length (filter (is_count ''success'') cs) = length (filter resolved ds) \<and>
        length (filter (is_count ''error'') cs) = length (filter rejected ds))"
proof (induction ms arbitrary: t ds)
  case Nil
  then show ?case by simp
next
  case (Cons m ms)
  obtain d t1 where one: "instrument clock msg name_of kind original m t = (d, t1)" by fastforce
  obtain ds' where rest: "dispatch_all (instrument clock msg name_of kind original) ms t1 = (ds', t')"
    and ds: "ds = d # ds'" using Cons.prems one by (auto split: prod.splits)
  from Cons.IH [OF rest] obtain cs where run: "dispatch_all original ms (tr_state t1) = (ds', tr_state t')"
    and cs: "tr_calls t' = tr_calls t1 @ cs" "length (filter is_start cs) = length ms"
      "length (filter (\<lambda>c. c = EndSpan) cs) = length (filter resolved ds') + length (filter rejected ds')"
      "length (filter (is_count ''success'') cs) = length (filter resolved ds')"
      "length (filter (is_count ''error'') cs) = length (filter rejected ds')" by blast
  from one show ?case
  proof (rule instrument_calls)
    fix name startedAt time
    assume "original m (tr_state t) = (d, tr_state t1)"
      and "tr_calls t1 = tr_calls t @ StartSpan (kind @ ''.'' @ name) # (case d of
         Throws e \<Rightarrow> []
       | Resolves r \<Rightarrow> [SetStatusOk, RecordDuration (time - startedAt) name kind ''success'',
           AddCount 1 name kind ''success'', EndSpan]
       | Rejects e \<Rightarrow> [RecordException (thrown_message msg e), SetStatusError (thrown_message msg e),
           RecordDuration (time - startedAt) name kind ''error'', AddCount 1 name kind ''error'', EndSpan])"
    with run cs ds show ?case
      by (cases d) auto
  qed
qed

text \<open>C36: the instrumented bus is transparent: over any sequence of dispatches the callers get what the
  bare bus gives them, and the state changes in the same way. Each dispatch opens one span; each
  that settles ends it and is counted once, as a success if it resolved and as an error if it
  rejected. A dispatch that throws before it returns a promise is the exception: its span stays
  open and it is not counted.\<close>

theorem instrumented_bus_transparent:
  "case dispatch_all (instrument clock msg name_of kind original) ms t of (ds, t') \<Rightarrow>
     dispatch_all original ms (tr_state t) = (ds, tr_state t') \<and>
     (\<exists>cs. tr_calls t' = tr_calls t @ cs \<and>
        length (filter is_start cs) = length ms \<and>
        length (filter (\<lambda>c. c = EndSpan) cs) = length (filter resolved ds) + length (filter rejected ds) \<and>
        length (filter (is_count ''success'') cs) = length (filter resolved ds) \<and>
        length (filter (is_count ''error'') cs) = length (filter rejected ds))"
proof (cases "dispatch_all (instrument clock msg name_of kind original) ms t")
  case (Pair ds t')
  show ?thesis using dispatch_all_instrumented [OF Pair] by (simp only: Pair prod.case)
qed

end
