(* ===== verification/Injectables.thy ===== *)
theory Injectables
  imports Main
begin

text \<open>
  The classes that NestJS constructs, each with what its decorators and its constructor declare: the
  tokens it injects, the guards of its routes, the message it handles, and the messages it sends over
  the command and query buses. \<open>Module_Wiring\<close> has the modules that provide them.

  The two \<open>USER_LOOKUP_PORT\<close>s are different symbols. \<open>TenantPermissionGuard\<close> is a class that the kit
  makes; it has no declaration here. \<open>super(eventBus)\<close> counts as an injection of the event bus.
\<close>

section \<open>Names\<close>

datatype user_class =
    UserTypeOrmReadRepository | UserTypeOrmWriteRepository | UserTypeOrmMapper
  | AssertUserExistsService | AssertUserEmailAvailableService | SetUserPlatformAdminCommandHandler
  | CreateUserCommandHandler | UserFindByEmailQueryHandler | UserFindByIdQueryHandler
  | UserBuilder

datatype app_class =
    AppTypeOrmReadRepository | AppTypeOrmWriteRepository | AppTypeOrmMapper
  | AssertAppSlugAvailableService | AssertAppExistsService | CreateAppCommandHandler
  | AppFindByIdQueryHandler | AppFindByCriteriaQueryHandler | AppsController | AppRestMapper
  | AppMutationsResolver | AppQueriesResolver | AppGraphQLMapper | AppBuilder

datatype tenancy_class =
    TenantMembershipTypeOrmReadRepository | TenantMembershipTypeOrmWriteRepository
  | TenantTypeOrmReadRepository | TenantTypeOrmWriteRepository | TenantMembershipTypeOrmMapper
  | TenantTypeOrmMapper | UserLookupAdapter | AppLookupAdapter | AssertTenantOwnerService
  | AssertTenantExistsService | AssertTenantMembershipAvailableService | AssertAppExistsService
  | AssertTenantSlugAvailableService | DeleteTenantCommandHandler | CreateTenantCommandHandler
  | AddTenantMemberCommandHandler | UpdateTenantCommandHandler | TenantFindByCriteriaQueryHandler
  | TenantMembershipFindByUserIdQueryHandler | TenantMembershipFindByTenantIdQueryHandler
  | TenantsController | TenantRestMapper | TenantMembershipRestMapper | TenantMutationsResolver
  | TenantQueriesResolver | TenantGraphQLMapper | TenantMembershipGraphQLMapper | TenantBuilder
  | TenantMembershipBuilder | TenantPermissionGuard

datatype auth_class =
    SessionTypeOrmWriteRepository | SessionTypeOrmMapper | KeycloakIdentityProviderAdapter
  | TenantMembershipLookupAdapter | UserLookupAdapter | UserPlatformAdminAdapter
  | UserProvisioningAdapter | HashRefreshTokenService | GenerateRefreshTokenService
  | TokenSignService | TokenVerifyService | ReconcilePlatformAdminService
  | LoginUserCommandHandler | RegisterUserCommandHandler | RefreshSessionCommandHandler
  | AuthController | SessionBuilder

datatype core_class =
    CqrsObservabilityService | HealthController | PingResolver | JwksController | JwksService
  | JwtAuthGuard | PlatformAdminGuard

datatype service_class =
    UserClass user_class
  | AppClass app_class
  | TenancyClass tenancy_class
  | AuthClass auth_class
  | CoreClass core_class

datatype injection_symbol =
    USER_READ_REPOSITORY | USER_WRITE_REPOSITORY | APP_READ_REPOSITORY | APP_WRITE_REPOSITORY
  | TENANT_READ_REPOSITORY | TENANT_WRITE_REPOSITORY | TENANT_MEMBERSHIP_READ_REPOSITORY
  | TENANT_MEMBERSHIP_WRITE_REPOSITORY | APP_LOOKUP_PORT | TENANCY_USER_LOOKUP_PORT
  | SESSION_WRITE_REPOSITORY | IDENTITY_PROVIDER_PORT | TENANT_MEMBERSHIP_LOOKUP_PORT
  | AUTH_USER_LOOKUP_PORT | USER_PROVISIONING_PORT | USER_PLATFORM_ADMIN_PORT

datatype entity_class = UserEntity | SessionEntity | AppEntity | TenantEntity | TenantMembershipEntity

text \<open>Classes of the libraries and of the kit that the service injects.\<close>

datatype library_class =
    CommandBus | QueryBus | EventBus | ConfigService | JwtService | HttpService
  | HealthCheckService | TypeOrmHealthIndicator | MutationResponseGraphQLMapper

datatype token =
    ClassToken service_class
  | SymbolToken injection_symbol
  | RepositoryToken entity_class
  | LibraryToken library_class

datatype command =
    CreateUserCommand | SetUserPlatformAdminCommand | CreateAppCommand | CreateTenantCommand
  | UpdateTenantCommand | DeleteTenantCommand | AddTenantMemberCommand | RegisterUserCommand
  | LoginUserCommand | RefreshSessionCommand

datatype query =
    UserFindByEmailQuery | UserFindByIdQuery | AppFindByIdQuery | AppFindByCriteriaQuery
  | TenantFindByCriteriaQuery | TenantMembershipFindByTenantIdQuery
  | TenantMembershipFindByUserIdQuery

datatype message = Command command | Query query

section \<open>Declarations\<close>

record injectable =
  ij_class :: service_class
  ij_injects :: "token list"
  ij_guards :: "service_class list"
  ij_handles :: "message option"
  ij_sends :: "message list"

text \<open>The class decorators of NestJS.\<close>

definition Injectable :: "service_class \<Rightarrow> token list \<Rightarrow> message list \<Rightarrow> injectable" where
  "Injectable c tokens sends = \<lparr>ij_class = c, ij_injects = tokens, ij_guards = [], ij_handles = None,
     ij_sends = sends\<rparr>"

definition CommandHandler :: "command \<Rightarrow> service_class \<Rightarrow> token list \<Rightarrow> injectable" where
  "CommandHandler m c tokens = \<lparr>ij_class = c, ij_injects = tokens, ij_guards = [],
     ij_handles = Some (Command m), ij_sends = []\<rparr>"

definition QueryHandler :: "query \<Rightarrow> service_class \<Rightarrow> token list \<Rightarrow> injectable" where
  "QueryHandler m c tokens = \<lparr>ij_class = c, ij_injects = tokens, ij_guards = [],
     ij_handles = Some (Query m), ij_sends = []\<rparr>"

definition Controller ::
  "service_class \<Rightarrow> service_class list \<Rightarrow> token list \<Rightarrow> message list \<Rightarrow> injectable" where
  "Controller c guards tokens sends = \<lparr>ij_class = c, ij_injects = tokens, ij_guards = guards,
     ij_handles = None, ij_sends = sends\<rparr>"

definition Resolver ::
  "service_class \<Rightarrow> service_class list \<Rightarrow> token list \<Rightarrow> message list \<Rightarrow> injectable" where
  "Resolver c guards tokens sends = \<lparr>ij_class = c, ij_injects = tokens, ij_guards = guards,
     ij_handles = None, ij_sends = sends\<rparr>"

section \<open>The classes of \<open>user\<close>\<close>

definition UserTypeOrmReadRepository_class :: injectable where
  "UserTypeOrmReadRepository_class = Injectable (UserClass UserTypeOrmReadRepository)
     [RepositoryToken UserEntity, ClassToken (UserClass UserTypeOrmMapper)] []"

definition UserTypeOrmWriteRepository_class :: injectable where
  "UserTypeOrmWriteRepository_class = Injectable (UserClass UserTypeOrmWriteRepository)
     [RepositoryToken UserEntity, ClassToken (UserClass UserTypeOrmMapper)] []"

definition UserTypeOrmMapper_class :: injectable where
  "UserTypeOrmMapper_class = Injectable (UserClass UserTypeOrmMapper)
     [ClassToken (UserClass UserBuilder)] []"

definition AssertUserExistsService_class :: injectable where
  "AssertUserExistsService_class = Injectable (UserClass AssertUserExistsService)
     [SymbolToken USER_WRITE_REPOSITORY] []"

definition AssertUserEmailAvailableService_class :: injectable where
  "AssertUserEmailAvailableService_class = Injectable (UserClass AssertUserEmailAvailableService)
     [SymbolToken USER_WRITE_REPOSITORY] []"

definition SetUserPlatformAdminCommandHandler_class :: injectable where
  "SetUserPlatformAdminCommandHandler_class = CommandHandler SetUserPlatformAdminCommand (UserClass SetUserPlatformAdminCommandHandler)
     [ClassToken (UserClass AssertUserExistsService), SymbolToken USER_WRITE_REPOSITORY,
      LibraryToken EventBus]"

definition CreateUserCommandHandler_class :: injectable where
  "CreateUserCommandHandler_class = CommandHandler CreateUserCommand (UserClass CreateUserCommandHandler)
     [SymbolToken USER_WRITE_REPOSITORY, ClassToken (UserClass AssertUserEmailAvailableService),
      ClassToken (UserClass UserBuilder), LibraryToken EventBus]"

definition UserFindByEmailQueryHandler_class :: injectable where
  "UserFindByEmailQueryHandler_class = QueryHandler UserFindByEmailQuery (UserClass UserFindByEmailQueryHandler)
     [SymbolToken USER_READ_REPOSITORY]"

definition UserFindByIdQueryHandler_class :: injectable where
  "UserFindByIdQueryHandler_class = QueryHandler UserFindByIdQuery (UserClass UserFindByIdQueryHandler)
     [SymbolToken USER_READ_REPOSITORY]"

definition UserBuilder_class :: injectable where
  "UserBuilder_class = Injectable (UserClass UserBuilder)
     [] []"

section \<open>The classes of \<open>app\<close>\<close>

definition AppTypeOrmReadRepository_class :: injectable where
  "AppTypeOrmReadRepository_class = Injectable (AppClass AppTypeOrmReadRepository)
     [RepositoryToken AppEntity, ClassToken (AppClass AppTypeOrmMapper)] []"

definition AppTypeOrmWriteRepository_class :: injectable where
  "AppTypeOrmWriteRepository_class = Injectable (AppClass AppTypeOrmWriteRepository)
     [RepositoryToken AppEntity, ClassToken (AppClass AppTypeOrmMapper)] []"

definition AppTypeOrmMapper_class :: injectable where
  "AppTypeOrmMapper_class = Injectable (AppClass AppTypeOrmMapper)
     [ClassToken (AppClass AppBuilder)] []"

definition AssertAppSlugAvailableService_class :: injectable where
  "AssertAppSlugAvailableService_class = Injectable (AppClass AssertAppSlugAvailableService)
     [SymbolToken APP_WRITE_REPOSITORY] []"

definition AppAssertAppExistsService_class :: injectable where
  "AppAssertAppExistsService_class = Injectable (AppClass app_class.AssertAppExistsService)
     [SymbolToken APP_WRITE_REPOSITORY] []"

definition CreateAppCommandHandler_class :: injectable where
  "CreateAppCommandHandler_class = CommandHandler CreateAppCommand (AppClass CreateAppCommandHandler)
     [SymbolToken APP_WRITE_REPOSITORY, ClassToken (AppClass AssertAppSlugAvailableService),
      ClassToken (AppClass AppBuilder), LibraryToken EventBus]"

definition AppFindByIdQueryHandler_class :: injectable where
  "AppFindByIdQueryHandler_class = QueryHandler AppFindByIdQuery (AppClass AppFindByIdQueryHandler)
     [SymbolToken APP_READ_REPOSITORY]"

definition AppFindByCriteriaQueryHandler_class :: injectable where
  "AppFindByCriteriaQueryHandler_class = QueryHandler AppFindByCriteriaQuery (AppClass AppFindByCriteriaQueryHandler)
     [SymbolToken APP_READ_REPOSITORY]"

definition AppsController_class :: injectable where
  "AppsController_class = Controller (AppClass AppsController)
     [CoreClass JwtAuthGuard]
     [LibraryToken CommandBus, LibraryToken QueryBus, ClassToken (AppClass AppRestMapper)]
     [Command CreateAppCommand, Query AppFindByCriteriaQuery]"

definition AppRestMapper_class :: injectable where
  "AppRestMapper_class = Injectable (AppClass AppRestMapper)
     [] []"

definition AppMutationsResolver_class :: injectable where
  "AppMutationsResolver_class = Resolver (AppClass AppMutationsResolver)
     [CoreClass JwtAuthGuard]
     [LibraryToken CommandBus, LibraryToken MutationResponseGraphQLMapper]
     [Command CreateAppCommand]"

definition AppQueriesResolver_class :: injectable where
  "AppQueriesResolver_class = Resolver (AppClass AppQueriesResolver)
     []
     [LibraryToken QueryBus, ClassToken (AppClass AppGraphQLMapper)]
     [Query AppFindByIdQuery, Query AppFindByCriteriaQuery]"

definition AppGraphQLMapper_class :: injectable where
  "AppGraphQLMapper_class = Injectable (AppClass AppGraphQLMapper)
     [] []"

definition AppBuilder_class :: injectable where
  "AppBuilder_class = Injectable (AppClass AppBuilder)
     [] []"

section \<open>The classes of \<open>tenancy\<close>\<close>

definition TenantMembershipTypeOrmReadRepository_class :: injectable where
  "TenantMembershipTypeOrmReadRepository_class = Injectable (TenancyClass TenantMembershipTypeOrmReadRepository)
     [RepositoryToken TenantMembershipEntity,
      ClassToken (TenancyClass TenantMembershipTypeOrmMapper)] []"

definition TenantMembershipTypeOrmWriteRepository_class :: injectable where
  "TenantMembershipTypeOrmWriteRepository_class = Injectable (TenancyClass TenantMembershipTypeOrmWriteRepository)
     [RepositoryToken TenantMembershipEntity,
      ClassToken (TenancyClass TenantMembershipTypeOrmMapper)] []"

definition TenantTypeOrmReadRepository_class :: injectable where
  "TenantTypeOrmReadRepository_class = Injectable (TenancyClass TenantTypeOrmReadRepository)
     [RepositoryToken TenantEntity, ClassToken (TenancyClass TenantTypeOrmMapper)] []"

definition TenantTypeOrmWriteRepository_class :: injectable where
  "TenantTypeOrmWriteRepository_class = Injectable (TenancyClass TenantTypeOrmWriteRepository)
     [RepositoryToken TenantEntity, ClassToken (TenancyClass TenantTypeOrmMapper)] []"

definition TenantMembershipTypeOrmMapper_class :: injectable where
  "TenantMembershipTypeOrmMapper_class = Injectable (TenancyClass TenantMembershipTypeOrmMapper)
     [ClassToken (TenancyClass TenantMembershipBuilder)] []"

definition TenantTypeOrmMapper_class :: injectable where
  "TenantTypeOrmMapper_class = Injectable (TenancyClass TenantTypeOrmMapper)
     [ClassToken (TenancyClass TenantBuilder)] []"

definition TenancyUserLookupAdapter_class :: injectable where
  "TenancyUserLookupAdapter_class = Injectable (TenancyClass tenancy_class.UserLookupAdapter)
     [LibraryToken QueryBus] [Query UserFindByEmailQuery]"

definition AppLookupAdapter_class :: injectable where
  "AppLookupAdapter_class = Injectable (TenancyClass AppLookupAdapter)
     [LibraryToken QueryBus] [Query AppFindByIdQuery]"

definition AssertTenantOwnerService_class :: injectable where
  "AssertTenantOwnerService_class = Injectable (TenancyClass AssertTenantOwnerService)
     [SymbolToken TENANT_MEMBERSHIP_WRITE_REPOSITORY] []"

definition AssertTenantExistsService_class :: injectable where
  "AssertTenantExistsService_class = Injectable (TenancyClass AssertTenantExistsService)
     [SymbolToken TENANT_WRITE_REPOSITORY] []"

definition AssertTenantMembershipAvailableService_class :: injectable where
  "AssertTenantMembershipAvailableService_class = Injectable (TenancyClass AssertTenantMembershipAvailableService)
     [SymbolToken TENANT_MEMBERSHIP_WRITE_REPOSITORY] []"

definition TenancyAssertAppExistsService_class :: injectable where
  "TenancyAssertAppExistsService_class = Injectable (TenancyClass tenancy_class.AssertAppExistsService)
     [SymbolToken APP_LOOKUP_PORT] []"

definition AssertTenantSlugAvailableService_class :: injectable where
  "AssertTenantSlugAvailableService_class = Injectable (TenancyClass AssertTenantSlugAvailableService)
     [SymbolToken TENANT_WRITE_REPOSITORY] []"

definition DeleteTenantCommandHandler_class :: injectable where
  "DeleteTenantCommandHandler_class = CommandHandler DeleteTenantCommand (TenancyClass DeleteTenantCommandHandler)
     [SymbolToken TENANT_WRITE_REPOSITORY, SymbolToken TENANT_MEMBERSHIP_WRITE_REPOSITORY,
      ClassToken (TenancyClass AssertTenantExistsService),
      ClassToken (TenancyClass AssertTenantOwnerService), LibraryToken EventBus]"

definition CreateTenantCommandHandler_class :: injectable where
  "CreateTenantCommandHandler_class = CommandHandler CreateTenantCommand (TenancyClass CreateTenantCommandHandler)
     [SymbolToken TENANT_WRITE_REPOSITORY, SymbolToken TENANT_MEMBERSHIP_WRITE_REPOSITORY,
      ClassToken (TenancyClass tenancy_class.AssertAppExistsService),
      ClassToken (TenancyClass AssertTenantSlugAvailableService),
      ClassToken (TenancyClass TenantBuilder), ClassToken (TenancyClass TenantMembershipBuilder),
      LibraryToken EventBus]"

definition AddTenantMemberCommandHandler_class :: injectable where
  "AddTenantMemberCommandHandler_class = CommandHandler AddTenantMemberCommand (TenancyClass AddTenantMemberCommandHandler)
     [SymbolToken TENANT_MEMBERSHIP_WRITE_REPOSITORY, SymbolToken TENANCY_USER_LOOKUP_PORT,
      ClassToken (TenancyClass AssertTenantExistsService),
      ClassToken (TenancyClass AssertTenantMembershipAvailableService),
      ClassToken (TenancyClass TenantMembershipBuilder), LibraryToken EventBus]"

definition UpdateTenantCommandHandler_class :: injectable where
  "UpdateTenantCommandHandler_class = CommandHandler UpdateTenantCommand (TenancyClass UpdateTenantCommandHandler)
     [SymbolToken TENANT_WRITE_REPOSITORY, ClassToken (TenancyClass AssertTenantExistsService),
      ClassToken (TenancyClass AssertTenantSlugAvailableService), LibraryToken EventBus]"

definition TenantFindByCriteriaQueryHandler_class :: injectable where
  "TenantFindByCriteriaQueryHandler_class = QueryHandler TenantFindByCriteriaQuery (TenancyClass TenantFindByCriteriaQueryHandler)
     [SymbolToken TENANT_READ_REPOSITORY]"

definition TenantMembershipFindByUserIdQueryHandler_class :: injectable where
  "TenantMembershipFindByUserIdQueryHandler_class = QueryHandler TenantMembershipFindByUserIdQuery (TenancyClass TenantMembershipFindByUserIdQueryHandler)
     [SymbolToken TENANT_MEMBERSHIP_READ_REPOSITORY]"

definition TenantMembershipFindByTenantIdQueryHandler_class :: injectable where
  "TenantMembershipFindByTenantIdQueryHandler_class = QueryHandler TenantMembershipFindByTenantIdQuery (TenancyClass TenantMembershipFindByTenantIdQueryHandler)
     [SymbolToken TENANT_MEMBERSHIP_READ_REPOSITORY,
      ClassToken (TenancyClass AssertTenantExistsService)]"

definition TenantsController_class :: injectable where
  "TenantsController_class = Controller (TenancyClass TenantsController)
     [CoreClass JwtAuthGuard, CoreClass PlatformAdminGuard, TenancyClass TenantPermissionGuard]
     [LibraryToken CommandBus, LibraryToken QueryBus,
      ClassToken (TenancyClass TenantMembershipRestMapper),
      ClassToken (TenancyClass TenantRestMapper)]
     [Query TenantFindByCriteriaQuery, Command CreateTenantCommand, Command UpdateTenantCommand,
      Command DeleteTenantCommand, Command AddTenantMemberCommand,
      Query TenantMembershipFindByTenantIdQuery]"

definition TenantRestMapper_class :: injectable where
  "TenantRestMapper_class = Injectable (TenancyClass TenantRestMapper)
     [] []"

definition TenantMembershipRestMapper_class :: injectable where
  "TenantMembershipRestMapper_class = Injectable (TenancyClass TenantMembershipRestMapper)
     [] []"

definition TenantMutationsResolver_class :: injectable where
  "TenantMutationsResolver_class = Resolver (TenancyClass TenantMutationsResolver)
     [CoreClass JwtAuthGuard, TenancyClass TenantPermissionGuard]
     [LibraryToken CommandBus, LibraryToken MutationResponseGraphQLMapper]
     [Command CreateTenantCommand, Command UpdateTenantCommand, Command DeleteTenantCommand,
      Command AddTenantMemberCommand]"

definition TenantQueriesResolver_class :: injectable where
  "TenantQueriesResolver_class = Resolver (TenancyClass TenantQueriesResolver)
     [CoreClass JwtAuthGuard, CoreClass PlatformAdminGuard, TenancyClass TenantPermissionGuard]
     [LibraryToken QueryBus, ClassToken (TenancyClass TenantGraphQLMapper),
      ClassToken (TenancyClass TenantMembershipGraphQLMapper)]
     [Query TenantFindByCriteriaQuery, Query TenantMembershipFindByTenantIdQuery]"

definition TenantGraphQLMapper_class :: injectable where
  "TenantGraphQLMapper_class = Injectable (TenancyClass TenantGraphQLMapper)
     [] []"

definition TenantMembershipGraphQLMapper_class :: injectable where
  "TenantMembershipGraphQLMapper_class = Injectable (TenancyClass TenantMembershipGraphQLMapper)
     [] []"

definition TenantBuilder_class :: injectable where
  "TenantBuilder_class = Injectable (TenancyClass TenantBuilder)
     [] []"

definition TenantMembershipBuilder_class :: injectable where
  "TenantMembershipBuilder_class = Injectable (TenancyClass TenantMembershipBuilder)
     [] []"

section \<open>The classes of \<open>auth\<close>\<close>

definition SessionTypeOrmWriteRepository_class :: injectable where
  "SessionTypeOrmWriteRepository_class = Injectable (AuthClass SessionTypeOrmWriteRepository)
     [RepositoryToken SessionEntity, ClassToken (AuthClass SessionTypeOrmMapper)] []"

definition SessionTypeOrmMapper_class :: injectable where
  "SessionTypeOrmMapper_class = Injectable (AuthClass SessionTypeOrmMapper)
     [ClassToken (AuthClass SessionBuilder)] []"

definition KeycloakIdentityProviderAdapter_class :: injectable where
  "KeycloakIdentityProviderAdapter_class = Injectable (AuthClass KeycloakIdentityProviderAdapter)
     [LibraryToken HttpService, LibraryToken ConfigService] []"

definition TenantMembershipLookupAdapter_class :: injectable where
  "TenantMembershipLookupAdapter_class = Injectable (AuthClass TenantMembershipLookupAdapter)
     [LibraryToken QueryBus] [Query TenantMembershipFindByUserIdQuery]"

definition AuthUserLookupAdapter_class :: injectable where
  "AuthUserLookupAdapter_class = Injectable (AuthClass auth_class.UserLookupAdapter)
     [LibraryToken QueryBus] [Query UserFindByEmailQuery, Query UserFindByIdQuery]"

definition UserPlatformAdminAdapter_class :: injectable where
  "UserPlatformAdminAdapter_class = Injectable (AuthClass UserPlatformAdminAdapter)
     [LibraryToken CommandBus] [Command SetUserPlatformAdminCommand]"

definition UserProvisioningAdapter_class :: injectable where
  "UserProvisioningAdapter_class = Injectable (AuthClass UserProvisioningAdapter)
     [LibraryToken CommandBus] [Command CreateUserCommand]"

definition HashRefreshTokenService_class :: injectable where
  "HashRefreshTokenService_class = Injectable (AuthClass HashRefreshTokenService)
     [] []"

definition GenerateRefreshTokenService_class :: injectable where
  "GenerateRefreshTokenService_class = Injectable (AuthClass GenerateRefreshTokenService)
     [] []"

definition TokenSignService_class :: injectable where
  "TokenSignService_class = Injectable (AuthClass TokenSignService)
     [LibraryToken JwtService] []"

definition TokenVerifyService_class :: injectable where
  "TokenVerifyService_class = Injectable (AuthClass TokenVerifyService)
     [LibraryToken JwtService] []"

definition ReconcilePlatformAdminService_class :: injectable where
  "ReconcilePlatformAdminService_class = Injectable (AuthClass ReconcilePlatformAdminService)
     [] []"

definition LoginUserCommandHandler_class :: injectable where
  "LoginUserCommandHandler_class = CommandHandler LoginUserCommand (AuthClass LoginUserCommandHandler)
     [SymbolToken AUTH_USER_LOOKUP_PORT, SymbolToken IDENTITY_PROVIDER_PORT,
      SymbolToken TENANT_MEMBERSHIP_LOOKUP_PORT, SymbolToken SESSION_WRITE_REPOSITORY,
      ClassToken (AuthClass TokenSignService), ClassToken (AuthClass GenerateRefreshTokenService),
      ClassToken (AuthClass HashRefreshTokenService),
      ClassToken (AuthClass ReconcilePlatformAdminService), SymbolToken USER_PLATFORM_ADMIN_PORT,
      ClassToken (AuthClass SessionBuilder), LibraryToken ConfigService]"

definition RegisterUserCommandHandler_class :: injectable where
  "RegisterUserCommandHandler_class = CommandHandler RegisterUserCommand (AuthClass RegisterUserCommandHandler)
     [SymbolToken AUTH_USER_LOOKUP_PORT, SymbolToken IDENTITY_PROVIDER_PORT,
      SymbolToken USER_PROVISIONING_PORT]"

definition RefreshSessionCommandHandler_class :: injectable where
  "RefreshSessionCommandHandler_class = CommandHandler RefreshSessionCommand (AuthClass RefreshSessionCommandHandler)
     [SymbolToken SESSION_WRITE_REPOSITORY, SymbolToken AUTH_USER_LOOKUP_PORT,
      SymbolToken TENANT_MEMBERSHIP_LOOKUP_PORT, ClassToken (AuthClass TokenSignService),
      ClassToken (AuthClass GenerateRefreshTokenService),
      ClassToken (AuthClass HashRefreshTokenService), LibraryToken ConfigService,
      ClassToken (AuthClass SessionBuilder)]"

definition AuthController_class :: injectable where
  "AuthController_class = Controller (AuthClass AuthController)
     []
     [LibraryToken CommandBus, LibraryToken ConfigService]
     [Command RegisterUserCommand, Command LoginUserCommand, Command RefreshSessionCommand]"

definition SessionBuilder_class :: injectable where
  "SessionBuilder_class = Injectable (AuthClass SessionBuilder)
     [] []"

section \<open>The classes of \<open>core\<close>\<close>

definition CqrsObservabilityService_class :: injectable where
  "CqrsObservabilityService_class = Injectable (CoreClass CqrsObservabilityService)
     [LibraryToken CommandBus, LibraryToken QueryBus] []"

definition HealthController_class :: injectable where
  "HealthController_class = Controller (CoreClass HealthController)
     []
     [LibraryToken HealthCheckService, LibraryToken TypeOrmHealthIndicator]
     []"

definition PingResolver_class :: injectable where
  "PingResolver_class = Resolver (CoreClass PingResolver)
     []
     []
     []"

definition JwksController_class :: injectable where
  "JwksController_class = Controller (CoreClass JwksController)
     []
     [LibraryToken ConfigService, ClassToken (CoreClass JwksService)]
     []"

definition JwksService_class :: injectable where
  "JwksService_class = Injectable (CoreClass JwksService)
     [] []"

definition JwtAuthGuard_class :: injectable where
  "JwtAuthGuard_class = Injectable (CoreClass JwtAuthGuard)
     [LibraryToken JwtService] []"

definition PlatformAdminGuard_class :: injectable where
  "PlatformAdminGuard_class = Injectable (CoreClass PlatformAdminGuard)
     [] []"

section \<open>All of them\<close>

definition CLASSES :: "injectable list" where
  "CLASSES =
     [UserTypeOrmReadRepository_class, UserTypeOrmWriteRepository_class, UserTypeOrmMapper_class
      , AssertUserExistsService_class, AssertUserEmailAvailableService_class
      , SetUserPlatformAdminCommandHandler_class, CreateUserCommandHandler_class
      , UserFindByEmailQueryHandler_class, UserFindByIdQueryHandler_class, UserBuilder_class
      , AppTypeOrmReadRepository_class, AppTypeOrmWriteRepository_class, AppTypeOrmMapper_class
      , AssertAppSlugAvailableService_class, AppAssertAppExistsService_class
      , CreateAppCommandHandler_class, AppFindByIdQueryHandler_class
      , AppFindByCriteriaQueryHandler_class, AppsController_class, AppRestMapper_class
      , AppMutationsResolver_class, AppQueriesResolver_class, AppGraphQLMapper_class
      , AppBuilder_class, TenantMembershipTypeOrmReadRepository_class
      , TenantMembershipTypeOrmWriteRepository_class, TenantTypeOrmReadRepository_class
      , TenantTypeOrmWriteRepository_class, TenantMembershipTypeOrmMapper_class
      , TenantTypeOrmMapper_class, TenancyUserLookupAdapter_class, AppLookupAdapter_class
      , AssertTenantOwnerService_class, AssertTenantExistsService_class
      , AssertTenantMembershipAvailableService_class, TenancyAssertAppExistsService_class
      , AssertTenantSlugAvailableService_class, DeleteTenantCommandHandler_class
      , CreateTenantCommandHandler_class, AddTenantMemberCommandHandler_class
      , UpdateTenantCommandHandler_class, TenantFindByCriteriaQueryHandler_class
      , TenantMembershipFindByUserIdQueryHandler_class
      , TenantMembershipFindByTenantIdQueryHandler_class, TenantsController_class
      , TenantRestMapper_class, TenantMembershipRestMapper_class, TenantMutationsResolver_class
      , TenantQueriesResolver_class, TenantGraphQLMapper_class, TenantMembershipGraphQLMapper_class
      , TenantBuilder_class, TenantMembershipBuilder_class, SessionTypeOrmWriteRepository_class
      , SessionTypeOrmMapper_class, KeycloakIdentityProviderAdapter_class
      , TenantMembershipLookupAdapter_class, AuthUserLookupAdapter_class
      , UserPlatformAdminAdapter_class, UserProvisioningAdapter_class, HashRefreshTokenService_class
      , GenerateRefreshTokenService_class, TokenSignService_class, TokenVerifyService_class
      , ReconcilePlatformAdminService_class, LoginUserCommandHandler_class
      , RegisterUserCommandHandler_class, RefreshSessionCommandHandler_class, AuthController_class
      , SessionBuilder_class, CqrsObservabilityService_class, HealthController_class
      , PingResolver_class, JwksController_class, JwksService_class, JwtAuthGuard_class
      , PlatformAdminGuard_class]"

end
