(* ===== verification/Module_Wiring.thy ===== *)
theory Module_Wiring
  imports Injectables
begin

text \<open>
  The modules of the service, from \<open>app.module.ts\<close> down, and what NestJS asks of them: that every
  class it constructs finds what its constructor injects, that every message sent over a bus has one
  handler, and that no chain of constructions and messages comes back to where it started.

  What the modules of the libraries export is a parameter; \<open>library_ok\<close> states what the service
  relies on.
\<close>

section \<open>Modules\<close>

datatype own_module =
    RootModule | CoreModule | ContextsModule | SupportModule | LoggingModule | ObservabilityModule
  | HealthModule | SecurityModule | UserModule | AuthModule | AppModule | TenancyModule

datatype library_module =
    CqrsModule | CqrsModuleForRoot | SharedGraphQLModule | ConfigModuleForRoot bool
  | TypeOrmModuleForRootAsync | TypeOrmModuleForFeature "entity_class list" | GraphQLModuleForRoot
  | MessagingModuleForRoot | EventStoreModuleForRoot | McpModuleForRoot | HttpModule
  | TerminusModule | JwtModuleRegisterAsync | WinstonModuleForRoot

datatype module_ref = Own own_module | Library library_module

datatype export = ExportClass service_class | ExportModule module_ref

text \<open>A provider is a token with the class bound to it: \<open>{ provide, useClass }\<close>, or a class by itself.\<close>

type_synonym provider = "token \<times> service_class"

definition self_provided :: "service_class \<Rightarrow> provider" where
  "self_provided c = (ClassToken c, c)"

record nest_module =
  md_name :: own_module
  md_global :: bool
  md_imports :: "module_ref list"
  md_controllers :: "service_class list"
  md_providers :: "provider list"
  md_exports :: "export list"

definition UserModule_module :: nest_module where
  "UserModule_module =
     (let COMMAND_HANDLERS = map UserClass [CreateUserCommandHandler, SetUserPlatformAdminCommandHandler];
        QUERY_HANDLERS = map UserClass [UserFindByEmailQueryHandler, UserFindByIdQueryHandler];
        APPLICATION_SERVICES = map UserClass [AssertUserEmailAvailableService, AssertUserExistsService];
        DOMAIN_BUILDERS = map UserClass [UserBuilder];
        INFRASTRUCTURE_MAPPERS = map UserClass [UserTypeOrmMapper];
        INFRASTRUCTURE_REPOSITORIES =
          [(SymbolToken USER_WRITE_REPOSITORY, UserClass UserTypeOrmWriteRepository),
           (SymbolToken USER_READ_REPOSITORY, UserClass UserTypeOrmReadRepository)];
        INFRASTRUCTURE_ENTITIES = [UserEntity]
      in \<lparr>md_name = UserModule, md_global = False,
          md_imports = [Library CqrsModule, Library (TypeOrmModuleForFeature INFRASTRUCTURE_ENTITIES)],
          md_controllers = [],
          md_providers = map self_provided (COMMAND_HANDLERS @ QUERY_HANDLERS @ APPLICATION_SERVICES @
            DOMAIN_BUILDERS @ INFRASTRUCTURE_MAPPERS) @ INFRASTRUCTURE_REPOSITORIES,
          md_exports = []\<rparr>)"

definition AppModule_module :: nest_module where
  "AppModule_module =
     (let COMMAND_HANDLERS = map AppClass [CreateAppCommandHandler];
        QUERY_HANDLERS = map AppClass [AppFindByCriteriaQueryHandler, AppFindByIdQueryHandler];
        APPLICATION_SERVICES = map AppClass [AssertAppSlugAvailableService, app_class.AssertAppExistsService];
        DOMAIN_BUILDERS = map AppClass [AppBuilder];
        INFRASTRUCTURE_MAPPERS = map AppClass [AppTypeOrmMapper];
        INFRASTRUCTURE_REPOSITORIES =
          [(SymbolToken APP_WRITE_REPOSITORY, AppClass AppTypeOrmWriteRepository),
           (SymbolToken APP_READ_REPOSITORY, AppClass AppTypeOrmReadRepository)];
        INFRASTRUCTURE_ENTITIES = [AppEntity];
        TRANSPORT_MAPPERS = map AppClass [AppRestMapper];
        TRANSPORT_REST_CONTROLLERS = map AppClass [AppsController];
        TRANSPORT_GRAPHQL_MAPPERS = map AppClass [AppGraphQLMapper];
        TRANSPORT_GRAPHQL_RESOLVERS = map AppClass [AppQueriesResolver, AppMutationsResolver]
      in \<lparr>md_name = AppModule, md_global = False,
          md_imports = [Library CqrsModule, Library (TypeOrmModuleForFeature INFRASTRUCTURE_ENTITIES)],
          md_controllers = TRANSPORT_REST_CONTROLLERS,
          md_providers = map self_provided (COMMAND_HANDLERS @ QUERY_HANDLERS @ APPLICATION_SERVICES @
            DOMAIN_BUILDERS @ INFRASTRUCTURE_MAPPERS) @ INFRASTRUCTURE_REPOSITORIES @
            map self_provided (TRANSPORT_MAPPERS @ TRANSPORT_GRAPHQL_MAPPERS @ TRANSPORT_GRAPHQL_RESOLVERS),
          md_exports = []\<rparr>)"

definition AuthModule_module :: nest_module where
  "AuthModule_module =
     (let COMMAND_HANDLERS = map AuthClass
          [RegisterUserCommandHandler, LoginUserCommandHandler, RefreshSessionCommandHandler];
        APPLICATION_SERVICES = map AuthClass
          [TokenSignService, TokenVerifyService, GenerateRefreshTokenService, HashRefreshTokenService,
           ReconcilePlatformAdminService];
        DOMAIN_BUILDERS = map AuthClass [SessionBuilder];
        INFRASTRUCTURE_MAPPERS = map AuthClass [SessionTypeOrmMapper];
        INFRASTRUCTURE_REPOSITORIES =
          [(SymbolToken SESSION_WRITE_REPOSITORY, AuthClass SessionTypeOrmWriteRepository)];
        INFRASTRUCTURE_ENTITIES = [SessionEntity];
        INFRASTRUCTURE_ADAPTERS =
          [(SymbolToken IDENTITY_PROVIDER_PORT, AuthClass KeycloakIdentityProviderAdapter),
           (SymbolToken TENANT_MEMBERSHIP_LOOKUP_PORT, AuthClass TenantMembershipLookupAdapter),
           (SymbolToken AUTH_USER_LOOKUP_PORT, AuthClass auth_class.UserLookupAdapter),
           (SymbolToken USER_PROVISIONING_PORT, AuthClass UserProvisioningAdapter),
           (SymbolToken USER_PLATFORM_ADMIN_PORT, AuthClass UserPlatformAdminAdapter)];
        TRANSPORT_REST_CONTROLLERS = map AuthClass [AuthController]
      in \<lparr>md_name = AuthModule, md_global = False,
          md_imports = [Library CqrsModule, Library HttpModule,
            Library (TypeOrmModuleForFeature INFRASTRUCTURE_ENTITIES)],
          md_controllers = TRANSPORT_REST_CONTROLLERS,
          md_providers = map self_provided (COMMAND_HANDLERS @ APPLICATION_SERVICES @ DOMAIN_BUILDERS @
            INFRASTRUCTURE_MAPPERS) @ INFRASTRUCTURE_REPOSITORIES @ INFRASTRUCTURE_ADAPTERS,
          md_exports = [ExportClass (AuthClass TokenSignService), ExportClass (AuthClass TokenVerifyService)]\<rparr>)"

definition TenancyModule_module :: nest_module where
  "TenancyModule_module =
     (let COMMAND_HANDLERS = map TenancyClass
          [CreateTenantCommandHandler, UpdateTenantCommandHandler, DeleteTenantCommandHandler,
           AddTenantMemberCommandHandler];
        QUERY_HANDLERS = map TenancyClass
          [TenantFindByCriteriaQueryHandler, TenantMembershipFindByTenantIdQueryHandler,
           TenantMembershipFindByUserIdQueryHandler];
        APPLICATION_SERVICES = map TenancyClass
          [tenancy_class.AssertAppExistsService, AssertTenantSlugAvailableService,
           AssertTenantExistsService, AssertTenantOwnerService, AssertTenantMembershipAvailableService];
        DOMAIN_BUILDERS = map TenancyClass [TenantBuilder, TenantMembershipBuilder];
        INFRASTRUCTURE_MAPPERS = map TenancyClass [TenantTypeOrmMapper, TenantMembershipTypeOrmMapper];
        INFRASTRUCTURE_REPOSITORIES =
          [(SymbolToken TENANT_WRITE_REPOSITORY, TenancyClass TenantTypeOrmWriteRepository),
           (SymbolToken TENANT_MEMBERSHIP_WRITE_REPOSITORY, TenancyClass TenantMembershipTypeOrmWriteRepository),
           (SymbolToken TENANT_MEMBERSHIP_READ_REPOSITORY, TenancyClass TenantMembershipTypeOrmReadRepository),
           (SymbolToken TENANT_READ_REPOSITORY, TenancyClass TenantTypeOrmReadRepository)];
        INFRASTRUCTURE_ENTITIES = [TenantEntity, TenantMembershipEntity];
        INFRASTRUCTURE_ADAPTERS =
          [(SymbolToken APP_LOOKUP_PORT, TenancyClass AppLookupAdapter),
           (SymbolToken TENANCY_USER_LOOKUP_PORT, TenancyClass tenancy_class.UserLookupAdapter)];
        INFRASTRUCTURE_GUARDS = map TenancyClass [TenantPermissionGuard];
        TRANSPORT_MAPPERS = map TenancyClass [TenantMembershipRestMapper, TenantRestMapper];
        TRANSPORT_REST_CONTROLLERS = map TenancyClass [TenantsController];
        TRANSPORT_GRAPHQL_MAPPERS = map TenancyClass [TenantGraphQLMapper, TenantMembershipGraphQLMapper];
        TRANSPORT_GRAPHQL_RESOLVERS = map TenancyClass [TenantQueriesResolver, TenantMutationsResolver]
      in \<lparr>md_name = TenancyModule, md_global = False,
          md_imports = [Library CqrsModule, Library (TypeOrmModuleForFeature INFRASTRUCTURE_ENTITIES)],
          md_controllers = TRANSPORT_REST_CONTROLLERS,
          md_providers = map self_provided (COMMAND_HANDLERS @ QUERY_HANDLERS @ APPLICATION_SERVICES @
            DOMAIN_BUILDERS @ INFRASTRUCTURE_MAPPERS) @ INFRASTRUCTURE_REPOSITORIES @ INFRASTRUCTURE_ADAPTERS @
            map self_provided (INFRASTRUCTURE_GUARDS @ TRANSPORT_MAPPERS @ TRANSPORT_GRAPHQL_MAPPERS @
              TRANSPORT_GRAPHQL_RESOLVERS),
          md_exports = []\<rparr>)"

definition ContextsModule_module :: nest_module where
  "ContextsModule_module =
     (let CONTEXT_MODULES = [UserModule, AuthModule, AppModule, TenancyModule]
      in \<lparr>md_name = ContextsModule, md_global = False, md_imports = map Own CONTEXT_MODULES,
          md_controllers = [], md_providers = [], md_exports = []\<rparr>)"

definition LoggingModule_module :: nest_module where
  "LoggingModule_module = \<lparr>md_name = LoggingModule, md_global = False,
     md_imports = [Library WinstonModuleForRoot], md_controllers = [], md_providers = [],
     md_exports = [ExportModule (Library WinstonModuleForRoot)]\<rparr>"

definition SupportModule_module :: nest_module where
  "SupportModule_module =
     (let SUPPORT_MODULES = [Own LoggingModule]
      in \<lparr>md_name = SupportModule, md_global = False, md_imports = SUPPORT_MODULES,
          md_controllers = [], md_providers = [], md_exports = map ExportModule SUPPORT_MODULES\<rparr>)"

definition ObservabilityModule_module :: nest_module where
  "ObservabilityModule_module = \<lparr>md_name = ObservabilityModule, md_global = False,
     md_imports = [Library CqrsModule], md_controllers = [],
     md_providers = [self_provided (CoreClass CqrsObservabilityService)], md_exports = []\<rparr>"

definition HealthModule_module :: nest_module where
  "HealthModule_module = \<lparr>md_name = HealthModule, md_global = False,
     md_imports = [Library TerminusModule], md_controllers = [CoreClass HealthController],
     md_providers = [], md_exports = []\<rparr>"

definition SecurityModule_module :: nest_module where
  "SecurityModule_module =
     (let REST_CONTROLLERS = map CoreClass [JwksController]
      in \<lparr>md_name = SecurityModule, md_global = True, md_imports = [Library JwtModuleRegisterAsync],
          md_controllers = REST_CONTROLLERS,
          md_providers = map (self_provided \<circ> CoreClass) [JwtAuthGuard, PlatformAdminGuard, JwksService],
          md_exports = [ExportModule (Library JwtModuleRegisterAsync), ExportClass (CoreClass JwtAuthGuard),
            ExportClass (CoreClass PlatformAdminGuard)]\<rparr>)"

definition CoreModule_module :: nest_module where
  "CoreModule_module =
     (let CORE_MODULES =
        [Own SupportModule, Library CqrsModuleForRoot, Library SharedGraphQLModule,
         Library (ConfigModuleForRoot True), Library TypeOrmModuleForRootAsync,
         Library GraphQLModuleForRoot, Own ObservabilityModule, Library MessagingModuleForRoot,
         Library EventStoreModuleForRoot, Own HealthModule, Own SecurityModule, Library McpModuleForRoot]
      in \<lparr>md_name = CoreModule, md_global = False, md_imports = CORE_MODULES, md_controllers = [],
          md_providers = [self_provided (CoreClass PingResolver)], md_exports = []\<rparr>)"

definition RootModule_module :: nest_module where
  "RootModule_module = \<lparr>md_name = RootModule, md_global = False,
     md_imports = [Own CoreModule, Own ContextsModule], md_controllers = [], md_providers = [],
     md_exports = []\<rparr>"

definition MODULES :: "nest_module list" where
  "MODULES = [RootModule_module, CoreModule_module, ContextsModule_module, SupportModule_module,
     LoggingModule_module, ObservabilityModule_module, HealthModule_module, SecurityModule_module,
     UserModule_module, AuthModule_module, AppModule_module, TenancyModule_module]"

end
