(* ===== verification/Wiring_Properties.thy ===== *)
theory Wiring_Properties
  imports Module_Wiring
begin

text \<open>
  The module graph starts: injections resolve, messages have handlers, and construction and dispatch
  come to an end. Each fact is computed from the declarations, under what the library modules are
  documented to export at least.
\<close>

section \<open>What a module can inject\<close>

record library =
  exports_of :: "library_module \<Rightarrow> token set"
  is_global :: "library_module \<Rightarrow> bool"

definition documented_exports :: "library_module \<Rightarrow> token list" where
  "documented_exports m = (case m of
       CqrsModule \<Rightarrow> [LibraryToken CommandBus, LibraryToken QueryBus, LibraryToken EventBus]
     | SharedGraphQLModule \<Rightarrow> [LibraryToken MutationResponseGraphQLMapper]
     | ConfigModuleForRoot g \<Rightarrow> [LibraryToken ConfigService]
     | TypeOrmModuleForFeature es \<Rightarrow> map RepositoryToken es
     | HttpModule \<Rightarrow> [LibraryToken HttpService]
     | TerminusModule \<Rightarrow> [LibraryToken HealthCheckService, LibraryToken TypeOrmHealthIndicator]
     | JwtModuleRegisterAsync \<Rightarrow> [LibraryToken JwtService]
     | _ \<Rightarrow> [])"

text \<open>\<open>ConfigModule.forRoot\<close> is global when \<open>isGlobal\<close> is set, and so is the kit's GraphQL module.\<close>

definition documented_global :: "library_module \<Rightarrow> bool" where
  "documented_global m = (case m of ConfigModuleForRoot g \<Rightarrow> g | SharedGraphQLModule \<Rightarrow> True | _ \<Rightarrow> False)"

definition library_ok :: "library \<Rightarrow> bool" where
  "library_ok X \<longleftrightarrow> (\<forall>m. set (documented_exports m) \<subseteq> exports_of X m \<and> (documented_global m \<longrightarrow> is_global X m))"

text \<open>A module exports classes it provides and, whole, modules it imports.\<close>

inductive exported :: "library \<Rightarrow> module_ref \<Rightarrow> token \<Rightarrow> bool" for X where
  exported_library: "t \<in> exports_of X m \<Longrightarrow> exported X (Library m) t"
| exported_class: "M \<in> set MODULES \<Longrightarrow> ExportClass c \<in> set (md_exports M) \<Longrightarrow>
    ClassToken c \<in> fst ` set (md_providers M) \<Longrightarrow> exported X (Own (md_name M)) (ClassToken c)"
| exported_module: "M \<in> set MODULES \<Longrightarrow> ExportModule r \<in> set (md_exports M) \<Longrightarrow>
    r \<in> set (md_imports M) \<Longrightarrow> exported X r t \<Longrightarrow> exported X (Own (md_name M)) t"

inductive reachable :: "own_module \<Rightarrow> bool" where
  reachable_root: "reachable RootModule"
| reachable_import: "reachable (md_name M) \<Longrightarrow> M \<in> set MODULES \<Longrightarrow> Own m \<in> set (md_imports M) \<Longrightarrow> reachable m"

definition global_ref :: "library \<Rightarrow> module_ref \<Rightarrow> bool" where
  "global_ref X r \<longleftrightarrow> (\<exists>M \<in> set MODULES. reachable (md_name M) \<and> r \<in> set (md_imports M)) \<and>
     (case r of Library m \<Rightarrow> is_global X m | Own m \<Rightarrow> \<exists>M \<in> set MODULES. md_name M = m \<and> md_global M)"

definition resolvable :: "library \<Rightarrow> nest_module \<Rightarrow> token \<Rightarrow> bool" where
  "resolvable X M t \<longleftrightarrow> t \<in> fst ` set (md_providers M) \<or> (\<exists>r \<in> set (md_imports M). exported X r t) \<or>
     (\<exists>r. global_ref X r \<and> exported X r t)"

text \<open>The classes NestJS constructs in a module: its providers, its controllers, and the guards they name.\<close>

definition module_classes :: "nest_module \<Rightarrow> service_class list" where
  "module_classes M = map snd (md_providers M) @ md_controllers M"

definition constructed :: "nest_module \<Rightarrow> service_class list" where
  "constructed M = (let cs = module_classes M
     in cs @ concat (map ij_guards (filter (\<lambda>J. ij_class J \<in> set cs) CLASSES)))"

section \<open>Every injection resolves\<close>

text \<open>What the declarations and the documentation give each module, as lists to compare with.\<close>

fun exports_upto :: "nat \<Rightarrow> module_ref \<Rightarrow> token list" where
  "exports_upto 0 r = []"
| "exports_upto (Suc n) (Library m) = documented_exports m"
| "exports_upto (Suc n) (Own m) = concat (map (\<lambda>M. if md_name M = m then
       concat (map (\<lambda>e. case e of
           ExportClass c \<Rightarrow> if ClassToken c \<in> fst ` set (md_providers M) then [ClassToken c] else []
         | ExportModule r \<Rightarrow> if r \<in> set (md_imports M) then exports_upto n r else [])
         (md_exports M))
       else []) MODULES)"

lemma exports_upto_exported:
  assumes "library_ok X"
  shows "t \<in> set (exports_upto n r) \<Longrightarrow> exported X r t"
proof (induction n arbitrary: r t)
  case (Suc n)
  show ?case
  proof (cases r)
    case (Library m)
    with Suc.prems assms show ?thesis by (auto simp: library_ok_def intro: exported_library)
  next
    case (Own m)
    with Suc.prems obtain M e where M: "M \<in> set MODULES" "md_name M = m" and e: "e \<in> set (md_exports M)"
      and t: "t \<in> set (case e of
           ExportClass c \<Rightarrow> if ClassToken c \<in> fst ` set (md_providers M) then [ClassToken c] else []
         | ExportModule r \<Rightarrow> if r \<in> set (md_imports M) then exports_upto n r else [])"
      by (auto split: if_splits)
    from t have "exported X (Own (md_name M)) t"
      by (cases e) (use M e in \<open>auto split: if_splits intro: exported_class exported_module Suc.IH\<close>)
    with M(2) Own show ?thesis by simp
  qed
qed simp

definition globals :: "module_ref list" where
  "globals = [Library (ConfigModuleForRoot True), Library SharedGraphQLModule, Own SecurityModule]"

lemma module_members:
  "RootModule_module \<in> set MODULES" "CoreModule_module \<in> set MODULES" "ContextsModule_module \<in> set MODULES"
  "SupportModule_module \<in> set MODULES" "SecurityModule_module \<in> set MODULES"
  by (simp_all add: MODULES_def)

lemma module_names:
  "md_name RootModule_module = RootModule" "md_name CoreModule_module = CoreModule"
  "md_name ContextsModule_module = ContextsModule" "md_name SupportModule_module = SupportModule"
  "md_name SecurityModule_module = SecurityModule" "md_global SecurityModule_module"
  by (simp_all add: RootModule_module_def CoreModule_module_def ContextsModule_module_def
      SupportModule_module_def SecurityModule_module_def Let_def)

lemma all_reachable: "reachable m"
proof -
  have root: "reachable CoreModule" "reachable ContextsModule"
    using reachable_import [OF _ module_members(1)] reachable_root
    by (auto simp: module_names RootModule_module_def)
  have core: "reachable SupportModule" "reachable ObservabilityModule" "reachable HealthModule"
    "reachable SecurityModule"
    using reachable_import [OF _ module_members(2)] root(1)
    by (auto simp: module_names CoreModule_module_def Let_def)
  have contexts: "reachable UserModule" "reachable AuthModule" "reachable AppModule" "reachable TenancyModule"
    using reachable_import [OF _ module_members(3)] root(2)
    by (auto simp: module_names ContextsModule_module_def Let_def)
  have "reachable LoggingModule"
    using reachable_import [OF _ module_members(4)] core(1)
    by (auto simp: module_names SupportModule_module_def Let_def)
  with reachable_root root core contexts show ?thesis by (cases m) auto
qed

lemma globals_global:
  assumes "library_ok X" and "r \<in> set globals"
  shows "global_ref X r"
proof -
  have "r \<in> set (md_imports CoreModule_module)"
    using assms(2) by (auto simp: globals_def CoreModule_module_def Let_def)
  moreover have "case r of Library m \<Rightarrow> is_global X m | Own m \<Rightarrow> \<exists>M \<in> set MODULES. md_name M = m \<and> md_global M"
    using assms module_members(5) module_names(5,6)
    by (auto simp: globals_def library_ok_def documented_global_def)
  ultimately show ?thesis
    using module_members(2) all_reachable by (auto simp: global_ref_def)
qed

definition offered :: "nest_module \<Rightarrow> token list" where
  "offered M = map fst (md_providers M) @ concat (map (exports_upto 3) (md_imports M @ globals))"

lemma offered_resolvable:
  "library_ok X \<Longrightarrow> t \<in> set (offered M) \<Longrightarrow> resolvable X M t"
  unfolding offered_def resolvable_def
  using exports_upto_exported [of X t 3] globals_global [of X] by fastforce

definition resolves :: "nest_module \<Rightarrow> bool" where
  "resolves M = (let cs = constructed M; ts = offered M
     in list_all (\<lambda>J. list_all (\<lambda>t. t \<in> set ts) (ij_injects J)) (filter (\<lambda>J. ij_class J \<in> set cs) CLASSES))"

lemma all_resolve: "list_all resolves MODULES"
  by code_simp

text \<open>C38: the service starts: with libraries that export what they document, every class that NestJS
  constructs in a module, guards of its controllers included, finds each token its constructor injects
  among the providers of that module, the exports of its imports, or a global module; every module is
  imported from the root, no module binds a token twice, and every class is provided by one module.\<close>

theorem modules_resolve:
  assumes "library_ok X"
  shows "(\<forall>M \<in> set MODULES. \<forall>J \<in> set CLASSES. ij_class J \<in> set (constructed M) \<longrightarrow>
      (\<forall>t \<in> set (ij_injects J). resolvable X M t)) \<and>
    (\<forall>m. reachable m) \<and> (\<forall>M \<in> set MODULES. distinct (map fst (md_providers M))) \<and>
    (\<forall>J \<in> set CLASSES. length (filter (\<lambda>M. ij_class J \<in> set (module_classes M)) MODULES) = 1)"
proof (intro conjI)
  show "\<forall>M \<in> set MODULES. \<forall>J \<in> set CLASSES. ij_class J \<in> set (constructed M) \<longrightarrow>
      (\<forall>t \<in> set (ij_injects J). resolvable X M t)"
    using all_resolve offered_resolvable [OF assms] by (auto simp: resolves_def list_all_iff Let_def)
  show "\<forall>m. reachable m" by (simp add: all_reachable)
  have "list_all (\<lambda>M. distinct (map fst (md_providers M))) MODULES" by code_simp
  then show "\<forall>M \<in> set MODULES. distinct (map fst (md_providers M))" by (simp add: list_all_iff)
  have "list_all (\<lambda>J. length (filter (\<lambda>M. ij_class J \<in> set (module_classes M)) MODULES) = 1) CLASSES"
    by code_simp
  then show "\<forall>J \<in> set CLASSES. length (filter (\<lambda>M. ij_class J \<in> set (module_classes M)) MODULES) = 1"
    by (simp only: list_all_iff)
qed

text \<open>Libraries that export and share exactly what they document.\<close>

definition sample_library :: library where
  "sample_library = \<lparr>exports_of = (\<lambda>m. set (documented_exports m)), is_global = documented_global\<rparr>"

lemma modules_resolve_witness: "resolvable sample_library AuthModule_module (LibraryToken JwtService)"
proof -
  have ok: "library_ok sample_library" by (simp add: library_ok_def sample_library_def)
  have "AuthModule_module \<in> set MODULES" "TokenSignService_class \<in> set CLASSES"
    by (simp_all add: MODULES_def CLASSES_def)
  moreover have "ij_class TokenSignService_class \<in> set (constructed AuthModule_module)" by code_simp
  moreover have "LibraryToken JwtService \<in> set (ij_injects TokenSignService_class)" by code_simp
  ultimately show ?thesis
    using modules_resolve [OF ok, THEN conjunct1, rule_format] by blast
qed

section \<open>Messages\<close>

definition context_of :: "service_class \<Rightarrow> own_module" where
  "context_of c = (case c of UserClass _ \<Rightarrow> UserModule | AppClass _ \<Rightarrow> AppModule
     | TenancyClass _ \<Rightarrow> TenancyModule | AuthClass _ \<Rightarrow> AuthModule | CoreClass _ \<Rightarrow> CoreModule)"

definition bus_of :: "message \<Rightarrow> library_class" where
  "bus_of m = (case m of Command _ \<Rightarrow> CommandBus | Query _ \<Rightarrow> QueryBus)"

definition bindings :: "provider list" where
  "bindings = concat (map md_providers MODULES)"

text \<open>\<open>CqrsModule\<close> registers the handlers it finds among the providers of the modules.\<close>

definition handlers_of :: "message \<Rightarrow> injectable list" where
  "handlers_of m = filter (\<lambda>H. ij_class H \<in> set (map snd bindings))
     (filter (\<lambda>H. ij_handles H = Some m) CLASSES)"

text \<open>The classes that some module constructs, and that send the message.\<close>

definition senders_of :: "message \<Rightarrow> injectable list" where
  "senders_of m = filter (\<lambda>J. list_ex (\<lambda>M. ij_class J \<in> set (module_classes M)) MODULES)
     (filter (\<lambda>J. m \<in> set (ij_sends J)) CLASSES)"

definition port_adapters :: "service_class list" where
  "port_adapters = concat (map (\<lambda>(t, c). case t of SymbolToken s \<Rightarrow> [c] | _ \<Rightarrow> []) bindings)"

definition message_crosses :: "injectable \<Rightarrow> message \<Rightarrow> bool" where
  "message_crosses J m \<longleftrightarrow> list_ex (\<lambda>H. context_of (ij_class H) \<noteq> context_of (ij_class J)) (handlers_of m)"

text \<open>What a class injects is of its own context, of the core, or of a library.\<close>

definition stays_inside :: "injectable \<Rightarrow> bool" where
  "stays_inside J \<longleftrightarrow> list_all (\<lambda>(t, c). t \<in> set (ij_injects J) \<longrightarrow>
     context_of c = context_of (ij_class J) \<or> context_of c = CoreModule) bindings"

text \<open>C39: every command and query has exactly one handler that a module provides, so that the bus finds it,
  and is sent by some class that a module constructs; its sender injects the right bus; the contexts know
  each other only through the buses, and only the adapters behind a port send to another context.\<close>

theorem messages_handled:
  "(\<forall>m. length (handlers_of m) = 1 \<and> senders_of m \<noteq> []) \<and>
   list_all (\<lambda>J. list_all (\<lambda>m. LibraryToken (bus_of m) \<in> set (ij_injects J)) (ij_sends J)) CLASSES \<and>
   list_all stays_inside CLASSES \<and>
   set (map ij_class (filter (\<lambda>J. list_ex (message_crosses J) (ij_sends J)) CLASSES)) \<subseteq> set port_adapters"
proof (intro conjI allI)
  fix m
  have all: "list_all (\<lambda>m. length (handlers_of m) = 1 \<and> senders_of m \<noteq> [])
      (map Command [CreateUserCommand, SetUserPlatformAdminCommand, CreateAppCommand, CreateTenantCommand,
         UpdateTenantCommand, DeleteTenantCommand, AddTenantMemberCommand, RegisterUserCommand,
         LoginUserCommand, RefreshSessionCommand] @
       map Query [UserFindByEmailQuery, UserFindByIdQuery, AppFindByIdQuery, AppFindByCriteriaQuery,
         TenantFindByCriteriaQuery, TenantMembershipFindByTenantIdQuery, TenantMembershipFindByUserIdQuery])"
    by code_simp
  have each: "length (handlers_of m) = 1 \<and> senders_of m \<noteq> []"
  proof (cases m)
    case (Command c)
    with all show ?thesis by (cases c) simp_all
  next
    case (Query q)
    with all show ?thesis by (cases q) simp_all
  qed
  then show "length (handlers_of m) = 1" "senders_of m \<noteq> []" by simp_all
next
  show "list_all (\<lambda>J. list_all (\<lambda>m. LibraryToken (bus_of m) \<in> set (ij_injects J)) (ij_sends J)) CLASSES"
    by code_simp
  show "list_all stays_inside CLASSES" by code_simp
  show "set (map ij_class (filter (\<lambda>J. list_ex (message_crosses J) (ij_sends J)) CLASSES)) \<subseteq> set port_adapters"
    by code_simp
qed

section \<open>Construction and dispatch end\<close>

text \<open>A class calls those it injects, those that guard its routes, and the handlers of what it sends.\<close>

definition callees :: "injectable \<Rightarrow> service_class list" where
  "callees J = map snd (filter (\<lambda>(t, c). t \<in> set (ij_injects J)) bindings) @ ij_guards J @
     map ij_class (concat (map handlers_of (ij_sends J)))"

definition calls :: "service_class \<Rightarrow> service_class \<Rightarrow> bool" where
  "calls c c' \<longleftrightarrow> (\<exists>J \<in> set CLASSES. ij_class J = c \<and> c' \<in> set (callees J))"

text \<open>The classes in layers, each calling only into the ones before it.\<close>

definition layers :: "service_class list list" where
  "layers =
     [[UserClass UserBuilder, AppClass AppRestMapper, AppClass AppGraphQLMapper, AppClass AppBuilder,
       TenancyClass TenantRestMapper, TenancyClass TenantMembershipRestMapper,
       TenancyClass TenantGraphQLMapper, TenancyClass TenantMembershipGraphQLMapper,
       TenancyClass TenantBuilder, TenancyClass TenantMembershipBuilder,
       AuthClass KeycloakIdentityProviderAdapter, AuthClass HashRefreshTokenService,
       AuthClass GenerateRefreshTokenService, AuthClass TokenSignService, AuthClass TokenVerifyService,
       AuthClass ReconcilePlatformAdminService, AuthClass SessionBuilder,
       CoreClass CqrsObservabilityService, CoreClass HealthController, CoreClass PingResolver,
       CoreClass JwksService, CoreClass JwtAuthGuard, CoreClass PlatformAdminGuard,
       TenancyClass TenantPermissionGuard],
      [UserClass UserTypeOrmMapper, AppClass AppTypeOrmMapper,
       TenancyClass TenantMembershipTypeOrmMapper, TenancyClass TenantTypeOrmMapper,
       AuthClass SessionTypeOrmMapper, CoreClass JwksController],
      [UserClass UserTypeOrmReadRepository, UserClass UserTypeOrmWriteRepository,
       AppClass AppTypeOrmReadRepository, AppClass AppTypeOrmWriteRepository,
       TenancyClass TenantMembershipTypeOrmReadRepository,
       TenancyClass TenantMembershipTypeOrmWriteRepository, TenancyClass TenantTypeOrmReadRepository,
       TenancyClass TenantTypeOrmWriteRepository, AuthClass SessionTypeOrmWriteRepository],
      [UserClass AssertUserExistsService, UserClass AssertUserEmailAvailableService,
       UserClass UserFindByEmailQueryHandler, UserClass UserFindByIdQueryHandler,
       AppClass AssertAppSlugAvailableService, AppClass app_class.AssertAppExistsService,
       AppClass AppFindByIdQueryHandler, AppClass AppFindByCriteriaQueryHandler,
       TenancyClass AssertTenantOwnerService, TenancyClass AssertTenantExistsService,
       TenancyClass AssertTenantMembershipAvailableService,
       TenancyClass AssertTenantSlugAvailableService, TenancyClass TenantFindByCriteriaQueryHandler,
       TenancyClass TenantMembershipFindByUserIdQueryHandler],
      [UserClass SetUserPlatformAdminCommandHandler, UserClass CreateUserCommandHandler,
       AppClass CreateAppCommandHandler, AppClass AppQueriesResolver,
       TenancyClass tenancy_class.UserLookupAdapter, TenancyClass AppLookupAdapter,
       TenancyClass DeleteTenantCommandHandler, TenancyClass UpdateTenantCommandHandler,
       TenancyClass TenantMembershipFindByTenantIdQueryHandler,
       AuthClass TenantMembershipLookupAdapter, AuthClass auth_class.UserLookupAdapter],
      [AppClass AppsController, AppClass AppMutationsResolver,
       TenancyClass tenancy_class.AssertAppExistsService, TenancyClass AddTenantMemberCommandHandler,
       TenancyClass TenantQueriesResolver, AuthClass UserPlatformAdminAdapter,
       AuthClass UserProvisioningAdapter, AuthClass RefreshSessionCommandHandler],
      [TenancyClass CreateTenantCommandHandler, AuthClass LoginUserCommandHandler,
       AuthClass RegisterUserCommandHandler],
      [TenancyClass TenantsController, TenancyClass TenantMutationsResolver, AuthClass AuthController]]"

definition layer :: "service_class \<Rightarrow> nat" where
  "layer c = length (takeWhile (\<lambda>cs. c \<notin> set cs) layers)"

lemma callees_below:
  "list_all (\<lambda>J. let n = layer (ij_class J) in n \<le> 7 \<and> list_all (\<lambda>c. layer c < n) (callees J)) CLASSES"
  by code_simp

lemma calls_below: "calls c c' \<Longrightarrow> layer c' < layer c \<and> layer c \<le> 7"
  using callees_below by (auto simp: calls_def list_all_iff Let_def)

lemma chain_below: "(calls ^^ n) c c' \<Longrightarrow> layer c' + n \<le> layer c \<and> (n = 0 \<or> layer c \<le> 7)"
proof (induction n arbitrary: c')
  case (Suc n)
  then obtain d where "(calls ^^ n) c d" "calls d c'" by auto
  with Suc.IH [of d] calls_below [of d c'] show ?case by auto
qed auto

definition creation_chain :: "service_class list" where
  "creation_chain = [TenancyClass TenantsController, TenancyClass CreateTenantCommandHandler,
     TenancyClass tenancy_class.AssertAppExistsService, TenancyClass AppLookupAdapter,
     AppClass AppFindByIdQueryHandler, AppClass AppTypeOrmReadRepository, AppClass AppTypeOrmMapper,
     AppClass AppBuilder]"

lemma creation_calls: "list_all (\<lambda>i. calls (creation_chain ! i) (creation_chain ! Suc i)) [0..<7]"
  by code_simp

lemma creation_steps: "n \<le> 7 \<Longrightarrow> (calls ^^ n) (creation_chain ! 0) (creation_chain ! n)"
proof (induction n)
  case (Suc n)
  then have "calls (creation_chain ! n) (creation_chain ! Suc n)"
    using creation_calls by (simp only: list_all_iff) simp
  with Suc show ?case by auto
qed simp

text \<open>C40: starting the service and serving a request end: no class is constructed from itself and no
  message leads back to its sender, for the longest chain of injections and messages has seven
  steps (a tenant is created: controller, handler, service, adapter, handler of \<open>app\<close>, repository,
  mapper, builder).\<close>

theorem calls_end:
  "wfP (\<lambda>c' c. calls c c') \<and> {n. \<exists>c c'. (calls ^^ n) c c'} = {0..7}"
proof
  show "wfP (\<lambda>c' c. calls c c')"
    by (rule wfp_if_convertible_to_nat [where f = layer]) (simp add: calls_below)
  have "n \<le> 7" if "(calls ^^ n) c c'" for n c c'
    using chain_below [OF that] by auto
  then show "{n. \<exists>c c'. (calls ^^ n) c c'} = {0..7}"
    using creation_steps by fastforce
qed

end
