(* ===== verification/Env_Schema.thy ===== *)
theory Env_Schema
  imports Core_Config Complex_Main
begin

text \<open>
  Start-up: the schema of the environment (\<open>env.validation.ts\<close>), what tracing reads from it
  (\<open>otel.config.ts\<close>, \<open>telemetry.ts\<close>) and the connection of the migration CLI (\<open>data-source.ts\<close>).

  zod is a parameter where its own judgement counts: whether a text is a URL, its standard messages,
  and which issues it reports when both the fields and the refinement have some. \<open>Number(s)\<close> is the
  finite number it denotes, or \<open>None\<close>. The OpenTelemetry SDK is only handed its options.
\<close>

section \<open>The schema\<close>

datatype string_check = ZTrim | ZMin nat string | ZUrl

datatype number_check = ZAtLeast rat | ZAtMost rat | ZPositive

datatype field_schema =
    ZString "string_check list"
  | ZCoerceNumber "number_check list"
  | ZEnum "string list"

record env_field =
  ef_name :: string
  ef_schema :: field_schema
  ef_optional :: bool

definition required :: "string \<Rightarrow> field_schema \<Rightarrow> env_field" where
  "required name sch = \<lparr>ef_name = name, ef_schema = sch, ef_optional = False\<rparr>"

definition optional_field :: "string \<Rightarrow> field_schema \<Rightarrow> env_field" where
  "optional_field name sch = \<lparr>ef_name = name, ef_schema = sch, ef_optional = True\<rparr>"

definition baseEnvSchema :: "env_field list" where
  "baseEnvSchema =
     [optional_field ''NODE_ENV'' (ZString []),
      optional_field ''DATABASE_DRIVER'' (ZString []),
      required ''DATABASE_HOST'' (ZString [ZTrim, ZMin 1 ''DATABASE_HOST must not be empty'']),
      optional_field ''DATABASE_PORT'' (ZString []),
      required ''DATABASE_USERNAME'' (ZString [ZTrim, ZMin 1 ''DATABASE_USERNAME must not be empty'']),
      required ''DATABASE_PASSWORD'' (ZString [ZMin 1 ''DATABASE_PASSWORD must not be empty'']),
      required ''DATABASE_DATABASE'' (ZString [ZTrim, ZMin 1 ''DATABASE_DATABASE must not be empty'']),
      optional_field ''OTEL_EXPORTER_OTLP_ENDPOINT'' (ZString [ZTrim, ZUrl]),
      optional_field ''OTEL_SERVICE_NAME'' (ZString []),
      optional_field ''OTEL_TRACES_SAMPLE_RATIO'' (ZCoerceNumber [ZAtLeast 0, ZAtMost 1]),
      optional_field ''OTEL_METRIC_EXPORT_INTERVAL_MILLIS'' (ZCoerceNumber [ZPositive]),
      optional_field ''KAFKA_ENABLED'' (ZEnum [''true'', ''false'']),
      optional_field ''KAFKA_BROKERS'' (ZString []),
      optional_field ''KAFKA_CLIENT_ID'' (ZString []),
      optional_field ''KAFKA_TOPIC_PREFIX'' (ZString []),
      optional_field ''KAFKA_SSL'' (ZEnum [''true'', ''false'']),
      optional_field ''KAFKA_SASL_MECHANISM'' (ZEnum [''plain'', ''scram-sha-256'', ''scram-sha-512'']),
      optional_field ''KAFKA_SASL_USERNAME'' (ZString []),
      optional_field ''KAFKA_SASL_PASSWORD'' (ZString []),
      optional_field ''EVENTSTORE_ENABLED'' (ZEnum [''true'', ''false'']),
      optional_field ''EVENTSTORE_CONNECTION_STRING'' (ZString []),
      optional_field ''EVENTSTORE_STREAM_PREFIX'' (ZString []),
      optional_field ''JWT_PRIVATE_KEY'' (ZString [])]"

type_synonym issue = "string list \<times> string"

text \<open>The refinement of the schema: the rules that relate several variables.\<close>

definition refine_env :: "env \<Rightarrow> issue list" where
  "refine_env env =
     (if env ''KAFKA_ENABLED'' = Some ''true'' \<and> \<not> env_set (env ''KAFKA_BROKERS'')
      then [([''KAFKA_BROKERS''], ''KAFKA_BROKERS is required when KAFKA_ENABLED is '' @ quoted ''true'')]
      else []) @
     (if env ''NODE_ENV'' = Some ''production'' \<and> \<not> env_set (env ''JWT_PRIVATE_KEY'')
      then [([''JWT_PRIVATE_KEY''], ''JWT_PRIVATE_KEY is required when NODE_ENV is '' @ quoted ''production'')]
      else [])"

record zod =
  zd_url :: "string \<Rightarrow> bool"
  zd_number :: "string \<Rightarrow> rat option"
  zd_message :: "string \<Rightarrow> string"
  zd_report :: "issue list \<Rightarrow> issue list \<Rightarrow> issue list"

fun string_issues :: "zod \<Rightarrow> string \<Rightarrow> string_check list \<Rightarrow> string \<Rightarrow> issue list" where
  "string_issues Z name [] s = []"
| "string_issues Z name (ZTrim # cs) s = string_issues Z name cs (js_trim s)"
| "string_issues Z name (ZMin n m # cs) s =
     (if length s < n then [([name], m)] else []) @ string_issues Z name cs s"
| "string_issues Z name (ZUrl # cs) s =
     (if zd_url Z s then [] else [([name], zd_message Z name)]) @ string_issues Z name cs s"

fun number_ok :: "rat \<Rightarrow> number_check \<Rightarrow> bool" where
  "number_ok x (ZAtLeast b) = (b \<le> x)"
| "number_ok x (ZAtMost b) = (x \<le> b)"
| "number_ok x ZPositive = (0 < x)"

definition field_issues :: "zod \<Rightarrow> env \<Rightarrow> env_field \<Rightarrow> issue list" where
  "field_issues Z env f = (case env (ef_name f) of
       None \<Rightarrow> if ef_optional f then [] else [([ef_name f], zd_message Z (ef_name f))]
     | Some s \<Rightarrow> (case ef_schema f of
         ZString cs \<Rightarrow> string_issues Z (ef_name f) cs s
       | ZEnum vs \<Rightarrow> if s \<in> set vs then [] else [([ef_name f], zd_message Z (ef_name f))]
       | ZCoerceNumber cs \<Rightarrow> (case zd_number Z s of
           None \<Rightarrow> [([ef_name f], zd_message Z (ef_name f))]
         | Some x \<Rightarrow> map (\<lambda>c. ([ef_name f], zd_message Z (ef_name f))) (filter (\<lambda>c. \<not> number_ok x c) cs))))"

text \<open>What the schema hands on: the declared variables, trimmed where it says so.\<close>

definition parsed_env :: "env \<Rightarrow> env" where
  "parsed_env env name = (case find (\<lambda>f. ef_name f = name) baseEnvSchema of
       None \<Rightarrow> None
     | Some f \<Rightarrow> (case ef_schema f of
         ZString cs \<Rightarrow> if ZTrim \<in> set cs then map_option js_trim (env name) else env name
       | _ \<Rightarrow> env name))"

definition safeParse :: "zod \<Rightarrow> env \<Rightarrow> issue list + env" where
  "safeParse Z env = (case zd_report Z (concat (map (field_issues Z env) baseEnvSchema))
         (refine_env (parsed_env env)) of
       [] \<Rightarrow> Inr (parsed_env env)
     | i # is \<Rightarrow> Inl (i # is))"

fun join_with :: "string \<Rightarrow> string list \<Rightarrow> string" where
  "join_with sep [] = []"
| "join_with sep [p] = p"
| "join_with sep (p # q # ps) = p @ sep @ join_with sep (q # ps)"

definition formatZodIssues :: "issue list \<Rightarrow> string" where
  "formatZodIssues issues = join_with [CHR 0x0A] (map (\<lambda>(path, message).
     ''  - '' @ (if path \<noteq> [] then join_with ''.'' path else ''(root)'') @ '': '' @ message) issues)"

definition validateEnv :: "zod \<Rightarrow> env \<Rightarrow> error + env" where
  "validateEnv Z config = (case safeParse Z config of
       Inl issues \<Rightarrow> Inl (JsError (''Environment validation failed:'' @ [CHR 0x0A] @ formatZodIssues issues))
     | Inr data \<Rightarrow>
         if data ''NODE_ENV'' = Some ''production'' then
           (let productionErrors = validateProductionCorsOrigins (config ''CORS_ORIGINS'') (config ''FRONTEND_URL'')
            in if 0 < length productionErrors then
                 Inl (JsError (''Environment validation failed:'' @ [CHR 0x0A] @
                   join_with [CHR 0x0A] productionErrors))
               else Inr config)
         else Inr config)"

section \<open>Tracing\<close>

text \<open>\<open>otel.config.ts\<close> and \<open>telemetry.ts\<close> have a copy each.\<close>

definition parseRatio :: "(string \<Rightarrow> rat option) \<Rightarrow> string option \<Rightarrow> rat \<Rightarrow> error + rat" where
  "parseRatio number value fallback =
     (if \<not> env_set value then Inr fallback
      else case number (the value) of
        None \<Rightarrow> Inl (JsError (''Invalid OTEL_TRACES_SAMPLE_RATIO '' @ quoted (the value) @
          '': expected a number between 0 and 1''))
      | Some parsed \<Rightarrow> if parsed < 0 \<or> 1 < parsed then
            Inl (JsError (''Invalid OTEL_TRACES_SAMPLE_RATIO '' @ quoted (the value) @
              '': expected a number between 0 and 1''))
          else Inr parsed)"

definition parseIntervalMillis :: "(string \<Rightarrow> rat option) \<Rightarrow> string option \<Rightarrow> rat \<Rightarrow> error + rat" where
  "parseIntervalMillis number value fallback =
     (if \<not> env_set value then Inr fallback
      else case number (the value) of
        None \<Rightarrow> Inl (JsError (''Invalid OTEL_METRIC_EXPORT_INTERVAL_MILLIS '' @ quoted (the value) @
          '': expected a positive number''))
      | Some parsed \<Rightarrow> if parsed \<le> 0 then
            Inl (JsError (''Invalid OTEL_METRIC_EXPORT_INTERVAL_MILLIS '' @ quoted (the value) @
              '': expected a positive number''))
          else Inr parsed)"

record otel_section =
  ot_enabled :: bool
  ot_endpoint :: "string option"
  ot_serviceName :: string
  ot_tracesSampleRatio :: rat

text \<open>\<open>env.X?.trim() || undefined\<close>\<close>

definition trimmed :: "string option \<Rightarrow> string option" where
  "trimmed v = (if env_set v then map_option js_trim v else None)"

definition service_name :: "env \<Rightarrow> string" where
  "service_name env = trim_or (env ''OTEL_SERVICE_NAME'') (trim_or (env ''SERVICE_NAME'') ''account-api'')"

definition otelConfig :: "(string \<Rightarrow> rat option) \<Rightarrow> env \<Rightarrow> error + otel_section" where
  "otelConfig number env = (let endpoint = trimmed (env ''OTEL_EXPORTER_OTLP_ENDPOINT'') in
     map_sum (\<lambda>e. e) (\<lambda>ratio. \<lparr>ot_enabled = (endpoint \<noteq> None), ot_endpoint = endpoint,
         ot_serviceName = service_name env, ot_tracesSampleRatio = ratio\<rparr>)
       (parseRatio number (env ''OTEL_TRACES_SAMPLE_RATIO'') 1))"

text \<open>The options of the SDK that depend on the environment; without an endpoint it is not started.\<close>

record sdk_options =
  so_serviceName :: string
  so_serviceVersion :: "string option"
  so_environment :: string
  so_sampleRatio :: rat
  so_exportIntervalMillis :: rat
  so_instrumentations :: "string list"

definition INSTRUMENTED_PACKAGES :: "string list" where
  "INSTRUMENTED_PACKAGES =
     [''@opentelemetry/instrumentation-http'', ''@opentelemetry/instrumentation-express'',
      ''@opentelemetry/instrumentation-graphql'', ''@opentelemetry/instrumentation-pg'',
      ''@opentelemetry/instrumentation-kafkajs'']"

definition telemetry ::
  "(string \<Rightarrow> rat option) \<Rightarrow> string list \<Rightarrow> env \<Rightarrow> error + sdk_options option" where
  "telemetry number bundled env =
     (if trimmed (env ''OTEL_EXPORTER_OTLP_ENDPOINT'') = None then Inr None
      else case parseRatio number (env ''OTEL_TRACES_SAMPLE_RATIO'') 1 of
        Inl e \<Rightarrow> Inl e
      | Inr ratio \<Rightarrow> (case parseIntervalMillis number (env ''OTEL_METRIC_EXPORT_INTERVAL_MILLIS'') 15000 of
          Inl e \<Rightarrow> Inl e
        | Inr interval \<Rightarrow> Inr (Some \<lparr>so_serviceName = service_name env,
            so_serviceVersion = env ''npm_package_version'',
            so_environment = value_or (env ''NODE_ENV'') ''development'', so_sampleRatio = ratio,
            so_exportIntervalMillis = interval,
            so_instrumentations = filter (\<lambda>i. i \<in> set INSTRUMENTED_PACKAGES) bundled\<rparr>)))"

section \<open>The migration CLI\<close>

definition requiredEnv :: "env \<Rightarrow> string \<Rightarrow> ('s, error, string) comp" where
  "requiredEnv env name = (if truthy (env name) = None
     then throw (JsError (''Missing environment variable '' @ quoted name))
     else ret (the (env name)))"

record data_source =
  ds_type :: string
  ds_host :: string
  ds_port :: "rat option"
  ds_username :: string
  ds_password :: string
  ds_database :: string
  ds_migrationsTableName :: string
  ds_synchronize :: bool
  ds_logging :: bool

definition dataSource :: "(string \<Rightarrow> rat option) \<Rightarrow> env \<Rightarrow> ('s, error, data_source) comp" where
  "dataSource number env =
     bindE (requiredEnv env ''DATABASE_DRIVER'') (\<lambda>driver.
     bindE (requiredEnv env ''DATABASE_HOST'') (\<lambda>host.
     bindE (requiredEnv env ''DATABASE_PORT'') (\<lambda>port.
     bindE (requiredEnv env ''DATABASE_USERNAME'') (\<lambda>username.
     bindE (requiredEnv env ''DATABASE_PASSWORD'') (\<lambda>password.
     bindE (requiredEnv env ''DATABASE_DATABASE'') (\<lambda>database.
     ret \<lparr>ds_type = driver, ds_host = host, ds_port = number port, ds_username = username,
       ds_password = password, ds_database = database,
       ds_migrationsTableName = value_or (env ''DATABASE_MIGRATIONS_TABLE_NAME'') ''migrations'',
       ds_synchronize = (env ''DATABASE_SYNCHRONIZE'' = Some ''true''),
       ds_logging = (env ''NODE_ENV'' \<noteq> Some ''production'')\<rparr>))))))"

section \<open>What start-up guarantees\<close>

text \<open>zod reports an issue whenever there is one.\<close>

definition zod_ok :: "zod \<Rightarrow> bool" where
  "zod_ok Z \<longleftrightarrow> (\<forall>fields rules. zd_report Z fields rules = [] \<longleftrightarrow> fields = [] \<and> rules = [])"

lemma parsed_env_rules:
  "parsed_env env ''NODE_ENV'' = env ''NODE_ENV''" "refine_env (parsed_env env) = refine_env env"
proof -
  have same: "parsed_env env n = env n"
    if "map_option ef_schema (find (\<lambda>f. ef_name f = n) baseEnvSchema) \<in> Some ` {ZString [], ZEnum [''true'', ''false'']}" for n
    using that by (auto simp: parsed_env_def)
  have "list_all (\<lambda>n. map_option ef_schema (find (\<lambda>f. ef_name f = n) baseEnvSchema) \<in> Some ` {ZString [], ZEnum [''true'', ''false'']})
      [''NODE_ENV'', ''JWT_PRIVATE_KEY'', ''KAFKA_ENABLED'', ''KAFKA_BROKERS'']"
    by code_simp
  then have "parsed_env env ''NODE_ENV'' = env ''NODE_ENV''" "parsed_env env ''JWT_PRIVATE_KEY'' = env ''JWT_PRIVATE_KEY''"
    "parsed_env env ''KAFKA_ENABLED'' = env ''KAFKA_ENABLED''" "parsed_env env ''KAFKA_BROKERS'' = env ''KAFKA_BROKERS''"
    by (simp_all only: list.pred_inject same)
  then show "parsed_env env ''NODE_ENV'' = env ''NODE_ENV''" "refine_env (parsed_env env) = refine_env env"
    by (simp_all add: refine_env_def)
qed

lemma accepted_env:
  assumes "zod_ok Z" and "validateEnv Z env = Inr env'"
  shows "env' = env" and "refine_env env = []" and "\<And>f. f \<in> set baseEnvSchema \<Longrightarrow> field_issues Z env f = []"
    and "env ''NODE_ENV'' = Some ''production'' \<Longrightarrow>
      resolveCorsOrigins (env ''CORS_ORIGINS'') (env ''FRONTEND_URL'') (Some ''production'') \<noteq> []"
proof -
  obtain data where parse: "safeParse Z env = Inr data"
    using assms(2) by (cases "safeParse Z env") (auto simp: validateEnv_def)
  then have "zd_report Z (concat (map (field_issues Z env) baseEnvSchema)) (refine_env (parsed_env env)) = []"
    and data: "data = parsed_env env"
    by (auto simp: safeParse_def split: list.splits)
  with assms(1) have none: "concat (map (field_issues Z env) baseEnvSchema) = []" "refine_env env = []"
    by (auto simp only: zod_ok_def parsed_env_rules)
  then show "refine_env env = []" "\<And>f. f \<in> set baseEnvSchema \<Longrightarrow> field_issues Z env f = []" by auto
  show "env' = env"
    using assms(2) parse by (auto simp: validateEnv_def Let_def split: if_splits)
  show "resolveCorsOrigins (env ''CORS_ORIGINS'') (env ''FRONTEND_URL'') (Some ''production'') \<noteq> []"
    if "env ''NODE_ENV'' = Some ''production''"
    using assms(2) parse data that
    by (auto simp: validateEnv_def parsed_env_rules validateProductionCorsOrigins_def split: if_splits)
qed

lemma resolveCorsOrigins_production:
  "resolveCorsOrigins c f (Some ''production'') = [] \<longleftrightarrow>
     (\<forall>s. c = Some s \<longrightarrow> (\<forall>p \<in> set (js_split (CHR '','') s). normalizeOrigin p = [])) \<and> \<not> env_set f"
  by (cases c) (auto simp: resolveCorsOrigins_def filter_empty_conv)

text \<open>C33: an environment that start-up accepts in production has a signing key of its own (no ephemeral
  key is ever generated there), and at least one configured CORS origin: an entry of
  \<open>CORS_ORIGINS\<close> or \<open>FRONTEND_URL\<close>, never the local default.\<close>

theorem production_env_checked:
  assumes "zod_ok Z" and "validateEnv Z env = Inr env'"
    and "env ''NODE_ENV'' = Some ''production''"
  shows "env' = env \<and>
    snd (resolveSigningKeyPair C (env ''JWT_PRIVATE_KEY'') (env ''NODE_ENV'') x) = x \<and>
    env_set (env ''JWT_PRIVATE_KEY'') \<and> cf_corsOrigins (appConfig env) \<noteq> [] \<and>
    ((\<exists>s. env ''CORS_ORIGINS'' = Some s \<and>
        (\<exists>p \<in> set (js_split (CHR '','') s). normalizeOrigin p \<noteq> [])) \<or> env_set (env ''FRONTEND_URL''))"
proof -
  note accepted = accepted_env [OF assms(1,2)]
  have key: "env_set (env ''JWT_PRIVATE_KEY'')"
    using accepted(2) assms(3) by (auto simp: refine_env_def split: if_splits)
  then have "snd (resolveSigningKeyPair C (env ''JWT_PRIVATE_KEY'') (env ''NODE_ENV'') x) = x"
    by (simp add: resolveSigningKeyPair_def Let_def bindE_def split: sum.split)
  with accepted(1) accepted(4) [OF assms(3)] key show ?thesis
    using assms(3) resolveCorsOrigins_production [of "env ''CORS_ORIGINS''" "env ''FRONTEND_URL''"]
    by (auto simp: appConfig_def)
qed

text \<open>Two values that pass the validation and leave the service with nothing to work with: a list of
  brokers with only separators, and a front-end address that is only a slash.\<close>

lemma startup_gaps:
  assumes "env ''KAFKA_ENABLED'' = Some ''true''" and "env ''KAFKA_BROKERS'' = Some '',''"
    and "env ''FRONTEND_URL'' = Some ''/''" and "env ''CORS_ORIGINS'' = None"
    and "env ''NODE_ENV'' = Some ''production''" and "env_set (env ''JWT_PRIVATE_KEY'')"
  shows "refine_env env = []" and "kf_enabled (kafkaConfig env) \<and> kf_brokers (kafkaConfig env) = []"
    and "validateProductionCorsOrigins (env ''CORS_ORIGINS'') (env ''FRONTEND_URL'') = []"
    and "cf_corsOrigins (appConfig env) = [[]]"
  using assms
  by (simp_all add: refine_env_def kafkaConfig_def parseBrokers_def value_or_def js_trim_def js_space_def
      validateProductionCorsOrigins_def resolveCorsOrigins_def appConfig_def normalizeOrigin_def)

lemma schema_fields:
  "optional_field ''OTEL_TRACES_SAMPLE_RATIO'' (ZCoerceNumber [ZAtLeast 0, ZAtMost 1]) \<in> set baseEnvSchema"
  "optional_field ''OTEL_METRIC_EXPORT_INTERVAL_MILLIS'' (ZCoerceNumber [ZPositive]) \<in> set baseEnvSchema"
  "optional_field ''OTEL_EXPORTER_OTLP_ENDPOINT'' (ZString [ZTrim, ZUrl]) \<in> set baseEnvSchema"
  "required ''DATABASE_HOST'' (ZString [ZTrim, ZMin 1 ''DATABASE_HOST must not be empty'']) \<in> set baseEnvSchema"
  "required ''DATABASE_USERNAME'' (ZString [ZTrim, ZMin 1 ''DATABASE_USERNAME must not be empty'']) \<in> set baseEnvSchema"
  "required ''DATABASE_DATABASE'' (ZString [ZTrim, ZMin 1 ''DATABASE_DATABASE must not be empty'']) \<in> set baseEnvSchema"
  by (simp_all add: baseEnvSchema_def)

lemma number_accepted:
  assumes "field_issues Z env (optional_field n (ZCoerceNumber cs)) = []" and "env n = Some s"
  obtains x where "zd_number Z s = Some x" and "\<forall>c \<in> set cs. number_ok x c"
  using assms by (auto simp: field_issues_def optional_field_def filter_empty_conv split: option.splits)

lemma required_accepted:
  "field_issues Z env (required n (ZString [ZTrim, ZMin 1 m])) = [] \<Longrightarrow> env_set (env n)"
  by (auto simp: field_issues_def required_def env_set_def Suc_le_eq split: option.splits if_splits)

lemma ratio_accepted:
  assumes "field_issues Z env (optional_field n (ZCoerceNumber [ZAtLeast 0, ZAtMost 1])) = []"
  obtains r where "parseRatio (zd_number Z) (env n) 1 = Inr r" and "0 \<le> r" and "r \<le> 1"
proof (cases "env_set (env n)")
  case False
  then have "parseRatio (zd_number Z) (env n) 1 = Inr 1" by (simp add: parseRatio_def)
  then show ?thesis by (rule that) simp_all
next
  case True
  then obtain s where s: "env n = Some s" by (cases "env n") auto
  from number_accepted [OF assms s] obtain x where x: "zd_number Z s = Some x" "0 \<le> x" "x \<le> 1" by auto
  with True s have "parseRatio (zd_number Z) (env n) 1 = Inr x" by (simp add: parseRatio_def)
  then show ?thesis using x by (intro that)
qed

lemma interval_accepted:
  assumes "field_issues Z env (optional_field n (ZCoerceNumber [ZPositive])) = []"
  obtains i where "parseIntervalMillis (zd_number Z) (env n) 15000 = Inr i" and "0 < i"
proof (cases "env_set (env n)")
  case False
  then have "parseIntervalMillis (zd_number Z) (env n) 15000 = Inr 15000" by (simp add: parseIntervalMillis_def)
  then show ?thesis by (rule that) simp
next
  case True
  then obtain s where s: "env n = Some s" by (cases "env n") auto
  from number_accepted [OF assms s] obtain x where x: "zd_number Z s = Some x" "0 < x" by auto
  with True s have "parseIntervalMillis (zd_number Z) (env n) 15000 = Inr x" by (simp add: parseIntervalMillis_def)
  then show ?thesis using x by (intro that)
qed

text \<open>C34: with an environment that the schema accepts, nothing that tracing reads from it throws, and the
  SDK that \<open>telemetry.ts\<close> starts before anything else, from its own copy of the parsers, is the one
  that the configuration reports: on exactly when the endpoint is set, with the same service name
  and a sampling ratio between 0 and 1. Host, user and name of the database are not blank.\<close>

theorem accepted_env_starts:
  assumes "zod_ok Z" and "validateEnv Z env = Inr env'"
  shows "(\<exists>conf. otelConfig (zd_number Z) env' = Inr conf \<and>
      0 \<le> ot_tracesSampleRatio conf \<and> ot_tracesSampleRatio conf \<le> 1 \<and>
      (if ot_enabled conf then \<exists>sdk. telemetry (zd_number Z) bundled env' = Inr (Some sdk) \<and>
           so_serviceName sdk = ot_serviceName conf \<and>
           so_sampleRatio sdk = ot_tracesSampleRatio conf \<and> 0 < so_exportIntervalMillis sdk
       else telemetry (zd_number Z) bundled env' = Inr None)) \<and>
    env_set (pg_host (postgresConfig env')) \<and> env_set (pg_username (postgresConfig env')) \<and>
    env_set (pg_database (postgresConfig env'))"
proof -
  have env: "env' = env" and ok: "\<And>f. f \<in> set baseEnvSchema \<Longrightarrow> field_issues Z env f = []"
    using accepted_env [OF assms] by blast+
  from ratio_accepted [OF ok [OF schema_fields(1)]] obtain r where
    r: "parseRatio (zd_number Z) (env ''OTEL_TRACES_SAMPLE_RATIO'') 1 = Inr r" "0 \<le> r" "r \<le> 1" .
  from interval_accepted [OF ok [OF schema_fields(2)]] obtain i where
    i: "parseIntervalMillis (zd_number Z) (env ''OTEL_METRIC_EXPORT_INTERVAL_MILLIS'') 15000 = Inr i" "0 < i" .
  have "\<exists>conf. otelConfig (zd_number Z) env = Inr conf \<and>
      0 \<le> ot_tracesSampleRatio conf \<and> ot_tracesSampleRatio conf \<le> 1 \<and>
      (if ot_enabled conf then \<exists>sdk. telemetry (zd_number Z) bundled env = Inr (Some sdk) \<and>
           so_serviceName sdk = ot_serviceName conf \<and>
           so_sampleRatio sdk = ot_tracesSampleRatio conf \<and> 0 < so_exportIntervalMillis sdk
       else telemetry (zd_number Z) bundled env = Inr None)"
    using r i by (simp add: otelConfig_def telemetry_def Let_def)
  moreover have "env_set (env ''DATABASE_HOST'')" "env_set (env ''DATABASE_USERNAME'')"
    "env_set (env ''DATABASE_DATABASE'')"
    by (rule required_accepted [OF ok [OF schema_fields(4)]] required_accepted [OF ok [OF schema_fields(5)]]
        required_accepted [OF ok [OF schema_fields(6)]])+
  ultimately show ?thesis unfolding env by (simp add: postgresConfig_def)
qed

text \<open>What the readers take for unset, the schema refuses: a blank endpoint (unless the empty text is a
  URL) and a blank interval (which \<open>Number\<close> reads as 0) keep the service from starting.\<close>

lemma blank_refused:
  assumes "\<not> zd_url Z []" and "zd_number Z [] = Some 0"
  shows "env ''OTEL_EXPORTER_OTLP_ENDPOINT'' = Some [] \<Longrightarrow>
      field_issues Z env (optional_field ''OTEL_EXPORTER_OTLP_ENDPOINT'' (ZString [ZTrim, ZUrl])) \<noteq> [] \<and>
      telemetry (zd_number Z) bundled env = Inr None"
    and "env ''OTEL_METRIC_EXPORT_INTERVAL_MILLIS'' = Some [] \<Longrightarrow>
      field_issues Z env (optional_field ''OTEL_METRIC_EXPORT_INTERVAL_MILLIS'' (ZCoerceNumber [ZPositive])) \<noteq> [] \<and>
      parseIntervalMillis (zd_number Z) (env ''OTEL_METRIC_EXPORT_INTERVAL_MILLIS'') 15000 = Inr 15000"
    and "env ''OTEL_TRACES_SAMPLE_RATIO'' = Some [] \<Longrightarrow>
      field_issues Z env (optional_field ''OTEL_TRACES_SAMPLE_RATIO'' (ZCoerceNumber [ZAtLeast 0, ZAtMost 1])) = []"
  using assms
  by (simp_all add: field_issues_def optional_field_def js_trim_def telemetry_def trimmed_def
      parseIntervalMillis_def)

section \<open>One database\<close>

lemma requiredEnv_Inr:
  "requiredEnv env n s = (Inr v, s') \<longleftrightarrow> env n = Some v \<and> v \<noteq> [] \<and> s' = s"
  by (auto simp: requiredEnv_def truthy_def split: option.splits if_splits)

lemma parse_int_digits:
  assumes "d \<noteq> []" and "list_all is_digit d"
  shows "parse_int d = Some (digits_value d)"
proof -
  obtain c cs where d: "d = c # cs" using assms(1) by (cases d) auto
  have c: "is_digit c" using assms(2) d by simp
  then have "\<not> js_space c" "c \<noteq> CHR ''-''" "c \<noteq> CHR ''+''"
    by (auto simp: is_digit_def js_space_def Let_def)
  moreover have "takeWhile is_digit d = d" using assms(2) by (simp add: takeWhile_eq_all_conv list_all_iff)
  ultimately show ?thesis using d by (simp add: parse_int_def parse_digits_def Let_def)
qed

text \<open>The migration CLI, when its variables are all there, connects to the database that the service
  uses, as the same user: same driver, host, credentials, database and, for a port written in
  digits, the same port.\<close>

lemma migrations_reach_the_database:
  assumes "dataSource number env s = (Inr ds, s')"
    and "\<And>d. d \<noteq> [] \<Longrightarrow> list_all is_digit d \<Longrightarrow> number d = Some (of_int (digits_value d))"
  shows "(let pg = postgresConfig env in pg_type pg = ds_type ds \<and> pg_host pg = Some (ds_host ds) \<and>
      pg_username pg = Some (ds_username ds) \<and> pg_password pg = Some (ds_password ds) \<and>
      pg_database pg = Some (ds_database ds) \<and> pg_synchronize pg = ds_synchronize ds \<and>
      (\<forall>p. env ''DATABASE_PORT'' = Some p \<longrightarrow> list_all is_digit p \<longrightarrow>
        ds_port ds = map_option of_int (pg_port pg))) \<and> s' = s"
proof -
  from assms(1) obtain port where env: "env ''DATABASE_DRIVER'' = Some (ds_type ds)"
    "env ''DATABASE_HOST'' = Some (ds_host ds)" "env ''DATABASE_PORT'' = Some port" "port \<noteq> []"
    "ds_port ds = number port" "env ''DATABASE_USERNAME'' = Some (ds_username ds)"
    "env ''DATABASE_PASSWORD'' = Some (ds_password ds)" "env ''DATABASE_DATABASE'' = Some (ds_database ds)"
    "ds_synchronize ds \<longleftrightarrow> env ''DATABASE_SYNCHRONIZE'' = Some ''true''" "s' = s"
    by (auto simp: dataSource_def bindE_Inr_iff requiredEnv_Inr)
  with env assms(2) [OF env(4)] parse_int_digits [OF env(4)] show ?thesis
    by (auto simp: postgresConfig_def value_or_def Let_def)
qed

section \<open>At a concrete environment\<close>

definition sample_number :: "string \<Rightarrow> rat option" where
  "sample_number s = (if s \<noteq> [] \<and> list_all is_digit s then Some (of_int (digits_value s)) else None)"

definition sample_zod :: zod where
  "sample_zod = \<lparr>zd_url = (\<lambda>s. s \<noteq> []), zd_number = sample_number, zd_message = (\<lambda>n. ''Invalid input''),
     zd_report = (@)\<rparr>"

lemma sample_zod_ok: "zod_ok sample_zod"
  by (simp add: zod_ok_def sample_zod_def)

lemma sample_env_accepted: "validateEnv sample_zod sample_env = Inr sample_env"
proof -
  have "concat (map (field_issues sample_zod sample_env) baseEnvSchema) = []" by code_simp
  moreover have "refine_env sample_env = []" by code_simp
  ultimately have "safeParse sample_zod sample_env = Inr (parsed_env sample_env)"
    by (simp only: safeParse_def parsed_env_rules) (simp add: sample_zod_def)
  moreover have "resolveCorsOrigins (sample_env ''CORS_ORIGINS'') (sample_env ''FRONTEND_URL'') (Some ''production'') \<noteq> []"
    by code_simp
  ultimately show ?thesis
    by (simp add: validateEnv_def validateProductionCorsOrigins_def Let_def)
qed

lemma production_env_checked_witness:
  "env_set (sample_env ''JWT_PRIVATE_KEY'') \<and> cf_corsOrigins (appConfig sample_env) \<noteq> [] \<and>
   snd (resolveSigningKeyPair sample_crypto (sample_env ''JWT_PRIVATE_KEY'') (sample_env ''NODE_ENV'') 7) = 7"
proof -
  have "sample_env ''NODE_ENV'' = Some ''production''" by (simp add: sample_env_def)
  from production_env_checked [OF sample_zod_ok sample_env_accepted this, where C = sample_crypto and x = 7]
  show ?thesis by blast
qed

lemma accepted_env_starts_witness:
  "\<exists>sdk. telemetry sample_number [''@opentelemetry/instrumentation-pg''] sample_env = Inr (Some sdk) \<and>
     so_serviceName sdk = ''account-api'' \<and> 0 < so_exportIntervalMillis sdk"
proof -
  let ?bundled = "[''@opentelemetry/instrumentation-pg'']"
  obtain conf where run: "otelConfig (zd_number sample_zod) sample_env = Inr conf"
    and sdk: "if ot_enabled conf then \<exists>sdk. telemetry (zd_number sample_zod) ?bundled sample_env = Inr (Some sdk) \<and>
           so_serviceName sdk = ot_serviceName conf \<and>
           so_sampleRatio sdk = ot_tracesSampleRatio conf \<and> 0 < so_exportIntervalMillis sdk
       else telemetry (zd_number sample_zod) ?bundled sample_env = Inr None"
    using accepted_env_starts [OF sample_zod_ok sample_env_accepted, of ?bundled] by blast
  have "trimmed (sample_env ''OTEL_EXPORTER_OTLP_ENDPOINT'') \<noteq> None" by code_simp
  moreover have "service_name sample_env = ''account-api''" by code_simp
  ultimately have "ot_enabled conf" "ot_serviceName conf = ''account-api''"
    using run by (auto simp: otelConfig_def Let_def map_sum_def split: sum.splits)
  with sdk show ?thesis by (auto simp: sample_zod_def)
qed

end
