(* ===== verification/Concurrent_Refresh.thy ===== *)
theory Concurrent_Refresh
  imports Session_Liveness
begin

text \<open>
  Refresh requests that overlap in any way. The handler of a refresh waits for the database, and for
  a connection to it, at several places; here it stops at each of them, and the requests of a system
  take their steps in any order, between steps of the rest of the service. A row that a transaction
  has locked is changed by nobody else until the transaction ends, and a request that needs it, or a
  connection of an exhausted pool, waits. The update that revokes the sessions of a user locks row by
  row, so that two requests can wait for each other.
\<close>

section \<open>The phases of a refresh\<close>

text \<open>
  Where a request of \<open>RefreshSessionCommandHandler\<close> is: it has drawn its new token and its expiry
  (\<open>Prepared\<close>, then it waits for a connection); its transaction waits for the row (\<open>Locking\<close>); the row,
  whose id comes first, is locked and read (\<open>Deciding\<close>); the callback found it consumed and waits
  for the connection of the update (\<open>ReuseFound\<close>), or the update runs (\<open>Revoking\<close>); the callback
  returned and the rows are to be written (\<open>Writing\<close>); the transaction has committed for a user
  (\<open>Rotated\<close>).
\<close>

datatype refresh_phase =
    Arrived
  | Prepared string int
  | Locking string int
  | Deciding string session_aggregate string int
  | ReuseFound string session_aggregate
  | Revoking string session_aggregate int "string list" "string list"
  | Writing string IRotateResult string
  | Rotated string string
  | Answered "error + ILoginSessionResult"

text \<open>
  The update of \<open>revokeAllByUserId\<close> is one statement. When it starts, its \<open>NOW()\<close> and its snapshot are
  fixed, and with the snapshot the rows that it will visit, in an order that the database chooses:
  the third argument of \<open>Revoking\<close> is that time, the fourth the ids of the rows still to visit. It
  locks row by row: it waits for a row that another transaction has locked, then locks it, tests its
  condition again, and keeps the lock until the statement ends; the last argument are the rows it
  has locked. The presented row is locked too, by the transaction of \<open>rotate\<close>, which meanwhile waits
  in the application for the update to return.
\<close>

fun row_locks :: "refresh_phase \<Rightarrow> string set" where
  "row_locks (Deciding k _ _ _) = {k}"
| "row_locks (ReuseFound k _) = {k}"
| "row_locks (Revoking k _ _ _ held) = insert k (set held)"
| "row_locks (Writing k _ _) = {k}"
| "row_locks _ = {}"

text \<open>The connections it holds: one for the transaction, one more for the update, which is issued on the
  repository and not on the transaction's manager.\<close>

fun connections :: "refresh_phase \<Rightarrow> nat" where
  "connections (Locking _ _) = 1"
| "connections (Deciding _ _ _ _) = 1"
| "connections (ReuseFound _ _) = 1"
| "connections (Revoking _ _ _ _ _) = 2"
| "connections (Writing _ _ _) = 1"
| "connections _ = 0"

text \<open>What \<open>rotate\<close> does once its callback has returned, up to the commit.\<close>

definition write_rotation :: "'x lib \<Rightarrow> IRotateResult \<Rightarrow> ('x world, error, IRotateResult) comp" where
  "write_rotation L rotated = (let manager = (session_sql L :: ('x world, IRotateResult) SessionManager) in
     sm_transaction manager (
     bindE (sm_save manager (SessionTypeOrmMapper_toEntity (rr_created rotated))) (\<lambda>createdEntity.
     bindE (sm_save manager (SessionTypeOrmMapper_toEntity (rr_revoked rotated))) (\<lambda>revokedEntity.
     bindE (outside (SessionTypeOrmMapper_toAggregate L revokedEntity)) (\<lambda>revoked.
     bindE (outside (SessionTypeOrmMapper_toAggregate L createdEntity)) (\<lambda>created.
     ret \<lparr>rr_revoked = revoked, rr_created = created\<rparr>))))))"

text \<open>An exception answers the request, and ends its transaction.\<close>

definition settle :: "('a \<Rightarrow> refresh_phase) \<Rightarrow> (error + 'a) \<times> 'x world \<Rightarrow> refresh_phase \<times> 'x world" where
  "settle f out = (case fst out of Inl err \<Rightarrow> Answered (Inl err) | Inr a \<Rightarrow> f a, snd out)"

text \<open>One step of a request, while other transactions have locked the rows \<open>locked\<close> and \<open>free\<close>
  connections are left in the pool; \<open>scan\<close> is the order in which an update visits its rows. \<open>None\<close>
  when the request has to wait, or is answered.\<close>

fun advance ::
  "'x lib \<Rightarrow> auth_config \<Rightarrow> 'x world IUserLookupPort \<Rightarrow> 'x world ITenantMembershipLookupPort \<Rightarrow>
   (string list \<Rightarrow> string list) \<Rightarrow> string set \<Rightarrow> nat \<Rightarrow> refresh_session_command \<Rightarrow> refresh_phase \<Rightarrow> 'x world \<Rightarrow>
   (refresh_phase \<times> 'x world) option" where
  "advance L cfg ul ml scan locked free c Arrived w =
     Some (settle (\<lambda>(raw, expires). Prepared raw expires)
       (bindE (outside (GenerateRefreshTokenService_execute L)) (\<lambda>raw.
        bindE (outside (now L)) (\<lambda>t. ret (raw, expiry cfg t))) w))"
| "advance L cfg ul ml scan locked free c (Prepared raw expires) w =
     (if free = 0 then None else Some (Locking raw expires, w))"
| "advance L cfg ul ml scan locked free c (Locking raw expires) w =
     (case find (\<lambda>e. se_refreshTokenHash e = HashRefreshTokenService_execute L (rf_refreshToken c)) (session_tbl w) of
        None \<Rightarrow> Some (Answered (Inl new_InvalidRefreshTokenException), w)
      | Some e \<Rightarrow> if se_id e \<in> locked then None
          else Some (settle (\<lambda>current. Deciding (se_id e) current raw expires)
            (outside (SessionTypeOrmMapper_toAggregate L e) w)))"
| "advance L cfg ul ml scan locked free c (Deciding k current raw expires) w =
     Some (if SessionAggregate_isRevoked current
       then settle (\<lambda>_. ReuseFound k current) (outside (SessionAggregate_markReuseDetected L current) w)
       else settle (\<lambda>rotated. Writing k rotated raw)
         (refresh_callback L (session_write_repo L) (HashRefreshTokenService_execute L raw) expires current
           (\<lambda>_. ret None) w))"
| "advance L cfg ul ml scan locked free c (ReuseFound k current) w =
     (if free = 0 then None
      else Some (case sql_now L (ext w) of (t, x) \<Rightarrow>
        (Revoking k current t (scan (map se_id (filter (live_of (sg_userId current)) (session_tbl w)))) [],
         w\<lparr>ext := x\<rparr>)))"
| "advance L cfg ul ml scan locked free c (Revoking k current t (i # todo) held) w =
     (if i \<in> locked then None else Some (Revoking k current t todo (i # held), w))"
| "advance L cfg ul ml scan locked free c (Revoking k current t [] held) w =
     Some (Answered (Inl new_RefreshTokenReuseDetectedException),
       w\<lparr>session_tbl := set_revoked_at (driver_date t) (\<lambda>e. se_id e \<in> set held \<and> live_of (sg_userId current) e)
          (session_tbl w)\<rparr>)"
| "advance L cfg ul ml scan locked free c (Writing k rotated raw) w =
     Some (settle (\<lambda>written. Rotated (sg_userId (rr_created written)) raw) (write_rotation L rotated w))"
| "advance L cfg ul ml scan locked free c (Rotated userId raw) w =
     (if free = 0 then None
      else Some (settle (\<lambda>token. Answered (Inr \<lparr>lr_accessToken = token, lr_refreshToken = raw\<rparr>))
        (refresh_access_token L ul ml userId w)))"
| "advance L cfg ul ml scan locked free c (Answered res) w = None"

text \<open>An order visits each row once.\<close>

definition visits_once :: "(string list \<Rightarrow> string list) \<Rightarrow> bool" where
  "visits_once scan \<longleftrightarrow> (\<forall>ids. distinct ids \<longrightarrow> distinct (scan ids) \<and> set (scan ids) = set ids)"

section \<open>The system\<close>

type_synonym 'x system = "'x world \<times> (refresh_session_command \<times> refresh_phase) list"

definition locked_rows :: "(refresh_session_command \<times> refresh_phase) list \<Rightarrow> nat \<Rightarrow> string set" where
  "locked_rows rs i =
     (\<Union>j \<in> set [0..<length rs] - {i}. row_locks (snd (rs ! j)))"

definition busy :: "(refresh_session_command \<times> refresh_phase) list \<Rightarrow> nat" where
  "busy rs = sum_list (map (\<lambda>r. connections (snd r)) rs)"

text \<open>What a request other than a refresh does to the sessions: it may log users in, under fresh ids,
  and leaves the rows that are there.\<close>

definition elsewhere :: "'x lib \<Rightarrow> ('x \<Rightarrow> string set) \<Rightarrow> 'x world \<Rightarrow> 'x world \<Rightarrow> bool" where
  "elsewhere L F w w' \<longleftrightarrow> session_inv L F w' \<and> F (ext w') \<subseteq> F (ext w) \<and>
     set (session_tbl w) \<subseteq> set (session_tbl w') \<and>
     se_id ` set (session_tbl w') \<subseteq> se_id ` set (session_tbl w) \<union> F (ext w)"

text \<open>Refreshes arrive, take a step, or something else happens that needs a connection; the pool has
  \<open>N\<close> connections.\<close>

inductive concurrent ::
  "'x lib \<Rightarrow> ('x \<Rightarrow> string set) \<Rightarrow> auth_config \<Rightarrow> 'x world IUserLookupPort \<Rightarrow>
   'x world ITenantMembershipLookupPort \<Rightarrow> nat \<Rightarrow> 'x system \<Rightarrow> 'x system \<Rightarrow> bool"
  for L F cfg ul ml N where
  arrive: "concurrent L F cfg ul ml N (w, rs) (w, rs @ [(c, Arrived)])"
| request: "i < length rs \<Longrightarrow> rs ! i = (c, ph) \<Longrightarrow> visits_once scan \<Longrightarrow>
    advance L cfg ul ml scan (locked_rows rs i) (N - busy rs) c ph w = Some (ph', w') \<Longrightarrow>
    concurrent L F cfg ul ml N (w, rs) (w', rs[i := (c, ph')])"
| other: "busy rs < N \<Longrightarrow> elsewhere L F w w' \<Longrightarrow> concurrent L F cfg ul ml N (w, rs) (w', rs)"

inductive_cases concurrentE: "concurrent L F cfg ul ml N s s'"

abbreviation runs :: "'x lib \<Rightarrow> ('x \<Rightarrow> string set) \<Rightarrow> auth_config \<Rightarrow> 'x world IUserLookupPort \<Rightarrow>
   'x world ITenantMembershipLookupPort \<Rightarrow> nat \<Rightarrow> 'x system \<Rightarrow> 'x system \<Rightarrow> bool" where
  "runs L F cfg ul ml N \<equiv> (concurrent L F cfg ul ml N)\<^sup>*\<^sup>*"

lemma locked_rows_iff:
  "k \<in> locked_rows rs i \<longleftrightarrow> (\<exists>j < length rs. j \<noteq> i \<and> k \<in> row_locks (snd (rs ! j)))"
  by (auto simp: locked_rows_def)

section \<open>The steps in detail\<close>

lemma write_rotation_run:
  assumes "tx_pending w = None"
  shows "write_rotation L rot w =
    (let c = SessionTypeOrmMapper_toEntity (rr_created rot); r = SessionTypeOrmMapper_toEntity (rr_revoked rot) in
     case check_session w (session_tbl w) c of
       Some con \<Rightarrow> (Inl (QueryFailedError con), w)
     | None \<Rightarrow> (case check_session w (upsert se_id c (session_tbl w)) r of
         Some con \<Rightarrow> (Inl (QueryFailedError con), w)
       | None \<Rightarrow> (case session_from_row L r of Inl err \<Rightarrow> (Inl err, w)
         | Inr revoked \<Rightarrow> (case session_from_row L c of Inl err \<Rightarrow> (Inl err, w)
           | Inr created \<Rightarrow> (Inr \<lparr>rr_revoked = revoked, rr_created = created\<rparr>,
               w\<lparr>session_tbl := upsert se_id r (upsert se_id c (session_tbl w))\<rparr>)))))"
proof -
  let ?c = "SessionTypeOrmMapper_toEntity (rr_created rot)" and ?r = "SessionTypeOrmMapper_toEntity (rr_revoked rot)"
  let ?in = "\<lambda>ps. w\<lparr>tx_pending := Some ps\<rparr>"
  have w: "w\<lparr>tx_pending := None\<rparr> = w" and t: "w\<lparr>session_tbl := s, tx_pending := None\<rparr> = w\<lparr>session_tbl := s\<rparr>" for s
    using assms by (cases w; simp)+
  have save: "tx_save e (?in ps) = (case check_session w (fold (upsert se_id) ps (session_tbl w)) e of
      Some con \<Rightarrow> (Inl (QueryFailedError con), ?in ps) | None \<Rightarrow> (Inr e, ?in (ps @ [e])))" for e ps
    by (simp add: tx_save_def visible_sessions_def split: option.split)
  note run = write_rotation_def session_sql_sel transaction_def bindE_def save session_toAggregate_run Let_def w
    visible_sessions_def
  show ?thesis
  proof (cases "check_session w (session_tbl w) ?c")
    case (Some con)
    then show ?thesis by (simp add: run)
  next
    case one: None
    show ?thesis
    proof (cases "check_session w (upsert se_id ?c (session_tbl w)) ?r")
      case (Some con)
      with one show ?thesis by (simp add: run)
    next
      case None
      with one show ?thesis
        by (cases "session_from_row L ?r"; cases "session_from_row L ?c") (simp_all add: run t)
    qed
  qed
qed

section \<open>What holds of every request\<close>

text \<open>The id of the session that a request is about to insert, drawn already and not yet stored.\<close>

fun reserved :: "refresh_phase \<Rightarrow> string option" where
  "reserved (Writing k rotated raw) = Some (sg_id (rr_created rotated))"
| "reserved _ = None"

fun redeemed :: "refresh_phase \<Rightarrow> bool" where
  "redeemed (Rotated _ _) = True"
| "redeemed (Answered res) = (\<not> isl res)"
| "redeemed _ = False"

text \<open>The callback has decided to rotate the row \<open>e\<close>; the new id is nobody else's.\<close>

definition rotating :: "'x lib \<Rightarrow> ('x \<Rightarrow> string set) \<Rightarrow> 'x world \<Rightarrow> session_entity \<Rightarrow> IRotateResult \<Rightarrow> bool" where
  "rotating L F w e rotated \<longleftrightarrow> (\<exists>i h t2 t3 expires u. se_revokedAt e = None \<and> i \<notin> F (ext w) \<and>
     i \<notin> se_id ` set (session_tbl w) \<and> i \<noteq> [] \<and> uuid_vo L i = Inr i \<and> RefreshTokenHashValueObject L h = Inr h \<and>
     rotated = \<lparr>rr_revoked = (session_of_row e)\<lparr>sg_revokedAt := Some t3, sg_replacedBySessionId := Some i,
         sg_updatedAt := u\<rparr>,
       rr_created = \<lparr>sg_id = i, sg_createdAt = t2, sg_updatedAt = t2, sg_userId = se_userId e,
         sg_refreshTokenHash = h, sg_expiresAt = expires, sg_revokedAt = None,
         sg_replacedBySessionId = None\<rparr>\<rparr>)"

text \<open>What the row of the presented token is, in each phase.\<close>

fun row_ok :: "'x lib \<Rightarrow> ('x \<Rightarrow> string set) \<Rightarrow> 'x world \<Rightarrow> refresh_phase \<Rightarrow> session_entity \<Rightarrow> bool" where
  "row_ok L F w (Deciding k current raw expires) e = (se_id e = k \<and> current = session_of_row e)"
| "row_ok L F w (ReuseFound k current) e = (se_id e = k \<and> se_revokedAt e \<noteq> None)"
| "row_ok L F w (Revoking k current t todo held) e = (se_id e = k \<and> se_revokedAt e \<noteq> None)"
| "row_ok L F w (Writing k rotated raw) e = (se_id e = k \<and> rotating L F w e rotated)"
| "row_ok L F w ph e = (redeemed ph \<longrightarrow> se_revokedAt e \<noteq> None)"

definition request_ok ::
  "'x lib \<Rightarrow> ('x \<Rightarrow> string set) \<Rightarrow> 'x world \<Rightarrow> refresh_session_command \<Rightarrow> refresh_phase \<Rightarrow> bool" where
  "request_ok L F w c ph \<longleftrightarrow> (row_locks ph \<noteq> {} \<or> redeemed ph \<longrightarrow>
     (\<exists>e \<in> set (session_tbl w). se_refreshTokenHash e = sha256_hex L (rf_refreshToken c) \<and> row_ok L F w ph e))"

text \<open>What one request does to the others: rows stay, revoked ones revoked and those of \<open>K\<close> as they are,
  and no id of \<open>R\<close> appears.\<close>

definition frame :: "('x \<Rightarrow> string set) \<Rightarrow> string set \<Rightarrow> string set \<Rightarrow> 'x world \<Rightarrow> 'x world \<Rightarrow> bool" where
  "frame F K R w w' \<longleftrightarrow> F (ext w') \<subseteq> F (ext w) \<and>
     (\<forall>e \<in> set (session_tbl w). \<exists>e' \<in> set (session_tbl w'). se_id e' = se_id e \<and>
        se_refreshTokenHash e' = se_refreshTokenHash e \<and> (se_revokedAt e \<noteq> None \<longrightarrow> se_revokedAt e' \<noteq> None) \<and>
        (se_id e \<in> K \<longrightarrow> e' = e)) \<and>
     se_id ` set (session_tbl w') \<inter> R \<subseteq> se_id ` set (session_tbl w)"

lemma frame_row:
  assumes "frame F K R w w'" and "e \<in> set (session_tbl w)"
  obtains e' where "e' \<in> set (session_tbl w')" "se_id e' = se_id e" "se_refreshTokenHash e' = se_refreshTokenHash e"
    "se_revokedAt e \<noteq> None \<Longrightarrow> se_revokedAt e' \<noteq> None" "se_id e \<in> K \<Longrightarrow> e' = e"
  using assms unfolding frame_def by blast

lemma rotating_new:
  "rotating L F w e rotated \<Longrightarrow> se_revokedAt e = None \<and> sg_id (rr_created rotated) \<notin> F (ext w) \<and>
     sg_id (rr_created rotated) \<notin> se_id ` set (session_tbl w)"
  by (auto simp: rotating_def)

lemma rotating_later:
  assumes "rotating L F w e rotated" and "sg_id (rr_created rotated) \<notin> F (ext w')"
    and "sg_id (rr_created rotated) \<notin> se_id ` set (session_tbl w')"
  shows "rotating L F w' e rotated"
proof -
  from assms(1) obtain i h t2 t3 expires u where "se_revokedAt e = None" "i \<noteq> []" "uuid_vo L i = Inr i"
    "RefreshTokenHashValueObject L h = Inr h"
    and r: "rotated = \<lparr>rr_revoked = (session_of_row e)\<lparr>sg_revokedAt := Some t3, sg_replacedBySessionId := Some i,
         sg_updatedAt := u\<rparr>,
       rr_created = \<lparr>sg_id = i, sg_createdAt = t2, sg_updatedAt = t2, sg_userId = se_userId e,
         sg_refreshTokenHash = h, sg_expiresAt = expires, sg_revokedAt = None,
         sg_replacedBySessionId = None\<rparr>\<rparr>"
    unfolding rotating_def by blast
  moreover have "i \<notin> F (ext w')" "i \<notin> se_id ` set (session_tbl w')" using assms(2,3) by (simp_all add: r)
  ultimately show ?thesis unfolding rotating_def by blast
qed

lemma request_ok_frame:
  assumes ok: "request_ok L F w c ph" and fr: "frame F K R w w'"
    and K: "row_locks ph \<subseteq> K" and R: "\<And>i. reserved ph = Some i \<Longrightarrow> i \<in> R"
  shows "request_ok L F w' c ph"
proof (cases "row_locks ph \<noteq> {} \<or> redeemed ph")
  case True
  with ok obtain e where e: "e \<in> set (session_tbl w)" "se_refreshTokenHash e = sha256_hex L (rf_refreshToken c)"
    "row_ok L F w ph e" by (auto simp: request_ok_def)
  from frame_row [OF fr e(1)] obtain e' where e': "e' \<in> set (session_tbl w')"
    "se_refreshTokenHash e' = se_refreshTokenHash e" "se_revokedAt e \<noteq> None \<Longrightarrow> se_revokedAt e' \<noteq> None"
    "se_id e' = se_id e" "se_id e \<in> K \<Longrightarrow> e' = e" by metis
  have "row_ok L F w' ph e'"
  proof (cases ph)
    case (Writing k rotated raw)
    with e(3) e'(5) K have same: "e' = e" and rot: "rotating L F w e rotated" by simp_all
    have "sg_id (rr_created rotated) \<in> R" using R Writing by simp
    with fr rotating_new [OF rot] have "rotating L F w' e rotated"
      by (intro rotating_later [OF rot]) (auto simp: frame_def)
    with same have "rotating L F w' e' rotated" by simp
    with Writing e(3) e'(4) show ?thesis by simp
  next
    case (Deciding k current raw expires)
    with e(3) e'(5) K have "e' = e" by simp
    with Deciding e(3) show ?thesis by simp
  qed (use e(3) e' in \<open>auto split: sum.splits\<close>)
  with e(2) e' show ?thesis by (auto simp: request_ok_def)
qed (auto simp: request_ok_def)

section \<open>A step keeps what holds\<close>

text \<open>What a step must establish: the invariant of the rows, what holds of the request itself, and what
  the other requests rely on.\<close>

definition step_ok ::
  "'x lib \<Rightarrow> ('x \<Rightarrow> string set) \<Rightarrow> string set \<Rightarrow> string set \<Rightarrow> 'x world \<Rightarrow> refresh_session_command \<Rightarrow>
   refresh_phase \<Rightarrow> 'x world \<Rightarrow> bool" where
  "step_ok L F K R w c ph' w' \<longleftrightarrow> session_inv L F w' \<and> frame F K R w w' \<and> request_ok L F w' c ph' \<and>
     row_locks ph' \<inter> K = {} \<and> (\<forall>i. reserved ph' = Some i \<longrightarrow> i \<notin> R)"

lemma frame_ext: "F x \<subseteq> F (ext w) \<Longrightarrow> frame F K R w (w\<lparr>ext := x\<rparr>)"
  by (auto simp: frame_def)

lemma step_ext:
  assumes "session_inv L F w" and "F x \<subseteq> F (ext w)" and "request_ok L F (w\<lparr>ext := x\<rparr>) c ph'"
    and "row_locks ph' \<inter> K = {}" and "\<And>i. reserved ph' = Some i \<Longrightarrow> i \<notin> R"
  shows "step_ok L F K R w c ph' (w\<lparr>ext := x\<rparr>)"
  using assms session_inv_ext [OF assms(1,2)] frame_ext [of F x w] by (simp add: step_ok_def)

lemma request_ok_idle: "row_locks ph = {} \<Longrightarrow> \<not> redeemed ph \<Longrightarrow> request_ok L F w c ph"
  by (simp add: request_ok_def)

lemma reserved_lock: "row_locks ph = {} \<Longrightarrow> reserved ph = None"
  by (cases ph) simp_all

lemma step_idle:
  assumes "session_inv L F w" and "F x \<subseteq> F (ext w)" and "row_locks ph' = {}" and "\<not> redeemed ph'"
  shows "step_ok L F K R w c ph' (w\<lparr>ext := x\<rparr>)"
  by (rule step_ext [OF assms(1,2) request_ok_idle]) (use assms(3,4) reserved_lock in auto)

text \<open>A callback that does not find the row consumed asks only the outside world.\<close>

lemma callback_outside:
  assumes "\<not> SessionAggregate_isRevoked current"
  shows "\<exists>g. \<forall>w. refresh_callback L repo h expires current lk w = (fst (g (ext w)), w\<lparr>ext := snd (g (ext w))\<rparr>)"
proof (intro exI allI)
  fix w
  let ?g = "bindE (now L) (\<lambda>t. if SessionAggregate_isExpired current t then throw new_InvalidRefreshTokenException
    else bindE (new_session L (sg_userId current) h expires) (\<lambda>created.
      bindE (SessionAggregate_revoke L (sg_id created) current) (\<lambda>revoked.
      ret \<lparr>rr_revoked = revoked, rr_created = created\<rparr>)))"
  have basic: "outside (throw e) = throw e" "outside (ret a) = ret a" for e :: error and a :: IRotateResult
    by (simp_all add: fun_eq_iff outside_run)
  have "(if b then throw e else bindE (outside m) (\<lambda>a. bindE (outside (n a)) (\<lambda>a'. ret (f a a')))) =
      outside (if b then throw e else bindE m (\<lambda>a. bindE (n a) (\<lambda>a'. ret (f a a'))))"
    for b and e :: error and m :: "('a, error, session_aggregate) comp" and f :: "_ \<Rightarrow> _ \<Rightarrow> IRotateResult"
      and n :: "_ \<Rightarrow> ('a, error, session_aggregate) comp"
    by (simp add: outside_bindE basic)
  then have "refresh_callback L repo h expires current lk = outside ?g"
    unfolding refresh_callback_def if_not_P [OF assms] outside_bindE by (simp del: if_not_P)
  then show "refresh_callback L repo h expires current lk w = (fst (?g (ext w)), w\<lparr>ext := snd (?g (ext w))\<rparr>)"
    by (simp add: outside_run)
qed

lemma row_of_request:
  assumes "request_ok L F w c ph" and "row_locks ph \<noteq> {} \<or> redeemed ph"
  obtains e where "e \<in> set (session_tbl w)" "se_refreshTokenHash e = sha256_hex L (rf_refreshToken c)" "row_ok L F w ph e"
  using assms by (auto simp: request_ok_def)

lemma step_deciding:
  assumes L: "id_supply L F" "hash_ok L" "uuid_ok L" and inv: "session_inv L F w"
    and ok: "request_ok L F w c (Deciding k current raw expires)" and K: "k \<notin> K" and R: "R \<inter> F (ext w) = {}"
    and step: "advance L cfg ul ml scan locked free c (Deciding k current raw expires) w = Some (ph', w')"
  shows "step_ok L F K R w c ph' w'"
proof -
  from ok obtain e where e: "e \<in> set (session_tbl w)" "se_refreshTokenHash e = sha256_hex L (rf_refreshToken c)"
    "se_id e = k" "current = session_of_row e"
    by (rule row_of_request) simp_all
  show ?thesis
  proof (cases "SessionAggregate_isRevoked current")
    case True
    obtain u x where t: "touch L (se_updatedAt e) (ext w) = (u, x)" by fastforce
    with L(1) have F: "F x \<subseteq> F (ext w)" unfolding id_supply_def by (metis snd_conv)
    have "ph' = ReuseFound k current" "w' = w\<lparr>ext := x\<rparr>"
      using step True t by (auto simp: settle_def outside_run SessionAggregate_markReuseDetected_def touched_run
          bindE_def e(4) session_of_row_def)
    moreover have "request_ok L F (w\<lparr>ext := x\<rparr>) c (ReuseFound k current)"
      using e True by (auto simp: request_ok_def SessionAggregate_isRevoked_def session_of_row_def)
    ultimately show ?thesis using step_ext [OF inv F, of c "ReuseFound k current"] K by simp
  next
    case False
    then obtain g where g: "\<And>v. refresh_callback L (session_write_repo L) (sha256_hex L raw) expires current
        (\<lambda>_. ret None) v = (fst (g (ext v)), v\<lparr>ext := snd (g (ext v))\<rparr>)"
      using callback_outside [of current L "session_write_repo L"] by blast
    let ?x = "snd (g (ext w))"
    have step': "(ph', w') = settle (\<lambda>rotated. Writing k rotated raw) (fst (g (ext w)), w\<lparr>ext := ?x\<rparr>)"
      using step False g by (simp add: HashRefreshTokenService_execute_def)
    have run: "refresh_callback L (session_write_repo L) (sha256_hex L raw) expires (session_of_row e) (\<lambda>_. ret None)
        (in_transaction w) = (fst (g (ext w)), in_transaction w\<lparr>ext := ?x\<rparr>)"
      using g [of "in_transaction w"] by (simp add: e(4))
    from L inv e(1) run show ?thesis
    proof (cases rule: session_db.callback_outcome)
      case (rotated x t i t2 t3 u)
      have x: "?x = x" using arg_cong [OF rotated(8), of ext] by simp
      let ?rot = "\<lparr>rr_revoked = (session_of_row e)\<lparr>sg_revokedAt := Some t3, sg_replacedBySessionId := Some i,
          sg_updatedAt := u\<rparr>, rr_created = \<lparr>sg_id = i, sg_createdAt = t2, sg_updatedAt = t2, sg_userId = se_userId e,
          sg_refreshTokenHash = sha256_hex L raw, sg_expiresAt = expires, sg_revokedAt = None,
          sg_replacedBySessionId = None\<rparr>\<rparr>"
      have ph': "ph' = Writing k ?rot raw" "w' = w\<lparr>ext := x\<rparr>"
        using step' rotated(9) by (simp_all add: settle_def x)
      have new: "i \<notin> se_id ` set (session_tbl w)" using inv rotated(2) by (auto simp: session_inv_def ids_spent_def)
      have "RefreshTokenHashValueObject L (sha256_hex L raw) = Inr (sha256_hex L raw)"
        using L(2) by (simp add: hash_ok_def)
      with rotated new have "rotating L F (w\<lparr>ext := x\<rparr>) e ?rot" unfolding rotating_def by auto
      with e have "request_ok L F (w\<lparr>ext := x\<rparr>) c (Writing k ?rot raw)" by (auto simp: request_ok_def)
      moreover have "i \<notin> R" using R rotated(2) by blast
      ultimately show ?thesis using step_ext [OF inv rotated(1), of c "Writing k ?rot raw" K R] K by (simp add: ph')
    next
      case (reuse x t)
      with False e(4) show ?thesis by (simp add: SessionAggregate_isRevoked_def session_of_row_def)
    next
      case (expired x t)
      have "?x = x" using arg_cong [OF expired(5), of ext] by simp
      with step' expired show ?thesis using step_idle [OF inv expired(1)] by (simp add: settle_def)
    next
      case (failed x err)
      have "?x = x" using arg_cong [OF failed(4), of ext] by simp
      with step' failed show ?thesis using step_idle [OF inv failed(1)] by (simp add: settle_def)
    qed
  qed
qed

lemma step_locking:
  assumes inv: "session_inv L F w" and step: "advance L cfg ul ml scan K free c (Locking raw expires) w = Some (ph', w')"
  shows "step_ok L F K R w c ph' w'"
proof (cases "find (\<lambda>e. se_refreshTokenHash e = sha256_hex L (rf_refreshToken c)) (session_tbl w)")
  case None
  with step have "ph' = Answered (Inl new_InvalidRefreshTokenException)" "w' = w"
    by (auto simp: HashRefreshTokenService_execute_def)
  with step_idle [OF inv, of "ext w" ph' K R c] show ?thesis by simp
next
  case (Some e)
  from find_Some_iff_ex [OF this] have e: "e \<in> set (session_tbl w)" "se_refreshTokenHash e = sha256_hex L (rf_refreshToken c)"
    by simp_all
  with inv have "session_from_row L e = Inr (session_of_row e)" by (auto simp: session_inv_def intro: sessions_storedD)
  with step Some have "se_id e \<notin> K" "ph' = Deciding (se_id e) (session_of_row e) raw expires" "w' = w"
    by (auto simp: HashRefreshTokenService_execute_def settle_def outside_run session_toAggregate_run split: if_splits)
  moreover have "request_ok L F w c (Deciding (se_id e) (session_of_row e) raw expires)"
    using e by (auto simp: request_ok_def)
  ultimately show ?thesis using step_ext [OF inv, of "ext w" c ph' K R] by simp
qed

lemma step_reused:
  assumes L: "id_supply L F" and inv: "session_inv L F w" and ok: "request_ok L F w c (ReuseFound k current)"
    and K: "k \<notin> K" and step: "advance L cfg ul ml scan locked free c (ReuseFound k current) w = Some (ph', w')"
  shows "step_ok L F K R w c ph' w'"
proof -
  obtain t x where t: "sql_now L (ext w) = (t, x)" by fastforce
  with L have F: "F x \<subseteq> F (ext w)" unfolding id_supply_def by (metis snd_conv)
  from step t obtain todo where ph': "ph' = Revoking k current t todo []" "w' = w\<lparr>ext := x\<rparr>" by (auto split: if_splits)
  from ok have "request_ok L F (w\<lparr>ext := x\<rparr>) c ph'" by (simp add: request_ok_def ph')
  then show ?thesis unfolding ph'(2) by (rule step_ext [OF inv F]) (simp_all add: ph' K)
qed

text \<open>The update locks the next row, which nobody else has locked.\<close>

lemma step_lock_next:
  assumes inv: "session_inv L F w" and ok: "request_ok L F w c (Revoking k current t (i # todo) held)"
    and K: "insert k (set held) \<inter> K = {}"
    and step: "advance L cfg ul ml scan K free c (Revoking k current t (i # todo) held) w = Some (ph', w')"
  shows "step_ok L F K R w c ph' w'"
proof -
  from step have i: "i \<notin> K" and ph': "ph' = Revoking k current t todo (i # held)" "w' = w" by (auto split: if_splits)
  from ok have "request_ok L F w c ph'" by (simp add: request_ok_def ph')
  with i K step_ext [OF inv, of "ext w" c ph' K R] show ?thesis by (auto simp: ph')
qed

lemma revoked_frame:
  assumes "\<forall>e. p e \<longrightarrow> se_id e \<notin> K"
  shows "frame F K R w (w\<lparr>session_tbl := set_revoked_at t p (session_tbl w)\<rparr>)"
proof -
  let ?f = "\<lambda>e. if p e then e\<lparr>se_revokedAt := Some t\<rparr> else e"
  have ids: "se_id (?f e) = se_id e" "se_refreshTokenHash (?f e) = se_refreshTokenHash e" for e by simp_all
  have "\<exists>e' \<in> ?f ` set (session_tbl w). se_id e' = se_id e \<and> se_refreshTokenHash e' = se_refreshTokenHash e \<and>
      (se_revokedAt e \<noteq> None \<longrightarrow> se_revokedAt e' \<noteq> None) \<and> (se_id e \<in> K \<longrightarrow> e' = e)"
    if "e \<in> set (session_tbl w)" for e
  proof (rule bexI [where x = "?f e"])
    show "?f e \<in> ?f ` set (session_tbl w)" using that by (rule imageI)
    show "se_id (?f e) = se_id e \<and> se_refreshTokenHash (?f e) = se_refreshTokenHash e \<and>
      (se_revokedAt e \<noteq> None \<longrightarrow> se_revokedAt (?f e) \<noteq> None) \<and> (se_id e \<in> K \<longrightarrow> ?f e = e)" using assms by auto
  qed
  moreover have "se_id ` ?f ` set (session_tbl w) = se_id ` set (session_tbl w)" unfolding image_image ids ..
  ultimately show ?thesis by (simp add: frame_def set_revoked_at_def)
qed

text \<open>The update ends: it has changed rows that it had locked itself.\<close>

lemma step_update_ends:
  assumes inv: "session_inv L F w" and K: "insert k (set held) \<inter> K = {}"
    and step: "advance L cfg ul ml scan locked free c (Revoking k current t [] held) w = Some (ph', w')"
  shows "step_ok L F K R w c ph' w'"
proof -
  let ?p = "\<lambda>e. se_id e \<in> set held \<and> live_of (sg_userId current) e"
  let ?w = "w\<lparr>session_tbl := set_revoked_at (driver_date t) ?p (session_tbl w)\<rparr>"
  from step have res: "ph' = Answered (Inl new_RefreshTokenReuseDetectedException)" "w' = ?w" by simp_all
  have "session_inv L F ?w" using session_inv_revoked [OF inv, of "ext w" "driver_date t" ?p] by simp
  moreover have "frame F K R w ?w" by (rule revoked_frame) (use K in auto)
  ultimately show ?thesis by (simp add: step_ok_def res request_ok_idle)
qed

lemma step_rotated:
  assumes L: "id_supply L F" and inv: "session_inv L F w" and ok: "request_ok L F w c (Rotated u raw)"
    and step: "advance L cfg (user_lookup L) (membership_lookup L M) scan K free c (Rotated u raw) w = Some (ph', w')"
  shows "step_ok L F K R w c ph' w'"
proof -
  obtain r where run: "refresh_access_token L (user_lookup L) (membership_lookup L M) u w = (r, w')"
    and ph': "ph' = (case r of Inl err \<Rightarrow> Answered (Inl err)
      | Inr token \<Rightarrow> Answered (Inr \<lparr>lr_accessToken = token, lr_refreshToken = raw\<rparr>))"
    using step by (cases "refresh_access_token L (user_lookup L) (membership_lookup L M) u w")
      (auto simp: settle_def split: if_splits)
  let ?I = "\<lambda>v. \<exists>x. F x \<subseteq> F (ext w) \<and> v = w\<lparr>ext := x\<rparr>"
  have out: "preserves ?I (outside m)" if "id_decreasing F m" for m :: "('a, error, 'b) comp"
  proof (rule preservesI)
    fix v r' v' assume "?I v" and run: "outside m v = (r', v')"
    then obtain x where x: "F x \<subseteq> F (ext w)" "v = w\<lparr>ext := x\<rparr>" by blast
    with run have "v' = w\<lparr>ext := snd (m x)\<rparr>" by (auto simp: outside_run)
    moreover have "F (snd (m x)) \<subseteq> F (ext w)" using that x(1) by (auto simp: id_decreasing_def)
    ultimately show "?I v'" by blast
  qed
  have "preserves ?I (refresh_access_token L (user_lookup L) (membership_lookup L M) u)"
    unfolding refresh_access_token_def by (intro preserving lookups_keep out id_supply_calls L)
  moreover have "w = w\<lparr>ext := ext w\<rparr>" by simp
  then have "?I w" by blast
  ultimately obtain x where x: "F x \<subseteq> F (ext w)" "w' = w\<lparr>ext := x\<rparr>" using run by (blast dest: preservesD)
  moreover have "request_ok L F (w\<lparr>ext := x\<rparr>) c ph'"
    using ok by (cases r) (auto simp: request_ok_def ph')
  moreover have "row_locks ph' = {}" by (cases r) (simp_all add: ph')
  ultimately show ?thesis using step_ext [OF inv x(1), of c ph' K R] reserved_lock [of ph'] by simp
qed

lemma two_upserts:
  assumes "se_id c \<notin> se_id ` set rs" and "se_id r \<noteq> se_id c"
  shows "set (upsert se_id r (upsert se_id c rs)) = insert r (insert c {x \<in> set rs. se_id x \<noteq> se_id r})"
proof -
  have "\<forall>x \<in> set rs. se_id x \<noteq> se_id c" using assms(1) by (metis image_eqI)
  with assms(2) show ?thesis by (auto simp: set_upsert)
qed

text \<open>The commit: the row of the presented token is consumed, its successor is stored.\<close>

lemma step_writing:
  assumes L: "id_supply L F" and inv: "session_inv L F w" and ok: "request_ok L F w c (Writing k rot raw)"
    and K: "k \<notin> K" and R: "sg_id (rr_created rot) \<notin> R"
    and step: "advance L cfg ul ml scan locked free c (Writing k rot raw) w = Some (ph', w')"
  shows "step_ok L F K R w c ph' w'"
proof -
  from ok obtain e where e: "e \<in> set (session_tbl w)" "se_refreshTokenHash e = sha256_hex L (rf_refreshToken c)"
    "se_id e = k" "rotating L F w e rot"
    by (rule row_of_request) simp_all
  from e(4) obtain i h t2 t3 expires u where i: "i \<notin> F (ext w)" "i \<notin> se_id ` set (session_tbl w)" "i \<noteq> []"
    "uuid_vo L i = Inr i" "RefreshTokenHashValueObject L h = Inr h"
    and rot: "rot = \<lparr>rr_revoked = (session_of_row e)\<lparr>sg_revokedAt := Some t3, sg_replacedBySessionId := Some i,
         sg_updatedAt := u\<rparr>,
       rr_created = \<lparr>sg_id = i, sg_createdAt = t2, sg_updatedAt = t2, sg_userId = se_userId e,
         sg_refreshTokenHash = h, sg_expiresAt = expires, sg_revokedAt = None,
         sg_replacedBySessionId = None\<rparr>\<rparr>"
    unfolding rotating_def by blast
  let ?c = "SessionTypeOrmMapper_toEntity (rr_created rot)" and ?r = "SessionTypeOrmMapper_toEntity (rr_revoked rot)"
  let ?tbl = "upsert se_id ?r (upsert se_id ?c (session_tbl w))"
  obtain out w1 where run: "write_rotation L rot w = (out, w1)" by fastforce
  from inv have tx: "tx_pending w = None" and old: "session_from_row L e = Inr (session_of_row e)"
    using e(1) by (auto simp: session_inv_def intro: sessions_storedD)
  note vos = session_from_row_Inr [OF old, simplified session_of_row_def session_aggregate.simps]
  show ?thesis
  proof (cases out)
    case (Inl err)
    with run tx have "w1 = w"
      by (auto simp: write_rotation_run Let_def split: option.splits sum.splits)
    with Inl run step show ?thesis using step_idle [OF inv, of "ext w" ph' K R c] by (auto simp: settle_def)
  next
    case (Inr written)
    with run tx obtain revoked created where cc: "check_session w (session_tbl w) ?c = None"
      "check_session w (upsert se_id ?c (session_tbl w)) ?r = None"
      and rd: "session_from_row L ?r = Inr revoked" "session_from_row L ?c = Inr created"
      and w1: "w1 = w\<lparr>session_tbl := ?tbl\<rparr>"
      by (auto simp: write_rotation_run Let_def split: option.splits sum.splits)
    have rdc: "session_from_row L ?c = Inr (session_of_row ?c)"
      by (rule session_from_row_stable [OF rd(2)]) (use i vos in \<open>auto simp: rot\<close>)
    have rdr: "session_from_row L ?r = Inr (session_of_row ?r)"
      by (rule session_from_row_stable [OF rd(1)]) (use i vos in \<open>auto simp: rot session_of_row_def\<close>)
    have ids: "se_id ?c = i" "se_id ?r = k" "se_refreshTokenHash ?r = se_refreshTokenHash e" "se_revokedAt ?r \<noteq> None"
      using e(3) by (simp_all add: rot session_of_row_def)
    have "session_inv L F (w\<lparr>session_tbl := upsert se_id ?c (session_tbl w)\<rparr>)"
      using session_inv_save [OF inv cc(1) rdc] i ids by simp
    moreover have "k \<notin> F (ext w)" using inv e by (auto simp: session_inv_def ids_spent_def)
    ultimately have inv1: "session_inv L F w1"
      using session_inv_save [of L F "w\<lparr>session_tbl := upsert se_id ?c (session_tbl w)\<rparr>" ?r] cc rdr ids by (simp add: w1)
    have "k \<noteq> i" using i(2) e by auto
    then have tbl: "set ?tbl = insert ?r (insert ?c {x \<in> set (session_tbl w). se_id x \<noteq> k})"
      using two_upserts [of ?c "session_tbl w" ?r] i(2) ids by simp
    have "\<exists>x' \<in> set ?tbl. se_id x' = se_id x \<and> se_refreshTokenHash x' = se_refreshTokenHash x \<and>
        (se_revokedAt x \<noteq> None \<longrightarrow> se_revokedAt x' \<noteq> None) \<and> (se_id x \<in> K \<longrightarrow> x' = x)"
      if x: "x \<in> set (session_tbl w)" for x
    proof (cases "se_id x = k")
      case True
      with x e inv have "x = e" by (auto simp: session_inv_def dest: session_same)
      with True K ids show ?thesis by (intro bexI [of _ ?r]) (auto simp: tbl)
    next
      case False
      with x show ?thesis by (intro bexI [of _ x]) (auto simp: tbl)
    qed
    moreover have "se_id ` set ?tbl \<subseteq> insert i (se_id ` set (session_tbl w))"
      unfolding tbl using ids(1,2) imageI [OF e(1), of se_id] e(3) by auto
    then have "se_id ` set ?tbl \<inter> R \<subseteq> se_id ` set (session_tbl w)" using R by (auto simp: rot)
    ultimately have "frame F K R w w1" by (simp add: frame_def w1)
    moreover have "ph' = Rotated (sg_userId (rr_created written)) raw" "w' = w1"
      using step run Inr by (simp_all add: settle_def)
    moreover have "request_ok L F w1 c (Rotated (sg_userId (rr_created written)) raw)"
      unfolding request_ok_def using e(2) ids by (auto simp: w1 tbl intro!: bexI [of _ ?r])
    ultimately show ?thesis using inv1 by (simp add: step_ok_def)
  qed
qed

lemma advance_ok:
  assumes L: "id_supply L F" "hash_ok L" "uuid_ok L" and inv: "session_inv L F w" and ok: "request_ok L F w c ph"
    and K: "row_locks ph \<inter> K = {}" and R: "\<And>i. reserved ph = Some i \<Longrightarrow> i \<notin> R"
    and fresh: "R \<inter> F (ext w) = {}"
    and step: "advance L cfg (user_lookup L) (membership_lookup L M) scan K free c ph w = Some (ph', w')"
  shows "step_ok L F K R w c ph' w'"
proof (cases ph)
  case Arrived
  obtain raw x1 where x1: "random_base64url L 32 (ext w) = (raw, x1)" by fastforce
  obtain t x2 where x2: "new_date L x1 = (t, x2)" by fastforce
  have "F x1 \<subseteq> F (ext w)" "F x2 \<subseteq> F x1" using L(1) x1 x2 unfolding id_supply_def by (metis snd_conv)+
  then have "F x2 \<subseteq> F (ext w)" by blast
  moreover have "ph' = Prepared raw (expiry cfg t)" "w' = w\<lparr>ext := x2\<rparr>"
    using step Arrived x1 x2 by (auto simp: settle_def bindE_def outside_run GenerateRefreshTokenService_execute_def
        stepS_run now_run)
  ultimately show ?thesis using step_idle [OF inv, of x2 ph' K R c] by simp
next
  case (Prepared raw expires)
  with step have "ph' = Locking raw expires" "w' = w" by (auto split: if_splits)
  then show ?thesis using step_idle [OF inv, of "ext w" ph' K R c] by simp
next
  case (Locking raw expires)
  show ?thesis by (rule step_locking [OF inv step [unfolded Locking]])
next
  case (Deciding k current raw expires)
  show ?thesis by (rule step_deciding [OF L inv _ _ fresh step [unfolded Deciding]]) (use ok K Deciding in auto)
next
  case (ReuseFound k current)
  show ?thesis by (rule step_reused [OF L(1) inv _ _ step [unfolded ReuseFound]]) (use ok K ReuseFound in auto)
next
  case (Revoking k current t todo held)
  show ?thesis
  proof (cases todo)
    case Nil
    show ?thesis by (rule step_update_ends [OF inv _ step [unfolded Revoking Nil]]) (use K Revoking in auto)
  next
    case (Cons i todo')
    show ?thesis by (rule step_lock_next [OF inv _ _ step [unfolded Revoking Cons]]) (use ok K Revoking Cons in auto)
  qed
next
  case (Writing k rot raw)
  show ?thesis by (rule step_writing [OF L(1) inv _ _ _ step [unfolded Writing]]) (use ok K R Writing in auto)
next
  case (Rotated u raw)
  show ?thesis by (rule step_rotated [OF L(1) inv _ step [unfolded Rotated]]) (use ok Rotated in auto)
next
  case (Answered res)
  with step show ?thesis by simp
qed

section \<open>What holds of the system\<close>

text \<open>No row is locked twice, no id is drawn twice, no token is redeemed twice.\<close>

definition apart :: "refresh_session_command \<times> refresh_phase \<Rightarrow> refresh_session_command \<times> refresh_phase \<Rightarrow> bool" where
  "apart r r' \<longleftrightarrow>
     row_locks (snd r) \<inter> row_locks (snd r') = {} \<and>
     (\<forall>n. reserved (snd r) = Some n \<longrightarrow> reserved (snd r') \<noteq> Some n) \<and>
     (redeemed (snd r) \<longrightarrow> redeemed (snd r') \<longrightarrow> rf_refreshToken (fst r) \<noteq> rf_refreshToken (fst r'))"

definition consistent :: "'x lib \<Rightarrow> ('x \<Rightarrow> string set) \<Rightarrow> 'x system \<Rightarrow> bool" where
  "consistent L F s \<longleftrightarrow> session_inv L F (fst s) \<and>
     (\<forall>r \<in> set (snd s). request_ok L F (fst s) (fst r) (snd r)) \<and>
     (\<forall>i < length (snd s). \<forall>j < length (snd s). i \<noteq> j \<longrightarrow> apart (snd s ! i) (snd s ! j))"

lemma apart_sym: "apart r r' \<Longrightarrow> apart r' r"
  unfolding apart_def by (metis inf_commute)

lemma apart_update:
  assumes "\<And>i j. i < length rs \<Longrightarrow> j < length rs \<Longrightarrow> i \<noteq> j \<Longrightarrow> apart (rs ! i) (rs ! j)"
    and "\<And>j. j < length rs \<Longrightarrow> j \<noteq> n \<Longrightarrow> apart r (rs ! j)"
    and "i < length rs" and "j < length rs" and "i \<noteq> j"
  shows "apart (rs[n := r] ! i) (rs[n := r] ! j)"
  using assms apart_sym by (cases "i = n"; cases "j = n") auto

lemma reserved_writing: "reserved ph = Some n \<Longrightarrow> \<exists>k rot raw. ph = Writing k rot raw \<and> n = sg_id (rr_created rot)"
  by (cases ph) auto

lemma reserved_fresh:
  assumes "request_ok L F w c ph" and "reserved ph = Some n"
  shows "n \<notin> F (ext w) \<and> n \<notin> se_id ` set (session_tbl w)"
proof -
  from reserved_writing [OF assms(2)] obtain k rot raw where ph: "ph = Writing k rot raw" "n = sg_id (rr_created rot)"
    by blast
  from assms(1) obtain e where "row_ok L F w ph e" by (rule row_of_request) (simp_all add: ph)
  with ph rotating_new [of L F w e rot] show ?thesis by simp
qed

text \<open>A request redeems its token only from \<open>Writing\<close>, and there the row of the token is live.\<close>

lemma redeems_from_writing:
  assumes "advance L cfg ul ml scan K free c ph w = Some (ph', w')" and "redeemed ph'" and "\<not> redeemed ph"
  shows "\<exists>k rot raw. ph = Writing k rot raw"
  using assms
  by (cases "(L, cfg, ul, ml, scan, K, free, c, ph, w)" rule: advance.cases)
    (auto simp: settle_def split: if_splits option.splits sum.splits prod.splits)

lemma redeemed_apart:
  assumes inv: "session_inv L F w" and ok: "request_ok L F w c ph" "request_ok L F w c' ph2"
    and step: "advance L cfg ul ml scan K free c ph w = Some (ph', w')"
    and apart: "redeemed ph \<Longrightarrow> redeemed ph2 \<Longrightarrow> rf_refreshToken c \<noteq> rf_refreshToken c'"
    and red: "redeemed ph'" "redeemed ph2"
  shows "rf_refreshToken c \<noteq> rf_refreshToken c'"
proof (cases "redeemed ph")
  case False
  from redeems_from_writing [OF step red(1) False] obtain k rot raw where ph: "ph = Writing k rot raw" by blast
  from ok(1) obtain e where e: "e \<in> set (session_tbl w)" "se_refreshTokenHash e = sha256_hex L (rf_refreshToken c)"
    "row_ok L F w ph e" by (rule row_of_request) (simp_all add: ph)
  from ok(2) obtain x where x: "x \<in> set (session_tbl w)" "se_refreshTokenHash x = sha256_hex L (rf_refreshToken c')"
    "row_ok L F w ph2 x" by (rule row_of_request) (simp_all add: red)
  have "se_revokedAt x \<noteq> None" using x(3) red(2) by (cases ph2) auto
  moreover have "se_revokedAt e = None" using e(3) ph rotating_new [of L F w e rot] by simp
  ultimately have "x \<noteq> e" by auto
  with inv e x have "se_refreshTokenHash x \<noteq> se_refreshTokenHash e" by (auto simp: session_inv_def dest: session_same)
  with e(2) x(2) show ?thesis by auto
qed (use apart red in blast)

definition reserved_ids :: "(refresh_session_command \<times> refresh_phase) list \<Rightarrow> nat \<Rightarrow> string set" where
  "reserved_ids rs i = {n. \<exists>j < length rs. j \<noteq> i \<and> reserved (snd (rs ! j)) = Some n}"

lemma reserved_apart: "consistent L F (w, rs) \<Longrightarrow> reserved_ids rs i \<inter> F (ext w) = {}"
  using reserved_fresh nth_mem by (fastforce simp: consistent_def reserved_ids_def)

lemma request_step_ok:
  assumes L: "id_supply L F" "hash_ok L" "uuid_ok L" and con: "consistent L F (w, rs)"
    and i: "i < length rs" "rs ! i = (c, ph)"
    and step: "advance L cfg (user_lookup L) (membership_lookup L M) scan (locked_rows rs i) free c ph w = Some (ph', w')"
  shows "step_ok L F (locked_rows rs i) (reserved_ids rs i) w c ph' w'"
proof -
  from con have inv: "session_inv L F w" by (simp add: consistent_def)
  have sep: "apart (rs ! j) (rs ! j')" if "j < length rs" "j' < length rs" "j \<noteq> j'" for j j'
    using con that by (simp add: consistent_def)
  have oki: "request_ok L F w c ph" using con nth_mem [OF i(1)] i(2) by (auto simp: consistent_def)
  have "row_locks ph \<inter> locked_rows rs i = {}"
  proof (rule equals0I)
    fix k assume "k \<in> row_locks ph \<inter> locked_rows rs i"
    then obtain j where "j < length rs" "j \<noteq> i" "k \<in> row_locks (snd (rs ! j))" "k \<in> row_locks (snd (rs ! i))"
      using i(2) by (auto simp: locked_rows_iff)
    with sep [of i j] i(1) show False unfolding apart_def by blast
  qed
  moreover have "\<And>n. reserved ph = Some n \<Longrightarrow> n \<notin> reserved_ids rs i"
    using sep i by (fastforce simp: apart_def reserved_ids_def)
  ultimately show ?thesis by (rule advance_ok [OF L inv oki _ _ reserved_apart [OF con] step])
qed

lemma request_consistent:
  assumes L: "id_supply L F" "hash_ok L" "uuid_ok L" and con: "consistent L F (w, rs)"
    and i: "i < length rs" "rs ! i = (c, ph)"
    and step: "advance L cfg (user_lookup L) (membership_lookup L M) scan (locked_rows rs i) free c ph w = Some (ph', w')"
  shows "consistent L F (w', rs[i := (c, ph')])"
proof -
  let ?K = "locked_rows rs i" and ?R = "reserved_ids rs i"
  from con have inv: "session_inv L F w" by (simp add: consistent_def)
  have ok: "request_ok L F w (fst (rs ! j)) (snd (rs ! j))" if "j < length rs" for j
    using con nth_mem [OF that] by (simp add: consistent_def)
  have sep: "apart (rs ! j) (rs ! j')" if "j < length rs" "j' < length rs" "j \<noteq> j'" for j j'
    using con that by (simp add: consistent_def)
  have oki: "request_ok L F w c ph" using ok [OF i(1)] i(2) by simp
  from request_step_ok [OF L con i step]
  have new: "session_inv L F w'" "frame F ?K ?R w w'" "request_ok L F w' c ph'"
    "row_locks ph' \<inter> ?K = {}" "\<And>n. reserved ph' = Some n \<Longrightarrow> n \<notin> ?R"
    by (simp_all add: step_ok_def)
  have others: "request_ok L F w' (fst (rs ! j)) (snd (rs ! j))" if "j < length rs" "j \<noteq> i" for j
    by (rule request_ok_frame [OF ok [OF that(1)] new(2)])
      (use that in \<open>auto simp: locked_rows_iff reserved_ids_def\<close>)
  have apart: "apart (c, ph') (rs ! j)" if j: "j < length rs" "j \<noteq> i" for j
    unfolding apart_def fst_conv snd_conv
  proof (intro conjI allI impI)
    have "row_locks (snd (rs ! j)) \<subseteq> ?K" using j by (auto simp: locked_rows_iff)
    with new(4) show "row_locks ph' \<inter> row_locks (snd (rs ! j)) = {}" by blast
    show "reserved (snd (rs ! j)) \<noteq> Some n" if "reserved ph' = Some n" for n
      using new(5) [OF that] j by (auto simp: reserved_ids_def)
    show "rf_refreshToken c \<noteq> rf_refreshToken (fst (rs ! j))" if "redeemed ph'" "redeemed (snd (rs ! j))"
      by (rule redeemed_apart [OF inv oki ok [OF j(1)] step _ that])
        (use sep [OF i(1) j(1)] i(2) j(2) in \<open>auto simp: apart_def\<close>)
  qed
  have "\<forall>r \<in> set (rs[i := (c, ph')]). request_ok L F w' (fst r) (snd r)"
  proof
    fix r assume "r \<in> set (rs[i := (c, ph')])"
    then obtain j where "j < length rs" "r = rs[i := (c, ph')] ! j" by (auto simp: in_set_conv_nth)
    with others new(3) show "request_ok L F w' (fst r) (snd r)" by (cases "j = i") auto
  qed
  moreover have "apart (rs[i := (c, ph')] ! j) (rs[i := (c, ph')] ! j')"
    if "j < length rs" "j' < length rs" "j \<noteq> j'" for j j'
    using sep apart that by (rule apart_update)
  ultimately show ?thesis using new(1) by (simp add: consistent_def)
qed

lemma elsewhere_consistent:
  assumes con: "consistent L F (w, rs)" and other: "elsewhere L F w w'"
  shows "consistent L F (w', rs)"
proof -
  let ?R = "{n. \<exists>r \<in> set rs. reserved (snd r) = Some n}"
  have ok: "request_ok L F w (fst r) (snd r)" if "r \<in> set rs" for r
    using con that by (simp add: consistent_def)
  have "?R \<inter> F (ext w) = {}" using ok reserved_fresh by fastforce
  then have fr: "frame F UNIV ?R w w'"
    using other unfolding elsewhere_def frame_def by blast
  have "request_ok L F w' (fst r) (snd r)" if r: "r \<in> set rs" for r
    by (rule request_ok_frame [OF ok [OF r] fr]) (use r in auto)
  with con other show ?thesis by (simp add: consistent_def elsewhere_def)
qed

lemma runs_consistent:
  assumes L: "id_supply L F" "hash_ok L" "uuid_ok L"
    and run: "runs L F cfg (user_lookup L) (membership_lookup L M) N s s'" and con: "consistent L F s"
  shows "consistent L F s'"
  using run
proof induction
  case (step s1 s2)
  from step.hyps(2) show ?case
  proof (cases rule: concurrent.cases)
    case (arrive w rs c)
    have "apart ((rs @ [(c, Arrived)]) ! i) ((rs @ [(c, Arrived)]) ! j)"
      if "i < Suc (length rs)" "j < Suc (length rs)" "i \<noteq> j" for i j
      using step.IH that arrive(1) by (auto simp: consistent_def nth_append less_Suc_eq) (auto simp: apart_def)
    with step.IH show ?thesis by (auto simp: consistent_def arrive request_ok_idle)
  next
    case (request i rs c ph scan w ph' w')
    from request_consistent [OF L _ request(3,4,6)] step.IH request(1,2) show ?thesis by simp
  next
    case (other rs w w')
    from elsewhere_consistent [OF _ other(4)] step.IH other(1,2) show ?thesis by simp
  qed
qed (rule con)

text \<open>No row is lost, and none changes its id or its token.\<close>

lemma runs_keep_rows:
  assumes L: "id_supply L F" "hash_ok L" "uuid_ok L"
    and run: "runs L F cfg (user_lookup L) (membership_lookup L M) N s s'" and con: "consistent L F s"
    and e: "e \<in> set (session_tbl (fst s))"
  shows "\<exists>e' \<in> set (session_tbl (fst s')). se_id e' = se_id e \<and> se_refreshTokenHash e' = se_refreshTokenHash e"
  using run
proof induction
  case (step s1 s2)
  from step.IH obtain e1 where e1: "e1 \<in> set (session_tbl (fst s1))" "se_id e1 = se_id e"
    "se_refreshTokenHash e1 = se_refreshTokenHash e" by blast
  from step.hyps(2) show ?case
  proof (cases rule: concurrent.cases)
    case (request i rs c ph scan w ph' w')
    have "consistent L F (w, rs)" using runs_consistent [OF L step.hyps(1) con] request(1) by simp
    from request_step_ok [OF L this request(3,4,6)] have "frame F (locked_rows rs i) (reserved_ids rs i) w w'"
      by (simp add: step_ok_def)
    from frame_row [OF this, of e1] e1 request(1,2) show ?thesis by (metis fst_conv)
  next
    case (other rs w w')
    then show ?thesis using e1 by (auto simp: elsewhere_def)
  qed (use e1 in auto)
qed (use e in blast)

lemma nobody_consistent: "session_inv L F w \<Longrightarrow> consistent L F (w, [])"
  by (simp add: consistent_def)

section \<open>Single use\<close>

text \<open>C4: no refresh token is exchanged for new tokens twice, however refresh requests overlap: in any
  state that the requests reach by taking their steps in any order, between steps of the rest of
  the service, two requests that were answered with new tokens had presented different tokens.\<close>

theorem interleaved_single_use:
  assumes "id_supply L F" and "hash_ok L" and "uuid_ok L" and "session_inv L F w"
    and "runs L F cfg (user_lookup L) (membership_lookup L M) N (w, []) (w', rs)"
    and "i < length rs" and "j < length rs" and "i \<noteq> j"
    and "rs ! i = (c, Answered (Inr r))" and "rs ! j = (c', Answered (Inr r'))"
  shows "rf_refreshToken c \<noteq> rf_refreshToken c'"
proof -
  have "consistent L F (w', rs)"
    by (rule runs_consistent [OF assms(1-3,5) nobody_consistent [OF assms(4)]])
  then have "apart (rs ! i) (rs ! j)" using assms(6-8) by (simp add: consistent_def)
  with assms(9,10) show ?thesis by (simp add: apart_def)
qed

section \<open>An exhausted pool\<close>

lemma visits_in_order: "visits_once (\<lambda>is. is)"
  by (simp add: visits_once_def)

definition waiting :: "refresh_session_command \<Rightarrow> (string \<times> int) list \<Rightarrow> (refresh_session_command \<times> refresh_phase) list" where
  "waiting c ps = map (\<lambda>(raw, expires). (c, Locking raw expires)) ps"

lemma busy_append [simp]: "busy (rs @ rs') = busy rs + busy rs'" "busy [] = 0" "busy (r # rs) = connections (snd r) + busy rs"
  by (simp_all add: busy_def)

lemma busy_waiting [simp]: "busy (waiting c ps) = length ps"
  by (induction ps) (auto simp: waiting_def busy_def)

lemma waiting_unlocked: "locked_rows (waiting c ps) i = {}"
  by (auto simp: locked_rows_def waiting_def split: prod.splits)

lemma waiting_length [simp]: "length (waiting c ps) = length ps"
  by (simp add: waiting_def)

lemma arrived_step:
  obtains raw expires x where "advance L cfg ul ml scan K free c Arrived w = Some (Prepared raw expires, w\<lparr>ext := x\<rparr>)"
proof -
  obtain raw x1 where x1: "random_base64url L 32 (ext w) = (raw, x1)" by fastforce
  obtain t x2 where x2: "new_date L x1 = (t, x2)" by fastforce
  show thesis
    by (rule that [of raw "expiry cfg t" x2])
      (simp add: settle_def bindE_def outside_run GenerateRefreshTokenService_execute_def stepS_run now_run x1 x2)
qed

lemma requests_queue:
  "n \<le> N \<Longrightarrow> \<exists>x ps. runs L F cfg ul ml N (w, []) (w\<lparr>ext := x\<rparr>, waiting c ps) \<and> length ps = n"
proof (induction n)
  case 0
  show ?case by (intro exI [of _ "ext w"] exI [of _ "[]"]) (simp add: waiting_def)
next
  case (Suc n)
  then obtain x ps where run: "runs L F cfg ul ml N (w, []) (w\<lparr>ext := x\<rparr>, waiting c ps)" and n: "length ps = n" by auto
  obtain raw expires x1 where prep: "advance L cfg ul ml (\<lambda>is. is) (locked_rows (waiting c ps @ [(c, Arrived)]) n)
      (N - busy (waiting c ps @ [(c, Arrived)])) c Arrived (w\<lparr>ext := x\<rparr>) = Some (Prepared raw expires, w\<lparr>ext := x1\<rparr>)"
    by (rule arrived_step [of L cfg ul ml _ _ _ c "w\<lparr>ext := x\<rparr>"]) simp
  have "concurrent L F cfg ul ml N (w\<lparr>ext := x\<rparr>, waiting c ps) (w\<lparr>ext := x\<rparr>, waiting c ps @ [(c, Arrived)])"
    by (rule arrive)
  moreover have "concurrent L F cfg ul ml N (w\<lparr>ext := x\<rparr>, waiting c ps @ [(c, Arrived)])
      (w\<lparr>ext := x1\<rparr>, waiting c ps @ [(c, Prepared raw expires)])"
    using request [OF _ _ visits_in_order prep, of F] n by (simp add: nth_append list_update_append)
  moreover have "concurrent L F cfg ul ml N (w\<lparr>ext := x1\<rparr>, waiting c ps @ [(c, Prepared raw expires)])
      (w\<lparr>ext := x1\<rparr>, waiting c ps @ [(c, Locking raw expires)])"
    using request [of n "waiting c ps @ [(c, Prepared raw expires)]" c "Prepared raw expires" "\<lambda>is. is" L cfg ul ml N
        "w\<lparr>ext := x1\<rparr>" "Locking raw expires" "w\<lparr>ext := x1\<rparr>" F] n Suc.prems
    by (simp add: nth_append list_update_append visits_in_order)
  moreover have "waiting c ps @ [(c, Locking raw expires)] = waiting c (ps @ [(raw, expires)])" by (simp add: waiting_def)
  ultimately have "runs L F cfg ul ml N (w, []) (w\<lparr>ext := x1\<rparr>, waiting c (ps @ [(raw, expires)]))"
    using run by (metis (no_types, lifting) rtranclp.rtrancl_into_rtrancl)
  with n show ?case by (intro exI [of _ x1] exI [of _ "ps @ [(raw, expires)]"]) simp
qed

fun in_queue :: "refresh_phase \<Rightarrow> bool" where
  "in_queue Arrived = True"
| "in_queue (Prepared raw expires) = True"
| "in_queue ph = False"

text \<open>One request holds the row and a connection, the rest of the pool waits for the row.\<close>

definition stuck ::
  "'x world \<Rightarrow> nat \<Rightarrow> string \<Rightarrow> refresh_session_command \<Rightarrow> 'x system \<Rightarrow> bool" where
  "stuck w N k c s \<longleftrightarrow> (\<exists>x current ps queue.
     s = (w\<lparr>ext := x\<rparr>, (c, ReuseFound k current) # waiting c ps @ queue) \<and> Suc (length ps) = N \<and>
     (\<forall>r \<in> set queue. in_queue (snd r)))"

lemma stuck_stays:
  assumes find: "find (\<lambda>e. se_refreshTokenHash e = sha256_hex L (rf_refreshToken c)) (session_tbl w) = Some e"
    and st: "stuck w N (se_id e) c s" and step: "concurrent L F cfg ul ml N s s'"
  shows "stuck w N (se_id e) c s'"
proof -
  from st obtain x current ps queue where s: "s = (w\<lparr>ext := x\<rparr>, (c, ReuseFound (se_id e) current) # waiting c ps @ queue)"
    and N: "Suc (length ps) = N" and q: "\<And>r. r \<in> set queue \<Longrightarrow> in_queue (snd r)"
    unfolding stuck_def by blast
  let ?rs = "(c, ReuseFound (se_id e) current) # waiting c ps @ queue"
  have "connections (snd r) = 0" if "r \<in> set queue" for r using q [OF that] by (cases "snd r") simp_all
  then have "busy queue = 0" by (simp add: busy_def)
  then have busy: "busy ?rs = N" using N by simp
  from step show ?thesis
  proof (cases rule: concurrent.cases)
    case (arrive v rs c')
    with s have "s' = (w\<lparr>ext := x\<rparr>, (c, ReuseFound (se_id e) current) # waiting c ps @ (queue @ [(c', Arrived)]))" by simp
    moreover have "in_queue (snd r)" if "r \<in> set (queue @ [(c', Arrived)])" for r
      using that q by fastforce
    ultimately show ?thesis unfolding stuck_def using N by blast
  next
    case (request i rs c' ph scan v ph' v')
    with s have rs: "rs = ?rs" "v = w\<lparr>ext := x\<rparr>" by simp_all
    have adv: "advance L cfg ul ml scan (locked_rows ?rs i) 0 c' ph v = Some (ph', v')" using request(6) busy by (simp add: rs)
    consider "i = 0" | j where "i = Suc j" "j < length ps" | j where "i = Suc (length ps + j)" "j < length queue"
    proof (cases i)
      case (Suc j)
      show thesis
      proof (cases "j < length ps")
        case False
        with Suc request(3) rs that(3) [of "j - length ps"] show thesis by simp
      qed (use Suc that(2) in blast)
    qed (use that(1) in blast)
    then show ?thesis
    proof cases
      case 1
      with request(4) rs have "ph = ReuseFound (se_id e) current" by simp
      with adv show ?thesis by simp
    next
      case (2 j)
      obtain raw expires where "ps ! j = (raw, expires)" by fastforce
      with 2 request(4) rs have ph: "c' = c" "ph = Locking raw expires" by (simp_all add: nth_append waiting_def)
      have "se_id e \<in> locked_rows ?rs i" unfolding locked_rows_iff using 2(1) by (intro exI [of _ 0]) simp
      with adv ph find rs show ?thesis by (simp add: HashRefreshTokenService_execute_def)
    next
      case (3 j)
      then have r: "rs ! i = queue ! j" by (simp add: rs nth_append)
      then have "queue ! j = (c', ph)" using request(4) by simp
      with q [OF nth_mem [OF 3(2)]] have "in_queue ph" by simp
      with adv have ph: "ph = Arrived" by (cases ph) simp_all
      obtain raw expires x' where "ph' = Prepared raw expires" "v' = v\<lparr>ext := x'\<rparr>"
        by (rule arrived_step [of L cfg ul ml scan "locked_rows ?rs i" 0 c' v]) (use adv ph in auto)
      with request(2) rs 3 have s': "s' = (w\<lparr>ext := x'\<rparr>, (c, ReuseFound (se_id e) current) # waiting c ps @ queue[j := (c', Prepared raw expires)])"
        by (simp add: list_update_append)
      have "in_queue (snd r)" if "r \<in> set (queue[j := (c', Prepared raw expires)])" for r
        using that q set_update_subset_insert [of queue j "(c', Prepared raw expires)"] by fastforce
      with s' N show ?thesis unfolding stuck_def by blast
    qed
  next
    case (other rs v v')
    with s busy show ?thesis by simp
  qed
qed

lemma stuck_reached:
  assumes inv: "session_inv L F w" and N: "0 < N"
    and find: "find (\<lambda>e. se_refreshTokenHash e = sha256_hex L (rf_refreshToken c)) (session_tbl w) = Some e"
    and consumed: "se_revokedAt e \<noteq> None"
  shows "\<exists>s. runs L F cfg ul ml N (w, []) s \<and> stuck w N (se_id e) c s \<and> length (snd s) = N"
proof -
  obtain x ps where run: "runs L F cfg ul ml N (w, []) (w\<lparr>ext := x\<rparr>, waiting c ps)" and n: "length ps = N"
    using requests_queue [of N N L F cfg ul ml w c] by auto
  then obtain raw expires ps' where ps: "ps = (raw, expires) # ps'" using N by (cases ps) auto
  have wait: "waiting c ps = (c, Locking raw expires) # waiting c ps'" by (simp add: ps waiting_def)
  have row: "session_from_row L e = Inr (session_of_row e)"
    using inv find_Some_iff_ex [OF find] by (auto simp: session_inv_def intro: sessions_storedD)
  have "concurrent L F cfg ul ml N (w\<lparr>ext := x\<rparr>, waiting c ps)
      (w\<lparr>ext := x\<rparr>, (waiting c ps)[0 := (c, Deciding (se_id e) (session_of_row e) raw expires)])"
    by (rule request [where ph = "Locking raw expires", OF _ _ visits_in_order])
      (use find row N n in \<open>auto simp: wait [symmetric] waiting_unlocked HashRefreshTokenService_execute_def settle_def
        outside_run session_toAggregate_run\<close>, simp_all add: waiting_def ps)
  then have one: "concurrent L F cfg ul ml N (w\<lparr>ext := x\<rparr>, waiting c ps)
      (w\<lparr>ext := x\<rparr>, (c, Deciding (se_id e) (session_of_row e) raw expires) # waiting c ps')" by (simp add: wait)
  obtain u x' where u: "touch L (se_updatedAt e) x = (u, x')" by fastforce
  let ?rs = "(c, Deciding (se_id e) (session_of_row e) raw expires) # waiting c ps'"
  have "concurrent L F cfg ul ml N (w\<lparr>ext := x\<rparr>, ?rs)
      (w\<lparr>ext := x'\<rparr>, ?rs[0 := (c, ReuseFound (se_id e) (session_of_row e))])"
    by (rule request [where ph = "Deciding (se_id e) (session_of_row e) raw expires", OF _ _ visits_in_order])
      (use consumed u in \<open>simp_all add: SessionAggregate_isRevoked_def session_of_row_def settle_def outside_run
        SessionAggregate_markReuseDetected_def touched_run bindE_def\<close>)
  with run one have "runs L F cfg ul ml N (w, []) (w\<lparr>ext := x'\<rparr>, (c, ReuseFound (se_id e) (session_of_row e)) # waiting c ps')"
    by (simp add: rtranclp.rtrancl_into_rtrancl)
  moreover have "stuck w N (se_id e) c (w\<lparr>ext := x'\<rparr>, (c, ReuseFound (se_id e) (session_of_row e)) # waiting c ps')"
    unfolding stuck_def using n ps by (intro exI [of _ x'] exI [of _ "session_of_row e"] exI [of _ ps'] exI [of _ "[]"]) simp
  ultimately show ?thesis using n ps by (intro exI conjI) auto
qed

text \<open>C31: as many replays of one consumed refresh token as the pool has connections can stop the service
  for good. The transaction of each holds a connection; one of them has locked the row and needs a
  second connection, for the update that revokes the sessions of the user, which none of the others
  gives back before it gets the row. From then on no refresh is answered, and nothing else that
  needs a connection happens: no table changes.\<close>

theorem replays_exhaust_the_pool:
  assumes "session_inv L F w" and "0 < N"
    and "find (\<lambda>e. se_refreshTokenHash e = sha256_hex L (rf_refreshToken c)) (session_tbl w) = Some e"
    and "se_revokedAt e \<noteq> None"
  shows "\<exists>s. runs L F cfg ul ml N (w, []) s \<and> length (snd s) = N \<and> set (map fst (snd s)) = {c} \<and>
    {s'. runs L F cfg ul ml N s s'} \<subseteq>
      {s'. (\<exists>x. fst s' = w\<lparr>ext := x\<rparr>) \<and> (\<forall>r \<in> set (snd s'). snd r \<notin> range Answered)}"
proof -
  obtain s where s: "runs L F cfg ul ml N (w, []) s" "stuck w N (se_id e) c s" "length (snd s) = N"
    using stuck_reached [OF assms, of cfg ul ml] by blast
  have stays: "stuck w N (se_id e) c s'" if "runs L F cfg ul ml N s s'" for s'
    using that by induction (use s(2) stuck_stays [OF assms(3)] in auto)
  have out: "(\<exists>x. fst s' = w\<lparr>ext := x\<rparr>) \<and> (\<forall>r \<in> set (snd s'). snd r \<notin> range Answered)"
    if "stuck w N (se_id e) c s'" for s'
    using that by (fastforce simp: stuck_def waiting_def)
  have "set (map fst (snd s)) = {c}"
  proof -
    from s(2) obtain x current ps queue where q: "s = (w\<lparr>ext := x\<rparr>, (c, ReuseFound (se_id e) current) # waiting c ps @ queue)"
      "Suc (length ps) = N" unfolding stuck_def by blast
    have "length (snd s) = Suc (length ps + length queue)" unfolding q(1) by simp
    with s(3) q(2) have "length queue = 0" by linarith
    with q show ?thesis by (auto simp: waiting_def)
  qed
  moreover have "{s'. runs L F cfg ul ml N s s'} \<subseteq>
      {s'. (\<exists>x. fst s' = w\<lparr>ext := x\<rparr>) \<and> (\<forall>r \<in> set (snd s'). snd r \<notin> range Answered)}"
    using out [OF stays] by blast
  ultimately show ?thesis using s(1,3) by blast
qed

section \<open>A request while others wait\<close>

text \<open>The requests \<open>P\<close> do not move; the last one takes its steps.\<close>

abbreviation locks_of :: "(refresh_session_command \<times> refresh_phase) list \<Rightarrow> string set" where
  "locks_of P \<equiv> \<Union>r \<in> set P. row_locks (snd r)"

lemma last_locked: "locked_rows (P @ [r]) (length P) = locks_of P"
proof -
  have "set [0..<length (P @ [r])] - {length P} = {0..<length P}" by auto
  then have "locked_rows (P @ [r]) (length P) = (\<Union>j \<in> {0..<length P}. row_locks (snd ((P @ [r]) ! j)))"
    by (simp only: locked_rows_def)
  also have "\<dots> = (\<Union>j \<in> {0..<length P}. row_locks (snd (P ! j)))"
    by (rule SUP_cong) (simp_all add: nth_append)
  also have "\<dots> = (\<Union>r \<in> (!) P ` {0..<length P}. row_locks (snd r))" by simp
  also have "(!) P ` {0..<length P} = set P" using nth_image [of "length P" P] by simp
  finally show ?thesis .
qed

lemma last_step:
  assumes "visits_once scan"
    and "advance L cfg ul ml scan (locks_of P) (N - (busy P + connections ph)) c ph w = Some (ph', w')"
  shows "concurrent L F cfg ul ml N (w, P @ [(c, ph)]) (w', P @ [(c, ph')])"
  using assms request [of "length P" "P @ [(c, ph)]" c ph scan L cfg ul ml N w ph' w' F] by (simp add: last_locked)

lemma next_step:
  assumes "runs L F cfg ul ml N s (w, P @ [(c, ph)])" and "visits_once scan"
    and "advance L cfg ul ml scan (locks_of P) (N - (busy P + connections ph)) c ph w = Some (ph', w')"
  shows "runs L F cfg ul ml N s (w', P @ [(c, ph')])"
  using assms(1) last_step [OF assms(2,3)] by (rule rtranclp.rtrancl_into_rtrancl)

lemmas in_order = next_step [OF _ visits_in_order]

lemma request_prepares:
  assumes x1: "random_base64url L 32 (ext w) = (raw, x1)" and x2: "new_date L x1 = (t, x2)" and N: "busy P < N"
  shows "runs L F cfg ul ml N (w, P @ [(c, Arrived)]) (w\<lparr>ext := x2\<rparr>, P @ [(c, Locking raw (expiry cfg t))])"
proof -
  have "runs L F cfg ul ml N (w, P @ [(c, Arrived)]) (w\<lparr>ext := x2\<rparr>, P @ [(c, Prepared raw (expiry cfg t))])"
    by (rule in_order [OF rtranclp.rtrancl_refl]) (simp add: settle_def bindE_def outside_run
        GenerateRefreshTokenService_execute_def stepS_run now_run x1 x2)
  then show ?thesis by (rule in_order) (use N in simp)
qed

text \<open>A replay, up to the start of its update.\<close>

lemma replay_revokes:
  assumes x1: "random_base64url L 32 (ext w) = (raw, x1)" and x2: "new_date L x1 = (t, x2)"
    and st: "sessions_stored L w"
    and e: "find (\<lambda>e. se_refreshTokenHash e = sha256_hex L (rf_refreshToken c)) (session_tbl w) = Some e"
      "se_revokedAt e \<noteq> None"
    and x3: "touch L (se_updatedAt e) x2 = (u, x3)" and x4: "sql_now L x3 = (t', x4)"
    and P: "se_id e \<notin> locks_of P" "busy P + 1 < N" and scan: "visits_once scan"
  shows "runs L F cfg ul ml N (w, P @ [(c, Arrived)]) (w\<lparr>ext := x4\<rparr>, P @ [(c, Revoking (se_id e) (session_of_row e) t'
    (scan (map se_id (filter (live_of (se_userId e)) (session_tbl w)))) [])])"
proof -
  have row: "session_from_row L e = Inr (session_of_row e)"
    using st find_Some_iff_ex [OF e(1)] by (auto intro: sessions_storedD)
  have "runs L F cfg ul ml N (w, P @ [(c, Arrived)]) (w\<lparr>ext := x2\<rparr>, P @ [(c, Locking raw (expiry cfg t))])"
    by (rule request_prepares [OF x1 x2]) (use P in simp)
  then have "runs L F cfg ul ml N (w, P @ [(c, Arrived)])
      (w\<lparr>ext := x2\<rparr>, P @ [(c, Deciding (se_id e) (session_of_row e) raw (expiry cfg t))])"
    by (rule in_order) (use e row P in \<open>simp add: HashRefreshTokenService_execute_def settle_def outside_run
        session_toAggregate_run\<close>)
  then have "runs L F cfg ul ml N (w, P @ [(c, Arrived)]) (w\<lparr>ext := x3\<rparr>, P @ [(c, ReuseFound (se_id e) (session_of_row e))])"
    by (rule in_order) (use e x3 in \<open>simp add: SessionAggregate_isRevoked_def session_of_row_def settle_def
        outside_run SessionAggregate_markReuseDetected_def touched_run bindE_def\<close>)
  then show ?thesis
    by (rule next_step [OF _ scan]) (use P x4 in \<open>simp add: session_of_row_def\<close>)
qed

text \<open>The update, when nobody else has locked a row.\<close>

lemma update_runs:
  assumes P: "locks_of P = {}"
  shows "runs L F cfg ul ml N (v, P @ [(c, Revoking k current t todo held)])
    (v\<lparr>session_tbl := set_revoked_at (driver_date t)
         (\<lambda>e. se_id e \<in> set todo \<union> set held \<and> live_of (sg_userId current) e) (session_tbl v)\<rparr>,
     P @ [(c, Answered (Inl new_RefreshTokenReuseDetectedException))])"
proof (induction todo arbitrary: held)
  case Nil
  show ?case by (rule in_order [OF rtranclp.rtrancl_refl]) simp
next
  case (Cons i todo)
  have "concurrent L F cfg ul ml N (v, P @ [(c, Revoking k current t (i # todo) held)])
      (v, P @ [(c, Revoking k current t todo (i # held))])"
    by (rule last_step [OF visits_in_order]) (simp add: P)
  moreover have "set todo \<union> set (i # held) = set (i # todo) \<union> set held" by auto
  ultimately show ?case using Cons.IH [of "i # held"] by (simp add: converse_rtranclp_into_rtranclp)
qed

lemma callback_ignores_lock: "refresh_callback L repo h expires current lk = refresh_callback L repo h expires current lk'"
  by (simp add: refresh_callback_def)

text \<open>A transaction whose callback asks only the outside world is the callback followed by the writes.\<close>

lemma transaction_map:
  assumes "\<And>v. m' v = (map_sum (\<lambda>e. e) f (fst (m v)), snd (m v))"
  shows "transaction m' w = (map_sum (\<lambda>e. e) f (fst (transaction m w)), snd (transaction m w))"
  by (cases "m (in_transaction w)"; cases "fst (m (in_transaction w))") (simp_all add: transaction_def assms)

definition written :: "'x lib \<Rightarrow> IRotateResult \<Rightarrow> ('x world, error, IRotateResult) comp" where
  "written L rotated =
     bindE (tx_save (SessionTypeOrmMapper_toEntity (rr_created rotated))) (\<lambda>c.
     bindE (tx_save (SessionTypeOrmMapper_toEntity (rr_revoked rotated))) (\<lambda>r.
     bindE (liftE (session_from_row L r)) (\<lambda>revoked.
     bindE (liftE (session_from_row L c)) (\<lambda>created.
     ret \<lparr>rr_revoked = revoked, rr_created = created\<rparr>))))"

lemma write_rotation_written: "write_rotation L rotated = transaction (written L rotated)"
  by (simp add: write_rotation_def written_def session_sql_sel session_toAggregate_run)

lemma rest_written:
  "rotate_rest L rotated v = (map_sum (\<lambda>e. e) Some (fst (written L rotated v)), snd (written L rotated v))"
  by (auto simp: rotate_rest_def written_def bindE_def split: prod.splits sum.splits)

lemma rotate_live:
  assumes tx: "tx_pending w = None"
    and e: "find (\<lambda>e. se_refreshTokenHash e = h) (session_tbl w) = Some e" "session_from_row L e = Inr current"
    and cb: "\<And>lk v. cb current lk v = (fst (g (ext v)), v\<lparr>ext := snd (g (ext v))\<rparr>)"
  shows "SessionTypeOrmWriteRepository_rotate L (session_sql L) h cb w =
    (case fst (g (ext w)) of Inl err \<Rightarrow> (Inl err, w\<lparr>ext := snd (g (ext w))\<rparr>)
     | Inr rotated \<Rightarrow> (map_sum (\<lambda>e. e) Some (fst (write_rotation L rotated (w\<lparr>ext := snd (g (ext w))\<rparr>))),
         snd (write_rotation L rotated (w\<lparr>ext := snd (g (ext w))\<rparr>))))"
proof -
  obtain lk where rot: "SessionTypeOrmWriteRepository_rotate L (session_sql L) h cb = transaction (\<lambda>w.
     case find (\<lambda>e. se_refreshTokenHash e = h) (visible_sessions w) of
       None \<Rightarrow> (Inr None, w)
     | Some entity \<Rightarrow> bindE (liftE (session_from_row L entity)) (\<lambda>current. bindE (cb current lk) (rotate_rest L)) w)"
    unfolding rotate_rest_def using rotate_run [of L h cb] by blast
  let ?x = "snd (g (ext w))"
  have frame: "w\<lparr>ext := ?x, tx_pending := None\<rparr> = w\<lparr>ext := ?x\<rparr>"
    "w\<lparr>tx_pending := Some [], ext := ?x\<rparr> = in_transaction (w\<lparr>ext := ?x\<rparr>)"
    using tx by (cases w; simp)+
  have run: "bindE (cb current lk) (rotate_rest L) (in_transaction w) = (case fst (g (ext w)) of
      Inl err \<Rightarrow> (Inl err, in_transaction (w\<lparr>ext := ?x\<rparr>)) | Inr rotated \<Rightarrow> rotate_rest L rotated (in_transaction (w\<lparr>ext := ?x\<rparr>)))"
    by (simp add: bindE_def cb frame split: sum.split)
  show ?thesis
  proof (cases "fst (g (ext w))")
    case (Inl err)
    with e run show ?thesis by (simp add: rot transaction_def bindE_def [of "liftE r" for r] frame)
  next
    case (Inr rotated)
    with e run have "SessionTypeOrmWriteRepository_rotate L (session_sql L) h cb w =
        transaction (rotate_rest L rotated) (w\<lparr>ext := ?x\<rparr>)"
      by (simp add: rot transaction_def bindE_def [of "liftE r" for r])
    also have "\<dots> = (map_sum (\<lambda>e. e) Some (fst (write_rotation L rotated (w\<lparr>ext := ?x\<rparr>))),
        snd (write_rotation L rotated (w\<lparr>ext := ?x\<rparr>)))"
      unfolding write_rotation_written by (rule transaction_map [OF rest_written])
    finally show ?thesis using Inr by simp
  qed
qed

lemma handler_run:
  assumes "random_base64url L 32 (ext w) = (raw, x1)" and "new_date L x1 = (t, x2)"
  shows "RefreshSessionCommandHandler_execute L cfg (session_write_repo L) ul ml c w =
    (case SessionTypeOrmWriteRepository_rotate L (session_sql L) (sha256_hex L (rf_refreshToken c))
        (refresh_callback L (session_write_repo L) (sha256_hex L raw) (expiry cfg t)) (w\<lparr>ext := x2\<rparr>) of
       (Inl err, w1) \<Rightarrow> (Inl err, w1)
     | (Inr None, w1) \<Rightarrow> (Inl new_InvalidRefreshTokenException, w1)
     | (Inr (Some rotated), w1) \<Rightarrow> (case refresh_access_token L ul ml (sg_userId (rr_created rotated)) w1 of
         (Inl err, w2) \<Rightarrow> (Inl err, w2)
       | (Inr token, w2) \<Rightarrow> (Inr \<lparr>lr_accessToken = token, lr_refreshToken = raw\<rparr>, w2)))"
  using assms
  by (simp add: RefreshSessionCommandHandler_execute_def HashRefreshTokenService_execute_def Let_def bindE_def outside_run
      GenerateRefreshTokenService_execute_def stepS_run now_run split: prod.split sum.split option.split)

text \<open>While the others wait, a request runs as its handler: nobody has locked the row of its token, nor any
  row if it does not succeed (it may have to revoke them).\<close>

lemma request_runs:
  assumes inv: "session_inv L F w" and N: "busy P + 2 \<le> N"
    and free: "\<And>e. e \<in> set (session_tbl w) \<Longrightarrow> se_refreshTokenHash e = sha256_hex L (rf_refreshToken c) \<Longrightarrow>
      se_id e \<notin> locks_of P" and none: "isl res \<Longrightarrow> locks_of P = {}"
    and run: "RefreshSessionCommandHandler_execute L cfg (session_write_repo L) ul ml c w = (res, w')"
  shows "runs L F cfg ul ml N (w, P @ [(c, Arrived)]) (w', P @ [(c, Answered res)])"
proof -
  obtain raw x1 where x1: "random_base64url L 32 (ext w) = (raw, x1)" by fastforce
  obtain t x2 where x2: "new_date L x1 = (t, x2)" by fastforce
  let ?w = "w\<lparr>ext := x2\<rparr>" and ?exp = "expiry cfg t" and ?h = "sha256_hex L (rf_refreshToken c)"
  let ?cb = "refresh_callback L (session_write_repo L) (sha256_hex L raw) ?exp"
  let ?run = "runs L F cfg ul ml N (w, P @ [(c, Arrived)])"
  have locking: "?run (?w, P @ [(c, Locking raw ?exp)])"
    by (rule request_prepares [OF x1 x2]) (use N in simp)
  from inv have tx: "tx_pending w = None" "sessions_stored L w" by (simp_all add: session_inv_def)
  show ?thesis
  proof (cases "find (\<lambda>e. se_refreshTokenHash e = ?h) (session_tbl w)")
    case None
    have "RefreshSessionCommandHandler_execute L cfg (session_write_repo L) ul ml c w =
        (Inl new_InvalidRefreshTokenException, ?w)"
      by (rule session_db.refresh_unknown [OF x1 x2 tx(1) None])
    with run have "res = Inl new_InvalidRefreshTokenException" "w' = ?w" by simp_all
    with in_order [OF locking] None show ?thesis by (simp add: HashRefreshTokenService_execute_def)
  next
    case (Some e)
    from find_Some_iff_ex [OF Some] free have unlocked: "se_id e \<notin> locks_of P" by simp
    have row: "session_from_row L e = Inr (session_of_row e)"
      using tx(2) find_Some_iff_ex [OF Some] by (auto intro: sessions_storedD)
    have deciding: "?run (?w, P @ [(c, Deciding (se_id e) (session_of_row e) raw ?exp)])"
      by (rule in_order [OF locking]) (use Some row unlocked in \<open>simp add: HashRefreshTokenService_execute_def settle_def
          outside_run session_toAggregate_run\<close>)
    show ?thesis
    proof (cases "se_revokedAt e = None")
      case False
      obtain u x3 where x3: "touch L (se_updatedAt e) x2 = (u, x3)" by fastforce
      obtain t' x4 where x4: "sql_now L x3 = (t', x4)" by fastforce
      let ?p = "\<lambda>e'. se_userId e' = se_userId e \<and> se_revokedAt e' = None"
      let ?ids = "map se_id (filter (live_of (se_userId e)) (session_tbl w))"
      from session_db.refresh_reuse [OF x1 x2 tx Some False x3 x4] run
      have res: "res = Inl new_RefreshTokenReuseDetectedException"
        "w' = w\<lparr>session_tbl := set_revoked_at (driver_date t') ?p (session_tbl w), ext := x4\<rparr>" by simp_all
      have same: "set_revoked_at (driver_date t') (\<lambda>s. se_id s \<in> set ?ids \<union> set [] \<and>
          live_of (sg_userId (session_of_row e)) s) (session_tbl w) = set_revoked_at (driver_date t') ?p (session_tbl w)"
        unfolding set_revoked_at_def by (rule map_cong [OF refl]) (auto simp: live_of_def session_of_row_def)
      have swap: "w\<lparr>ext := x4, session_tbl := T\<rparr> = w\<lparr>session_tbl := T, ext := x4\<rparr>" for T by simp
      have "?run (w\<lparr>ext := x4\<rparr>, P @ [(c, Revoking (se_id e) (session_of_row e) t' ?ids [])])"
        by (rule replay_revokes [OF x1 x2 tx(2) Some False x3 x4 unlocked _ visits_in_order]) (use N in simp)
      moreover have "runs L F cfg ul ml N (w\<lparr>ext := x4\<rparr>, P @ [(c, Revoking (se_id e) (session_of_row e) t' ?ids [])])
          (w', P @ [(c, Answered res)])"
        using update_runs [of P L F cfg ul ml N "w\<lparr>ext := x4\<rparr>" c "se_id e" "session_of_row e" t' ?ids "[]"] none
        unfolding res by (simp add: same [simplified] swap)
      ultimately show ?thesis by (rule rtranclp_trans)
    next
      case True
      then have live: "\<not> SessionAggregate_isRevoked (session_of_row e)"
        by (simp add: SessionAggregate_isRevoked_def session_of_row_def)
      obtain g where g: "\<And>v. ?cb (session_of_row e) (\<lambda>_. ret None) v = (fst (g (ext v)), v\<lparr>ext := snd (g (ext v))\<rparr>)"
        using callback_outside [OF live, of L "session_write_repo L"] by blast
      then have cb: "?cb (session_of_row e) lk v = (fst (g (ext v)), v\<lparr>ext := snd (g (ext v))\<rparr>)" for lk v
        by (metis callback_ignores_lock)
      let ?v = "w\<lparr>ext := snd (g x2)\<rparr>"
      have rot: "SessionTypeOrmWriteRepository_rotate L (session_sql L) ?h ?cb ?w = (case fst (g x2) of
          Inl err \<Rightarrow> (Inl err, ?v)
        | Inr rotated \<Rightarrow> (map_sum (\<lambda>e. e) Some (fst (write_rotation L rotated ?v)), snd (write_rotation L rotated ?v)))"
      proof -
        have x2_of: "ext ?w = x2" and again: "\<And>y. w\<lparr>ext := x2, ext := y\<rparr> = w\<lparr>ext := y\<rparr>" by simp_all
        show ?thesis
          by (rule rotate_live [of ?w ?h e L "session_of_row e" ?cb g, unfolded x2_of again]) (use tx(1) Some row cb in simp_all)
      qed
      show ?thesis
      proof (cases "fst (g x2)")
        case (Inl err)
        with handler_run [OF x1 x2] rot run have "res = Inl err" "w' = ?v" by simp_all
        with in_order [OF deciding] live g Inl show ?thesis by (simp add: settle_def HashRefreshTokenService_execute_def)
      next
        case (Inr rotated)
        have writing: "?run (?v, P @ [(c, Writing (se_id e) rotated raw)])"
          by (rule in_order [OF deciding]) (use live g Inr in \<open>simp add: settle_def HashRefreshTokenService_execute_def\<close>)
        obtain out v1 where wr: "write_rotation L rotated ?v = (out, v1)" by fastforce
        show ?thesis
        proof (cases out)
          case (Inl err)
          with handler_run [OF x1 x2] rot run Inr wr have "res = Inl err" "w' = v1" by simp_all
          with in_order [OF writing] wr Inl show ?thesis by (simp add: settle_def)
        next
          case out: (Inr committed)
          have rotated: "?run (v1, P @ [(c, Rotated (sg_userId (rr_created committed)) raw)])"
            by (rule in_order [OF writing]) (simp add: settle_def wr out)
          obtain r v2 where tok: "refresh_access_token L ul ml (sg_userId (rr_created committed)) v1 = (r, v2)" by fastforce
          show ?thesis
            using handler_run [OF x1 x2] rot run Inr wr out tok in_order [OF rotated] N by (cases r) (auto simp: settle_def)
        qed
      qed
    qed
  qed
qed

text \<open>C7: the steps of a request are the handler: a refresh whose steps nothing interrupts ends in the state,
  and with the answer, that \<open>RefreshSessionCommandHandler\<close> gives when it runs as a whole.\<close>

theorem refresh_alone_is_the_handler:
  assumes "session_inv L F w" and "2 \<le> N"
    and "RefreshSessionCommandHandler_execute L cfg (session_write_repo L) ul ml c w = (res, w')"
  shows "runs L F cfg ul ml N (w, [(c, Arrived)]) (w', [(c, Answered res)])"
  using request_runs [of L F w "[]" N c res cfg ul ml w'] assms by simp

lemma arrives:
  assumes "runs L F cfg ul ml N s (w, P)"
  shows "runs L F cfg ul ml N s (w, P @ [(c, Arrived)])"
  by (rule rtranclp.rtrancl_into_rtrancl [OF assms]) (rule arrive)

lemma two_requests:
  assumes inv: "session_inv L F w" and mid: "session_inv L F w1" and N: "2 \<le> N"
    and one: "RefreshSessionCommandHandler_execute L cfg (session_write_repo L) ul ml c w = (res, w1)"
    and two: "RefreshSessionCommandHandler_execute L cfg (session_write_repo L) ul ml c' w1 = (res', w2)"
  shows "runs L F cfg ul ml N (w, []) (w2, [(c, Answered res), (c', Answered res')])"
proof -
  have "runs L F cfg ul ml N (w, []) (w, [(c, Arrived)])"
    using arrives [of L F cfg ul ml N "(w, [])" w "[]" c] by simp
  also have "runs L F cfg ul ml N (w, [(c, Arrived)]) (w1, [(c, Answered res)])"
    using request_runs [OF inv, of "[]" N c res cfg ul ml w1] N one by simp
  also have "runs L F cfg ul ml N (w1, [(c, Answered res)]) (w1, [(c, Answered res), (c', Arrived)])"
    using arrives [of L F cfg ul ml N "(w1, [(c, Answered res)])" w1 "[(c, Answered res)]" c'] by simp
  also have "runs L F cfg ul ml N (w1, [(c, Answered res), (c', Arrived)]) (w2, [(c, Answered res), (c', Answered res')])"
    using request_runs [OF mid, of "[(c, Answered res)]" N c' res' cfg ul ml w2] N two by simp
  finally show ?thesis .
qed

section \<open>Two replays that wait for each other\<close>

lemma redeemed_by_refresh:
  assumes "refresh_implements L h \<sigma> (Inr lr) \<sigma>'"
  obtains h' t x u where "redeem h h' t x \<sigma> = (Redeemed u, \<sigma>')" "\<sigma> h' = None"
  using assms unfolding refresh_implements_def by (fastforce split: redeem_result.splits)

text \<open>An update that comes to some rows first.\<close>

definition first_of :: "string list \<Rightarrow> string list \<Rightarrow> string list" where
  "first_of front ids = filter (\<lambda>i. i \<in> set ids) front @ filter (\<lambda>i. i \<notin> set front) ids"

lemma first_of_visits: "distinct front \<Longrightarrow> visits_once (first_of front)"
  by (auto simp: visits_once_def first_of_def)

text \<open>The update of request \<open>a\<close> has locked the row \<open>x\<close> and comes to \<open>k\<close>; the row \<open>k\<close> is the one that request
  \<open>b\<close> presented, whose update comes to \<open>x\<close>.\<close>

definition in_deadlock :: "nat \<Rightarrow> nat \<Rightarrow> string \<Rightarrow> string \<Rightarrow> 'x system \<Rightarrow> bool" where
  "in_deadlock a b x k s \<longleftrightarrow> a < length (snd s) \<and> b < length (snd s) \<and> a \<noteq> b \<and>
     (\<exists>c k' current t todo held. snd s ! a = (c, Revoking k' current t (k # todo) held) \<and> x \<in> set held) \<and>
     (\<exists>c current t todo held. snd s ! b = (c, Revoking k current t (x # todo) held))"

lemma deadlock_locks:
  assumes "in_deadlock a b x k s"
  shows "i \<noteq> a \<Longrightarrow> x \<in> locked_rows (snd s) i" and "i \<noteq> b \<Longrightarrow> k \<in> locked_rows (snd s) i"
proof -
  from assms obtain c k' current t todo held c' current' t' todo' held' where
    a: "a < length (snd s)" "snd s ! a = (c, Revoking k' current t (k # todo) held)" "x \<in> set held"
    and b: "b < length (snd s)" "snd s ! b = (c', Revoking k current' t' (x # todo') held')"
    unfolding in_deadlock_def by blast
  show "i \<noteq> a \<Longrightarrow> x \<in> locked_rows (snd s) i" unfolding locked_rows_iff using a by (intro exI [of _ a]) simp
  show "i \<noteq> b \<Longrightarrow> k \<in> locked_rows (snd s) i" unfolding locked_rows_iff using b by (intro exI [of _ b]) simp
qed

text \<open>Neither of them ever takes another step.\<close>

lemma deadlock_waits:
  assumes dead: "in_deadlock a b x k s" and i: "snd s ! i = (c, ph)" "i = a \<or> i = b"
  shows "advance L cfg ul ml scan (locked_rows (snd s) i) free c ph w = None"
proof -
  from dead have ab: "a \<noteq> b" by (simp add: in_deadlock_def)
  from i(2) show ?thesis
  proof
    assume a: "i = a"
    with dead i(1) obtain k' current t todo held where "ph = Revoking k' current t (k # todo) held"
      unfolding in_deadlock_def by auto
    then show ?thesis using deadlock_locks(2) [OF dead, of i] a ab by simp
  next
    assume b: "i = b"
    with dead i(1) obtain current t todo held where "ph = Revoking k current t (x # todo) held"
      unfolding in_deadlock_def by auto
    then show ?thesis using deadlock_locks(1) [OF dead, of i] b ab by simp
  qed
qed

lemma deadlock_stays:
  assumes dead: "in_deadlock a b x k s" and step: "concurrent L F cfg ul ml N s s'"
  shows "in_deadlock a b x k s'"
  using step
proof (cases rule: concurrent.cases)
  case (request i rs c ph scan w ph' w')
  have "i \<noteq> a \<and> i \<noteq> b"
    using deadlock_waits [OF dead, of i c ph L cfg ul ml scan "N - busy rs" w] request(1,4,6) by auto
  with dead request(1,2) show ?thesis by (simp add: in_deadlock_def)
qed (use dead in \<open>auto simp: in_deadlock_def nth_append\<close>)

text \<open>Nor is a later request answered that presents the token of \<open>x\<close>: it never gets the row.\<close>

fun in_line :: "refresh_phase \<Rightarrow> bool" where
  "in_line Arrived = True"
| "in_line (Prepared raw expires) = True"
| "in_line (Locking raw expires) = True"
| "in_line ph = False"

definition shut_out :: "'x lib \<Rightarrow> nat \<Rightarrow> string \<Rightarrow> 'x system \<Rightarrow> bool" where
  "shut_out L n h s \<longleftrightarrow> (\<forall>r \<in> set (drop n (snd s)). sha256_hex L (rf_refreshToken (fst r)) = h \<longrightarrow> in_line (snd r))"

lemma waits_for_row:
  assumes "e \<in> set (session_tbl w)" and "schema_ok w" and "sha256_hex L (rf_refreshToken c) = se_refreshTokenHash e"
    and "se_id e \<in> K" and "in_line ph" and "advance L cfg ul ml scan K free c ph w = Some (ph', w')"
  shows "in_line ph'"
proof (cases ph)
  case (Locking raw expires)
  have "find (\<lambda>e'. se_refreshTokenHash e' = se_refreshTokenHash e) (session_tbl w) = Some e"
    by (rule find_session [OF assms(2,1)])
  with Locking assms(3,4,6) show ?thesis by (simp add: HashRefreshTokenService_execute_def)
next
  case Arrived
  obtain raw expires x where "advance L cfg ul ml scan K free c Arrived w = Some (Prepared raw expires, w\<lparr>ext := x\<rparr>)"
    by (rule arrived_step)
  with Arrived assms(6) show ?thesis by simp
qed (use assms(5,6) in \<open>auto split: if_splits\<close>)


lemma shut_out_stays:
  assumes dead: "in_deadlock a b (se_id e) k s" and "a < n" and shut: "shut_out L n (se_refreshTokenHash e) s"
    and e: "e \<in> set (session_tbl (fst s))" and ok: "schema_ok (fst s)"
    and step: "concurrent L F cfg ul ml N s s'"
  shows "shut_out L n (se_refreshTokenHash e) s'"
  using step
proof (cases rule: concurrent.cases)
  case (arrive w rs c)
  with shut show ?thesis by (cases "n \<le> length rs") (auto simp: shut_out_def)
next
  case (request i rs c ph scan w ph' w')
  have "in_line (snd r)" if r: "r \<in> set (drop n (rs[i := (c, ph')]))"
      and tok: "sha256_hex L (rf_refreshToken (fst r)) = se_refreshTokenHash e" for r
  proof (cases "n \<le> i")
    case True
    with r have "r \<in> set ((drop n rs)[i - n := (c, ph')])" by (simp add: drop_update_swap)
    then consider "r \<in> set (drop n rs)" | "r = (c, ph')" using set_update_subset_insert [of "drop n rs"] by blast
    then show ?thesis
    proof cases
      case 1
      with shut tok request(1) show ?thesis by (simp add: shut_out_def)
    next
      case 2
      have "(c, ph) \<in> set (drop n rs)" using request(3,4) True nth_mem [of "i - n" "drop n rs"] by simp
      with shut 2 tok request(1) have "in_line ph" by (force simp: shut_out_def)
      moreover have "se_id e \<in> locked_rows rs i"
        using deadlock_locks(1) [OF dead, of i] True assms(2) request(1) by simp
      ultimately have "in_line ph'"
        using waits_for_row [of e w L c "locked_rows rs i" ph cfg ul ml scan] e ok 2 tok request(1,6) by simp
      with 2 show ?thesis by simp
    qed
  next
    case False
    with r shut tok request(1) show ?thesis by (simp add: shut_out_def)
  qed
  with request(2) show ?thesis by (simp add: shut_out_def)
qed (use shut in \<open>simp add: shut_out_def\<close>)

lemma deadlock_runs:
  assumes L: "id_supply L F" "hash_ok L" "uuid_ok L" and con: "consistent L F s"
    and dead: "in_deadlock a b (se_id e) k s" "a < n" and shut: "shut_out L n (se_refreshTokenHash e) s"
    and e: "e0 \<in> set (session_tbl (fst s))" "se_id e0 = se_id e" "se_refreshTokenHash e0 = se_refreshTokenHash e"
    and run: "runs L F cfg (user_lookup L) (membership_lookup L M) N s s'"
  shows "in_deadlock a b (se_id e) k s' \<and> shut_out L n (se_refreshTokenHash e) s'"
  using run
proof induction
  case base
  from dead(1) shut show ?case ..
next
  case (step s1 s2)
  from runs_keep_rows [OF L step.hyps(1) con e(1)] obtain e1 where e1: "e1 \<in> set (session_tbl (fst s1))"
    "se_id e1 = se_id e" "se_refreshTokenHash e1 = se_refreshTokenHash e" using e(2,3) by auto
  have "schema_ok (fst s1)" using runs_consistent [OF L step.hyps(1) con] by (simp add: consistent_def session_inv_def)
  from shut_out_stays [OF _ dead(2) _ e1(1) this step.hyps(2), of b k] step.IH e1(2,3)
    deadlock_stays [OF _ step.hyps(2)] show ?case by simp
qed

text \<open>After the exchange of a token its row is consumed, and every other live token is as it was.\<close>

lemma exchange_consumes:
  assumes L: "id_supply L F" "hash_ok L" "uuid_ok L" and inv: "session_inv L F w"
    and run: "RefreshSessionCommandHandler_execute L cfg (session_write_repo L) (user_lookup L)
      (membership_lookup L M) c w = (Inr r, w')"
    and e: "e \<in> set (session_tbl w)" "se_refreshTokenHash e = sha256_hex L (rf_refreshToken c)"
    and x: "x \<in> set (session_tbl w)" "se_revokedAt x = None" "x \<noteq> e"
  shows "\<exists>e' \<in> set (session_tbl w'). se_refreshTokenHash e' = se_refreshTokenHash e \<and> se_revokedAt e' \<noteq> None \<and>
      se_userId e' = se_userId e"
    and "\<exists>x' \<in> set (session_tbl w'). se_refreshTokenHash x' = se_refreshTokenHash x \<and> se_revokedAt x' = None \<and>
      se_userId x' = se_userId x"
proof -
  let ?h = "sha256_hex L (rf_refreshToken c)" and ?\<sigma> = "tokens (session_tbl w)" and ?\<sigma>' = "tokens (session_tbl w')"
  have ok: "schema_ok w" using inv by (simp add: session_inv_def)
  from wired.refresh_refines [OF L inv run] have "refresh_implements L ?h ?\<sigma> (Inr r) ?\<sigma>'" by simp
  then obtain h' t u y where r: "redeem ?h h' t y ?\<sigma> = (Redeemed u, ?\<sigma>')" and new: "?\<sigma> h' = None"
    by (rule redeemed_by_refresh)
  have "?\<sigma> ?h = Some (token_of e)" using find_session [OF ok e(1)] e(2) by (simp add: tokens_def)
  with r have \<sigma>': "?\<sigma>' = issue h' (se_userId e) y (?\<sigma>(?h \<mapsto> (token_of e)\<lparr>tk_live := False\<rparr>))"
    by (auto simp: redeem_def token_of_def split: if_splits)
  have at_x: "?\<sigma> (se_refreshTokenHash x) = Some (token_of x)"
    using find_session [OF ok x(1)] by (simp add: tokens_def)
  have apart: "se_refreshTokenHash x \<noteq> ?h" using session_same [OF ok x(1) e(1)] x(3) e(2) by auto
  from new \<open>?\<sigma> ?h = Some (token_of e)\<close> at_x have "h' \<noteq> ?h" "h' \<noteq> se_refreshTokenHash x" by auto
  with \<sigma>' apart at_x have "?\<sigma>' ?h = Some ((token_of e)\<lparr>tk_live := False\<rparr>)"
    "?\<sigma>' (se_refreshTokenHash x) = Some (token_of x)" by (simp_all add: issue_def)
  from token_stored [OF this(1)] token_stored [OF this(2)] e(2) x(2)
  show "\<exists>e' \<in> set (session_tbl w'). se_refreshTokenHash e' = se_refreshTokenHash e \<and> se_revokedAt e' \<noteq> None \<and>
      se_userId e' = se_userId e"
    and "\<exists>x' \<in> set (session_tbl w'). se_refreshTokenHash x' = se_refreshTokenHash x \<and> se_revokedAt x' = None \<and>
      se_userId x' = se_userId x"
    by (auto simp: token_of_def)
qed


lemma first_of_scan: "set front \<subseteq> set ids \<Longrightarrow> \<exists>rest. first_of front ids = front @ rest"
  by (simp add: first_of_def filter_True subset_iff)

lemma live_ids:
  "e \<in> set rs \<Longrightarrow> se_userId e = u \<Longrightarrow> se_revokedAt e = None \<Longrightarrow> se_id e \<in> set (map se_id (filter (live_of u) rs))"
  by (auto simp: live_of_def)

lemma replays_meet:
  assumes L: "id_supply L F" "hash_ok L" "uuid_ok L" and inv: "session_inv L F w" and N: "4 \<le> N"
    and e1: "e1 \<in> set (session_tbl w)" "se_refreshTokenHash e1 = sha256_hex L (rf_refreshToken c1)"
      "se_revokedAt e1 \<noteq> None"
    and e2: "e2 \<in> set (session_tbl w)" "se_refreshTokenHash e2 = sha256_hex L (rf_refreshToken c2)"
      "se_revokedAt e2 = None" "se_userId e2 = se_userId e1"
    and x: "x \<in> set (session_tbl w)" "se_revokedAt x = None" "se_userId x = se_userId e1" "x \<noteq> e2"
    and draws: "random_base64url L 32 (ext w) = (raw, x1)" "new_date L x1 = (t, x2)"
      "touch L (se_updatedAt e1) x2 = (u, x3)" "sql_now L x3 = (t', x4)"
    and exchange: "RefreshSessionCommandHandler_execute L cfg (session_write_repo L) (user_lookup L)
      (membership_lookup L M) c2 (w\<lparr>ext := x4\<rparr>) = (Inr r, w2)"
  shows "\<exists>s. runs L F cfg (user_lookup L) (membership_lookup L M) N (w, []) s \<and> map fst (snd s) = [c1, c2, c2] \<and>
    snd (snd s ! 1) = Answered (Inr r) \<and> busy (snd s) = 4 \<and> in_deadlock 0 2 (se_id x) (se_id e2) s"
proof -
  let ?runs = "runs L F cfg (user_lookup L) (membership_lookup L M) N (w, [])"
  let ?w = "w\<lparr>ext := x4\<rparr>"
  from inv have ok: "schema_ok w" and st: "sessions_stored L w" by (simp_all add: session_inv_def)
  have apart: "se_id x \<noteq> se_id e2" "se_id e1 \<noteq> se_id e2" "se_id x \<noteq> se_id e1"
    using session_same [OF ok] e1(1,3) e2(1,3) x(1,2,4) by metis+
  (* the first replay locks the row of the other session *)
  let ?ids = "map se_id (filter (live_of (se_userId e1)) (session_tbl w))"
  have "set [se_id x, se_id e2] \<subseteq> set ?ids"
    using live_ids [OF x(1) x(3,2)] live_ids [OF e2(1) e2(4,3)] by simp
  from first_of_scan [OF this] obtain rest where
    rest: "first_of [se_id x, se_id e2] ?ids = se_id x # se_id e2 # rest" by (elim exE) simp
  let ?R = "\<lambda>todo held. (c1, Revoking (se_id e1) (session_of_row e1) t' todo held)"
  have find1: "find (\<lambda>e. se_refreshTokenHash e = sha256_hex L (rf_refreshToken c1)) (session_tbl w) = Some e1"
    using find_session [OF ok e1(1)] e1(2) by simp
  have "?runs (w, [(c1, Arrived)])" using arrives [of _ _ _ _ _ _ "(w, [])" w "[]" c1] by simp
  also have "runs L F cfg (user_lookup L) (membership_lookup L M) N (w, [(c1, Arrived)])
      (?w, [?R (se_id x # se_id e2 # rest) []])"
    using replay_revokes [OF draws(1,2) st find1 e1(3) draws(3,4), of "[]" N "first_of [se_id x, se_id e2]" F cfg
        "user_lookup L" "membership_lookup L M"] N first_of_visits [of "[se_id x, se_id e2]"] apart(1)
    by (simp add: rest)
  also have "runs L F cfg (user_lookup L) (membership_lookup L M) N (?w, [?R (se_id x # se_id e2 # rest) []])
      (?w, [?R (se_id e2 # rest) [se_id x]])"
    using last_step [OF visits_in_order, where P = "[]"] by (intro r_into_rtranclp) force
  finally have one: "?runs (?w, [?R (se_id e2 # rest) [se_id x]])" .
  (* the second token is exchanged meanwhile, and then replayed *)
  let ?P = "[?R (se_id e2 # rest) [se_id x]]"
  have inv': "session_inv L F ?w" using runs_consistent [OF L one nobody_consistent [OF inv]] by (simp add: consistent_def)
  have free: "se_id e \<notin> locks_of ?P" if "e \<in> set (session_tbl ?w)"
    "se_refreshTokenHash e = sha256_hex L (rf_refreshToken c2)" for e
  proof -
    from that e2(2) session_same [OF ok e2(1), of e] have "e = e2" by simp
    with apart show ?thesis by auto
  qed
  from one have "?runs (?w, ?P @ [(c2, Arrived)])" by (rule arrives)
  also have "runs L F cfg (user_lookup L) (membership_lookup L M) N (?w, ?P @ [(c2, Arrived)]) (w2, ?P @ [(c2, Answered (Inr r))])"
    by (rule request_runs [OF inv' _ free _ exchange]) (use N in simp_all)
  finally have two: "?runs (w2, ?P @ [(c2, Answered (Inr r))])" .
  let ?Q = "?P @ [(c2, Answered (Inr r))]"
  have con2: "consistent L F (w2, ?Q)" by (rule runs_consistent [OF L two nobody_consistent [OF inv]])
  then have inv2: "session_inv L F w2" by (simp add: consistent_def)
  then have ok2: "schema_ok w2" and st2: "sessions_stored L w2" by (simp_all add: session_inv_def)
  have rows: "\<exists>e' \<in> set (session_tbl w2). se_id e' = se_id e \<and> se_refreshTokenHash e' = se_refreshTokenHash e"
    if "e \<in> set (session_tbl w)" for e
    using runs_keep_rows [OF L two nobody_consistent [OF inv], of e] that by simp
  from exchange_consumes [OF L inv' exchange _ e2(2), of x] e2(1,4) x
  obtain e2' x' where e2': "e2' \<in> set (session_tbl w2)" "se_refreshTokenHash e2' = se_refreshTokenHash e2"
      "se_revokedAt e2' \<noteq> None" "se_userId e2' = se_userId e1"
    and x': "x' \<in> set (session_tbl w2)" "se_refreshTokenHash x' = se_refreshTokenHash x" "se_revokedAt x' = None"
      "se_userId x' = se_userId e1" by auto
  have ids: "se_id e2' = se_id e2" "se_id x' = se_id x"
    using rows [OF e2(1)] rows [OF x(1)] session_same [OF ok2] e2'(1,2) x'(1,2) by metis+
  obtain raw' y1 where y1: "random_base64url L 32 (ext w2) = (raw', y1)" by fastforce
  obtain t2 y2 where y2: "new_date L y1 = (t2, y2)" by fastforce
  obtain u2 y3 where y3: "touch L (se_updatedAt e2') y2 = (u2, y3)" by fastforce
  obtain t3 y4 where y4: "sql_now L y3 = (t3, y4)" by fastforce
  have find2: "find (\<lambda>e. se_refreshTokenHash e = sha256_hex L (rf_refreshToken c2)) (session_tbl w2) = Some e2'"
    using find_session [OF ok2 e2'(1)] e2'(2) e2(2) by simp
  let ?ids2 = "map se_id (filter (live_of (se_userId e2')) (session_tbl w2))"
  have "set [se_id x] \<subseteq> set ?ids2" using live_ids [OF x'(1) _ x'(3)] x'(4) e2'(4) ids(2) by simp
  from first_of_scan [OF this] obtain rest2 where rest2: "first_of [se_id x] ?ids2 = se_id x # rest2"
    by (elim exE) simp
  let ?last = "(w2\<lparr>ext := y4\<rparr>, ?Q @ [(c2, Revoking (se_id e2') (session_of_row e2') t3 (se_id x # rest2) [])])"
  from two have "?runs (w2, ?Q @ [(c2, Arrived)])" by (rule arrives)
  also have "runs L F cfg (user_lookup L) (membership_lookup L M) N (w2, ?Q @ [(c2, Arrived)]) ?last"
    unfolding rest2 [symmetric]
    by (rule replay_revokes [OF y1 y2 st2 find2 e2'(3) y3 y4]) (use N apart ids first_of_visits [of "[se_id x]"] in auto)
  finally have "?runs ?last" .
  moreover have "in_deadlock 0 2 (se_id x) (se_id e2) ?last"
    unfolding in_deadlock_def by (simp add: ids)
  ultimately show ?thesis by (intro exI [of _ ?last]) simp
qed

lemma in_line_unanswered: "in_line ph \<Longrightarrow> ph \<notin> range Answered"
  by (cases ph) auto

lemma busy_two:
  assumes "a < length rs" and "b < length rs" and "a < b"
  shows "connections (snd (rs ! a)) + connections (snd (rs ! b)) \<le> busy rs"
proof -
  have "rs = take a rs @ rs ! a # drop (Suc a) rs" using assms(1) by (simp add: id_take_nth_drop)
  moreover have "rs ! b \<in> set (drop (Suc a) rs)"
    using assms by (metis Suc_leI add_diff_cancel_left' diff_less_mono le_Suc_ex length_drop nth_drop nth_mem)
  then have "connections (snd (rs ! b)) \<le> busy (drop (Suc a) rs)"
    by (auto simp: busy_def intro: member_le_sum_list)
  ultimately show ?thesis by (metis add_le_mono busy_append(1,3) le_add2 order_refl trans_le_add2 nat_add_left_cancel_le)
qed

lemma deadlock_outcome:
  assumes "in_deadlock 0 2 x k s \<and> shut_out L 3 h s"
  shows "snd (snd s ! 0) \<notin> range Answered \<and> snd (snd s ! 2) \<notin> range Answered \<and> 4 \<le> busy (snd s) \<and>
    set (filter (\<lambda>q. sha256_hex L (rf_refreshToken (fst q)) = h \<and> snd q \<in> range Answered) (drop 3 (snd s))) = {}"
proof -
  from assms obtain c k' current t todo held c' current' t' todo' held' where
    a: "snd s ! 0 = (c, Revoking k' current t todo held)" and b: "snd s ! 2 = (c', Revoking k current' t' todo' held')"
    and "2 < length (snd s)" unfolding in_deadlock_def by blast
  from busy_two [of 0 "snd s" 2] this(3) have "4 \<le> busy (snd s)" unfolding a b by fastforce
  moreover have "\<forall>q \<in> set (drop 3 (snd s)). sha256_hex L (rf_refreshToken (fst q)) = h \<longrightarrow> snd q \<notin> range Answered"
    using assms in_line_unanswered unfolding shut_out_def by blast
  ultimately show ?thesis using a b by (auto simp: filter_empty_conv)
qed

text \<open>C8: two replays of consumed tokens of one user can block each other for good, however many connections
  are spare. Let the user have two live sessions besides the one that is replayed. While the update
  that the first replay causes is between the rows of the two, the token of the second session is
  exchanged and then replayed: the second replay holds the row of the second session, on which the
  first update will wait, and its own update waits for the row of the other session, which the first
  has locked. Each transaction waits in the application for the update it issued on another
  connection, so the database sees no cycle. Neither replay is ever answered, four connections are
  never given back, and no refresh with the token of the other session, which was never revoked and
  never replayed, is ever answered again.\<close>

theorem replays_deadlock:
  assumes "id_supply L F" and "hash_ok L" and "uuid_ok L" and "session_inv L F w" and "4 \<le> N"
    and "e1 \<in> set (session_tbl w)" and "se_refreshTokenHash e1 = sha256_hex L (rf_refreshToken c1)"
    and "se_revokedAt e1 \<noteq> None"
    and "e2 \<in> set (session_tbl w)" and "se_refreshTokenHash e2 = sha256_hex L (rf_refreshToken c2)"
    and "se_revokedAt e2 = None" and "se_userId e2 = se_userId e1"
    and "x \<in> set (session_tbl w)" and "se_revokedAt x = None" and "se_userId x = se_userId e1" and "x \<noteq> e2"
    and "random_base64url L 32 (ext w) = (raw, x1)" and "new_date L x1 = (t, x2)"
    and "touch L (se_updatedAt e1) x2 = (u, x3)" and "sql_now L x3 = (t', x4)"
    and "RefreshSessionCommandHandler_execute L cfg (session_write_repo L) (user_lookup L)
      (membership_lookup L M) c2 (w\<lparr>ext := x4\<rparr>) = (Inr r, w2)"
  shows "\<exists>s. runs L F cfg (user_lookup L) (membership_lookup L M) N (w, []) s \<and>
    map fst (snd s) = [c1, c2, c2] \<and> snd (snd s ! 1) = Answered (Inr r) \<and> busy (snd s) = 4 \<and>
    {s'. runs L F cfg (user_lookup L) (membership_lookup L M) N s s'} \<subseteq>
      {s'. snd (snd s' ! 0) \<notin> range Answered \<and> snd (snd s' ! 2) \<notin> range Answered \<and> 4 \<le> busy (snd s') \<and>
        set (filter (\<lambda>q. sha256_hex L (rf_refreshToken (fst q)) = se_refreshTokenHash x \<and> snd q \<in> range Answered)
          (drop 3 (snd s'))) = {}}"
proof -
  obtain s where s: "runs L F cfg (user_lookup L) (membership_lookup L M) N (w, []) s" "map fst (snd s) = [c1, c2, c2]"
    "snd (snd s ! 1) = Answered (Inr r)" "busy (snd s) = 4" and dead: "in_deadlock 0 2 (se_id x) (se_id e2) s"
    using replays_meet [OF assms] by (elim exE conjE) (rule that)
  from runs_keep_rows [OF assms(1-3) s(1) nobody_consistent [OF assms(4)], of x] assms(13)
  obtain x' where x': "x' \<in> set (session_tbl (fst s))" "se_id x' = se_id x"
    "se_refreshTokenHash x' = se_refreshTokenHash x" by auto
  have "length (snd s) = 3" using s(2) by (metis length_map length_Cons list.size(3) numeral_3_eq_3)
  then have shut: "shut_out L 3 (se_refreshTokenHash x) s" by (simp add: shut_out_def)
  have later: "in_deadlock 0 2 (se_id x) (se_id e2) s' \<and> shut_out L 3 (se_refreshTokenHash x) s'"
    if "runs L F cfg (user_lookup L) (membership_lookup L M) N s s'" for s'
    by (rule deadlock_runs [OF assms(1-3) _ dead _ shut x' that])
      (simp_all add: runs_consistent [OF assms(1-3) s(1) nobody_consistent [OF assms(4)]])
  have "{s'. runs L F cfg (user_lookup L) (membership_lookup L M) N s s'} \<subseteq>
      {s'. snd (snd s' ! 0) \<notin> range Answered \<and> snd (snd s' ! 2) \<notin> range Answered \<and> 4 \<le> busy (snd s') \<and>
        set (filter (\<lambda>q. sha256_hex L (rf_refreshToken (fst q)) = se_refreshTokenHash x \<and> snd q \<in> range Answered)
          (drop 3 (snd s'))) = {}}"
    by (intro Collect_mono impI) (rule deadlock_outcome [OF later])
  with s show ?thesis by (intro exI [of _ s] conjI)
qed

end
