(* ===== verification/Concurrent_Service.thy ===== *)
theory Concurrent_Service
  imports Concurrent_Refresh
begin

text \<open>
  Refreshes between the other commands of the service: every one of these is, for the refreshes that
  overlap it, a step \<open>elsewhere\<close>. Then the witnesses of the properties of \<open>Concurrent_Refresh\<close>.
\<close>

section \<open>The rest of the service\<close>

text \<open>No command gives identifiers back.\<close>

abbreviation unspent :: "('x \<Rightarrow> string set) \<Rightarrow> string set \<Rightarrow> 'x world \<Rightarrow> bool" where
  "unspent F G \<equiv> \<lambda>w. F (ext w) \<subseteq> G"

lemma outside_unspent: "id_decreasing F m \<Longrightarrow> preserves (unspent F G) (outside m)"
  by (auto simp: preserves_def outside_run id_decreasing_def)

lemma same_ext_unspent: "(\<And>w r w'. m w = (r, w') \<Longrightarrow> ext w' = ext w) \<Longrightarrow> preserves (unspent F G) m"
  by (auto simp: preserves_def)

lemma repos_unspent:
  "preserves (unspent F G) (awr_findBySlug (app_write_repo L) s)"
  "preserves (unspent F G) (awr_save (app_write_repo L) a)"
  "preserves (unspent F G) (twr_findById (tenant_write_repo L) i)"
  "preserves (unspent F G) (twr_findByAppIdAndSlug (tenant_write_repo L) ap s)"
  "preserves (unspent F G) (twr_save (tenant_write_repo L) t)"
  "preserves (unspent F G) (twr_delete (tenant_write_repo L) i)"
  "preserves (unspent F G) (mwr_findByTenantIdAndUserId (membership_write_repo L) i u)"
  "preserves (unspent F G) (mwr_save (membership_write_repo L) m)"
  "preserves (unspent F G) (mwr_deleteAllByTenantId (membership_write_repo L) i)"
  "preserves (unspent F G) (uwr_save (user_write_repo L) ua)"
  "preserves (unspent F G) (publish es)"
  by (rule same_ext_unspent, auto simp: app_write_repo_run tenant_write_repo_run membership_write_repo_run
      user_write_repo_run publish_run delete_tenants_def delete_memberships_def Let_def split: option.splits)+

lemmas unspent_rules = preserving repos_unspent user_read_keeps lookups_keep outside_unspent id_supply_calls
  builds_ids UserAggregate_update_ids app_lookup_keeps user_lookup_keeps register_ids

lemma commands_unspent:
  assumes "id_supply L F"
  shows "preserves (unspent F G) (RegisterUserCommandHandler_execute (user_lookup L)
      (KeycloakIdentityProviderAdapter L kc) (user_provisioning L) register)"
    and "preserves (unspent F G) (SetUserPlatformAdminCommandHandler_execute L (user_write_repo L) admin)"
    and "preserves (unspent F G) (CreateAppCommandHandler_execute L (app_write_repo L) create_app)"
    and "preserves (unspent F G) (CreateTenantCommandHandler_execute L (tenant_write_repo L)
      (membership_write_repo L) (app_lookup_adapter L K) create_tenant)"
    and "preserves (unspent F G) (UpdateTenantCommandHandler_execute L (tenant_write_repo L) update_tenant)"
    and "preserves (unspent F G) (DeleteTenantCommandHandler_execute (tenant_write_repo L)
      (membership_write_repo L) delete_tenant)"
    and "preserves (unspent F G) (AddTenantMemberCommandHandler_execute L (tenant_write_repo L)
      (membership_write_repo L) (tenancy_user_lookup L) add_member)"
  unfolding RegisterUserCommandHandler_execute_def KeycloakIdentityProviderAdapter_def IIdentityProviderPort.simps
    UserProvisioningAdapter_def IUserProvisioningPort.simps new_CreateUserCommand_def
    CreateUserCommandHandler_execute_def AssertUserEmailAvailableService_execute_def
    SetUserPlatformAdminCommandHandler_execute_def AssertUserExistsService_execute_def
    CreateAppCommandHandler_execute_def AssertAppSlugAvailableService_execute_def
    CreateTenantCommandHandler_execute_def UpdateTenantCommandHandler_execute_def
    DeleteTenantCommandHandler_execute_def AddTenantMemberCommandHandler_execute_def
    tenancy_service_defs Let_def
  by (intro unspent_rules assms)+

lemma keeping_elsewhere:
  assumes "preserves (sessions_are L F (session_tbl w)) m" and "preserves (unspent F (F (ext w))) m"
    and "session_inv L F w" and "m w = (r, w')"
  shows "elsewhere L F w w'"
  using preservesD [OF assms(1) _ assms(4)] preservesD [OF assms(2) _ assms(4)] assms(3)
  by (auto simp: elsewhere_def)

text \<open>Every command other than login and refresh is, for the refreshes that overlap it, a step \<open>elsewhere\<close>.\<close>

lemma commands_elsewhere:
  assumes "id_supply L F" and "session_inv L F w"
  shows "RegisterUserCommandHandler_execute (user_lookup L) (KeycloakIdentityProviderAdapter L kc)
      (user_provisioning L) register w = (r1, w') \<Longrightarrow> elsewhere L F w w'"
    and "SetUserPlatformAdminCommandHandler_execute L (user_write_repo L) admin w = (r2, w') \<Longrightarrow> elsewhere L F w w'"
    and "CreateAppCommandHandler_execute L (app_write_repo L) create_app w = (r3, w') \<Longrightarrow> elsewhere L F w w'"
    and "CreateTenantCommandHandler_execute L (tenant_write_repo L) (membership_write_repo L)
      (app_lookup_adapter L K) create_tenant w = (r4, w') \<Longrightarrow> elsewhere L F w w'"
    and "UpdateTenantCommandHandler_execute L (tenant_write_repo L) update_tenant w = (r5, w') \<Longrightarrow> elsewhere L F w w'"
    and "DeleteTenantCommandHandler_execute (tenant_write_repo L) (membership_write_repo L) delete_tenant w = (r6, w') \<Longrightarrow>
      elsewhere L F w w'"
    and "AddTenantMemberCommandHandler_execute L (tenant_write_repo L) (membership_write_repo L)
      (tenancy_user_lookup L) add_member w = (r7, w') \<Longrightarrow> elsewhere L F w w'"
  using assms(2)
  by (fast intro: keeping_elsewhere register_keeps set_admin_keeps create_app_keeps tenant_commands_keep
      commands_unspent assms(1))+

text \<open>A login adds at most one session, under an identifier that was not given before.\<close>

abbreviation untouched :: "'x lib \<Rightarrow> ('x \<Rightarrow> string set) \<Rightarrow> session_entity list \<Rightarrow> string set \<Rightarrow> 'x world \<Rightarrow> bool" where
  "untouched L F T G \<equiv> \<lambda>w. sessions_are L F T w \<and> unspent F G w"

definition added_only :: "('x \<Rightarrow> string set) \<Rightarrow> session_entity list \<Rightarrow> string set \<Rightarrow> 'x world \<Rightarrow> bool" where
  "added_only F T G w \<longleftrightarrow> unspent F G w \<and> set T \<subseteq> set (session_tbl w) \<and>
     se_id ` set (session_tbl w) \<subseteq> se_id ` set T \<union> G"

lemma untouched_added: "untouched L F T G w \<Longrightarrow> added_only F T G w"
  by (auto simp: added_only_def)

lemma login_adds_session:
  assumes L: "id_supply L F" "hash_ok L" "uuid_ok L"
  shows "achieves (untouched L F T G)
    (bindE (outside (new_session L u (sha256_hex L raw) exp)) (\<lambda>session.
     bindE (swr_save (session_write_repo L) session) (\<lambda>_. ret \<lparr>lr_accessToken = acc, lr_refreshToken = raw\<rparr>)))
    (\<lambda>res. added_only F T G)"
proof (rule achievesI)
  fix w res w'
  assume P: "untouched L F T G w"
    and run: "bindE (outside (new_session L u (sha256_hex L raw) exp)) (\<lambda>session. bindE (swr_save (session_write_repo L) session)
      (\<lambda>_. ret \<lparr>lr_accessToken = acc, lr_refreshToken = raw\<rparr>)) w = (res, w')"
  obtain r x where new: "new_session L u (sha256_hex L raw) exp (ext w) = (r, x)" by fastforce
  have h: "RefreshTokenHashValueObject L (sha256_hex L raw) = Inr (sha256_hex L raw)"
    using L(2) by (simp add: hash_ok_def)
  from L(1,3) new h show "added_only F T G w'"
  proof (cases rule: new_session_outcome)
    case 1
    then have "w' = w\<lparr>ext := x\<rparr>" using run new by (auto simp: bindE_def outside_run split: sum.splits)
    with P 1(1) show ?thesis by (auto simp: added_only_def)
  next
    case (2 i t v a)
    let ?r = "SessionTypeOrmMapper_toEntity a"
    have id: "se_id ?r = i" using 2(9) by (simp add: SessionTypeOrmMapper_toEntity_def SessionAggregate_toPrimitives_def Let_def)
    have fresh: "\<forall>e \<in> set T. se_id e \<noteq> i" using 2(2) P by (auto simp: session_inv_def ids_spent_def)
    from run new 2(7) have "swr_save (session_write_repo L) a (w\<lparr>ext := x\<rparr>) =
        (fst (swr_save (session_write_repo L) a (w\<lparr>ext := x\<rparr>)), w')"
      by (auto simp: bindE_def outside_run split: prod.splits sum.splits)
    then consider "w' = w\<lparr>ext := x\<rparr>" | "w' = w\<lparr>ext := x, session_tbl := upsert se_id ?r T\<rparr>"
      using P by (auto simp: session_db.save_law split: option.splits)
    then show ?thesis
    proof cases
      case 1
      with P 2(1) show ?thesis by (auto simp: added_only_def)
    next
      case added: 2
      have "set (upsert se_id ?r T) = insert ?r (set T)" using fresh id by (auto simp: set_upsert)
      with added P 2(1,2) id show ?thesis by (auto simp: added_only_def)
    qed
  qed
qed

lemma keeps_untouched:
  "preserves (sessions_are L F T) m \<Longrightarrow> preserves (unspent F G) m \<Longrightarrow> preserves (untouched L F T G) m"
  by (rule preserves_conj)

lemma outside_untouched: "id_decreasing F m \<Longrightarrow> preserves (untouched L F T G) (outside m)"
  by (intro keeps_untouched outside_keeps outside_unspent)

lemma ports_untouched:
  assumes "id_supply L F"
  shows "preserves (untouched L F T G) (idp_verifyCredentials (KeycloakIdentityProviderAdapter L kc) m p)"
    and "preserves (untouched L F T G) (pap_setPlatformAdmin (platform_admin L) i b)"
proof -
  show "preserves (untouched L F T G) (idp_verifyCredentials (KeycloakIdentityProviderAdapter L kc) m p)"
    unfolding KeycloakIdentityProviderAdapter_def IIdentityProviderPort.simps
    by (intro outside_untouched verify_ids assms)
  have "preserves (unspent F G) (pap_setPlatformAdmin (platform_admin L) i b)"
    unfolding UserPlatformAdminAdapter_def IUserPlatformAdminPort.simps new_SetUserPlatformAdminCommand_def
    by (intro preserving commands_unspent assms)
  then show "preserves (untouched L F T G) (pap_setPlatformAdmin (platform_admin L) i b)"
    by (intro keeps_untouched wired.setPlatformAdmin_keeps assms)
qed

lemma login_elsewhere:
  assumes L: "id_supply L F" "hash_ok L" "uuid_ok L" and inv: "session_inv L F w"
    and run: "LoginUserCommandHandler_execute L cfg (user_lookup L) (KeycloakIdentityProviderAdapter L kc)
      (membership_lookup L K) (session_write_repo L) (platform_admin L) c w = (res, w')"
  shows "elsewhere L F w w'"
proof -
  let ?P = "untouched L F (session_tbl w) (F (ext w))"
  let ?Q = "\<lambda>res. added_only F (session_tbl w) (F (ext w))"
  have err: "?Q (Inl e) s" if "?P s" for e :: error and s using that by (rule untouched_added)
  have "achieves ?P (LoginUserCommandHandler_execute L cfg (user_lookup L) (KeycloakIdentityProviderAdapter L kc)
      (membership_lookup L K) (session_write_repo L) (platform_admin L) c) ?Q"
    unfolding LoginUserCommandHandler_execute_def HashRefreshTokenService_execute_def Let_def
    by (intro achieves_bindE achieves_throw err login_adds_session L preserving allI lookups_keep ports_untouched
        outside_untouched id_supply_calls | assumption | rule achieves_case_option)+
  from achievesD [OF this _ run] inv have "added_only F (session_tbl w) (F (ext w)) w'" by simp
  moreover have "session_inv L F w'" using wired.login_refines [OF L inv run] by simp
  ultimately show ?thesis by (simp add: elsewhere_def added_only_def)
qed

section \<open>Witnesses\<close>

abbreviation sample_runs :: "nat \<Rightarrow> nat system \<Rightarrow> nat system \<Rightarrow> bool" where
  "sample_runs \<equiv> runs sample_lib sample_ids sample_cfg (user_lookup sample_lib) (membership_lookup sample_lib sample_kit)"

abbreviation present :: "string \<Rightarrow> refresh_session_command" where
  "present tok \<equiv> \<lparr>rf_refreshToken = tok\<rparr>"

lemma second_world_inv: "session_inv sample_lib sample_ids second_world"
  using wired.refresh_refines [OF sample_id_supply sample_hash_ok sample_uuid_ok session_world_ok first_refresh] by simp

lemma sample_two_runs: "sample_runs 10 (session_world, []) (snd (sample_refresh ''c'' second_world),
    [(present ''a'', Answered (Inr \<lparr>lr_accessToken = ''jwt:u1'', lr_refreshToken = ''tiiiii''\<rparr>)),
     (present ''c'', Answered (Inr \<lparr>lr_accessToken = ''jwt:u2'', lr_refreshToken = ''tiiiiiiiiiiii''\<rparr>))])"
  by (rule two_requests [OF session_world_ok second_world_inv _ first_refresh])
    (simp_all add: prod_eq_iff second_refresh)

lemma interleaved_single_use_witness: "rf_refreshToken (present ''a'') \<noteq> rf_refreshToken (present ''c'')"
  by (rule interleaved_single_use [OF sample_id_supply sample_hash_ok sample_uuid_ok session_world_ok sample_two_runs,
        of 0 1]) simp_all

lemma replays_exhaust_the_pool_witness:
  "\<exists>s. sample_runs 10 (session_world, []) s \<and> length (snd s) = 10 \<and> set (map fst (snd s)) = {present ''b''} \<and>
    {s'. sample_runs 10 s s'} \<subseteq>
      {s'. (\<exists>x. fst s' = session_world\<lparr>ext := x\<rparr>) \<and> (\<forall>r \<in> set (snd s'). snd r \<notin> range Answered)}"
  by (rule replays_exhaust_the_pool [OF session_world_ok _ _, of 10 "present ''b''"
        "sample_session ''s2'' ''u1'' ''b'' 1000 (Some 1)"])
    (simp_all add: find_sample_hash, simp add: sample_session_def)

text \<open>The user has two live sessions, and one that was revoked.\<close>

definition two_sessions :: "nat world" where
  "two_sessions = session_world\<lparr>session_tbl :=
     [sample_session ''s1'' ''u1'' ''a'' 1000 None, sample_session ''s2'' ''u1'' ''b'' 1000 (Some 1),
      sample_session ''s5'' ''u1'' ''e'' 1000 None]\<rparr>"

lemma two_sessions_inv: "session_inv sample_lib sample_ids two_sessions"
proof -
  have "schema_ok two_sessions"
    by (simp add: schema_ok_def two_sessions_def session_world_def sample_session_def sample_hash_vo sample_sha_neq)
      (simp add: sample_defs)
  moreover have "sessions_stored sample_lib two_sessions"
    by (simp add: sessions_stored_def two_sessions_def session_sample_defs)
  moreover have "ids_spent sample_ids two_sessions"
    by (auto simp: ids_spent_def two_sessions_def sample_session_def sample_ids_def)
  ultimately show ?thesis by (simp add: session_inv_def two_sessions_def)
qed

lemma two_sessions_rows: "rows_ok sample_lib two_sessions"
proof -
  have "session_row_ok sample_lib (sample_session i u tok x z)" if "i \<noteq> []" "u \<noteq> []" for i u tok x z
    using that by (simp add: session_row_ok_def session_sample_defs SessionTypeOrmMapper_toEntity_def
        SessionAggregate_toPrimitives_def Let_def)
  then show ?thesis
    using sample_rows_ok by (simp add: rows_ok_def two_sessions_def session_world_def)
qed

lemma sample_exchange:
  obtains r w2 where "sample_refresh ''a'' (two_sessions\<lparr>ext := 9\<rparr>) = (Inr r, w2)"
proof -
  have "session_inv sample_lib sample_ids (two_sessions\<lparr>ext := 9\<rparr>)"
    by (rule session_inv_ext [OF two_sessions_inv]) (auto simp: sample_ids_def two_sessions_def)
  note inv = this
  show thesis
    by (rule refresh_progress [OF sample_kit_validates sample_id_supply sample_hash_ok sample_clock(2,1) _ inv, where
        margin = 0 and margin' = 3 and token = "''a''" and cfg = sample_cfg and C = sample_kit])
      (use two_sessions_rows that in \<open>simp_all add: sample_cfg_def logged_in_def two_sessions_def sample_session_def
        sample_sha_neq sample_lib_sel\<close>)
qed

lemma replays_deadlock_witness:
  "\<exists>s. sample_runs 10 (two_sessions, []) s \<and> map fst (snd s) = [present ''b'', present ''a'', present ''a''] \<and>
     busy (snd s) = 4 \<and>
     {s'. sample_runs 10 s s'} \<subseteq> {s'. snd (snd s' ! 0) \<notin> range Answered \<and> snd (snd s' ! 2) \<notin> range Answered}"
proof -
  obtain r w2 where run: "sample_refresh ''a'' (two_sessions\<lparr>ext := 9\<rparr>) = (Inr r, w2)" by (rule sample_exchange)
  let ?e = "\<lambda>i tok. sample_session i ''u1'' tok 1000"
  have "\<exists>s. sample_runs 10 (two_sessions, []) s \<and> map fst (snd s) = [present ''b'', present ''a'', present ''a''] \<and>
     snd (snd s ! 1) = Answered (Inr r) \<and> busy (snd s) = 4 \<and>
     {s'. sample_runs 10 s s'} \<subseteq>
       {s'. snd (snd s' ! 0) \<notin> range Answered \<and> snd (snd s' ! 2) \<notin> range Answered \<and> 4 \<le> busy (snd s') \<and>
        set (filter (\<lambda>q. sha256_hex sample_lib (rf_refreshToken (fst q)) =
            se_refreshTokenHash (?e ''s5'' ''e'' None) \<and> snd q \<in> range Answered) (drop 3 (snd s'))) = {}}"
    by (rule replays_deadlock [OF sample_id_supply sample_hash_ok sample_uuid_ok two_sessions_inv, of 10
          "?e ''s2'' ''b'' (Some 1)" _ "?e ''s1'' ''a'' None" _ "?e ''s5'' ''e'' None" "''tiiiii''" 6 6 7 7 8 8000 9,
          OF _ _ _ _ _ _ _ _ _ _ _ _ _ _ _ _ run])
      (simp_all add: two_sessions_def sample_session_def sample_lib_sel replicate_numeral_unfold)
  then show ?thesis
    by (elim exE conjE) (intro exI conjI, assumption+, erule subset_trans, rule Collect_mono, simp)
qed

lemma refresh_alone_is_the_handler_witness:
  "sample_runs 2 (session_world, [(present ''a'', Arrived)]) (second_world,
    [(present ''a'', Answered (Inr \<lparr>lr_accessToken = ''jwt:u1'', lr_refreshToken = ''tiiiii''\<rparr>))])"
  by (rule refresh_alone_is_the_handler [OF session_world_ok _ first_refresh]) simp

end
