(* ===== verification/Criteria_Inputs.thy ===== *)
theory Criteria_Inputs
  imports Input_Validation Migrations
begin

text \<open>
  What a client may filter and sort by: the enumerations that the GraphQL schema registers, the
  classes of the inputs of \<open>appsFindByCriteria\<close> and \<open>tenantsFindByCriteria\<close>, and the columns of the
  entities. The base classes that the kit makes (\<open>createFilterInput\<close>, \<open>createSortInput\<close>,
  \<open>BaseFindByCriteriaInput\<close>) are parameters. The lemmas show that an accepted input names nothing but
  columns that the migrated tables have, with values of their types.
\<close>

section \<open>Enumerations\<close>

definition app_queryable_values :: "string list" where
  "app_queryable_values =
     map AppQueryableField_value [AQ_ID, AQ_SLUG, AQ_NAME, AQ_CREATED_AT, AQ_UPDATED_AT]"

definition tenant_queryable_values :: "string list" where
  "tenant_queryable_values = map TenantQueryableField_value
     [TQ_ID, TQ_APP_ID, TQ_NAME, TQ_SLUG, TQ_CREATED_AT, TQ_UPDATED_AT]"

text \<open>What the kit provides: its enumerations, and the checks that the classes it makes put on one object
  of a list, or on the fields of the base class.\<close>

record input_kit =
  FilterOperator :: "string list"
  SortDirection :: "string list"
  createFilterInput :: "string list \<Rightarrow> string \<Rightarrow> json \<Rightarrow> bool"
  createSortInput :: "string list \<Rightarrow> string \<Rightarrow> json \<Rightarrow> bool"
  base_fields :: "string list"
  base_accepts :: "(string \<Rightarrow> json option) \<Rightarrow> bool"

text \<open>A registered enumeration: its values and its name in the GraphQL schema.\<close>

definition registeredSharedEnums :: "input_kit \<Rightarrow> (string list \<times> string) list" where
  "registeredSharedEnums G = [(FilterOperator G, ''FilterOperator''), (SortDirection G, ''SortDirection'')]"

definition registeredAppEnums :: "(string list \<times> string) list" where
  "registeredAppEnums = [(app_queryable_values, ''AppQueryableFieldEnum'')]"

definition registeredTenantEnums :: "(string list \<times> string) list" where
  "registeredTenantEnums = [(tenant_queryable_values, ''TenantQueryableFieldEnum''),
     (map tenant_role_value [OWNER, MEMBER, ADMIN], ''TenantRoleEnum'')]"

section \<open>The input classes\<close>

definition AppFilterInput :: "input_kit \<Rightarrow> json \<Rightarrow> bool" where
  "AppFilterInput G = createFilterInput G app_queryable_values ''App''"

definition AppSortInput :: "input_kit \<Rightarrow> json \<Rightarrow> bool" where
  "AppSortInput G = createSortInput G app_queryable_values ''App''"

definition TenantFilterInput :: "input_kit \<Rightarrow> json \<Rightarrow> bool" where
  "TenantFilterInput G = createFilterInput G tenant_queryable_values ''Tenant''"

definition TenantSortInput :: "input_kit \<Rightarrow> json \<Rightarrow> bool" where
  "TenantSortInput G = createSortInput G tenant_queryable_values ''Tenant''"

text \<open>A list of nested objects: its name, the class of its elements, and its default in the schema.\<close>

record nested_list =
  nl_name :: string
  nl_class :: "json \<Rightarrow> bool"
  nl_default :: "json list"

definition AppFindByCriteriaRequestDto :: "input_kit \<Rightarrow> nested_list list" where
  "AppFindByCriteriaRequestDto G =
     [\<lparr>nl_name = ''filters'', nl_class = AppFilterInput G, nl_default = []\<rparr>,
      \<lparr>nl_name = ''sorts'', nl_class = AppSortInput G, nl_default = []\<rparr>]"

definition TenantFindByCriteriaRequestDto :: "input_kit \<Rightarrow> nested_list list" where
  "TenantFindByCriteriaRequestDto G =
     [\<lparr>nl_name = ''filters'', nl_class = TenantFilterInput G, nl_default = []\<rparr>,
      \<lparr>nl_name = ''sorts'', nl_class = TenantSortInput G, nl_default = []\<rparr>]"

text \<open>\<open>IsArray\<close>, \<open>IsOptional\<close> and \<open>ValidateNested({ each: true })\<close> on a value after its default.\<close>

definition nested_ok :: "nested_list \<Rightarrow> json option \<Rightarrow> bool" where
  "nested_ok nl v = (case v of
       None \<Rightarrow> True
     | Some JNull \<Rightarrow> True
     | Some (JArr vs) \<Rightarrow> list_all (nl_class nl) vs
     | Some _ \<Rightarrow> False)"

definition with_defaults :: "nested_list list \<Rightarrow> (string \<times> json) list \<Rightarrow> string \<Rightarrow> json option" where
  "with_defaults cls body name = (case map_of body name of
       Some v \<Rightarrow> Some v
     | None \<Rightarrow> map_option (\<lambda>nl. JArr (nl_default nl)) (find (\<lambda>nl. nl_name nl = name) cls))"

definition criteria_input ::
  "input_kit \<Rightarrow> nested_list list \<Rightarrow> (string \<times> json) list \<Rightarrow> error + (string \<Rightarrow> json option)" where
  "criteria_input G cls body =
     (let f = with_defaults cls body in
      if list_all (\<lambda>(k, v). k \<in> set (base_fields G) \<union> nl_name ` set cls) body \<and> base_accepts G f \<and>
         list_all (\<lambda>nl. nested_ok nl (f (nl_name nl))) cls
      then Inr f else Inl (HttpException 400 ''Bad Request''))"

section \<open>Entities and their columns\<close>

text \<open>The properties of an entity, each with the column that its decorator names.\<close>

definition AppEntity_columns :: "(string \<times> string) list" where
  "AppEntity_columns = [(''id'', ''id''), (''slug'', ''slug''), (''name'', ''name''),
     (''createdAt'', ''created_at''), (''updatedAt'', ''updated_at'')]"

definition TenantEntity_columns :: "(string \<times> string) list" where
  "TenantEntity_columns = [(''id'', ''id''), (''appId'', ''app_id''), (''name'', ''name''), (''slug'', ''slug''),
     (''createdAt'', ''created_at''), (''updatedAt'', ''updated_at'')]"

definition value_fits :: "string \<Rightarrow> sql_type \<Rightarrow> bool" where
  "value_fits kind ty = (case ty of
       Uuid \<Rightarrow> kind = ''uuid''
     | Varchar n \<Rightarrow> kind = ''string''
     | Timestamp \<Rightarrow> kind = ''date''
     | Bool \<Rightarrow> kind = ''boolean'')"

definition registry_fits :: "(string \<times> string) list \<Rightarrow> (string \<times> string) list \<Rightarrow> table_schema \<Rightarrow> bool" where
  "registry_fits registry columns table \<longleftrightarrow>
     fst ` set registry = fst ` set columns \<and> snd ` set columns = co_name ` set (ts_columns table) \<and>
     list_all (\<lambda>(field, kind). case map_of columns field of
         None \<Rightarrow> False
       | Some c \<Rightarrow> list_ex (\<lambda>col. co_name col = c \<and> value_fits kind (co_type col)) (ts_columns table)) registry"

section \<open>An accepted input names columns\<close>

text \<open>The documented behaviour of the kit's classes: \<open>field\<close> is a value of the enumeration they were made of.\<close>

definition field_named :: "json \<Rightarrow> string option" where
  "field_named v = (case v of
       JObj fs \<Rightarrow> (case map_of fs ''field'' of Some (JStr s) \<Rightarrow> Some s | _ \<Rightarrow> None)
     | _ \<Rightarrow> None)"

definition input_kit_ok :: "input_kit \<Rightarrow> bool" where
  "input_kit_ok G \<longleftrightarrow> (\<forall>vs n v. createFilterInput G vs n v \<or> createSortInput G vs n v \<longrightarrow>
     field_named v \<in> Some ` set vs)"

definition named :: "json option \<Rightarrow> string option set" where
  "named v = (case v of Some (JArr vs) \<Rightarrow> field_named ` set vs | _ \<Rightarrow> {})"

lemmas criteria_class_defs = AppFindByCriteriaRequestDto_def TenantFindByCriteriaRequestDto_def
  AppFilterInput_def AppSortInput_def TenantFilterInput_def TenantSortInput_def

lemma registries_cover:
  "fst ` set appFilterableFields = set app_queryable_values"
  "fst ` set tenantFilterableFields = set tenant_queryable_values"
  by (auto simp: appFilterableFields_def app_queryable_values_def tenantFilterableFields_def
      tenant_queryable_values_def)

lemma nested_named:
  assumes "nested_ok nl v" and "\<And>x. nl_class nl x \<Longrightarrow> field_named x \<in> A"
  shows "named v \<subseteq> A"
  using assms by (auto simp: nested_ok_def named_def list_all_iff split: option.splits json.splits)

lemma made_class_named:
  assumes "input_kit_ok G"
  shows "nested_ok \<lparr>nl_name = n, nl_class = createFilterInput G vs t, nl_default = d\<rparr> v \<Longrightarrow> named v \<subseteq> Some ` set vs"
    and "nested_ok \<lparr>nl_name = n, nl_class = createSortInput G vs t, nl_default = d\<rparr> v \<Longrightarrow> named v \<subseteq> Some ` set vs"
  by (erule nested_named, use assms in \<open>simp add: input_kit_ok_def\<close>)+

lemma criteria_named:
  assumes G: "input_kit_ok G"
  shows "criteria_input G (AppFindByCriteriaRequestDto G) body = Inr f \<Longrightarrow>
      named (f ''filters'') \<union> named (f ''sorts'') \<subseteq> Some ` fst ` set appFilterableFields"
    and "criteria_input G (TenantFindByCriteriaRequestDto G) body = Inr f \<Longrightarrow>
      named (f ''filters'') \<union> named (f ''sorts'') \<subseteq> Some ` fst ` set tenantFilterableFields"
  unfolding registries_cover
  by (simp_all add: criteria_input_def Let_def criteria_class_defs made_class_named [OF G] split: if_splits)

text \<open>The fields that a client may filter and sort by are the properties of the entity, no more and no
  fewer, and their columns are those that the migrations give the table, with the registered type.
  The filters that the REST lists are turned into name such fields too, and so do all filters and
  sorts of a GraphQL input that is accepted.\<close>

lemma filters_name_columns:
  assumes "input_kit_ok G"
  shows "case run_migration all_up empty_database of
     Inl e \<Rightarrow> False
   | Inr db \<Rightarrow> (case (map_of (db_tables db) ''app'', map_of (db_tables db) ''tenant'') of
       (Some app, Some tenant) \<Rightarrow>
         registry_fits appFilterableFields AppEntity_columns app \<and>
         registry_fits tenantFilterableFields TenantEntity_columns tenant
     | _ \<Rightarrow> False)"
    and "cr_filters (app_criteria q) = Some fs \<Longrightarrow> fst ` set fs \<subseteq> fst ` set appFilterableFields"
    and "cr_filters (tenant_criteria q') = Some fs' \<Longrightarrow> fst ` set fs' \<subseteq> fst ` set tenantFilterableFields"
    and "criteria_input G (AppFindByCriteriaRequestDto G) body = Inr f \<Longrightarrow>
      named (f ''filters'') \<union> named (f ''sorts'') \<subseteq> Some ` fst ` set appFilterableFields"
    and "criteria_input G (TenantFindByCriteriaRequestDto G) body' = Inr f' \<Longrightarrow>
      named (f' ''filters'') \<union> named (f' ''sorts'') \<subseteq> Some ` fst ` set tenantFilterableFields"
proof -
  obtain db where "run_migration all_up empty_database = Inr db" "map_of (db_tables db) ''app'' = Some app_table"
    "map_of (db_tables db) ''tenant'' = Some tenant_table"
    using migrated_tables by blast
  moreover have "registry_fits appFilterableFields AppEntity_columns app_table"
    by (auto simp: registry_fits_def appFilterableFields_def AppEntity_columns_def app_table_def value_fits_def
        uuid_id_def required_def dated_def)
  moreover have "registry_fits tenantFilterableFields TenantEntity_columns tenant_table"
    by (auto simp: registry_fits_def tenantFilterableFields_def TenantEntity_columns_def tenant_table_def
        value_fits_def uuid_id_def required_def dated_def)
  ultimately show "case run_migration all_up empty_database of
     Inl e \<Rightarrow> False
   | Inr db \<Rightarrow> (case (map_of (db_tables db) ''app'', map_of (db_tables db) ''tenant'') of
       (Some app, Some tenant) \<Rightarrow>
         registry_fits appFilterableFields AppEntity_columns app \<and>
         registry_fits tenantFilterableFields TenantEntity_columns tenant
     | _ \<Rightarrow> False)" by simp
  show "cr_filters (app_criteria q) = Some fs \<Longrightarrow> fst ` set fs \<subseteq> fst ` set appFilterableFields"
    by (auto simp: app_criteria_def appFilterableFields_def filter_if_def split: option.splits if_splits)
  show "cr_filters (tenant_criteria q') = Some fs' \<Longrightarrow> fst ` set fs' \<subseteq> fst ` set tenantFilterableFields"
    by (auto simp: tenant_criteria_def tenantFilterableFields_def filter_if_def split: option.splits if_splits)
  show "criteria_input G (AppFindByCriteriaRequestDto G) body = Inr f \<Longrightarrow>
      named (f ''filters'') \<union> named (f ''sorts'') \<subseteq> Some ` fst ` set appFilterableFields"
    by (rule criteria_named [OF assms])
  show "criteria_input G (TenantFindByCriteriaRequestDto G) body' = Inr f' \<Longrightarrow>
      named (f' ''filters'') \<union> named (f' ''sorts'') \<subseteq> Some ` fst ` set tenantFilterableFields"
    by (rule criteria_named [OF assms])
qed

text \<open>Every enumeration of an input class is registered, under one name each.\<close>

lemma enums_registered:
  "distinct (map snd (registeredSharedEnums G @ registeredAppEnums @ registeredTenantEnums))"
  "app_queryable_values \<in> fst ` set registeredAppEnums"
  "tenant_queryable_values \<in> fst ` set registeredTenantEnums"
  by (simp_all add: registeredSharedEnums_def registeredAppEnums_def registeredTenantEnums_def)

section \<open>The list of users\<close>

text \<open>\<open>findByCriteria\<close> of the users' read repository, which nothing calls yet: it pages through all users,
  in the order that the kit makes of the sorts (\<open>buildTypeOrmOrder\<close>, a parameter), and drops the filters.\<close>

definition UserTypeOrmReadRepository_findByCriteria ::
  "'x lib \<Rightarrow> user_entity criteria_kit \<Rightarrow> (criteria \<Rightarrow> user_entity list \<Rightarrow> user_entity list) \<Rightarrow>
   ('x world, user_entity) Repository \<Rightarrow> criteria \<Rightarrow> ('x world, error, user_view_model paginated_result) comp" where
  "UserTypeOrmReadRepository_findByCriteria L K buildTypeOrmOrder repo c =
     (case calculatePagination K c of (page, limit, skip) \<Rightarrow>
      bindE (repo_find repo (\<lambda>_. True)) (\<lambda>rows.
      let entities = take limit (drop skip (buildTypeOrmOrder c rows)); total = length rows in
      bindE (mapE (\<lambda>entity. outside (UserTypeOrmMapper_toViewModel L entity)) entities) (\<lambda>items.
      ret \<lparr>pr_items = items, pr_total = total, pr_page = page, pr_limit = limit\<rparr>)))"

lemma user_list_counts_everyone:
  assumes "UserTypeOrmReadRepository_findByCriteria L K order user_repo c w = (Inr p, w')"
    and "calculatePagination K c = (page, limit, skip)"
  shows "w' = w \<and> pr_total p = length (user_tbl w) \<and> length (pr_items p) \<le> limit"
proof -
  from assms obtain vs where "map_sums (user_view_from_row L) (take limit (drop skip (order c (user_tbl w)))) = Inr vs"
    and p: "w' = w" "p = \<lparr>pr_items = vs, pr_total = length (user_tbl w), pr_page = page, pr_limit = limit\<rparr>"
    by (auto simp: UserTypeOrmReadRepository_findByCriteria_def Let_def user_repo_def bindE_find
        user_toViewModel_run mapE_liftE bindE_Inr_iff)
  from map_sums_Inr [OF this(1)] have "length vs = length (take limit (drop skip (order c (user_tbl w))))"
    by (auto dest: list_all2_lengthD)
  with p show ?thesis by simp
qed

end
