(* ===== verification/Spec2Isabelle.thy ===== *)
theory Spec2Isabelle
  imports Auth_Witnesses Tenancy_Properties Service_Invariants Session_Liveness Transport_Witnesses
    Http_Witnesses Interleaving Migrations Topic_Map Observability Wiring_Properties
    Env_Schema Concurrent_Service Criteria_Inputs
begin

text \<open>
  A verification library of the Sisques Labs account API (\<open>src/\<close>), a NestJS service that owns user
  identities, login sessions, the app catalogue and multi-tenant memberships.

  The program. Four bounded contexts under \<open>src/contexts\<close>, each with a domain (aggregates, builders,
  value objects), an application layer (commands, queries, services, ports), an infrastructure
  layer (TypeORM repositories, adapters to the other contexts) and a transport layer (REST
  controllers, GraphQL resolvers). A request passes the guards of its route (\<open>src/core/security\<close>) and
  reaches a command handler; the handler checks its preconditions through services, builds or loads an
  aggregate, applies an operation, saves it, and publishes the aggregate's events. \<open>auth\<close> logs users
  in through Keycloak and rotates refresh tokens, with reuse detection; it reaches \<open>user\<close> and
  \<open>tenancy\<close> through adapters. \<open>tenancy\<close> reaches \<open>app\<close> and \<open>user\<close> in the same way.

  How the model corresponds to the code. A class method is a definition named \<open>Class_method\<close> (a
  handler or service, \<open>Class_execute\<close>; a command's constructor, \<open>new_Class\<close>); a class's fields are a
  record; an exception is a value of \<open>error\<close>. An asynchronous method is a computation (\<open>comp\<close>):
  from a state, an error or a result, and the state after it; an exception keeps the changes made
  before it, as it does in the code, and only a transaction undoes them. The state of a handler
  is a \<open>world\<close>: the five tables, the pending writes of an open transaction, the published events,
  and the outside world; that of a route is an \<open>exchange\<close>: the request, the cookies of the response,
  and the world. A string is a list of code units below 256, a date its milliseconds; \<open>NOW()\<close> of the
  database is in microseconds, of which the driver hands the milliseconds to the program.

  What is a parameter. Code that is not in the repository is never defined here. The record
  \<open>lib\<close> holds the value objects of the shared kit, the clock, the random source, SHA-256, the JWT
  service and the HTTP client; \<open>criteria_kit\<close> holds its paging and filtering, \<open>nest\<close> its permission
  guard, pipes and response mapper, \<open>crypto\<close> the calls to Node's \<open>crypto\<close>, \<open>validators\<close> the
  checks of class-validator. TypeORM is the record
  \<open>Repository\<close>, whose documented laws are the locale \<open>orm_repository\<close>; tables as lists of rows, with
  the constraints of the migrations, are the instance that every property is about. A property
  that needs documented behaviour of this code states it as a hypothesis (\<open>id_supply\<close>, \<open>hash_ok\<close>,
  \<open>uuid_ok\<close>, \<open>kit_stable\<close>, \<open>kit_validates\<close>, \<open>kit_selects\<close>, \<open>clock_ok\<close>, \<open>signer_ok\<close>, \<open>crypto_ok\<close>,
  \<open>rbac_ok\<close>, \<open>paging_ok\<close>, \<open>zod_ok\<close>, \<open>documented\<close>, \<open>library_ok\<close>, or one concrete answer), and its witness is
  computed at a concrete world.

  The theories.
  \<^item> \<open>Account_Prelude\<close>: computations, the calculus of preserved predicates, JavaScript strings, the
    rows of a table. \<open>Domain_Types\<close>: exceptions, primitives, events, roles, claims. \<open>Kit\<close>: the
    parameter \<open>lib\<close> and the service's value objects.
  \<^item> \<open>Database\<close>: entities, the world, the constraints and cascades of the migrations, the repository
    interface and its SQL instance. \<open>Schema_Invariant\<close>: every statement keeps the constraints.
    \<open>Migrations\<close>: the migrations as statements on a schema and its rows, undone one by one; the
    constraint checks of \<open>Database\<close> are those of the schema they reach.
    \<open>Sample_World\<close>: the outside world of the witnesses.
  \<^item> \<open>User_Context\<close>, \<open>App_Context\<close>: the contexts \<open>user\<close> and \<open>app\<close>. \<open>Criteria_Query\<close>: paged queries.
    \<open>Tenancy_Domain\<close>, \<open>Tenancy_Handlers\<close>, \<open>Tenancy_Properties\<close>: the context \<open>tenancy\<close>.
  \<^item> \<open>Session_Store\<close>: the session aggregate and its repository, with \<open>rotate\<close> in a transaction; the
    locale \<open>session_store\<close> is the contract of the repository port, interpreted on it.
    \<open>Auth_Handlers\<close>: ports, services and handlers of \<open>auth\<close>. \<open>Session_Chain\<close>: the abstract token
    machine and the refresh handler on every branch. \<open>Session_Refinement\<close>, \<open>Session_Runs\<close>: the
    handlers refine the machine, over any run. \<open>Auth_Adapters\<close>: the adapters, among them Keycloak's,
    and the interpretation of the contract \<open>auth_ports\<close>. \<open>Auth_Properties\<close>, \<open>Auth_Witnesses\<close>: the
    properties of \<open>auth\<close> and their witnesses.
  \<^item> \<open>Service_Invariants\<close>: what every command of the service keeps. \<open>Row_Validity\<close>: every stored row can
    be read back, and no lookup of a repository throws. \<open>Session_Liveness\<close>: a client that refreshes in
    time stays logged in, among any other commands but a replay of its user's tokens.
    \<open>Interleaving\<close>: another request commits in the middle of one. \<open>Concurrent_Refresh\<close>: any number of
    refreshes that take their steps in any order, with the row locks of their transactions and
    updates and the connections of the pool.
    \<open>Concurrent_Service\<close>: the other commands between them, and the witnesses.
  \<^item> \<open>Core_Config\<close>: the configuration and the signing key. \<open>Env_Schema\<close>: the schema of the
    environment, the validation at start-up, and what tracing and the migration CLI read. \<open>Core_Security\<close>:
    exchanges, guards, the options of the JWT module, the published key. \<open>Exception_Filter\<close>: the status of every exception.
  \<^item> \<open>Transport_Tenancy\<close>, \<open>Transport_Auth_App\<close>: the routes, resolvers and mappers of the three
    contexts that have them. \<open>Transport_Properties\<close>: who is let through, and that REST and GraphQL
    agree. \<open>Transport_Lists\<close>: pages and session cookies. \<open>Transport_Witnesses\<close>: their witnesses.
  \<^item> \<open>Input_Validation\<close>: the classes of the request bodies with their decorators and GraphQL types, and
    the global validation pipe. \<open>Http_Server\<close>: the route table, the prefix and versions of \<open>main.ts\<close>, and a
    request from its match to its status. \<open>Http_Runs\<close>: any sequence of REST and GraphQL calls.
    \<open>Deletion_Safety\<close>: what a call can make disappear. \<open>Http_Witnesses\<close>: their witnesses.
  \<^item> \<open>Criteria_Inputs\<close>: what a client may filter and sort by, and that these are columns of the migrated
    tables.
  \<^item> \<open>Observability\<close>: the wrapper that traces every command and query. \<open>Topic_Map\<close>: the generator of
    the map from aggregate classes to Kafka topics, and the map.
  \<^item> \<open>Injectables\<close>: every class NestJS constructs, with its injections, guards and messages.
    \<open>Module_Wiring\<close>: the modules. \<open>Wiring_Properties\<close>: that they fit together.

  What the lemmas show. Each command is computed on its success branch and its refusals, errors
  included: which rows change, which events are published in which order, and that nothing else
  changes. The refresh rotation is a refinement of the abstract machine \<open>redeem\<close>, from which no
  token is redeemed twice, and a replay ends every token of its user, over any run of requests
  handled one at a time; conversely, a client that logged in and refreshes in time is never refused,
  whatever other commands run in between, as long as nobody presents its newest token or replays a
  consumed token of its user. Every command keeps the constraints of the schema, and stores only rows
  that can be read back, by every lookup of the repositories. Two interleavings show what the
  constraints do and do not protect: an address taken between check and write is refused by the
  unique key, and a rotation that overlaps a revocation escapes it, until the next one. Refreshes
  that overlap in any way still redeem no token twice; but replays of a consumed token stop the
  service when they exhaust the pool, and two replays of one user's tokens can block each other, and
  a third token of the user, however many connections are spare. A caller who is not
  entitled to a route is refused before anything changes, over REST and GraphQL alike, and the two
  protocols do the same for one who is. They judge an input of texts alike; a value of another type
  is refused by the schema of GraphQL and converted by the pipe over REST. What the commands keep, any
  sequence of calls keeps: the locale \<open>served_invariant\<close> is that argument, and the constraints of the
  schema and the single use of refresh tokens hold of what clients send and receive; nothing
  disappears at a call but a tenant that a stored owner deletes. The published key is the public half
  of the one the service signs with. The module graph starts: injections resolve, every message has
  one handler that a module registers, and no chain of them comes back.

  Bounds and fuel. No definition needs fuel: recursion is on lists and trees, or on a string that
  gets shorter (\<open>split_spaces\<close>, \<open>scan_aggregates\<close>). \<open>exports_upto\<close>, which only computes a certificate for
  \<open>exported\<close>, follows re-exports to a depth of three, one more than the modules have. \<open>lockById\<close> is passed to the rotation's callback, which does not call it.

  What is not modelled. Metadata of events, the automatic date columns, logging, the
  exporters and shutdown of tracing; requests that interleave inside a handler other than the refresh,
  apart from the two interleavings of \<open>Interleaving\<close> (elsewhere a handler runs
  alone). In \<open>Concurrent_Refresh\<close> the writes of a rotation and the reads that follow its commit are
  one step each; the order in which an update visits its rows is arbitrary; and a failed connection,
  or a client that goes away, is left out. The decorators by which classes are documented (Swagger),
  the GraphQL schema beyond the types of the request classes' fields, the options handed to library
  modules other than the JWT module, and the scripts other than the generator of the topic map are not
  modelled either.
\<close>

end
